(* ===== verification/Prelude.thy ===== *)
theory Prelude
  imports Main "HOL-Library.Char_ord"
begin

text \<open>
  Shared ground of the development: the JavaScript value conventions the code relies on
  (\<open>undefined\<close> and \<open>null\<close> as \<open>None\<close>, \<open>??\<close>, truthiness of optional strings, \<open>trim\<close>,
  decimal printing and parsing, \<open>padStart\<close>), a small type of JSON values, and the generic list
  lemmas the components share. Strings are lists of 8-bit characters; a JavaScript string whose
  code units are all below 256 is such a list, unit by unit.
\<close>

named_theorems js_simps "equations of the JavaScript helpers"

section \<open>Optional values\<close>

type_synonym uuid = string
type_synonym instant = int  \<comment> \<open>milliseconds since 1970-01-01T00:00:00Z\<close>

text \<open>\<open>a ?? b\<close> for an optional \<open>a\<close> and a definite \<open>b\<close>, and for two optional operands.\<close>

fun nullish :: "'a option \<Rightarrow> 'a \<Rightarrow> 'a" where
  "nullish None d = d"
| "nullish (Some x) d = x"

fun nullish_opt :: "'a option \<Rightarrow> 'a option \<Rightarrow> 'a option" where
  "nullish_opt None d = d"
| "nullish_opt (Some x) d = Some x"

text \<open>An optional string in a condition: \<open>undefined\<close>, \<open>null\<close> and the empty string are false.\<close>

fun truthy :: "string option \<Rightarrow> bool" where
  "truthy None = False"
| "truthy (Some s) = (s \<noteq> [])"

lemma nullish_conv [js_simps]: "nullish a d = (case a of None \<Rightarrow> d | Some x \<Rightarrow> x)"
  by (cases a) auto

lemma nullish_opt_None [simp]: "nullish_opt a None = a"
  by (cases a) auto

lemma nullish_opt_eq_None [simp]: "nullish_opt a b = None \<longleftrightarrow> a = None \<and> b = None"
  by (cases a) auto

lemma truthy_iff: "truthy s \<longleftrightarrow> s \<noteq> None \<and> s \<noteq> Some []"
  by (cases s) auto

section \<open>Trimming\<close>

definition js_ws :: "char \<Rightarrow> bool" where
  "js_ws c \<longleftrightarrow> c = CHR '' '' \<or> (9 \<le> (of_char c :: nat) \<and> (of_char c :: nat) \<le> 13) \<or> (of_char c :: nat) = 160"

definition js_trim :: "string \<Rightarrow> string" where
  "js_trim s = rev (dropWhile js_ws (rev (dropWhile js_ws s)))"

lemma js_trim_Nil [simp]: "js_trim [] = []"
  by (simp add: js_trim_def)

lemma dropWhile_rev_id: "xs = [] \<or> \<not> P (last xs) \<Longrightarrow> dropWhile P (rev xs) = rev xs"
  by (cases xs rule: rev_cases) auto

lemma js_trim_id: "s = [] \<or> \<not> js_ws (hd s) \<and> \<not> js_ws (last s) \<Longrightarrow> js_trim s = s"
  by (cases s) (auto simp: js_trim_def dropWhile_rev_id simp del: rev.simps)

lemma js_trim_ends:
  assumes "js_trim s \<noteq> []"
  shows "\<not> js_ws (hd (js_trim s)) \<and> \<not> js_ws (last (js_trim s))"
proof -
  define u where "u = dropWhile js_ws s"
  define v where "v = dropWhile js_ws (rev u)"
  have t: "js_trim s = rev v" by (simp add: js_trim_def u_def v_def)
  with assms have v: "v \<noteq> []" by simp
  then have hv: "\<not> js_ws (hd v)" unfolding v_def by (rule hd_dropWhile)
  obtain w where w: "rev u = w @ v"
    using takeWhile_dropWhile_id [of js_ws "rev u"] unfolding v_def by metis
  then have "u \<noteq> []" and "last v = last (rev u)" using v by auto
  then have "last v = hd u" by (simp add: last_rev)
  moreover have "\<not> js_ws (hd u)" using \<open>u \<noteq> []\<close> unfolding u_def by (rule hd_dropWhile)
  ultimately show ?thesis using t v hv by (simp add: hd_rev last_rev)
qed

lemma js_trim_idem [simp]: "js_trim (js_trim s) = js_trim s"
  by (rule js_trim_id) (use js_trim_ends in blast)

section \<open>Decimal numerals\<close>

definition digit_char :: "nat \<Rightarrow> char" where
  "digit_char n = char_of (48 + n)"

definition digit_val :: "char \<Rightarrow> nat" where
  "digit_val c = of_char c - 48"

definition is_digit :: "char \<Rightarrow> bool" where
  "is_digit c \<longleftrightarrow> 48 \<le> (of_char c :: nat) \<and> (of_char c :: nat) \<le> 57"

text \<open>\<open>String(n)\<close> for a non-negative integer.\<close>

fun dec :: "nat \<Rightarrow> string" where
  "dec n = (if n < 10 then [digit_char n] else dec (n div 10) @ [digit_char (n mod 10)])"

declare dec.simps [simp del]

text \<open>\<open>String(i)\<close> for an integer.\<close>

definition dec_int :: "int \<Rightarrow> string" where
  "dec_int i = (if i < 0 then CHR ''-'' # dec (nat (- i)) else dec (nat i))"

definition undec :: "string \<Rightarrow> nat" where
  "undec s = foldl (\<lambda>a c. 10 * a + digit_val c) 0 s"

definition padStart :: "nat \<Rightarrow> char \<Rightarrow> string \<Rightarrow> string" where
  "padStart n c s = replicate (n - length s) c @ s"

lemma digit_val_char [simp]: "n < 10 \<Longrightarrow> digit_val (digit_char n) = n"
  by (simp add: digit_val_def digit_char_def)

lemma is_digit_char [simp]: "n < 10 \<Longrightarrow> is_digit (digit_char n)"
  by (simp add: is_digit_def digit_char_def)

lemma undec_snoc: "undec (s @ [c]) = 10 * undec s + digit_val c"
  by (simp add: undec_def)

lemma undec_dec [simp]: "undec (dec n) = n"
proof (induction n rule: dec.induct)
  case (1 n)
  show ?case
  proof (cases "n < 10")
    case True
    then show ?thesis by (subst dec.simps) (simp add: undec_def)
  next
    case False
    then have "undec (dec n) = 10 * undec (dec (n div 10)) + n mod 10"
      by (subst dec.simps) (simp add: undec_snoc)
    with "1.IH" [OF False] show ?thesis by simp
  qed
qed

lemma undec_zeros: "undec (replicate k (CHR ''0'') @ s) = undec s"
  by (induction k) (simp_all add: undec_def digit_val_def)

lemma undec_pad [simp]: "undec (padStart k (CHR ''0'') s) = undec s"
  by (simp only: padStart_def undec_zeros)

lemma dec_digits: "\<forall>c \<in> set (dec n). is_digit c"
proof (induction n rule: dec.induct)
  case (1 n)
  show ?case
    by (cases "n < 10"; subst dec.simps) (use "1.IH" in auto)
qed

lemma dec_nonempty [simp]: "dec n \<noteq> []"
  by (subst dec.simps) simp

lemma dec_length: "n < 10 ^ k \<Longrightarrow> 0 < k \<Longrightarrow> length (dec n) \<le> k"
proof (induction k arbitrary: n)
  case (Suc k)
  show ?case
  proof (cases "n < 10")
    case True
    then show ?thesis by (subst dec.simps) simp
  next
    case False
    then have k: "0 < k" using Suc.prems(1) by (cases k) auto
    have "n div 10 < 10 ^ k" using Suc.prems(1) by (simp add: less_mult_imp_div_less mult.commute)
    with Suc.IH k have "length (dec (n div 10)) \<le> k" by blast
    with False show ?thesis by (subst dec.simps) simp
  qed
qed simp

lemma pad_digits: "\<forall>c \<in> set (padStart k (CHR ''0'') (dec n)). is_digit c"
  using dec_digits [of n] by (auto simp: padStart_def is_digit_def)

lemma pad_length: "n < 10 ^ k \<Longrightarrow> 0 < k \<Longrightarrow> length (padStart k (CHR ''0'') (dec n)) = k"
  using dec_length [of n k] by (simp add: padStart_def)

section \<open>JSON values\<close>

datatype json =
    JNull
  | JBool bool
  | JNum int
  | JStr string
  | JList "json list"
  | JObj "(string \<times> json) list"

definition json_opt :: "('a \<Rightarrow> json) \<Rightarrow> 'a option \<Rightarrow> json" where
  "json_opt f x = (case x of None \<Rightarrow> JNull | Some v \<Rightarrow> f v)"

section \<open>Lists\<close>

text \<open>\<open>rows[0]\<close>: the first element, or \<open>undefined\<close>.\<close>

fun first_row :: "'a list \<Rightarrow> 'a option" where
  "first_row [] = None"
| "first_row (x # xs) = Some x"

lemma first_row_Some: "first_row xs = Some x \<Longrightarrow> x \<in> set xs"
  by (cases xs) auto

lemma first_row_None [simp]: "first_row xs = None \<longleftrightarrow> xs = []"
  by (cases xs) auto

lemma first_row_map: "first_row (map f xs) = map_option f (first_row xs)"
  by (cases xs) auto

lemma first_row_filter_Some: "first_row (filter P xs) = Some x \<Longrightarrow> x \<in> set xs \<and> P x"
  by (drule first_row_Some) simp

lemma first_row_filter_None: "first_row (filter P xs) = None \<longleftrightarrow> (\<forall>x \<in> set xs. \<not> P x)"
  by (simp add: filter_empty_conv)

lemma filter_map_keep:
  "(\<And>x. x \<in> set xs \<Longrightarrow> P (f x) = P x) \<Longrightarrow> (\<And>x. x \<in> set xs \<Longrightarrow> P x \<Longrightarrow> f x = x)
    \<Longrightarrow> filter P (map f xs) = filter P xs"
  by (induction xs) auto

lemma map_id_on: "(\<And>x. x \<in> set xs \<Longrightarrow> f x = x) \<Longrightarrow> map f xs = xs"
  by (induction xs) auto

lemma filter_unique:
  assumes "distinct (map f xs)" "x \<in> set xs" "P x" "\<And>y. y \<in> set xs \<Longrightarrow> P y \<Longrightarrow> f y = f x"
  shows "filter P xs = [x]"
proof -
  have eq: "y = x" if "y \<in> set xs" "P y" for y
    using assms(1,2) that assms(4) [OF that] by (auto simp only: distinct_map dest: inj_onD)
  obtain us vs where xs: "xs = us @ x # vs" using assms(2) by (auto simp: in_set_conv_decomp)
  have "x \<notin> set us" "x \<notin> set vs" using assms(1) unfolding xs by auto
  then have "filter P us = []" "filter P vs = []" using eq unfolding xs by (auto simp: filter_empty_conv)
  then show ?thesis using assms(3) by (simp add: xs)
qed

end
