(* ===== verification/Calendar.thy ===== *)
theory Calendar
  imports Prelude
begin

text \<open>
  UTC calendar arithmetic: \<open>apps/api/src/common/calendar-days.ts\<close>, over the date functions of
  the JavaScript standard library it calls (\<open>Date.UTC\<close>, \<open>getUTCFullYear\<close>, \<open>getUTCMonth\<close>,
  \<open>getUTCDate\<close>, \<open>toISOString\<close>), which are written out here as ECMAScript defines them: a time
  value is a number of milliseconds, a day has 86400000 of them, and the day number of a
  proleptic Gregorian date comes from \<open>day_from_year\<close> and the month table.
\<close>

section \<open>Time values of the standard library\<close>

definition ms_per_day :: int where
  "ms_per_day = 86400000"

definition day_of :: "instant \<Rightarrow> int" where
  "day_of t = t div ms_per_day"

definition is_leap :: "int \<Rightarrow> bool" where
  "is_leap y \<longleftrightarrow> 4 dvd y \<and> \<not> 100 dvd y \<or> 400 dvd y"

definition day_from_year :: "int \<Rightarrow> int" where
  "day_from_year y = 365 * (y - 1970) + (y - 1969) div 4 - (y - 1901) div 100 + (y - 1601) div 400"

text \<open>Days before the first of month \<open>m\<close> (0 to 11) in a common and in a leap year.\<close>

definition month_start :: "bool \<Rightarrow> int \<Rightarrow> int" where
  "month_start leap m =
     (if m \<le> 0 then 0 else if m = 1 then 31
      else (if m = 2 then 59 else if m = 3 then 90 else if m = 4 then 120 else if m = 5 then 151
        else if m = 6 then 181 else if m = 7 then 212 else if m = 8 then 243 else if m = 9 then 273
        else if m = 10 then 304 else if m = 11 then 334 else 365) + (if leap then 1 else 0))"

definition make_day :: "int \<Rightarrow> int \<Rightarrow> int \<Rightarrow> int" where
  "make_day y m d =
     (let ym = y + m div 12 in day_from_year ym + month_start (is_leap ym) (m mod 12) + d - 1)"

definition date_UTC :: "int \<Rightarrow> int \<Rightarrow> int \<Rightarrow> instant" where
  "date_UTC y m d =
     (let yr = (if 0 \<le> y \<and> y \<le> 99 then 1900 + y else y) in make_day yr m d * ms_per_day)"

text \<open>The year of a day number: the 400-year cycle of 146097 days gives it up to one.\<close>

definition year_of_day :: "int \<Rightarrow> int" where
  "year_of_day n =
     (let y = 1970 + (400 * n) div 146097
      in if n < day_from_year y then y - 1 else if day_from_year (y + 1) \<le> n then y + 1 else y)"

definition month_in_year :: "bool \<Rightarrow> int \<Rightarrow> int" where
  "month_in_year leap d =
     (if d < month_start leap 1 then 0 else if d < month_start leap 2 then 1
      else if d < month_start leap 3 then 2 else if d < month_start leap 4 then 3
      else if d < month_start leap 5 then 4 else if d < month_start leap 6 then 5
      else if d < month_start leap 7 then 6 else if d < month_start leap 8 then 7
      else if d < month_start leap 9 then 8 else if d < month_start leap 10 then 9
      else if d < month_start leap 11 then 10 else 11)"

definition getUTCFullYear :: "instant \<Rightarrow> int" where
  "getUTCFullYear t = year_of_day (day_of t)"

definition getUTCMonth :: "instant \<Rightarrow> int" where
  "getUTCMonth t =
     (let y = getUTCFullYear t in month_in_year (is_leap y) (day_of t - day_from_year y))"

definition getUTCDate :: "instant \<Rightarrow> int" where
  "getUTCDate t =
     (let y = getUTCFullYear t; m = getUTCMonth t
      in day_of t - day_from_year y - month_start (is_leap y) m + 1)"

text \<open>\<open>toISOString\<close>: four-digit years, and six digits with a sign outside of 0 to 9999.\<close>

definition pad_int :: "nat \<Rightarrow> int \<Rightarrow> string" where
  "pad_int k i = padStart k (CHR ''0'') (dec (nat i))"

definition iso_year :: "int \<Rightarrow> string" where
  "iso_year y =
     (if 0 \<le> y \<and> y \<le> 9999 then pad_int 4 y
      else (if y < 0 then CHR ''-'' else CHR ''+'') # pad_int 6 \<bar>y\<bar>)"

definition toISOString :: "instant \<Rightarrow> string" where
  "toISOString t =
     iso_year (getUTCFullYear t) @ ''-'' @ pad_int 2 (getUTCMonth t + 1) @ ''-'' @ pad_int 2 (getUTCDate t)
     @ ''T'' @ pad_int 2 ((t mod ms_per_day) div 3600000)
     @ '':'' @ pad_int 2 ((t mod 3600000) div 60000)
     @ '':'' @ pad_int 2 ((t mod 60000) div 1000)
     @ ''.'' @ pad_int 3 (t mod 1000) @ ''Z''"

text \<open>
  \<open>Number(s)\<close> on a slice of a date string: trimmed, empty is 0, a run of digits is its value.
  \<open>None\<close> is \<open>NaN\<close>. The other numeric literals of JavaScript (signs, points, exponents, hex)
  do not occur in a calendar date and are not read either.
\<close>

definition js_Number :: "string \<Rightarrow> int option" where
  "js_Number s =
     (let u = js_trim s
      in if u = [] then Some 0 else if list_all is_digit u then Some (int (undec u)) else None)"

definition slice :: "nat \<Rightarrow> nat \<Rightarrow> string \<Rightarrow> string" where
  "slice a b s = drop a (take b s)"

text \<open>\<open>Math.round(a / b)\<close> for integers \<open>a\<close> and a positive \<open>b\<close>: halves go up.\<close>

definition js_round_div :: "int \<Rightarrow> int \<Rightarrow> int" where
  "js_round_div a b = (2 * a + b) div (2 * b)"

section \<open>calendar-days.ts\<close>

datatype date_arg = DStr string | DDate instant

fun utcMidnightMillis :: "date_arg \<Rightarrow> int option" where
  "utcMidnightMillis (DStr value) =
     (let s = slice 0 10 value
      in case (js_Number (slice 0 4 s), js_Number (slice 5 7 s), js_Number (slice 8 10 s)) of
           (Some y, Some m, Some d) \<Rightarrow> Some (date_UTC y (m - 1) d)
         | _ \<Rightarrow> None)"
| "utcMidnightMillis (DDate value) =
     Some (date_UTC (getUTCFullYear value) (getUTCMonth value) (getUTCDate value))"

definition toUtcDateString :: "instant \<Rightarrow> string" where
  "toUtcDateString i = slice 0 10 (toISOString i)"

definition calendarDaysUntil :: "date_arg \<Rightarrow> instant \<Rightarrow> int option" where
  "calendarDaysUntil expiryDate now =
     (case (utcMidnightMillis expiryDate, utcMidnightMillis (DDate now)) of
        (Some a, Some b) \<Rightarrow> Some (js_round_div (a - b) 86400000)
      | _ \<Rightarrow> None)"

section \<open>The Gregorian calendar\<close>

section \<open>The Gregorian calendar\<close>

lemma div_step:
  fixes x n :: int
  assumes n: "0 < n"
  shows "(x + 1) div n = x div n + (if n dvd x + 1 then 1 else 0)"
proof (cases "x mod n + 1 = n")
  case True
  have "x + 1 = n * (x div n + 1) + 0"
    using True by (metis add.assoc add_0_right mult_div_mod_eq distrib_left mult.right_neutral)
  then have "(x + 1) div n = x div n + 1" and "(x + 1) mod n = 0"
    using n int_div_pos_eq int_mod_pos_eq by blast+
  then show ?thesis by (simp add: dvd_eq_mod_eq_0)
next
  case False
  have r: "0 \<le> x mod n + 1" "x mod n + 1 < n"
    using n False pos_mod_bound [of n x] pos_mod_sign [of n x] by linarith+
  have "x + 1 = n * (x div n) + (x mod n + 1)" by simp
  then have "(x + 1) div n = x div n" and "(x + 1) mod n = x mod n + 1"
    using r int_div_pos_eq int_mod_pos_eq by blast+
  then show ?thesis using r pos_mod_sign [OF n, of x] by (simp add: dvd_eq_mod_eq_0)
qed

lemma day_from_year_Suc:
  "day_from_year (y + 1) = day_from_year y + (if is_leap y then 366 else 365)"
proof -
  have d4: "4 dvd y - 1969 + 1 \<longleftrightarrow> 4 dvd y"
    using dvd_diff_right_iff [of 4 1968 y] dvd_diff_left_iff [of 4 1968 y] by simp
  have d100: "100 dvd y - 1901 + 1 \<longleftrightarrow> 100 dvd y"
    using dvd_diff_left_iff [of 100 1900 y] by simp
  have d400: "400 dvd y - 1601 + 1 \<longleftrightarrow> 400 dvd y"
    using dvd_diff_left_iff [of 400 1600 y] by simp
  have i: "400 dvd y \<Longrightarrow> 100 dvd y" "100 dvd y \<Longrightarrow> 4 dvd y"
    using dvd_trans [of 100 400 y] dvd_trans [of 4 100 y] by simp_all
  have e: "y + 1 - 1969 = y - 1969 + 1" "y + 1 - 1901 = y - 1901 + 1" "y + 1 - 1601 = y - 1601 + 1"
    by simp_all
  show ?thesis
    unfolding day_from_year_def e using i
    by (simp only: div_step [of 4] div_step [of 100] div_step [of 400] d4 d100 d400)
      (auto simp: is_leap_def)
qed

lemma year_of_day_bounds:
  "day_from_year (year_of_day n) \<le> n" "n < day_from_year (year_of_day n + 1)"
proof -
  define k where "k = (400 * n) div 146097"
  have k: "146097 * k \<le> 400 * n" "400 * n < 146097 * k + 146097"
    using mult_div_mod_eq [of 146097 "400 * n"] pos_mod_bound [of 146097 "400 * n"]
      pos_mod_sign [of 146097 "400 * n"]
    unfolding k_def by linarith+
  have b: "a * (x div a) \<le> x \<and> x < a * (x div a) + a" if "0 < a" for a x :: int
    using mult_div_mod_eq [of a x] pos_mod_bound [OF that, of x] pos_mod_sign [OF that, of x]
    by linarith
  have lo: "day_from_year (1970 + k - 1) \<le> n"
    using k b [of 4 "k"] b [of 100 "k + 68"] b [of 400 "k + 368"]
    unfolding day_from_year_def by (simp add: algebra_simps)
  have hi: "n < day_from_year (1970 + k + 1 + 1)"
    using k b [of 4 "k + 3"] b [of 100 "k + 71"] b [of 400 "k + 371"]
    unfolding day_from_year_def by (simp add: algebra_simps)
  show "day_from_year (year_of_day n) \<le> n" "n < day_from_year (year_of_day n + 1)"
    using lo hi unfolding year_of_day_def k_def by (auto simp: Let_def)
qed

lemma month_start_0: "month_start leap 0 = 0"
  by (simp add: month_start_def)

lemma month_start_12: "month_start leap 12 = (if leap then 366 else 365)"
  by (simp add: month_start_def)

lemma month_in_year_bounds:
  assumes "0 \<le> d" and "d < month_start leap 12"
  shows "0 \<le> month_in_year leap d \<and> month_in_year leap d \<le> 11
    \<and> month_start leap (month_in_year leap d) \<le> d
    \<and> d < month_start leap (month_in_year leap d + 1)"
  using assms unfolding month_in_year_def
  by (auto simp: month_start_0 not_less split del: if_split split: if_split)

lemma month_length: "0 \<le> m \<Longrightarrow> m \<le> 11 \<Longrightarrow> month_start leap (m + 1) - month_start leap m \<le> 31"
  by (auto simp: month_start_def)

text \<open>The three getters invert \<open>make_day\<close>.\<close>

lemma utc_fields:
  fixes t :: instant
  defines "y \<equiv> getUTCFullYear t" and "m \<equiv> getUTCMonth t" and "d \<equiv> getUTCDate t"
  shows "0 \<le> m" "m \<le> 11" "1 \<le> d" "d \<le> 31" "make_day y m d = day_of t"
proof -
  let ?n = "day_of t" and ?l = "is_leap y"
  have y: "day_from_year y \<le> ?n" "?n < day_from_year (y + 1)"
    using year_of_day_bounds [of ?n] unfolding y_def getUTCFullYear_def by auto
  have r: "0 \<le> ?n - day_from_year y" "?n - day_from_year y < month_start ?l 12"
    using y by (auto simp: day_from_year_Suc month_start_12 split: if_splits)
  have m: "m = month_in_year ?l (?n - day_from_year y)"
    unfolding m_def y_def getUTCMonth_def by (simp add: Let_def)
  show m0: "0 \<le> m" and m11: "m \<le> 11" using month_in_year_bounds [OF r] m by auto
  have d: "d = ?n - day_from_year y - month_start ?l m + 1"
    unfolding d_def y_def m_def getUTCDate_def by (simp add: Let_def)
  have "month_start ?l m \<le> ?n - day_from_year y" "?n - day_from_year y < month_start ?l (m + 1)"
    using month_in_year_bounds [OF r] m by auto
  then show "1 \<le> d" "d \<le> 31" using d month_length [OF m0 m11, of ?l] by linarith+
  have "m div 12 = 0" "m mod 12 = m" using m0 m11 by simp_all
  then show "make_day y m d = day_of t" using d by (simp add: make_day_def)
qed

lemma date_UTC_fields:
  assumes "\<not> (0 \<le> getUTCFullYear t \<and> getUTCFullYear t \<le> 99)"
  shows "date_UTC (getUTCFullYear t) (getUTCMonth t) (getUTCDate t) = day_of t * ms_per_day"
  using assms utc_fields(5) [of t] by (auto simp: date_UTC_def)

section \<open>Date strings\<close>

lemma slice_append_left: "length xs = b \<Longrightarrow> slice 0 b (xs @ ys) = xs"
  by (simp add: slice_def)

lemma slice_shift: "length xs = k \<Longrightarrow> k \<le> a \<Longrightarrow> k \<le> b \<Longrightarrow> slice a b (xs @ ys) = slice (a - k) (b - k) ys"
  by (simp add: slice_def)

lemma is_digit_not_ws: "is_digit c \<Longrightarrow> \<not> js_ws c"
  by (auto simp: is_digit_def js_ws_def)

lemma js_Number_pad_int:
  assumes "0 \<le> i" and "i < 10 ^ k" and "0 < k"
  shows "js_Number (pad_int k i) = Some i"
proof -
  let ?s = "pad_int k i"
  have n: "nat i < 10 ^ k" using assms by (simp add: nat_less_iff)
  have len: "length ?s = k" unfolding pad_int_def using n assms(3) by (rule pad_length)
  then have ne: "?s \<noteq> []" using assms(3) by auto
  have dig: "\<forall>c \<in> set ?s. is_digit c" unfolding pad_int_def by (rule pad_digits)
  have "js_trim ?s = ?s"
    by (rule js_trim_id) (use ne dig is_digit_not_ws hd_in_set last_in_set in blast)
  then show ?thesis using ne dig assms(1) by (simp add: js_Number_def list_all_iff pad_int_def)
qed

lemma length_pad_int: "0 \<le> i \<Longrightarrow> i < 10 ^ k \<Longrightarrow> 0 < k \<Longrightarrow> length (pad_int k i) = k"
  unfolding pad_int_def by (rule pad_length) (simp_all add: nat_less_iff)

definition date_string :: "int \<Rightarrow> int \<Rightarrow> int \<Rightarrow> string" where
  "date_string y m d = pad_int 4 y @ ''-'' @ pad_int 2 m @ ''-'' @ pad_int 2 d"

lemma utcMidnight_date_string:
  assumes "0 \<le> y" "y \<le> 9999" "1 \<le> m" "m \<le> 12" "1 \<le> d" "d \<le> 31"
  shows "utcMidnightMillis (DStr (date_string y m d @ rest)) = Some (date_UTC y (m - 1) d)"
proof -
  let ?y = "pad_int 4 y" and ?m = "pad_int 2 m" and ?d = "pad_int 2 d"
  have l: "length ?y = 4" "length ?m = 2" "length ?d = 2"
    using assms by (simp_all add: length_pad_int)
  have s: "slice 0 10 (date_string y m d @ rest) = date_string y m d"
    by (rule slice_append_left) (simp add: date_string_def l)
  have sy: "slice 0 4 (date_string y m d) = ?y"
    unfolding date_string_def by (rule slice_append_left) (rule l)
  have sm: "slice 5 7 (date_string y m d) = ?m"
    unfolding date_string_def slice_def using l by simp
  have sd: "slice 8 10 (date_string y m d) = ?d"
    unfolding date_string_def slice_def using l by simp
  have n: "js_Number ?y = Some y" "js_Number ?m = Some m" "js_Number ?d = Some d"
    using assms by (simp_all add: js_Number_pad_int)
  show ?thesis by (simp add: s sy sm sd n Let_def)
qed

lemma toUtcDateString_eq:
  assumes "0 \<le> getUTCFullYear t" "getUTCFullYear t \<le> 9999"
  shows "toUtcDateString t = date_string (getUTCFullYear t) (getUTCMonth t + 1) (getUTCDate t)"
proof -
  let ?y = "pad_int 4 (getUTCFullYear t)" and ?m = "pad_int 2 (getUTCMonth t + 1)"
    and ?d = "pad_int 2 (getUTCDate t)"
  have "length ?y = 4" "length ?m = 2" "length ?d = 2"
    using assms utc_fields(1-4) [of t] by (simp_all add: length_pad_int)
  moreover have "iso_year (getUTCFullYear t) = ?y" using assms by (simp add: iso_year_def)
  ultimately show ?thesis
    unfolding toUtcDateString_def toISOString_def by (simp add: date_string_def slice_def)
qed

lemma js_round_div_exact: "js_round_div (a * 86400000 - b * 86400000) 86400000 = a - b"
proof -
  have "2 * (a * 86400000 - b * 86400000) + 86400000 = (2 * 86400000) * (a - b) + 86400000" by simp
  then show ?thesis
    unfolding js_round_div_def by (rule int_div_pos_eq [where r = "86400000 :: int"]) simp_all
qed

section \<open>Properties\<close>

lemma utcMidnight_date_only: "utcMidnightMillis (DStr s) = utcMidnightMillis (DStr (take 10 s))"
  by (simp add: slice_def)

lemma getUTC_day_only:
  assumes "day_of t = day_of t'"
  shows "getUTCFullYear t = getUTCFullYear t'" "getUTCMonth t = getUTCMonth t'"
    "getUTCDate t = getUTCDate t'"
  using assms by (simp_all add: getUTCFullYear_def getUTCMonth_def getUTCDate_def)

lemma calendarDaysUntil_string:
  assumes "0 \<le> y" "y \<le> 9999" "1 \<le> m" "m \<le> 12" "1 \<le> d" "d \<le> 31"
    and "\<not> (0 \<le> getUTCFullYear now \<and> getUTCFullYear now \<le> 99)"
  shows "calendarDaysUntil (DStr (date_string y m d @ rest)) now
    = Some (make_day (if y \<le> 99 then 1900 + y else y) (m - 1) d - day_of now)"
  using assms(1,7) utc_fields(5) [of now] js_round_div_exact
  unfolding calendarDaysUntil_def utcMidnight_date_string [OF assms(1-6)]
  by (auto simp: date_UTC_def Let_def ms_per_day_def)

lemma calendarDaysUntil_instant:
  assumes "100 \<le> getUTCFullYear t" "getUTCFullYear t \<le> 9999" "100 \<le> getUTCFullYear now"
  shows "calendarDaysUntil (DStr (toUtcDateString t)) now = Some (day_of t - day_of now)"
proof -
  let ?s = "date_string (getUTCFullYear t) (getUTCMonth t + 1) (getUTCDate t)"
  have "toUtcDateString t = ?s @ []" using assms by (simp add: toUtcDateString_eq)
  moreover have "calendarDaysUntil (DStr (?s @ [])) now = Some (day_of t - day_of now)"
    using assms utc_fields [of t] by (subst calendarDaysUntil_string) auto
  ultimately show ?thesis by simp
qed

text \<open>
  C28. Round trip of the calendar: an instant formatted as a UTC date string and read back is the
  whole number of UTC days from today's date to the instant's date, negative when it is past, and
  an instant passed as a \<open>Date\<close> counts the same. For the years 100 to 9999, leap years and month
  lengths included.
\<close>

theorem calendarDaysUntil_roundtrip:
  assumes "100 \<le> getUTCFullYear t" "getUTCFullYear t \<le> 9999" "100 \<le> getUTCFullYear now"
  shows "calendarDaysUntil (DStr (toUtcDateString t)) now = Some (day_of t - day_of now)
    \<and> calendarDaysUntil (DDate t) now = Some (day_of t - day_of now)"
proof -
  have "calendarDaysUntil (DDate t) now = Some (day_of t - day_of now)"
    using assms js_round_div_exact by (simp add: calendarDaysUntil_def date_UTC_fields ms_per_day_def)
  then show ?thesis using calendarDaysUntil_instant [OF assms] by simp
qed

lemma year_2026: "getUTCFullYear 1788294799123 = 2026"
  by code_simp

theorem calendarDaysUntil_roundtrip_witness:
  "calendarDaysUntil (DStr (toUtcDateString 1788294799123)) 1788294799123 = Some 0"
  using calendarDaysUntil_roundtrip [of 1788294799123 1788294799123] year_2026 by simp

text \<open>
  The count reads the date and nothing else: the time of day of \<open>now\<close> and whatever follows the
  first ten characters of the date string make no difference, for any string whatsoever.
\<close>

lemma calendarDaysUntil_date_only:
  assumes "day_of now = day_of now'"
  shows "calendarDaysUntil (DStr s) now = calendarDaysUntil (DStr (take 10 s)) now'"
  using getUTC_day_only [OF assms] utcMidnight_date_only [of s]
  by (simp add: calendarDaysUntil_def slice_def)

lemma calendarDaysUntil_date_only_witness:
  "calendarDaysUntil (DStr ''2026-10-01T00:00:00.000Z'') 1788220800000
    = calendarDaysUntil (DStr ''2026-10-01'') 1788294799123"
  using calendarDaysUntil_date_only [of 1788220800000 1788294799123 "''2026-10-01T00:00:00.000Z''"]
  by (simp add: day_of_def ms_per_day_def)

text \<open>
  \<open>Date.UTC\<close> reads the years 0 to 99 as 1900 to 1999, so a date string of the first century is
  counted as the date nineteen centuries later.
\<close>

lemma calendarDaysUntil_first_century:
  assumes "0 \<le> y" "y \<le> 99" "1 \<le> m" "m \<le> 12" "1 \<le> d" "d \<le> 31" "100 \<le> getUTCFullYear now"
  shows "calendarDaysUntil (DStr (date_string y m d)) now
    = calendarDaysUntil (DStr (date_string (1900 + y) m d)) now"
  using assms calendarDaysUntil_string [of y m d now "[]"]
    calendarDaysUntil_string [of "1900 + y" m d now "[]"] by simp

lemma calendarDaysUntil_first_century_witness:
  "calendarDaysUntil (DStr (date_string 50 1 1)) 1788294799123
    = calendarDaysUntil (DStr (date_string 1950 1 1)) 1788294799123"
  using calendarDaysUntil_first_century [of 50 1 1 1788294799123] year_2026 by simp

end
