(* ===== verification/Schema.thy ===== *)
theory Schema
  imports Calendar
begin

text \<open>
  The data model: the closed vocabularies of \<open>packages/shared/src/types\<close>, the row types of
  \<open>packages/database/src/schema.ts\<close>, the database as the record of its tables (each a list of
  rows in storage order), and the JSON form of the rows the audit trail stores. A nullable column
  is an option; a \<open>timestamptz\<close> is an instant; a \<open>date\<close> is a string \<open>YYYY-MM-DD\<close>.
\<close>

section \<open>Vocabularies\<close>

datatype document_type = Passport | Residence | Badge

datatype expiry_status = VALID | EXPIRING_SOON | RENEWAL_IN_PROGRESS | EXCEPTION | EXPIRED | BLOCKED

datatype employee_status = Active | Suspended | Archived

datatype tenant_status = TenantActive | TenantInactive

datatype notification_status = SENT | FAILED_SEND | SUPPRESSED

datatype import_status = PENDING | PROCESSING | COMPLETED | FAILED_IMPORT | ROLLED_BACK

datatype audit_action =
    EMPLOYEE_CREATED | EMPLOYEE_UPDATED | EMPLOYEE_ARCHIVED | EMPLOYEE_RESTORED
  | DOCUMENT_CREATED | DOCUMENT_UPDATED | DOCUMENT_ARCHIVED
  | EXPIRY_STATUS_CHANGED | EXPIRY_POLICY_UPDATED | NOTIFICATION_POLICY_UPDATED
  | IMPORT_BATCH_COMPLETED

datatype audit_outcome = SUCCESS | FAILED | PARTIAL

fun document_type_text :: "document_type \<Rightarrow> string" where
  "document_type_text Passport = ''passport''"
| "document_type_text Residence = ''residence''"
| "document_type_text Badge = ''badge''"

fun expiry_status_text :: "expiry_status \<Rightarrow> string" where
  "expiry_status_text VALID = ''VALID''"
| "expiry_status_text EXPIRING_SOON = ''EXPIRING_SOON''"
| "expiry_status_text RENEWAL_IN_PROGRESS = ''RENEWAL_IN_PROGRESS''"
| "expiry_status_text EXCEPTION = ''EXCEPTION''"
| "expiry_status_text EXPIRED = ''EXPIRED''"
| "expiry_status_text BLOCKED = ''BLOCKED''"

fun employee_status_text :: "employee_status \<Rightarrow> string" where
  "employee_status_text Active = ''active''"
| "employee_status_text Suspended = ''suspended''"
| "employee_status_text Archived = ''archived''"

section \<open>Rows\<close>

record tenant_row =
  tn_id :: uuid
  tn_name :: string
  tn_slug :: string
  tn_status :: tenant_status
  tn_createdAt :: instant

record employee_row =
  em_id :: uuid
  em_tenantId :: uuid
  em_employeeCode :: string
  em_fullName :: string
  em_firstName :: "string option"
  em_lastName :: "string option"
  em_email :: "string option"
  em_department :: "string option"
  em_jobTitle :: "string option"
  em_branch :: "string option"
  em_responsibleOfficerId :: "string option"
  em_status :: employee_status
  em_createdAt :: instant
  em_version :: int
  em_deletedAt :: "instant option"

record document_row =
  dc_id :: uuid
  dc_tenantId :: uuid
  dc_employeeId :: "uuid option"
  dc_docType :: document_type
  dc_docNumber :: string
  dc_issueDate :: "string option"
  dc_expiryDate :: "string option"
  dc_status :: string
  dc_expiryStatus :: expiry_status
  dc_version :: int
  dc_renewalStartedAt :: "instant option"
  dc_exceptionReason :: "string option"
  dc_createdAt :: instant
  dc_deletedAt :: "instant option"

text \<open>The columns of \<open>expiry_policies\<close> the expiry engine reads, and the row around them.\<close>

record expiry_policy =
  warningDays1 :: int
  warningDays2 :: int
  warningDays3 :: int
  criticalDays :: int
  gracePeriodDays :: int
  autoBlock :: bool

record expiry_policy_row =
  ep_id :: uuid
  ep_tenantId :: uuid
  ep_docType :: document_type
  ep_policy :: expiry_policy
  ep_createdAt :: instant
  ep_updatedAt :: instant

record audit_row =
  au_id :: uuid
  au_tenantId :: uuid
  au_correlationId :: string
  au_requestId :: "string option"
  au_actorUserId :: "string option"
  au_actorIp :: "string option"
  au_actorUserAgent :: "string option"
  au_action :: audit_action
  au_entityType :: string
  au_entityId :: "uuid option"
  au_beforeState :: "(string \<times> json) list option"
  au_afterState :: "(string \<times> json) list option"
  au_outcome :: audit_outcome
  au_reason :: "string option"
  au_createdAt :: instant

record idempotency_row =
  ik_key :: string
  ik_tenantId :: uuid
  ik_createdAt :: instant

record notification_policy_row =
  np_id :: uuid
  np_tenantId :: uuid
  np_reminderDaysBefore :: "int list"
  np_emailFrom :: "string option"
  np_emailTemplateId :: "string option"
  np_enabled :: bool
  np_updatedAt :: instant

record notification_log_row =
  nl_id :: uuid
  nl_tenantId :: uuid
  nl_documentId :: "uuid option"
  nl_daysBeforeExpiry :: int
  nl_sentAt :: instant
  nl_status :: notification_status
  nl_errorMessage :: "string option"

record import_batch_row =
  ib_importBatchId :: uuid
  ib_tenantId :: uuid
  ib_status :: import_status
  ib_totalRows :: int
  ib_processedRows :: int
  ib_errorRows :: int
  ib_fileHash :: string
  ib_createdAt :: instant
  ib_completedAt :: "instant option"
  ib_createdBy :: "string option"

record db =
  tenants :: "tenant_row list"
  employees :: "employee_row list"
  documents :: "document_row list"
  expiryPolicies :: "expiry_policy_row list"
  auditEvents :: "audit_row list"
  idempotencyKeys :: "idempotency_row list"
  tenantNotificationPolicies :: "notification_policy_row list"
  notificationLog :: "notification_log_row list"
  importBatches :: "import_batch_row list"

section \<open>Data transfer objects\<close>

record audit_context =
  ac_tenantId :: uuid
  ac_actorUserId :: string
  ac_actorIp :: "string option"
  ac_actorUserAgent :: "string option"
  ac_requestId :: "string option"
  ac_correlationId :: "string option"

record create_employee_dto =
  ce_employeeCode :: string
  ce_firstName :: string
  ce_lastName :: string
  ce_email :: "string option"
  ce_department :: "string option"
  ce_jobTitle :: "string option"
  ce_branch :: "string option"
  ce_responsibleOfficerId :: "string option"

record update_employee_dto =
  ue_firstName :: "string option"
  ue_lastName :: "string option"
  ue_email :: "string option"
  ue_department :: "string option"
  ue_jobTitle :: "string option"
  ue_branch :: "string option"
  ue_responsibleOfficerId :: "string option"
  ue_version :: int

record employee_search =
  es_q :: "string option"
  es_department :: "string option"
  es_branch :: "string option"
  es_status :: "employee_status option"
  es_page :: "int option"
  es_limit :: "int option"

record create_document_dto =
  cd_employeeId :: uuid
  cd_docType :: document_type
  cd_docNumber :: string
  cd_issueDate :: "string option"
  cd_expiryDate :: "string option"

record update_document_dto =
  ud_docNumber :: "string option"
  ud_issueDate :: "string option"
  ud_expiryDate :: "string option"
  ud_expiryStatus :: "expiry_status option"
  ud_exceptionReason :: "string option"
  ud_version :: int

record document_search =
  ds_docType :: "document_type option"
  ds_expiryStatus :: "expiry_status option"
  ds_page :: "int option"
  ds_limit :: "int option"

section \<open>Rows as JSON objects\<close>

definition json_date :: "instant \<Rightarrow> json" where
  "json_date t = JStr (toISOString t)"

definition employee_json :: "employee_row \<Rightarrow> (string \<times> json) list" where
  "employee_json r =
     [(''id'', JStr (em_id r)), (''tenantId'', JStr (em_tenantId r)),
      (''employeeCode'', JStr (em_employeeCode r)), (''fullName'', JStr (em_fullName r)),
      (''firstName'', json_opt JStr (em_firstName r)), (''lastName'', json_opt JStr (em_lastName r)),
      (''email'', json_opt JStr (em_email r)), (''department'', json_opt JStr (em_department r)),
      (''jobTitle'', json_opt JStr (em_jobTitle r)), (''branch'', json_opt JStr (em_branch r)),
      (''responsibleOfficerId'', json_opt JStr (em_responsibleOfficerId r)),
      (''status'', JStr (employee_status_text (em_status r))),
      (''createdAt'', json_date (em_createdAt r)), (''version'', JNum (em_version r)),
      (''deletedAt'', json_opt json_date (em_deletedAt r))]"

definition document_json :: "document_row \<Rightarrow> (string \<times> json) list" where
  "document_json r =
     [(''id'', JStr (dc_id r)), (''tenantId'', JStr (dc_tenantId r)),
      (''employeeId'', json_opt JStr (dc_employeeId r)),
      (''docType'', JStr (document_type_text (dc_docType r))), (''docNumber'', JStr (dc_docNumber r)),
      (''issueDate'', json_opt JStr (dc_issueDate r)), (''expiryDate'', json_opt JStr (dc_expiryDate r)),
      (''status'', JStr (dc_status r)), (''expiryStatus'', JStr (expiry_status_text (dc_expiryStatus r))),
      (''version'', JNum (dc_version r)), (''renewalStartedAt'', json_opt json_date (dc_renewalStartedAt r)),
      (''exceptionReason'', json_opt JStr (dc_exceptionReason r)), (''createdAt'', json_date (dc_createdAt r)),
      (''deletedAt'', json_opt json_date (dc_deletedAt r))]"

definition notification_policy_json :: "notification_policy_row \<Rightarrow> (string \<times> json) list" where
  "notification_policy_json r =
     [(''id'', JStr (np_id r)), (''tenantId'', JStr (np_tenantId r)),
      (''reminderDaysBefore'', JList (map JNum (np_reminderDaysBefore r))),
      (''emailFrom'', json_opt JStr (np_emailFrom r)),
      (''emailTemplateId'', json_opt JStr (np_emailTemplateId r)),
      (''enabled'', JBool (np_enabled r)), (''updatedAt'', json_date (np_updatedAt r))]"

lemma expiry_status_text_inj: "expiry_status_text a = expiry_status_text b \<longleftrightarrow> a = b"
  by (cases a; cases b) auto

lemma document_type_text_inj: "document_type_text a = document_type_text b \<longleftrightarrow> a = b"
  by (cases a; cases b) auto

section \<open>Jobs, mails and alerts the processes emit\<close>

record reminder_job =
  rj_tenantId :: uuid
  rj_documentId :: uuid
  rj_daysBeforeExpiry :: int
  rj_jobId :: string
  rj_idempotencyKey :: string

record import_job =
  ij_tenantId :: uuid
  ij_jobId :: string
  ij_idempotencyKey :: string
  ij_rowCount :: int

record mail =
  ml_to :: string
  ml_from :: string
  ml_subject :: string
  ml_text :: string

record failure_alert =
  fa_tenantIdPrefix :: string
  fa_windowHours :: int
  fa_failedCount :: int
  fa_totalAttempts :: int

end
