(* ===== verification/Expiry.thy ===== *)
theory Expiry
  imports Schema
begin

text \<open>
  The expiry engine, \<open>ExpiryService.calculateStatus\<close> of \<open>apps/api/src/expiry/expiry.service.ts\<close>:
  a pure function of the expiry date, the tenant's policy, the current status and the clock.
  Its threshold test is an optimised form of four sequential checks, which the comment in the
  source describes; \<open>expiry_checks\<close> is that reference and the two are proved equal.
\<close>

section \<open>calculateStatus\<close>

text \<open>\<open>!expiryDate\<close>: null and the empty string are false, a \<open>Date\<close> object never is.\<close>

fun no_expiry :: "date_arg option \<Rightarrow> bool" where
  "no_expiry None = True"
| "no_expiry (Some (DStr s)) = (s = [])"
| "no_expiry (Some (DDate t)) = False"

text \<open>Comparisons with a number that may be \<open>NaN\<close>: all of them are false then.\<close>

definition num_lt :: "int option \<Rightarrow> int \<Rightarrow> bool" where
  "num_lt a b = (case a of None \<Rightarrow> False | Some x \<Rightarrow> x < b)"

definition num_ge :: "int option \<Rightarrow> int \<Rightarrow> bool" where
  "num_ge a b = (case a of None \<Rightarrow> False | Some x \<Rightarrow> b \<le> x)"

definition num_le :: "int option \<Rightarrow> int \<Rightarrow> bool" where
  "num_le a b = (case a of None \<Rightarrow> False | Some x \<Rightarrow> x \<le> b)"

definition widestWarningWindow :: "expiry_policy \<Rightarrow> int" where
  "widestWarningWindow p =
     max (criticalDays p) (max (warningDays3 p) (max (warningDays2 p) (warningDays1 p)))"

definition status_of_days :: "int option \<Rightarrow> expiry_policy \<Rightarrow> expiry_status" where
  "status_of_days daysUntilExpiry policy =
     (if num_lt daysUntilExpiry 0
      then (if 0 < gracePeriodDays policy \<and> num_ge daysUntilExpiry (- gracePeriodDays policy)
            then EXPIRING_SOON
            else if autoBlock policy then BLOCKED else EXPIRED)
      else if num_le daysUntilExpiry (widestWarningWindow policy) then EXPIRING_SOON
      else VALID)"

definition calculateStatus ::
  "date_arg option \<Rightarrow> expiry_policy \<Rightarrow> expiry_status \<Rightarrow> instant \<Rightarrow> expiry_status" where
  "calculateStatus expiryDate policy currentStatus now =
     (if currentStatus = RENEWAL_IN_PROGRESS \<or> currentStatus = EXCEPTION then currentStatus
      else case expiryDate of
          None \<Rightarrow> VALID
        | Some e \<Rightarrow>
            if no_expiry (Some e) then VALID else status_of_days (calendarDaysUntil e now) policy)"

section \<open>The reference: four sequential threshold checks\<close>

definition expiry_checks :: "int \<Rightarrow> expiry_policy \<Rightarrow> expiry_status" where
  "expiry_checks days policy =
     (if days < 0
      then (if 0 < gracePeriodDays policy \<and> - gracePeriodDays policy \<le> days then EXPIRING_SOON
            else if autoBlock policy then BLOCKED else EXPIRED)
      else if days \<le> criticalDays policy then EXPIRING_SOON
      else if days \<le> warningDays3 policy then EXPIRING_SOON
      else if days \<le> warningDays2 policy then EXPIRING_SOON
      else if days \<le> warningDays1 policy then EXPIRING_SOON
      else VALID)"

lemmas num_defs = num_lt_def num_ge_def num_le_def

lemma status_of_days_checks: "status_of_days (Some n) p = expiry_checks n p"
  by (simp add: status_of_days_def expiry_checks_def num_defs widestWarningWindow_def le_max_iff_disj)

text \<open>How far a document is on its way to being unusable.\<close>

fun severity :: "expiry_status \<Rightarrow> nat" where
  "severity VALID = 0"
| "severity EXPIRING_SOON = 1"
| "severity RENEWAL_IN_PROGRESS = 1"
| "severity EXCEPTION = 1"
| "severity EXPIRED = 2"
| "severity BLOCKED = 2"

lemma severity_antimono: "a \<le> b \<Longrightarrow> severity (expiry_checks b p) \<le> severity (expiry_checks a p)"
  by (auto simp: expiry_checks_def)

lemma expiry_checks_blocked_iff:
  "expiry_checks n p \<in> {EXPIRED, BLOCKED} \<longleftrightarrow> n < 0 \<and> \<not> (0 < gracePeriodDays p \<and> - gracePeriodDays p \<le> n)"
  by (auto simp: expiry_checks_def)

section \<open>Properties\<close>

text \<open>
  C15. The engine against its reference: a document without a manual override and with the expiry
  date of an instant \<open>t\<close> gets the status of the four sequential threshold checks (critical, third,
  second, first warning) on the days left, grace period and blocking included, whatever the order
  of the tenant's thresholds.
\<close>

theorem calculateStatus_reference:
  assumes "current \<noteq> RENEWAL_IN_PROGRESS" "current \<noteq> EXCEPTION"
    and "100 \<le> getUTCFullYear t" "getUTCFullYear t \<le> 9999" "100 \<le> getUTCFullYear now"
  shows "calculateStatus (Some (DStr (toUtcDateString t))) p current now
    = expiry_checks (day_of t - day_of now) p"
proof -
  have e: "toUtcDateString t = date_string (getUTCFullYear t) (getUTCMonth t + 1) (getUTCDate t) @ []"
    using assms by (simp add: toUtcDateString_eq)
  then have "toUtcDateString t \<noteq> []" by (simp add: date_string_def)
  moreover have "calendarDaysUntil (DStr (toUtcDateString t)) now = Some (day_of t - day_of now)"
    unfolding e using assms utc_fields [of t] by (subst calendarDaysUntil_string) auto
  ultimately show ?thesis using assms(1,2) by (simp add: calculateStatus_def status_of_days_checks)
qed

theorem calculateStatus_reference_witness:
  "calculateStatus (Some (DStr (toUtcDateString 1788294799123)))
     \<lparr>warningDays1 = 90, warningDays2 = 60, warningDays3 = 30, criticalDays = 14,
      gracePeriodDays = 0, autoBlock = False\<rparr> VALID 1788294799123 = EXPIRING_SOON"
  using calculateStatus_reference [of VALID 1788294799123 1788294799123] year_2026
  by (simp add: expiry_checks_def)

text \<open>
  Manual overrides are sticky: a document in \<open>RENEWAL_IN_PROGRESS\<close> or \<open>EXCEPTION\<close> keeps its
  status for every date, policy and clock, and the engine never produces one of these two itself.
\<close>

lemma calculateStatus_sticky:
  "(calculateStatus e p current now = RENEWAL_IN_PROGRESS \<longleftrightarrow> current = RENEWAL_IN_PROGRESS)
   \<and> (calculateStatus e p current now = EXCEPTION \<longleftrightarrow> current = EXCEPTION)"
  by (simp add: calculateStatus_def status_of_days_def split: option.split)

text \<open>
  C27. As the clock advances a document only gets worse: at a later instant its computed status is
  never less severe than at an earlier one, from valid over expiring to expired or blocked.
\<close>

theorem calculateStatus_monotone:
  assumes "now \<le> now'" "current \<noteq> RENEWAL_IN_PROGRESS" "current \<noteq> EXCEPTION"
    and "0 \<le> y" "y \<le> 9999" "1 \<le> m" "m \<le> 12" "1 \<le> d" "d \<le> 31"
    and "100 \<le> getUTCFullYear now" "100 \<le> getUTCFullYear now'"
  shows "severity (calculateStatus (Some (DStr (date_string y m d))) p current now)
    \<le> severity (calculateStatus (Some (DStr (date_string y m d))) p current now')"
proof -
  let ?k = "make_day (if y \<le> 99 then 1900 + y else y) (m - 1) d"
  have "date_string y m d \<noteq> []" by (simp add: date_string_def)
  then have c: "calculateStatus (Some (DStr (date_string y m d))) p current w = expiry_checks (?k - day_of w) p"
    if "100 \<le> getUTCFullYear w" for w
    using assms(2-9) that calendarDaysUntil_string [of y m d w "[]"]
    by (simp add: calculateStatus_def status_of_days_checks)
  have "day_of now \<le> day_of now'" using assms(1) by (simp add: day_of_def ms_per_day_def zdiv_mono1)
  then show ?thesis using assms(10,11) by (simp add: c severity_antimono)
qed

theorem calculateStatus_monotone_witness:
  "severity (calculateStatus (Some (DStr (date_string 2026 10 1)))
     \<lparr>warningDays1 = 90, warningDays2 = 60, warningDays3 = 30, criticalDays = 14,
      gracePeriodDays = 0, autoBlock = True\<rparr> VALID 1788294799123)
   \<le> severity (calculateStatus (Some (DStr (date_string 2026 10 1)))
     \<lparr>warningDays1 = 90, warningDays2 = 60, warningDays3 = 30, criticalDays = 14,
      gracePeriodDays = 0, autoBlock = True\<rparr> VALID 1798294799123)"
proof -
  have "getUTCFullYear 1798294799123 = 2026" by code_simp
  then show ?thesis
    using year_2026 by (intro calculateStatus_monotone) simp_all
qed

end
