(* ===== verification/Tx.thy ===== *)
theory Tx
  imports Schema
begin

text \<open>
  Database transactions. \<open>apps/api/src/database/tenant-context.ts\<close> sets the tenant of a
  transaction, the policies of \<open>packages/database/migrations\<close> make every statement of the
  transaction see that tenant's rows only, and each service method runs as one
  \<open>drizzle.db.transaction\<close>. The PostgreSQL behaviour the code relies on is written out: a failing
  statement aborts the transaction, an aborted transaction refuses every statement but a rollback
  to a savepoint, an error leaving the body rolls everything back, and a \<open>COMMIT\<close> of an aborted
  transaction is a rollback that reports no error.

  The environment \<open>env\<close> is what the program does not control: which statements fail for outside
  reasons (\<open>e_fault\<close>, by statement number), the UUIDs \<open>gen_random_uuid()\<close> draws, the clock, the
  mail transport and the queue server (\<open>e_smtp\<close>, \<open>e_redis\<close>: the message of a failing call), the
  texts PostgreSQL takes for an \<open>inet\<close>, and the order in which a statement comes across the rows of a
  table (\<open>e_rank\<close>, by statement number and position of the row). Theorems quantify over it.
\<close>

section \<open>Exceptions\<close>

text \<open>
  A NestJS \<open>HttpException\<close> with its status and the argument it was built from, a database error
  with its SQLSTATE (drizzle wraps the driver's error and keeps it as the cause), any other error.
\<close>

datatype http_body = Message string | Custom "(string \<times> json) list"

datatype exn = HttpEx nat http_body | DbError string | JsError string

abbreviation BadRequestException :: "http_body \<Rightarrow> exn" where "BadRequestException \<equiv> HttpEx 400"
abbreviation UnauthorizedException :: "http_body \<Rightarrow> exn" where "UnauthorizedException \<equiv> HttpEx 401"
abbreviation ForbiddenException :: "http_body \<Rightarrow> exn" where "ForbiddenException \<equiv> HttpEx 403"
abbreviation NotFoundException :: "http_body \<Rightarrow> exn" where "NotFoundException \<equiv> HttpEx 404"
abbreviation ConflictException :: "http_body \<Rightarrow> exn" where "ConflictException \<equiv> HttpEx 409"

text \<open>
  \<open>err.message\<close>: drizzle's message for a database error is the library's (\<open>drizzle_message\<close>); an HTTP
  exception made from an object takes the object's message, and its own name when there is none.
\<close>

definition http_name :: "nat \<Rightarrow> string" where
  "http_name st =
     (if st = 400 then ''Bad Request Exception'' else if st = 401 then ''Unauthorized Exception''
      else if st = 403 then ''Forbidden Exception'' else if st = 404 then ''Not Found Exception''
      else if st = 409 then ''Conflict Exception'' else ''Http Exception'')"

fun exn_message :: "(string \<Rightarrow> string) \<Rightarrow> exn \<Rightarrow> string" where
  "exn_message drizzle_message (DbError c) = drizzle_message c"
| "exn_message drizzle_message (JsError m) = m"
| "exn_message drizzle_message (HttpEx st (Message m)) = m"
| "exn_message drizzle_message (HttpEx st (Custom b)) =
     (case map_of b ''message'' of Some (JStr m) \<Rightarrow> m | _ \<Rightarrow> http_name st)"

section \<open>World, environment, transaction state\<close>

record env =
  e_fault :: "nat \<Rightarrow> string option"
  e_uuid :: "nat \<Rightarrow> uuid"
  e_clock :: "nat \<Rightarrow> instant"
  e_smtp :: "nat \<Rightarrow> string option"
  e_redis :: "nat \<Rightarrow> string option"
  e_inet :: "string \<Rightarrow> bool"
  e_rank :: "nat \<Rightarrow> nat \<Rightarrow> nat"

text \<open>What leaves the process and no rollback takes back, with the count of effects so far.\<close>

record ext =
  x_tick :: nat
  x_mails :: "mail list"
  x_reminders :: "reminder_job list"
  x_imports :: "import_job list"
  x_alerts :: "failure_alert list"

record world =
  w_db :: db
  w_ext :: ext

record txs =
  t_db :: db
  t_ext :: ext
  t_now :: instant
  t_tenant :: "string option"
  t_aborted :: bool
  t_saves :: "(string \<times> db) list"

type_synonym 'a tx = "env \<Rightarrow> txs \<Rightarrow> (exn + 'a) \<times> txs"
type_synonym 'a io = "env \<Rightarrow> world \<Rightarrow> (exn + 'a) \<times> world"

definition tick :: "ext \<Rightarrow> ext" where
  "tick x = x\<lparr>x_tick := Suc (x_tick x)\<rparr>"

section \<open>Sequencing\<close>

definition treturn :: "'a \<Rightarrow> 'a tx" where
  "treturn a E s = (Inr a, s)"

definition tthrow :: "exn \<Rightarrow> 'a tx" where
  "tthrow e E s = (Inl e, s)"

definition tbind :: "'a tx \<Rightarrow> ('a \<Rightarrow> 'b tx) \<Rightarrow> 'b tx" where
  "tbind m k E s = (case m E s of (Inl e, s') \<Rightarrow> (Inl e, s') | (Inr a, s') \<Rightarrow> k a E s')"

abbreviation tthen :: "'a tx \<Rightarrow> 'b tx \<Rightarrow> 'b tx" where
  "tthen m k \<equiv> tbind m (\<lambda>_. k)"

text \<open>\<open>try { m } catch (err) { h(err) }\<close>.\<close>

definition tcatch :: "'a tx \<Rightarrow> (exn \<Rightarrow> 'a tx) \<Rightarrow> 'a tx" where
  "tcatch m h E s = (case m E s of (Inl e, s') \<Rightarrow> h e E s' | (Inr a, s') \<Rightarrow> (Inr a, s'))"

definition iobind :: "'a io \<Rightarrow> ('a \<Rightarrow> 'b io) \<Rightarrow> 'b io" where
  "iobind m k E w = (case m E w of (Inl e, w') \<Rightarrow> (Inl e, w') | (Inr a, w') \<Rightarrow> k a E w')"

definition ioreturn :: "'a \<Rightarrow> 'a io" where
  "ioreturn a E w = (Inr a, w)"

definition iothrow :: "exn \<Rightarrow> 'a io" where
  "iothrow e E w = (Inl e, w)"

text \<open>\<open>try { x = await m } catch (err)\<close> outside a transaction: the outcome of \<open>m\<close> as a value.\<close>

definition ioattempt :: "'a io \<Rightarrow> (exn + 'a) io" where
  "ioattempt m E w = (case m E w of (r, w') \<Rightarrow> (Inr r, w'))"

fun ioresult :: "exn + 'a \<Rightarrow> 'a io" where
  "ioresult (Inl e) = iothrow e"
| "ioresult (Inr a) = ioreturn a"

text \<open>A call that leaves the process, outside any transaction.\<close>

definition io_external :: "(env \<Rightarrow> nat \<Rightarrow> string option) \<Rightarrow> (ext \<Rightarrow> ext) \<Rightarrow> unit io" where
  "io_external fails f E w =
     (case fails E (x_tick (w_ext w)) of
        Some msg \<Rightarrow> (Inl (JsError msg), w\<lparr>w_ext := tick (w_ext w)\<rparr>)
      | None \<Rightarrow> (Inr (), w\<lparr>w_ext := tick (f (w_ext w))\<rparr>))"

section \<open>Statements\<close>

text \<open>A statement's own work: from the environment, its number, the transaction's time and tenant
  setting and the database, to an SQLSTATE or rows and the new database.\<close>

type_synonym 'a stmt = "env \<Rightarrow> nat \<Rightarrow> instant \<Rightarrow> string option \<Rightarrow> db \<Rightarrow> string + ('a \<times> db)"

definition statement :: "'a stmt \<Rightarrow> 'a tx" where
  "statement f E s =
     (let n = x_tick (t_ext s); s' = s\<lparr>t_ext := tick (t_ext s)\<rparr>
      in if t_aborted s then (Inl (DbError ''25P02''), s')
         else case e_fault E n of
             Some c \<Rightarrow> (Inl (DbError c), s'\<lparr>t_aborted := True\<rparr>)
           | None \<Rightarrow>
               (case f E n (t_now s) (t_tenant s) (t_db s) of
                  Inl c \<Rightarrow> (Inl (DbError c), s'\<lparr>t_aborted := True\<rparr>)
                | Inr (a, d) \<Rightarrow> (Inr a, s'\<lparr>t_db := d\<rparr>)))"

text \<open>\<open>set_config('app.current_tenant_id', tenantId, true)\<close>.\<close>

definition setTenantContext :: "uuid \<Rightarrow> unit tx" where
  "setTenantContext tenantId E s =
     (case statement (\<lambda>_ _ _ _ d. Inr ((), d)) E s of
        (Inl e, s') \<Rightarrow> (Inl e, s')
      | (Inr _, s') \<Rightarrow> (Inr (), s'\<lparr>t_tenant := Some tenantId\<rparr>))"

text \<open>\<open>SAVEPOINT name\<close>, \<open>RELEASE SAVEPOINT name\<close> and \<open>ROLLBACK TO SAVEPOINT name\<close>.\<close>

definition savepoint :: "string \<Rightarrow> unit tx" where
  "savepoint nm E s =
     (case statement (\<lambda>_ _ _ _ d. Inr ((), d)) E s of
        (Inl e, s') \<Rightarrow> (Inl e, s')
      | (Inr _, s') \<Rightarrow> (Inr (), s'\<lparr>t_saves := (nm, t_db s) # t_saves s\<rparr>))"

definition release_savepoint :: "string \<Rightarrow> unit tx" where
  "release_savepoint nm E s =
     (case statement (\<lambda>_ _ _ _ d. if nm \<in> fst ` set (t_saves s) then Inr ((), d) else Inl ''3B001'') E s of
        (Inl e, s') \<Rightarrow> (Inl e, s')
      | (Inr _, s') \<Rightarrow> (Inr (), s'\<lparr>t_saves := tl (dropWhile (\<lambda>p. fst p \<noteq> nm) (t_saves s))\<rparr>))"

definition rollback_to_savepoint :: "string \<Rightarrow> unit tx" where
  "rollback_to_savepoint nm E s =
     (let n = x_tick (t_ext s); s' = s\<lparr>t_ext := tick (t_ext s)\<rparr>
      in case e_fault E n of
          Some c \<Rightarrow> (Inl (DbError c), s'\<lparr>t_aborted := True\<rparr>)
        | None \<Rightarrow>
            (case dropWhile (\<lambda>p. fst p \<noteq> nm) (t_saves s) of
               [] \<Rightarrow> (Inl (DbError ''3B001''), s'\<lparr>t_aborted := True\<rparr>)
             | p # ps \<Rightarrow> (Inr (), s'\<lparr>t_db := snd p, t_aborted := False, t_saves := p # ps\<rparr>)))"

text \<open>
  \<open>drizzle.db.transaction(body)\<close>: \<open>BEGIN\<close>, the body, then \<open>COMMIT\<close>, or \<open>ROLLBACK\<close> and the error
  again when the body or the commit throws.
\<close>

definition transaction :: "'a tx \<Rightarrow> 'a io" where
  "transaction body E w =
     (let n = x_tick (w_ext w)
      in case e_fault E n of
          Some c \<Rightarrow> (Inl (DbError c), w\<lparr>w_ext := tick (w_ext w)\<rparr>)
        | None \<Rightarrow>
            (case body E \<lparr>t_db = w_db w, t_ext = tick (w_ext w), t_now = e_clock E n,
                         t_tenant = None, t_aborted = False, t_saves = []\<rparr> of
               (Inl e, s) \<Rightarrow> (Inl e, w\<lparr>w_ext := tick (t_ext s)\<rparr>)
             | (Inr a, s) \<Rightarrow>
                 (case e_fault E (x_tick (t_ext s)) of
                    Some c \<Rightarrow> (Inl (DbError c), w\<lparr>w_ext := tick (tick (t_ext s))\<rparr>)
                  | None \<Rightarrow>
                      (Inr a, \<lparr>w_db = (if t_aborted s then w_db w else t_db s),
                               w_ext = tick (t_ext s)\<rparr>))))"

text \<open>\<open>new Date()\<close> inside a transaction body: the clock of the host at this point.\<close>

definition new_Date :: "instant tx" where
  "new_Date E s = (Inr (e_clock E (x_tick (t_ext s))), s)"

text \<open>
  A call that leaves the process in the middle of a transaction (a mail, a queued job): it fails with
  the message the environment gives for this point, or happens for good.
\<close>

definition external :: "(env \<Rightarrow> nat \<Rightarrow> string option) \<Rightarrow> (ext \<Rightarrow> ext) \<Rightarrow> unit tx" where
  "external fails f E s =
     (case fails E (x_tick (t_ext s)) of
        Some msg \<Rightarrow> (Inl (JsError msg), s\<lparr>t_ext := tick (t_ext s)\<rparr>)
      | None \<Rightarrow> (Inr (), s\<lparr>t_ext := tick (f (t_ext s))\<rparr>))"

text \<open>\<open>for (const x of xs) await body(x)\<close>, inside a transaction and between transactions.\<close>

fun tforeach :: "('a \<Rightarrow> unit tx) \<Rightarrow> 'a list \<Rightarrow> unit tx" where
  "tforeach body [] = treturn ()"
| "tforeach body (x # xs) = tthen (body x) (tforeach body xs)"

fun ioforeach :: "('a \<Rightarrow> unit io) \<Rightarrow> 'a list \<Rightarrow> unit io" where
  "ioforeach body [] = ioreturn ()"
| "ioforeach body (x # xs) = iobind (body x) (\<lambda>_. ioforeach body xs)"

section \<open>Tables under row-level security\<close>

text \<open>
  The policy of every tenant table:
  \<open>NULLIF(current_setting('app.current_tenant_id', true), '') IS NOT NULL AND tenant_id = ...\<close>.
\<close>

definition rls_visible :: "string option \<Rightarrow> uuid \<Rightarrow> bool" where
  "rls_visible setting tid =
     (case setting of None \<Rightarrow> False | Some v \<Rightarrow> v \<noteq> [] \<and> tid = v)"

text \<open>A table: its rows in the database, and the tenant of a row.\<close>

record 'r table =
  tb_rows :: "db \<Rightarrow> 'r list"
  tb_put :: "'r list \<Rightarrow> db \<Rightarrow> db"
  tb_tenant :: "'r \<Rightarrow> uuid"

definition visible_rows :: "'r table \<Rightarrow> string option \<Rightarrow> ('r \<Rightarrow> bool) \<Rightarrow> db \<Rightarrow> 'r list" where
  "visible_rows T g p d = filter (\<lambda>r. rls_visible g (tb_tenant T r) \<and> p r) (tb_rows T d)"

text \<open>\<open>SELECT ... WHERE p\<close>.\<close>

definition select_where :: "'r table \<Rightarrow> ('r \<Rightarrow> bool) \<Rightarrow> 'r list tx" where
  "select_where T p = statement (\<lambda>E n now g d. Inr (visible_rows T g p d, d))"

text \<open>
  \<open>INSERT ... RETURNING\<close>: the row is built from a fresh UUID and the time; the column types (22P02),
  the policy's check (42501), the unique constraints over all rows of the table (23505) and the
  foreign keys (23503) can refuse it, in this order.
\<close>

definition insert_returning ::
  "'r table \<Rightarrow> (env \<Rightarrow> 'r \<Rightarrow> bool) \<Rightarrow> ('r \<Rightarrow> 'r \<Rightarrow> bool) \<Rightarrow> (db \<Rightarrow> 'r \<Rightarrow> bool)
    \<Rightarrow> (uuid \<Rightarrow> instant \<Rightarrow> 'r) \<Rightarrow> 'r list tx" where
  "insert_returning T typ clash fk mk = statement (\<lambda>E n now g d.
     let r = mk (e_uuid E n) now
     in if \<not> typ E r then Inl ''22P02''
        else if \<not> rls_visible g (tb_tenant T r) then Inl ''42501''
        else if list_ex (clash r) (tb_rows T d) then Inl ''23505''
        else if \<not> fk d r then Inl ''23503''
        else Inr ([r], tb_put T (tb_rows T d @ [r]) d))"

text \<open>\<open>UPDATE ... SET f WHERE p RETURNING\<close>: \<open>f\<close> may read the transaction's time.\<close>

definition update_returning ::
  "'r table \<Rightarrow> ('r \<Rightarrow> bool) \<Rightarrow> (instant \<Rightarrow> 'r \<Rightarrow> 'r) \<Rightarrow> 'r list tx" where
  "update_returning T p f = statement (\<lambda>E n now g d.
     let hit = (\<lambda>r. rls_visible g (tb_tenant T r) \<and> p r)
     in Inr (map (f now) (filter hit (tb_rows T d)),
             tb_put T (map (\<lambda>r. if hit r then f now r else r) (tb_rows T d)) d))"

text \<open>
  A statement whose parameters must be read as values of a column type first: \<open>well_typed code b m\<close>
  is the statement \<open>m\<close> when they can be (\<open>b\<close>), and the error \<open>code\<close> of the server otherwise.
\<close>

definition well_typed :: "string \<Rightarrow> bool \<Rightarrow> 'a tx \<Rightarrow> 'a tx" where
  "well_typed code b m = (if b then m else statement (\<lambda>E n now g d. Inl code))"

text \<open>
  The texts PostgreSQL reads as a \<open>uuid\<close>: 32 hex digits in groups of four, a hyphen allowed after
  each group, braces around all of it allowed.
\<close>

definition is_hex :: "char \<Rightarrow> bool" where
  "is_hex c \<longleftrightarrow> is_digit c \<or> (let n = (of_char c :: nat) in 65 \<le> n \<and> n \<le> 70 \<or> 97 \<le> n \<and> n \<le> 102)"

fun uuid_groups :: "nat \<Rightarrow> string \<Rightarrow> bool" where
  "uuid_groups 0 s = (s = [])"
| "uuid_groups (Suc n) s =
     (length (take 4 s) = 4 \<and> list_all is_hex (take 4 s)
      \<and> uuid_groups n (if 0 < n \<and> take 1 (drop 4 s) = ''-'' then drop 5 s else drop 4 s))"

definition pg_uuid :: "string \<Rightarrow> bool" where
  "pg_uuid s \<longleftrightarrow>
     (if s \<noteq> [] \<and> hd s = CHR 0x7B then last s = CHR 0x7D \<and> uuid_groups 8 (butlast (tl s)) else uuid_groups 8 s)"

text \<open>Two texts of one \<open>uuid\<close>: case and punctuation do not count.\<close>

definition uuid_canon :: "string \<Rightarrow> string" where
  "uuid_canon s = map (\<lambda>c. let n = (of_char c :: nat) in if 65 \<le> n \<and> n \<le> 70 then char_of (n + 32) else c)
     (filter is_hex s)"

definition same_uuid :: "string \<Rightarrow> string \<Rightarrow> bool" where
  "same_uuid a b \<longleftrightarrow> uuid_canon a = uuid_canon b"

text \<open>The texts of the form \<open>YYYY-MM-DD\<close> PostgreSQL reads as a \<open>date\<close>; year 0 is not one.\<close>

definition days_in_month :: "nat \<Rightarrow> nat \<Rightarrow> nat" where
  "days_in_month y m =
     (if m = 2 then (if is_leap (int y) then 29 else 28) else if m \<in> {4, 6, 9, 11} then 30 else 31)"

definition pg_date :: "string \<Rightarrow> bool" where
  "pg_date s \<longleftrightarrow>
     (let y = take 4 s; m = take 2 (drop 5 s); d = take 2 (drop 8 s)
      in s = y @ ''-'' @ m @ ''-'' @ d \<and> length s = 10 \<and> list_all is_digit (y @ m @ d)
         \<and> 1 \<le> undec y \<and> 1 \<le> undec m \<and> undec m \<le> 12 \<and> 1 \<le> undec d \<and> undec d \<le> days_in_month (undec y) (undec m))"

fun opt_date_ok :: "string option \<Rightarrow> bool" where
  "opt_date_ok None = True"
| "opt_date_ok (Some s) = pg_date s"

definition int4 :: "int \<Rightarrow> bool" where
  "int4 v \<longleftrightarrow> - 2147483648 \<le> v \<and> v \<le> 2147483647"

text \<open>\<open>LIMIT\<close> and \<open>OFFSET\<close>: numbers that are no \<open>bigint\<close> and negative ones are errors of the statement.\<close>

definition int8 :: "int \<Rightarrow> bool" where
  "int8 v \<longleftrightarrow> - 9223372036854775808 \<le> v \<and> v \<le> 9223372036854775807"

definition limit_offset :: "int \<Rightarrow> int \<Rightarrow> 'r list \<Rightarrow> string + 'r list" where
  "limit_offset lim off rs =
     (if \<not> int8 lim \<or> \<not> int8 off then Inl ''22003''
      else if lim < 0 then Inl ''2201W'' else if off < 0 then Inl ''2201X''
      else Inr (take (nat lim) (drop (nat off) rs)))"

text \<open>
  \<open>SELECT ... WHERE p ORDER BY key LIMIT lim OFFSET off\<close>: rows of one key come in the order in which the
  statement comes across them, which another statement need not share.
\<close>

definition scan_order :: "env \<Rightarrow> nat \<Rightarrow> 'r list \<Rightarrow> 'r list" where
  "scan_order E n rs = map (\<lambda>i. rs ! i) (sort_key (e_rank E n) [0..<length rs])"

definition select_page ::
  "'r table \<Rightarrow> ('r \<Rightarrow> bool) \<Rightarrow> ('r \<Rightarrow> 'k::linorder) \<Rightarrow> int \<Rightarrow> int \<Rightarrow> 'r list tx" where
  "select_page T p key lim off = statement (\<lambda>E n now g d.
     case limit_offset lim off (sort_key key (scan_order E n (visible_rows T g p d))) of
       Inl c \<Rightarrow> Inl c | Inr rs \<Rightarrow> Inr (rs, d))"

definition select_count :: "'r table \<Rightarrow> ('r \<Rightarrow> bool) \<Rightarrow> int tx" where
  "select_count T p = statement (\<lambda>E n now g d. Inr (int (length (visible_rows T g p d)), d))"

text \<open>\<open>tenants\<close> has no policy: a plain read.\<close>

definition select_tenants :: "(tenant_row \<Rightarrow> bool) \<Rightarrow> tenant_row list tx" where
  "select_tenants p = statement (\<lambda>E n now g d. Inr (filter p (tenants d), d))"

text \<open>A single read of \<open>tenants\<close> on the pool, outside any transaction.\<close>

definition query_tenants :: "(tenant_row \<Rightarrow> bool) \<Rightarrow> tenant_row list io" where
  "query_tenants p E w =
     (let w' = w\<lparr>w_ext := tick (w_ext w)\<rparr>
      in case e_fault E (x_tick (w_ext w)) of
          Some c \<Rightarrow> (Inl (DbError c), w')
        | None \<Rightarrow> (Inr (filter p (tenants (w_db w))), w'))"

definition employees_t :: "employee_row table" where
  "employees_t = \<lparr>tb_rows = employees, tb_put = (\<lambda>rs d. d\<lparr>employees := rs\<rparr>), tb_tenant = em_tenantId\<rparr>"

definition documents_t :: "document_row table" where
  "documents_t = \<lparr>tb_rows = documents, tb_put = (\<lambda>rs d. d\<lparr>documents := rs\<rparr>), tb_tenant = dc_tenantId\<rparr>"

definition expiry_policies_t :: "expiry_policy_row table" where
  "expiry_policies_t = \<lparr>tb_rows = expiryPolicies, tb_put = (\<lambda>rs d. d\<lparr>expiryPolicies := rs\<rparr>), tb_tenant = ep_tenantId\<rparr>"

definition audit_events_t :: "audit_row table" where
  "audit_events_t = \<lparr>tb_rows = auditEvents, tb_put = (\<lambda>rs d. d\<lparr>auditEvents := rs\<rparr>), tb_tenant = au_tenantId\<rparr>"

definition idempotency_keys_t :: "idempotency_row table" where
  "idempotency_keys_t = \<lparr>tb_rows = idempotencyKeys, tb_put = (\<lambda>rs d. d\<lparr>idempotencyKeys := rs\<rparr>), tb_tenant = ik_tenantId\<rparr>"

definition notification_policies_t :: "notification_policy_row table" where
  "notification_policies_t = \<lparr>tb_rows = tenantNotificationPolicies,
     tb_put = (\<lambda>rs d. d\<lparr>tenantNotificationPolicies := rs\<rparr>), tb_tenant = np_tenantId\<rparr>"

definition notification_log_t :: "notification_log_row table" where
  "notification_log_t = \<lparr>tb_rows = notificationLog, tb_put = (\<lambda>rs d. d\<lparr>notificationLog := rs\<rparr>), tb_tenant = nl_tenantId\<rparr>"

definition import_batches_t :: "import_batch_row table" where
  "import_batches_t = \<lparr>tb_rows = importBatches, tb_put = (\<lambda>rs d. d\<lparr>importBatches := rs\<rparr>), tb_tenant = ib_tenantId\<rparr>"

lemmas table_defs = employees_t_def documents_t_def expiry_policies_t_def audit_events_t_def
  idempotency_keys_t_def notification_policies_t_def notification_log_t_def import_batches_t_def

lemma table_simps [simp]:
  "tb_rows employees_t = employees" "tb_tenant employees_t = em_tenantId" "tb_put employees_t rs_employees d = d\<lparr>employees := rs_employees\<rparr>"
  "tb_rows documents_t = documents" "tb_tenant documents_t = dc_tenantId" "tb_put documents_t rs_documents d = d\<lparr>documents := rs_documents\<rparr>"
  "tb_rows expiry_policies_t = expiryPolicies" "tb_tenant expiry_policies_t = ep_tenantId" "tb_put expiry_policies_t rs_expiryPolicies d = d\<lparr>expiryPolicies := rs_expiryPolicies\<rparr>"
  "tb_rows audit_events_t = auditEvents" "tb_tenant audit_events_t = au_tenantId" "tb_put audit_events_t rs_auditEvents d = d\<lparr>auditEvents := rs_auditEvents\<rparr>"
  "tb_rows idempotency_keys_t = idempotencyKeys" "tb_tenant idempotency_keys_t = ik_tenantId" "tb_put idempotency_keys_t rs_idempotencyKeys d = d\<lparr>idempotencyKeys := rs_idempotencyKeys\<rparr>"
  "tb_rows notification_policies_t = tenantNotificationPolicies" "tb_tenant notification_policies_t = np_tenantId" "tb_put notification_policies_t rs_tenantNotificationPolicies d = d\<lparr>tenantNotificationPolicies := rs_tenantNotificationPolicies\<rparr>"
  "tb_rows notification_log_t = notificationLog" "tb_tenant notification_log_t = nl_tenantId" "tb_put notification_log_t rs_notificationLog d = d\<lparr>notificationLog := rs_notificationLog\<rparr>"
  "tb_rows import_batches_t = importBatches" "tb_tenant import_batches_t = ib_tenantId" "tb_put import_batches_t rs_importBatches d = d\<lparr>importBatches := rs_importBatches\<rparr>"
  by (simp_all add: table_defs)

end
