(* ===== verification/TxRules.thy ===== *)
theory TxRules
  imports Tx "HOL-Library.Multiset"
begin

text \<open>
  Reasoning about transactions. \<open>keeps I m\<close> says that \<open>m\<close> keeps the assertion \<open>I\<close> on the
  transaction state whatever the environment does and whether or not \<open>m\<close> throws; its rules follow
  the code's control flow. The locale \<open>db_relation\<close> turns a reflexive, transitive relation between
  databases into a rule for whole transactions, and is interpreted twice: for the rows of the other
  tenants (\<open>same_for_others\<close>) and for what the system never takes back (\<open>history\<close>). The locales
  \<open>isolated_table\<close> and \<open>historic_table\<close> are what a table owes these two relations; every table
  of the schema is an instance.
\<close>

named_theorems keeps_intros "rules that follow the control flow of a transaction"
named_theorems io_intros "relations kept by whole operations"

section \<open>Assertions kept by a transaction body\<close>

definition keeps :: "(txs \<Rightarrow> bool) \<Rightarrow> 'a tx \<Rightarrow> bool" where
  "keeps I m \<longleftrightarrow> (\<forall>E s. I s \<longrightarrow> I (snd (m E s)))"

lemma keepsD: "keeps I m \<Longrightarrow> I s \<Longrightarrow> m E s = (r, s') \<Longrightarrow> I s'"
  by (metis keeps_def snd_conv)

lemma keeps_return [keeps_intros]: "keeps I (treturn a)"
  by (simp add: keeps_def treturn_def)

lemma keeps_throw [keeps_intros]: "keeps I (tthrow e)"
  by (simp add: keeps_def tthrow_def)

lemma keeps_new_Date [keeps_intros]: "keeps I new_Date"
  by (simp add: keeps_def new_Date_def)

lemma keeps_bind [keeps_intros]:
  assumes "keeps I m" "\<And>a. keeps I (k a)"
  shows "keeps I (tbind m k)"
  unfolding keeps_def
proof (intro allI impI)
  fix E s assume I: "I s"
  obtain r s' where m: "m E s = (r, s')" by force
  with assms(1) I have "I s'" by (rule_tac keepsD)
  with assms(2) m show "I (snd (tbind m k E s))"
    by (cases r) (auto simp: tbind_def keeps_def)
qed

lemma keeps_catch [keeps_intros]:
  assumes "keeps I m" "\<And>e. keeps I (h e)"
  shows "keeps I (tcatch m h)"
  unfolding keeps_def
proof (intro allI impI)
  fix E s assume I: "I s"
  obtain r s' where m: "m E s = (r, s')" by force
  with assms(1) I have "I s'" by (rule_tac keepsD)
  with assms(2) m show "I (snd (tcatch m h E s))"
    by (cases r) (auto simp: tcatch_def keeps_def)
qed

lemma keeps_if [keeps_intros]: "(b \<Longrightarrow> keeps I m) \<Longrightarrow> (\<not> b \<Longrightarrow> keeps I m') \<Longrightarrow> keeps I (if b then m else m')"
  by simp

lemma keeps_option [keeps_intros]:
  "(x = None \<Longrightarrow> keeps I m) \<Longrightarrow> (\<And>y. x = Some y \<Longrightarrow> keeps I (k y))
    \<Longrightarrow> keeps I (case x of None \<Rightarrow> m | Some y \<Rightarrow> k y)"
  by (cases x) auto

lemma keeps_let [keeps_intros]: "(\<And>a. a = x \<Longrightarrow> keeps I (k a)) \<Longrightarrow> keeps I (let a = x in k a)"
  by (simp add: Let_def)

lemma keeps_foreach [keeps_intros]: "(\<And>x. x \<in> set xs \<Longrightarrow> keeps I (body x)) \<Longrightarrow> keeps I (tforeach body xs)"
  by (induction xs) (auto intro: keeps_return keeps_bind)

section \<open>Relations between the database before and after\<close>

definition txinv :: "(db \<Rightarrow> db \<Rightarrow> bool) \<Rightarrow> uuid \<Rightarrow> db \<Rightarrow> txs \<Rightarrow> bool" where
  "txinv R t d0 s \<longleftrightarrow>
     R d0 (t_db s) \<and> (\<forall>p \<in> set (t_saves s). R d0 (snd p)) \<and> (t_tenant s = None \<or> t_tenant s = Some t)"

definition stmt_rel :: "(db \<Rightarrow> db \<Rightarrow> bool) \<Rightarrow> uuid \<Rightarrow> 'a stmt \<Rightarrow> bool" where
  "stmt_rel R t f \<longleftrightarrow>
     (\<forall>E n now g d a d'. g = None \<or> g = Some t \<longrightarrow> f E n now g d = Inr (a, d') \<longrightarrow> R d d')"

definition io_rel :: "(db \<Rightarrow> db \<Rightarrow> bool) \<Rightarrow> 'a io \<Rightarrow> bool" where
  "io_rel R m \<longleftrightarrow> (\<forall>E w. R (w_db w) (w_db (snd (m E w))))"

lemma keeps_external [keeps_intros]: "keeps (txinv R t d0) (external fails f)"
  by (simp add: keeps_def external_def txinv_def split: option.split)

lemma statement_db:
  assumes "statement f E s = (r, s')"
  shows "t_saves s' = t_saves s \<and> t_tenant s' = t_tenant s \<and> t_now s' = t_now s
    \<and> (t_db s' = t_db s \<or> (\<exists>a. f E (x_tick (t_ext s)) (t_now s) (t_tenant s) (t_db s) = Inr (a, t_db s') \<and> r = Inr a))"
  using assms by (auto simp: statement_def Let_def split: if_splits option.splits sum.splits prod.splits)

locale db_relation =
  fixes R :: "db \<Rightarrow> db \<Rightarrow> bool"
  assumes R_refl: "R d d"
    and R_trans: "R a b \<Longrightarrow> R b c \<Longrightarrow> R a c"
begin

lemma keeps_statement:
  assumes f: "stmt_rel R t f"
  shows "keeps (txinv R t d0) (statement f)"
  unfolding keeps_def
proof (intro allI impI)
  fix E s assume I: "txinv R t d0 s"
  obtain r s' where m: "statement f E s = (r, s')" by force
  have "R d0 (t_db s')"
    using statement_db [OF m] I f R_trans unfolding txinv_def stmt_rel_def by metis
  then show "txinv R t d0 (snd (statement f E s))"
    using statement_db [OF m] I m by (simp add: txinv_def)
qed

lemma stmt_rel_read:
  assumes "\<And>E n now g d a d'. f E n now g d = Inr (a, d') \<Longrightarrow> d' = d"
  shows "stmt_rel R t f"
  using assms R_refl unfolding stmt_rel_def by metis

lemma keeps_reads [keeps_intros]:
  "keeps (txinv R t d0) (select_where T p)"
  "keeps (txinv R t d0) (select_page T p key lim off)"
  "keeps (txinv R t d0) (select_count T p)"
  "keeps (txinv R t d0) (select_tenants q)"
  unfolding select_where_def select_page_def select_count_def select_tenants_def
  by (rule keeps_statement, rule stmt_rel_read, auto split: sum.splits)+

lemma keeps_query [keeps_intros]: "keeps (txinv R t d0) (statement (\<lambda>E n now g d. Inr (F E n now g d, d)))"
  by (rule keeps_statement, rule stmt_rel_read) simp

lemma keeps_well_typed [keeps_intros]:
  assumes "keeps (txinv R t d0) m"
  shows "keeps (txinv R t d0) (well_typed c b m)"
  using assms by (simp add: well_typed_def keeps_statement stmt_rel_def)

lemma keeps_noop: "keeps (txinv R t d0) (statement (\<lambda>_ _ _ _ d. if b then Inr ((), d) else Inl c))"
  by (rule keeps_statement, rule stmt_rel_read) (auto split: if_splits)

lemma keeps_setTenantContext [keeps_intros]: "keeps (txinv R t d0) (setTenantContext t)"
  unfolding keeps_def
proof (intro allI impI)
  fix E s assume I: "txinv R t d0 s"
  obtain r s' where m: "statement (\<lambda>_ _ _ _ d. Inr ((), d)) E s = (r, s')" by force
  then have "txinv R t d0 s'" using keepsD [OF keeps_noop [where b = True, simplified] I] by blast
  then show "txinv R t d0 (snd (setTenantContext t E s))"
    using m by (cases r) (auto simp: setTenantContext_def txinv_def)
qed

lemma keeps_savepoint [keeps_intros]: "keeps (txinv R t d0) (savepoint nm)"
  unfolding keeps_def
proof (intro allI impI)
  fix E s assume I: "txinv R t d0 s"
  obtain r s' where m: "statement (\<lambda>_ _ _ _ d. Inr ((), d)) E s = (r, s')" by force
  then have "txinv R t d0 s'" using keepsD [OF keeps_noop [where b = True, simplified] I] by blast
  then show "txinv R t d0 (snd (savepoint nm E s))"
    using m I by (cases r) (auto simp: savepoint_def txinv_def)
qed

lemma keeps_release [keeps_intros]: "keeps (txinv R t d0) (release_savepoint nm)"
  unfolding keeps_def
proof (intro allI impI)
  fix E s assume I: "txinv R t d0 s"
  let ?f = "\<lambda>_ _ _ _ d. if nm \<in> fst ` set (t_saves s) then Inr ((), d) else Inl ''3B001''"
  obtain r s' where m: "statement ?f E s = (r, s')" by force
  then have "txinv R t d0 s'" using keepsD [OF keeps_noop I] by blast
  moreover have "set (tl (dropWhile P xs)) \<subseteq> set xs" for P and xs :: "(string \<times> db) list"
    by (induction xs) (auto split: if_splits)
  ultimately show "txinv R t d0 (snd (release_savepoint nm E s))"
    using m statement_db [OF m] I by (cases r) (auto simp: release_savepoint_def txinv_def)
qed

lemma keeps_rollback_to [keeps_intros]: "keeps (txinv R t d0) (rollback_to_savepoint nm)"
  unfolding keeps_def
proof (intro allI impI)
  fix E s assume I: "txinv R t d0 s"
  have saved: "R d0 b" if "(a, b) \<in> set (t_saves s)" for a b
    using I that by (force simp: txinv_def)
  have "set ps \<subseteq> set (t_saves s)" if "dropWhile (\<lambda>p. fst p \<noteq> nm) (t_saves s) = ps" for ps
    using that set_dropWhileD by fastforce
  then show "txinv R t d0 (snd (rollback_to_savepoint nm E s))"
    using I by (auto intro: saved simp: rollback_to_savepoint_def txinv_def Let_def split: option.splits list.splits)
qed

lemma transaction_from:
  assumes "keeps (txinv R t (w_db w)) body"
  shows "R (w_db w) (w_db (snd (transaction body E w)))"
proof -
  let ?n = "x_tick (w_ext w)"
  let ?s = "\<lparr>t_db = w_db w, t_ext = tick (w_ext w), t_now = e_clock E ?n, t_tenant = None,
    t_aborted = False, t_saves = []\<rparr>"
  obtain r s where b: "body E ?s = (r, s)" by force
  have "txinv R t (w_db w) ?s" by (simp add: txinv_def R_refl)
  then have "txinv R t (w_db w) s" using keepsD [OF assms _ b] by blast
  then show ?thesis
    using b by (auto simp: transaction_def Let_def txinv_def R_refl split: option.splits sum.splits)
qed

lemma transaction_rel [io_intros]: "(\<And>d0. keeps (txinv R t d0) body) \<Longrightarrow> io_rel R (transaction body)"
  unfolding io_rel_def using transaction_from by blast

lemma iobind_rel [io_intros]:
  assumes "io_rel R m" "\<And>a. io_rel R (k a)"
  shows "io_rel R (iobind m k)"
  unfolding io_rel_def
proof (intro allI)
  fix E w
  obtain r w' where m: "m E w = (r, w')" by force
  then have 1: "R (w_db w) (w_db w')" using assms(1) unfolding io_rel_def by (metis snd_conv)
  show "R (w_db w) (w_db (snd (iobind m k E w)))"
  proof (cases r)
    case (Inr a)
    have "R (w_db w') (w_db (snd (k a E w')))" using assms(2) by (simp add: io_rel_def)
    then show ?thesis using m Inr R_trans [OF 1] by (simp add: iobind_def)
  qed (use m 1 in \<open>simp add: iobind_def\<close>)
qed

lemma io_foreach_rel [io_intros]: "(\<And>x. x \<in> set xs \<Longrightarrow> io_rel R (body x)) \<Longrightarrow> io_rel R (ioforeach body xs)"
proof (induction xs)
  case Nil
  then show ?case by (simp add: io_rel_def ioreturn_def R_refl)
next
  case (Cons x xs)
  then show ?case by (auto intro!: iobind_rel)
qed

lemma io_query_tenants_rel [io_intros]: "io_rel R (query_tenants p)"
  by (simp add: io_rel_def query_tenants_def Let_def R_refl split: option.split)

lemma io_return_rel [io_intros]: "io_rel R (ioreturn a)"
  by (simp add: io_rel_def ioreturn_def R_refl)

lemma io_attempt_rel [io_intros]: "io_rel R m \<Longrightarrow> io_rel R (ioattempt m)"
  by (simp add: io_rel_def ioattempt_def split: prod.split) (metis snd_conv)

lemma io_result_rel [io_intros]: "io_rel R (ioresult r)"
  by (cases r) (simp_all add: io_rel_def iothrow_def ioreturn_def R_refl)

lemma io_external_rel [io_intros]: "io_rel R (io_external fails f)"
  by (simp add: io_rel_def io_external_def R_refl split: option.split)

lemma io_if_rel [io_intros]: "(b \<Longrightarrow> io_rel R m) \<Longrightarrow> (\<not> b \<Longrightarrow> io_rel R m') \<Longrightarrow> io_rel R (if b then m else m')"
  by simp

lemma io_option_rel [io_intros]:
  "(x = None \<Longrightarrow> io_rel R m) \<Longrightarrow> (\<And>y. x = Some y \<Longrightarrow> io_rel R (k y))
    \<Longrightarrow> io_rel R (case x of None \<Rightarrow> m | Some y \<Rightarrow> k y)"
  by (cases x) auto

lemma io_sum_rel [io_intros]:
  "(\<And>y. x = Inl y \<Longrightarrow> io_rel R (h y)) \<Longrightarrow> (\<And>y. x = Inr y \<Longrightarrow> io_rel R (k y))
    \<Longrightarrow> io_rel R (case x of Inl y \<Rightarrow> h y | Inr y \<Rightarrow> k y)"
  by (cases x) auto

lemma io_throw_rel [io_intros]: "io_rel R (iothrow e)"
  by (simp add: io_rel_def iothrow_def R_refl)

end

section \<open>Tenant isolation\<close>

definition others :: "('r \<Rightarrow> uuid) \<Rightarrow> uuid \<Rightarrow> 'r list \<Rightarrow> 'r list" where
  "others tid t rs = filter (\<lambda>r. tid r \<noteq> t) rs"

definition same_for_others :: "uuid \<Rightarrow> db \<Rightarrow> db \<Rightarrow> bool" where
  "same_for_others t d d' \<longleftrightarrow>
     tenants d' = tenants d
     \<and> others em_tenantId t (employees d') = others em_tenantId t (employees d)
     \<and> others dc_tenantId t (documents d') = others dc_tenantId t (documents d)
     \<and> others ep_tenantId t (expiryPolicies d') = others ep_tenantId t (expiryPolicies d)
     \<and> others au_tenantId t (auditEvents d') = others au_tenantId t (auditEvents d)
     \<and> others ik_tenantId t (idempotencyKeys d') = others ik_tenantId t (idempotencyKeys d)
     \<and> others np_tenantId t (tenantNotificationPolicies d') = others np_tenantId t (tenantNotificationPolicies d)
     \<and> others nl_tenantId t (notificationLog d') = others nl_tenantId t (notificationLog d)
     \<and> others ib_tenantId t (importBatches d') = others ib_tenantId t (importBatches d)"

interpretation iso: db_relation "same_for_others t" for t
  by unfold_locales (auto simp: same_for_others_def)

text \<open>Operations that read only.\<close>

interpretation unchanged: db_relation "\<lambda>d d'. d' = d"
  by unfold_locales auto

locale isolated_table =
  fixes T :: "'r table"
  assumes rows_put: "tb_rows T (tb_put T rs d) = rs"
    and put_others: "others (tb_tenant T) t rs = others (tb_tenant T) t (tb_rows T d)
      \<Longrightarrow> same_for_others t d (tb_put T rs d)"
begin

lemma visible_tenant: "r \<in> set (visible_rows T (Some t) p d) \<Longrightarrow> tb_tenant T r = t"
  by (auto simp: visible_rows_def rls_visible_def)

lemma insert_isolated [keeps_intros]:
  "keeps (txinv (same_for_others t) t d0) (insert_returning T typ clash fk mk)"
  unfolding insert_returning_def
  by (rule iso.keeps_statement)
    (auto simp: stmt_rel_def Let_def rls_visible_def others_def
      intro!: put_others split: if_splits option.splits)

lemma update_isolated [keeps_intros]:
  assumes "\<And>now r. tb_tenant T (f now r) = tb_tenant T r"
  shows "keeps (txinv (same_for_others t) t d0) (update_returning T p f)"
  unfolding update_returning_def
  by (rule iso.keeps_statement)
    (auto simp: stmt_rel_def Let_def rls_visible_def others_def assms
      intro!: put_others filter_map_keep split: if_splits option.splits)

end

interpretation employees_iso: isolated_table employees_t
  by unfold_locales (auto simp: employees_t_def same_for_others_def)

interpretation documents_iso: isolated_table documents_t
  by unfold_locales (auto simp: documents_t_def same_for_others_def)

interpretation expiry_policies_iso: isolated_table expiry_policies_t
  by unfold_locales (auto simp: expiry_policies_t_def same_for_others_def)

interpretation audit_events_iso: isolated_table audit_events_t
  by unfold_locales (auto simp: audit_events_t_def same_for_others_def)

interpretation idempotency_keys_iso: isolated_table idempotency_keys_t
  by unfold_locales (auto simp: idempotency_keys_t_def same_for_others_def)

interpretation notification_policies_iso: isolated_table notification_policies_t
  by unfold_locales (auto simp: notification_policies_t_def same_for_others_def)

interpretation notification_log_iso: isolated_table notification_log_t
  by unfold_locales (auto simp: notification_log_t_def same_for_others_def)

interpretation import_batches_iso: isolated_table import_batches_t
  by unfold_locales (auto simp: import_batches_t_def same_for_others_def)

section \<open>What the system never takes back\<close>

text \<open>
  \<open>grows P xs ys\<close>: no element of \<open>xs\<close> is gone from \<open>ys\<close>, each is in its old place with a successor
  by \<open>P\<close>, and new elements come after them.
\<close>

definition grows :: "('r \<Rightarrow> 'r \<Rightarrow> bool) \<Rightarrow> 'r list \<Rightarrow> 'r list \<Rightarrow> bool" where
  "grows P xs ys \<longleftrightarrow> list_all2 P xs (take (length xs) ys)"

lemma grows_refl: "(\<And>x. P x x) \<Longrightarrow> grows P xs xs"
  by (simp add: grows_def list.rel_refl)

lemma grows_length: "grows P xs ys \<Longrightarrow> length xs \<le> length ys"
  by (auto simp: grows_def dest: list_all2_lengthD)

lemma grows_trans:
  assumes P: "\<And>a b c. P a b \<Longrightarrow> P b c \<Longrightarrow> P a c" and "grows P xs ys" "grows P ys zs"
  shows "grows P xs zs"
proof -
  have l: "length xs \<le> length ys" using assms(2) by (rule grows_length)
  have "list_all2 P (take (length xs) ys) (take (length xs) (take (length ys) zs))"
    using assms(3) unfolding grows_def by (rule list_all2_takeI)
  then have "list_all2 P (take (length xs) ys) (take (length xs) zs)" using l by (simp add: min_absorb1)
  with assms(2) show ?thesis
    unfolding grows_def by (rule list_all2_trans [of P P P, rotated]) (use P in blast)
qed

lemma grows_append: "(\<And>x. P x x) \<Longrightarrow> grows P xs (xs @ zs)"
  by (simp add: grows_def list.rel_refl)

lemma grows_map: "(\<And>x. x \<in> set xs \<Longrightarrow> P x (f x)) \<Longrightarrow> grows P xs (map f xs)"
  by (simp add: grows_def list_all2_map2 list.rel_refl_strong)

lemma grows_member: "grows P xs ys \<Longrightarrow> x \<in> set xs \<Longrightarrow> \<exists>y \<in> set ys. P x y"
  unfolding grows_def by (metis in_set_conv_nth in_set_takeD list_all2_conv_all_nth)

lemma grows_eq_prefix: "grows (=) xs ys \<longleftrightarrow> (\<exists>zs. ys = xs @ zs)"
  by (auto simp: grows_def list_all2_eq [symmetric]) (metis append_take_drop_id)

text \<open>An employee or document row keeps its identity, and an archived one never changes.\<close>

definition employee_later :: "employee_row \<Rightarrow> employee_row \<Rightarrow> bool" where
  "employee_later r r' \<longleftrightarrow>
     em_id r' = em_id r \<and> em_tenantId r' = em_tenantId r \<and> em_employeeCode r' = em_employeeCode r
     \<and> em_createdAt r' = em_createdAt r \<and> (em_deletedAt r \<noteq> None \<longrightarrow> r' = r)"

definition document_later :: "document_row \<Rightarrow> document_row \<Rightarrow> bool" where
  "document_later r r' \<longleftrightarrow>
     dc_id r' = dc_id r \<and> dc_tenantId r' = dc_tenantId r \<and> dc_employeeId r' = dc_employeeId r
     \<and> dc_docType r' = dc_docType r \<and> dc_createdAt r' = dc_createdAt r
     \<and> (dc_deletedAt r \<noteq> None \<longrightarrow> r' = r)"

definition notification_policy_later :: "notification_policy_row \<Rightarrow> notification_policy_row \<Rightarrow> bool" where
  "notification_policy_later r r' \<longleftrightarrow> np_id r' = np_id r \<and> np_tenantId r' = np_tenantId r"

definition import_batch_later :: "import_batch_row \<Rightarrow> import_batch_row \<Rightarrow> bool" where
  "import_batch_later r r' \<longleftrightarrow>
     ib_importBatchId r' = ib_importBatchId r \<and> ib_tenantId r' = ib_tenantId r
     \<and> ib_fileHash r' = ib_fileHash r \<and> ib_totalRows r' = ib_totalRows r"

definition history :: "db \<Rightarrow> db \<Rightarrow> bool" where
  "history d d' \<longleftrightarrow>
     tenants d' = tenants d
     \<and> grows employee_later (employees d) (employees d')
     \<and> grows document_later (documents d) (documents d')
     \<and> expiryPolicies d' = expiryPolicies d
     \<and> grows (=) (auditEvents d) (auditEvents d')
     \<and> grows (=) (idempotencyKeys d) (idempotencyKeys d')
     \<and> grows notification_policy_later (tenantNotificationPolicies d) (tenantNotificationPolicies d')
     \<and> grows (=) (notificationLog d) (notificationLog d')
     \<and> grows import_batch_later (importBatches d) (importBatches d')"

lemmas later_defs = employee_later_def document_later_def notification_policy_later_def
  import_batch_later_def

lemma later_refl [simp]:
  "employee_later r r" "document_later s s" "notification_policy_later p p" "import_batch_later b b"
  by (simp_all add: later_defs)

lemma later_trans:
  "employee_later a b \<Longrightarrow> employee_later b c \<Longrightarrow> employee_later a c"
  "document_later a' b' \<Longrightarrow> document_later b' c' \<Longrightarrow> document_later a' c'"
  "notification_policy_later p q \<Longrightarrow> notification_policy_later q r \<Longrightarrow> notification_policy_later p r"
  "import_batch_later x y \<Longrightarrow> import_batch_later y z \<Longrightarrow> import_batch_later x z"
  by (auto simp: later_defs)

lemmas grows_later_trans = grows_trans [of employee_later, OF later_trans(1)]
  grows_trans [of document_later, OF later_trans(2)]
  grows_trans [of notification_policy_later, OF later_trans(3)]
  grows_trans [of import_batch_later, OF later_trans(4)]
  grows_trans [of "(=)", OF trans]

lemma history_trans: "history a b \<Longrightarrow> history b c \<Longrightarrow> history a c"
  unfolding history_def by (auto intro: grows_later_trans)

interpretation hist: db_relation history
proof
  show "history d d" for d by (simp add: history_def grows_refl)
  show "history a b \<Longrightarrow> history b c \<Longrightarrow> history a c" for a b c by (rule history_trans)
qed

locale historic_table =
  fixes T :: "'r table" and later :: "'r \<Rightarrow> 'r \<Rightarrow> bool"
  assumes later_self: "later r r"
    and put_later: "grows later (tb_rows T d) rs \<Longrightarrow> history d (tb_put T rs d)"
begin

lemma insert_historic [keeps_intros]:
  "keeps (txinv history t d0) (insert_returning T typ clash fk mk)"
  unfolding insert_returning_def
  by (rule hist.keeps_statement)
    (auto simp: stmt_rel_def Let_def later_self intro!: put_later grows_append
      split: if_splits option.splits)

lemma update_historic [keeps_intros]:
  assumes "\<And>now r. p r \<Longrightarrow> later r (f now r)"
  shows "keeps (txinv history t d0) (update_returning T p f)"
  unfolding update_returning_def
  by (rule hist.keeps_statement)
    (auto simp: stmt_rel_def Let_def assms later_self intro!: put_later grows_map
      split: if_splits option.splits)

end

interpretation employees_hist: historic_table employees_t employee_later
  by unfold_locales (auto simp: employees_t_def history_def grows_refl)

interpretation documents_hist: historic_table documents_t document_later
  by unfold_locales (auto simp: documents_t_def history_def grows_refl)

interpretation audit_events_hist: historic_table audit_events_t "(=)"
  by unfold_locales (auto simp: audit_events_t_def history_def grows_refl)

interpretation idempotency_keys_hist: historic_table idempotency_keys_t "(=)"
  by unfold_locales (auto simp: idempotency_keys_t_def history_def grows_refl)

interpretation notification_policies_hist: historic_table notification_policies_t notification_policy_later
  by unfold_locales (auto simp: notification_policies_t_def history_def grows_refl)

interpretation notification_log_hist: historic_table notification_log_t "(=)"
  by unfold_locales (auto simp: notification_log_t_def history_def grows_refl)

interpretation import_batches_hist: historic_table import_batches_t import_batch_later
  by unfold_locales (auto simp: import_batches_t_def history_def grows_refl)

section \<open>Pages\<close>

text \<open>
  The order in which a statement comes across rows is some order of them: a page in the order of a key has
  the keys it should have, and the rows are determined where the keys are distinct.
\<close>

lemma mset_scan_order [simp]: "mset (scan_order E n rs) = mset rs"
proof -
  have "mset (scan_order E n rs) = image_mset (\<lambda>i. rs ! i) (mset [0..<length rs])"
    by (simp add: scan_order_def del: mset_upt)
  also have "\<dots> = mset rs" by (metis map_nth mset_map)
  finally show ?thesis .
qed

lemma scan_order_simps [simp]:
  "length (scan_order E n rs) = length rs" "set (scan_order E n rs) = set rs" "distinct (scan_order E n rs) = distinct rs"
  by (rule mset_eq_length mset_eq_setD mset_eq_imp_distinct_iff, rule mset_scan_order)+

lemma page_keys: "map key (sort_key key (scan_order E n rs)) = sort (map key rs)"
  by (rule properties_for_sort [symmetric]) simp_all

lemma page_rows: "inj_on key (set rs) \<Longrightarrow> sort_key key (scan_order E n rs) = sort_key key rs"
  by (rule sort_key_eq_sort_key) simp_all

section \<open>Runs in which nothing outside fails\<close>

definition quiet :: "env \<Rightarrow> bool" where
  "quiet E \<longleftrightarrow> (\<forall>n. e_fault E n = None)"

definition start :: "env \<Rightarrow> world \<Rightarrow> txs" where
  "start E w = \<lparr>t_db = w_db w, t_ext = tick (w_ext w), t_now = e_clock E (x_tick (w_ext w)),
     t_tenant = None, t_aborted = False, t_saves = []\<rparr>"

lemma statement_quiet:
  "quiet E \<Longrightarrow> \<not> t_aborted s \<Longrightarrow> statement f E s =
     (case f E (x_tick (t_ext s)) (t_now s) (t_tenant s) (t_db s) of
        Inl c \<Rightarrow> (Inl (DbError c), s\<lparr>t_ext := tick (t_ext s), t_aborted := True\<rparr>)
      | Inr (a, d) \<Rightarrow> (Inr a, s\<lparr>t_ext := tick (t_ext s), t_db := d\<rparr>))"
  by (simp add: statement_def quiet_def Let_def split: sum.split prod.split)

lemma setTenantContext_quiet:
  "quiet E \<Longrightarrow> \<not> t_aborted s \<Longrightarrow>
     setTenantContext t E s = (Inr (), s\<lparr>t_ext := tick (t_ext s), t_tenant := Some t\<rparr>)"
  by (simp add: setTenantContext_def statement_quiet)

lemma select_where_quiet:
  "quiet E \<Longrightarrow> \<not> t_aborted s \<Longrightarrow>
     select_where T p E s =
       (Inr (visible_rows T (t_tenant s) p (t_db s)), s\<lparr>t_ext := tick (t_ext s)\<rparr>)"
  by (simp add: select_where_def statement_quiet)

lemma select_page_quiet:
  "quiet E \<Longrightarrow> \<not> t_aborted s \<Longrightarrow>
     select_page T p key lim off E s =
       (case limit_offset lim off (sort_key key (scan_order E (x_tick (t_ext s)) (visible_rows T (t_tenant s) p (t_db s)))) of
          Inl c \<Rightarrow> (Inl (DbError c), s\<lparr>t_ext := tick (t_ext s), t_aborted := True\<rparr>)
        | Inr rs \<Rightarrow> (Inr rs, s\<lparr>t_ext := tick (t_ext s)\<rparr>))"
  by (simp add: select_page_def statement_quiet split: sum.split)

lemma select_count_quiet:
  "quiet E \<Longrightarrow> \<not> t_aborted s \<Longrightarrow>
     select_count T p E s =
       (Inr (int (length (visible_rows T (t_tenant s) p (t_db s)))), s\<lparr>t_ext := tick (t_ext s)\<rparr>)"
  by (simp add: select_count_def statement_quiet)

lemma insert_returning_quiet:
  "quiet E \<Longrightarrow> \<not> t_aborted s \<Longrightarrow>
     insert_returning T typ clash fk mk E s =
       (let r = mk (e_uuid E (x_tick (t_ext s))) (t_now s); s' = s\<lparr>t_ext := tick (t_ext s)\<rparr>;
            err = (\<lambda>c. (Inl (DbError c), s'\<lparr>t_aborted := True\<rparr>))
        in if \<not> typ E r then err ''22P02''
           else if \<not> rls_visible (t_tenant s) (tb_tenant T r) then err ''42501''
           else if list_ex (clash r) (tb_rows T (t_db s)) then err ''23505''
           else if \<not> fk (t_db s) r then err ''23503''
           else (Inr [r], s'\<lparr>t_db := tb_put T (tb_rows T (t_db s) @ [r]) (t_db s)\<rparr>))"
  by (simp add: insert_returning_def statement_quiet Let_def)

lemma update_returning_quiet:
  "quiet E \<Longrightarrow> \<not> t_aborted s \<Longrightarrow>
     update_returning T p f E s =
       (Inr (map (f (t_now s)) (visible_rows T (t_tenant s) p (t_db s))),
        s\<lparr>t_ext := tick (t_ext s),
          t_db := tb_put T (map (\<lambda>r. if rls_visible (t_tenant s) (tb_tenant T r) \<and> p r then f (t_now s) r else r)
            (tb_rows T (t_db s))) (t_db s)\<rparr>)"
  by (simp add: update_returning_def statement_quiet Let_def visible_rows_def)

lemma well_typed_True [simp]: "well_typed c True m = m"
  by (simp add: well_typed_def)

lemma well_typed_bad_quiet:
  "quiet E \<Longrightarrow> \<not> t_aborted s \<Longrightarrow> \<not> b \<Longrightarrow>
     well_typed c b m E s = (Inl (DbError c), s\<lparr>t_ext := tick (t_ext s), t_aborted := True\<rparr>)"
  by (simp add: well_typed_def statement_quiet)

lemma select_tenants_quiet:
  "quiet E \<Longrightarrow> \<not> t_aborted s \<Longrightarrow>
     select_tenants p E s = (Inr (filter p (tenants (t_db s))), s\<lparr>t_ext := tick (t_ext s)\<rparr>)"
  by (simp add: select_tenants_def statement_quiet)

lemma transaction_quiet:
  "quiet E \<Longrightarrow> transaction body E w =
     (case body E (start E w) of
        (Inl e, s) \<Rightarrow> (Inl e, w\<lparr>w_ext := tick (t_ext s)\<rparr>)
      | (Inr a, s) \<Rightarrow> (Inr a, \<lparr>w_db = (if t_aborted s then w_db w else t_db s), w_ext = tick (t_ext s)\<rparr>))"
  by (simp add: transaction_def quiet_def start_def Let_def split: sum.split prod.split)

lemma start_simps [simp]:
  "t_db (start E w) = w_db w" "t_tenant (start E w) = None" "\<not> t_aborted (start E w)"
  "t_saves (start E w) = []" "t_ext (start E w) = tick (w_ext w)"
  "t_now (start E w) = e_clock E (x_tick (w_ext w))"
  by (simp_all add: start_def)

lemma tick_simps [simp]:
  "x_tick (tick x) = Suc (x_tick x)" "x_mails (tick x) = x_mails x"
  "x_reminders (tick x) = x_reminders x" "x_imports (tick x) = x_imports x"
  "x_alerts (tick x) = x_alerts x"
  by (simp_all add: tick_def)

lemmas quiet_simps = setTenantContext_quiet select_where_quiet select_page_quiet select_count_quiet
  select_tenants_quiet insert_returning_quiet update_returning_quiet transaction_quiet

lemmas tx_simps = new_Date_def tbind_def tcatch_def treturn_def tthrow_def iobind_def ioreturn_def iothrow_def

end
