(* ===== verification/Keyed.thy ===== *)
theory Keyed
  imports TxRules
begin

text \<open>
  Reading and writing one row by its id. The services fetch the live row of an id and update the
  rows that match the id again; the locale \<open>keyed_table\<close> shows once, for every table whose ids are
  distinct, that the second statement meets exactly the row the first one returned.
\<close>

definition ids_distinct :: "'r table \<Rightarrow> ('r \<Rightarrow> string) \<Rightarrow> db \<Rightarrow> bool" where
  "ids_distinct T key d \<longleftrightarrow> distinct (map key (tb_rows T d))"

text \<open>The row a tenant's request for the condition \<open>p\<close> finds.\<close>

definition found :: "'r table \<Rightarrow> uuid \<Rightarrow> ('r \<Rightarrow> bool) \<Rightarrow> db \<Rightarrow> 'r option" where
  "found T t p d = first_row (visible_rows T (Some t) p d)"

definition replace_row :: "'r table \<Rightarrow> 'r \<Rightarrow> 'r \<Rightarrow> db \<Rightarrow> db" where
  "replace_row T x x' d = tb_put T (map (\<lambda>r. if r = x then x' else r) (tb_rows T d)) d"

lemma found_visible: "found T t p d = Some x \<Longrightarrow>
    x \<in> set (tb_rows T d) \<and> rls_visible (Some t) (tb_tenant T x) \<and> p x"
  unfolding found_def visible_rows_def by (auto dest: first_row_filter_Some)

lemma found_tenant: "found T t p d = Some x \<Longrightarrow> tb_tenant T x = t"
  by (drule found_visible) (simp add: rls_visible_def)

lemma first_take1 [simp]: "first_row (take (Suc 0) xs) = first_row xs"
  by (cases xs) auto

locale keyed_table =
  fixes T :: "'r table" and key :: "'r \<Rightarrow> string" and ask :: "string \<Rightarrow> 'r \<Rightarrow> bool"
  assumes rows_of_put: "tb_rows T (tb_put T rs d) = rs"
    and put_rows: "tb_put T (tb_rows T d) d = d"
    and ask_key: "ask i r \<Longrightarrow> key r = uuid_canon i"
begin

lemma found_iff:
  assumes "ids_distinct T key d" "found T t (ask i) d = Some x" "r \<in> set (tb_rows T d)"
  shows "rls_visible (Some t) (tb_tenant T r) \<and> ask i r \<longleftrightarrow> r = x"
proof -
  note x = found_visible [OF assms(2)]
  have "r = x" if "ask i r"
    using assms(1,3) x ask_key [OF that] ask_key [of i x]
    unfolding ids_distinct_def distinct_map by (metis inj_onD)
  then show ?thesis using x by blast
qed

lemma found_filter:
  assumes "ids_distinct T key d" "found T t (ask i) d = Some x"
  shows "filter (\<lambda>r. rls_visible (Some t) (tb_tenant T r) \<and> ask i r \<and> Q r) (tb_rows T d) =
    (if Q x then [x] else [])"
proof -
  have "filter (\<lambda>r. rls_visible (Some t) (tb_tenant T r) \<and> ask i r \<and> Q r) (tb_rows T d)
      = filter (\<lambda>r. r = x \<and> Q r) (tb_rows T d)"
    using found_iff [OF assms] by (intro filter_cong) auto
  also have "\<dots> = (if Q x then [x] else [])"
  proof (cases "Q x")
    case True
    have "distinct (tb_rows T d)" using assms(1) by (simp add: ids_distinct_def distinct_map)
    then show ?thesis
      using True found_visible [OF assms(2)] filter_unique [of "\<lambda>y. y" "tb_rows T d" x "\<lambda>r. r = x \<and> Q r"]
      by simp
  qed (auto simp: filter_empty_conv)
  finally show ?thesis .
qed

lemma found_map:
  assumes "ids_distinct T key d" "found T t (ask i) d = Some x"
  shows "tb_put T (map (\<lambda>r. if rls_visible (Some t) (tb_tenant T r) \<and> ask i r \<and> Q r then f r else r)
      (tb_rows T d)) d = (if Q x then replace_row T x (f x) d else d)"
proof -
  have "map (\<lambda>r. if rls_visible (Some t) (tb_tenant T r) \<and> ask i r \<and> Q r then f r else r) (tb_rows T d)
      = (if Q x then map (\<lambda>r. if r = x then f x else r) (tb_rows T d) else tb_rows T d)"
  proof (cases "Q x")
    case False
    then have "\<not> (rls_visible (Some t) (tb_tenant T r) \<and> ask i r \<and> Q r)" if "r \<in> set (tb_rows T d)" for r
      using found_iff [OF assms that] by blast
    then show ?thesis using False by (auto intro!: map_id_on)
  qed (use found_iff [OF assms] in auto)
  then show ?thesis by (simp add: replace_row_def put_rows)
qed

lemma replace_distinct:
  assumes "key x' = key x"
  shows "ids_distinct T key (replace_row T x x' d) = ids_distinct T key d"
proof -
  have "key (if r = x then x' else r) = key r" for r using assms by simp
  then show ?thesis by (simp add: ids_distinct_def replace_row_def rows_of_put comp_def)
qed

lemma found_replaced:
  assumes "ids_distinct T key d" "found T t (ask i) d = Some x"
    and "tb_tenant T x' = tb_tenant T x" "ask i x'"
  shows "found T t (ask i) (replace_row T x x' d) = Some x'"
proof -
  let ?g = "\<lambda>r. if r = x then x' else r"
  let ?P = "\<lambda>r. rls_visible (Some t) (tb_tenant T r) \<and> ask i r"
  have "?P (?g r) = ?P r" for r using assms(3,4) found_visible [OF assms(2)] by simp
  then have "filter ?P (map ?g (tb_rows T d)) = map ?g (filter ?P (tb_rows T d))"
    by (simp add: filter_map comp_def)
  also have "filter ?P (tb_rows T d) = [x]" using found_filter [OF assms(1,2), of "\<lambda>_. True"] by simp
  finally show ?thesis by (simp add: found_def visible_rows_def replace_row_def rows_of_put)
qed

lemma found_removed:
  assumes "ids_distinct T key d" "found T t (ask i) d = Some x" "\<not> ask i x'"
  shows "found T t (ask i) (replace_row T x x' d) = None"
proof -
  have "\<not> (rls_visible (Some t) (tb_tenant T (if r = x then x' else r)) \<and> ask i (if r = x then x' else r))"
    if "r \<in> set (tb_rows T d)" for r
    using found_iff [OF assms(1,2) that] assms(3) by auto
  then show ?thesis
    by (simp add: found_def visible_rows_def replace_row_def rows_of_put filter_map comp_def filter_empty_conv)
qed

text \<open>The two statements of an update: the row found is the row written.\<close>

lemma select_one_quiet:
  "quiet E \<Longrightarrow> \<not> t_aborted s \<Longrightarrow> t_tenant s = Some t \<Longrightarrow>
     select_where T (ask i) E s = (Inr (visible_rows T (Some t) (ask i) (t_db s)), s\<lparr>t_ext := tick (t_ext s)\<rparr>)"
  by (simp add: select_where_quiet)

lemma update_one_quiet:
  assumes "quiet E" "\<not> t_aborted s" "t_tenant s = Some t" "ids_distinct T key (t_db s)"
    and "found T t (ask i) (t_db s) = Some x"
  shows "update_returning T (\<lambda>r. ask i r \<and> Q r) f E s =
    (if Q x then (Inr [f (t_now s) x],
       s\<lparr>t_ext := tick (t_ext s), t_db := replace_row T x (f (t_now s) x) (t_db s)\<rparr>)
     else (Inr [], s\<lparr>t_ext := tick (t_ext s)\<rparr>))"
  using assms by (simp add: update_returning_quiet visible_rows_def found_filter [OF assms(4,5)]
      found_map [OF assms(4,5)])

lemmas update_all_quiet = update_one_quiet [where Q = "\<lambda>_. True", simplified]

end

lemma same_db_world: "\<lparr>w_db = w_db w, w_ext = x\<rparr> = w\<lparr>w_ext := x\<rparr>"
  by simp

lemma extends_world:
  "(\<exists>x. \<lparr>w_db = w_db w, w_ext = y\<rparr> = w\<lparr>w_ext := x\<rparr> \<and> P x) \<longleftrightarrow> P y"
  "(\<exists>x. \<lparr>w_db = w_db w, w_ext = y\<rparr> = w\<lparr>w_ext := x\<rparr>) \<longleftrightarrow> True"
  by (cases w, auto)+

lemmas frame_simps = setTenantContext_quiet transaction_quiet tx_simps

end
