(* ===== verification/Sample.thy ===== *)
theory Sample
  imports Keyed
begin

text \<open>
  A small concrete world on which hypotheses of the development's theorems are shown satisfiable:
  two tenants, one employee and one document of the first of them, and an environment in which no
  statement fails.
\<close>

definition sample_uuid :: "nat \<Rightarrow> uuid" where
  "sample_uuid n = padStart 32 (CHR ''0'') (dec n)"

definition sample_env :: env where
  "sample_env = \<lparr>e_fault = (\<lambda>_. None), e_uuid = (\<lambda>n. sample_uuid (1000 + n)),
     e_clock = (\<lambda>n. 1767225600000 + int n), e_smtp = (\<lambda>_. None), e_redis = (\<lambda>_. None),
     e_inet = (\<lambda>_. True), e_rank = (\<lambda>_ i. i)\<rparr>"

text \<open>The same environment with one failing statement.\<close>

definition faulty_env :: "nat \<Rightarrow> env" where
  "faulty_env k = sample_env\<lparr>e_fault := (\<lambda>n. if n = k then Some ''57014'' else None)\<rparr>"

definition sample_ext :: ext where
  "sample_ext = \<lparr>x_tick = 0, x_mails = [], x_reminders = [], x_imports = [], x_alerts = []\<rparr>"

definition acme :: uuid where "acme = sample_uuid 1"
definition globex :: uuid where "globex = sample_uuid 2"

definition sample_tenant :: "uuid \<Rightarrow> string \<Rightarrow> tenant_row" where
  "sample_tenant i s = \<lparr>tn_id = i, tn_name = s, tn_slug = s, tn_status = TenantActive, tn_createdAt = 0\<rparr>"

definition sample_employee :: employee_row where
  "sample_employee = \<lparr>em_id = sample_uuid 11, em_tenantId = acme, em_employeeCode = ''E-1'',
     em_fullName = ''Ada Lovelace'', em_firstName = Some ''Ada'', em_lastName = Some ''Lovelace'',
     em_email = Some ''ada@acme.test'', em_department = Some ''IT'', em_jobTitle = None,
     em_branch = None, em_responsibleOfficerId = None, em_status = Active,
     em_createdAt = 1, em_version = 1, em_deletedAt = None\<rparr>"

definition sample_document :: document_row where
  "sample_document = \<lparr>dc_id = sample_uuid 21, dc_tenantId = acme, dc_employeeId = Some (sample_uuid 11),
     dc_docType = Passport, dc_docNumber = ''P-1'', dc_issueDate = Some ''2020-01-01'',
     dc_expiryDate = Some ''2030-01-01'', dc_status = ''valid'', dc_expiryStatus = VALID,
     dc_version = 1, dc_renewalStartedAt = None, dc_exceptionReason = None, dc_createdAt = 2,
     dc_deletedAt = None\<rparr>"

definition sample_db :: db where
  "sample_db = \<lparr>tenants = [sample_tenant acme ''acme'', sample_tenant globex ''globex''],
     employees = [sample_employee], documents = [sample_document], expiryPolicies = [],
     auditEvents = [], idempotencyKeys = [], tenantNotificationPolicies = [],
     notificationLog = [], importBatches = []\<rparr>"

definition sample_world :: world where
  "sample_world = \<lparr>w_db = sample_db, w_ext = sample_ext\<rparr>"

definition sample_context :: audit_context where
  "sample_context = \<lparr>ac_tenantId = acme, ac_actorUserId = ''user-1'', ac_actorIp = None,
     ac_actorUserAgent = None, ac_requestId = Some ''req-1'', ac_correlationId = Some (sample_uuid 7)\<rparr>"

definition sample_create :: "string \<Rightarrow> create_employee_dto" where
  "sample_create code = \<lparr>ce_employeeCode = code, ce_firstName = ''Alan'', ce_lastName = ''Turing'',
     ce_email = None, ce_department = Some ''IT'', ce_jobTitle = None, ce_branch = None,
     ce_responsibleOfficerId = None\<rparr>"

definition sample_update :: "int \<Rightarrow> update_employee_dto" where
  "sample_update v = \<lparr>ue_firstName = None, ue_lastName = None, ue_email = None,
     ue_department = Some ''HR'', ue_jobTitle = None, ue_branch = None,
     ue_responsibleOfficerId = None, ue_version = v\<rparr>"

definition sample_override :: "expiry_status \<Rightarrow> string option \<Rightarrow> int \<Rightarrow> update_document_dto" where
  "sample_override st reason v = \<lparr>ud_docNumber = None, ud_issueDate = None, ud_expiryDate = None,
     ud_expiryStatus = Some st, ud_exceptionReason = reason, ud_version = v\<rparr>"

definition sample_renewal :: update_document_dto where
  "sample_renewal = \<lparr>ud_docNumber = Some ''P-2'', ud_issueDate = None, ud_expiryDate = Some ''2035-01-01'',
     ud_expiryStatus = None, ud_exceptionReason = None, ud_version = 1\<rparr>"

definition renewing_world :: world where
  "renewing_world = sample_world\<lparr>w_db := sample_db\<lparr>documents :=
     [sample_document\<lparr>dc_expiryStatus := RENEWAL_IN_PROGRESS\<rparr>]\<rparr>\<rparr>"

definition expiring_db :: db where
  "expiring_db = sample_db\<lparr>documents := [sample_document\<lparr>dc_expiryStatus := EXPIRING_SOON,
     dc_expiryDate := Some ''2026-01-15''\<rparr>]\<rparr>"

definition sample_new_document :: create_document_dto where
  "sample_new_document = \<lparr>cd_employeeId = sample_uuid 11, cd_docType = Badge, cd_docNumber = ''B-1'',
     cd_issueDate = None, cd_expiryDate = Some ''2026-01-31''\<rparr>"

lemma sample_ids [simp]:
  "pg_uuid acme" "pg_uuid (sample_uuid 11)" "pg_uuid (sample_uuid 21)" "acme \<noteq> []" "acme \<noteq> globex"
  "globex \<noteq> acme"
  by code_simp+

lemma sample_world_simps [simp]:
  "w_db sample_world = sample_db" "x_tick (w_ext sample_world) = 0"
  "tn_id ` set (tenants sample_db) = {acme, globex}" "employees sample_db = [sample_employee]"
  "documents sample_db = [sample_document]" "auditEvents sample_db = []"
  by (simp_all add: sample_world_def sample_ext_def sample_db_def sample_tenant_def)

lemma quiet_sample [simp]: "quiet sample_env"
  by (simp add: quiet_def sample_env_def)

lemma sample_uuid_inj: "m < 10 ^ 32 \<Longrightarrow> n < 10 ^ 32 \<Longrightarrow> sample_uuid m = sample_uuid n \<longleftrightarrow> m = n"
  unfolding sample_uuid_def by (metis undec_dec undec_pad)

lemmas sample_defs = sample_env_def sample_ext_def acme_def globex_def sample_tenant_def
  sample_employee_def sample_document_def sample_db_def sample_world_def sample_context_def

end
