(* ===== verification/AuditTrail.thy ===== *)
theory AuditTrail
  imports Sample
begin

text \<open>
  The audit trail, \<open>apps/api/src/audit/audit.service.ts\<close>: secrets are stripped from the states it
  records, and the row is written inside the caller's transaction between a savepoint and its
  release, so that a failing audit write is rolled back alone.
\<close>

section \<open>stripSecrets\<close>

definition ascii_lower :: "char \<Rightarrow> char" where
  "ascii_lower c = (let n = (of_char c :: nat) in if 65 \<le> n \<and> n \<le> 90 then char_of (n + 32) else c)"

fun contains :: "string \<Rightarrow> string \<Rightarrow> bool" where
  "contains pat [] = (pat = [])"
| "contains pat (c # cs) = (take (length pat) (c # cs) = pat \<or> contains pat cs)"

text \<open>\<open>/password|secret|token|credential/i.test(key)\<close>.\<close>

definition secret_key :: "string \<Rightarrow> bool" where
  "secret_key key =
     (let k = map ascii_lower key
      in contains ''password'' k \<or> contains ''secret'' k \<or> contains ''token'' k \<or> contains ''credential'' k)"

fun strip_entries :: "(string \<times> json) list \<Rightarrow> (string \<times> json) list \<Rightarrow> (string \<times> json) list" where
  "strip_entries clean [] = clean"
| "strip_entries clean ((key, value) # rest) =
     (if secret_key key then strip_entries clean rest
      else strip_entries (clean @ [(key, value)]) rest)"

fun stripSecrets :: "(string \<times> json) list option \<Rightarrow> (string \<times> json) list option" where
  "stripSecrets None = None"
| "stripSecrets (Some state) = Some (strip_entries [] state)"

lemma strip_entries_filter: "strip_entries clean xs = clean @ filter (\<lambda>p. \<not> secret_key (fst p)) xs"
  by (induction clean xs rule: strip_entries.induct) auto

lemma stripSecrets_Some: "stripSecrets (Some xs) = Some (filter (\<lambda>p. \<not> secret_key (fst p)) xs)"
  by (simp add: strip_entries_filter)

section \<open>AuditService.log\<close>

definition audit_row_ok :: "env \<Rightarrow> audit_row \<Rightarrow> bool" where
  "audit_row_ok E r \<longleftrightarrow>
     pg_uuid (au_correlationId r) \<and> (case au_actorIp r of None \<Rightarrow> True | Some ip \<Rightarrow> e_inet E ip)"

definition audit_log ::
  "audit_context \<Rightarrow> audit_action \<Rightarrow> string \<Rightarrow> uuid option \<Rightarrow> (string \<times> json) list option
    \<Rightarrow> (string \<times> json) list option \<Rightarrow> audit_outcome \<Rightarrow> string option \<Rightarrow> unit tx" where
  "audit_log context action entityType entityId beforeState afterState outcome reason =
     (let safeBefore = stripSecrets beforeState; safeAfter = stripSecrets afterState
      in tcatch
           (tthen (savepoint ''audit_write'')
             (tthen
               (insert_returning audit_events_t audit_row_ok
                  (\<lambda>r r'. au_id r = au_id r')
                  (\<lambda>d r. au_tenantId r \<in> tn_id ` set (tenants d))
                  (\<lambda>u now. \<lparr>au_id = u, au_tenantId = ac_tenantId context,
                     au_correlationId = nullish (ac_correlationId context) u,
                     au_requestId = ac_requestId context,
                     au_actorUserId = Some (ac_actorUserId context),
                     au_actorIp = ac_actorIp context,
                     au_actorUserAgent = ac_actorUserAgent context,
                     au_action = action, au_entityType = entityType, au_entityId = entityId,
                     au_beforeState = safeBefore, au_afterState = safeAfter,
                     au_outcome = outcome, au_reason = reason, au_createdAt = now\<rparr>))
               (release_savepoint ''audit_write'')))
           (\<lambda>err. tcatch (rollback_to_savepoint ''audit_write'') (\<lambda>rollbackErr. treturn ())))"

text \<open>The row a successful call writes.\<close>

definition audit_record ::
  "audit_context \<Rightarrow> audit_action \<Rightarrow> string \<Rightarrow> uuid option \<Rightarrow> (string \<times> json) list option
    \<Rightarrow> (string \<times> json) list option \<Rightarrow> audit_outcome \<Rightarrow> string option \<Rightarrow> uuid \<Rightarrow> instant \<Rightarrow> audit_row" where
  "audit_record context action entityType entityId beforeState afterState outcome reason u now =
     \<lparr>au_id = u, au_tenantId = ac_tenantId context,
      au_correlationId = nullish (ac_correlationId context) u,
      au_requestId = ac_requestId context, au_actorUserId = Some (ac_actorUserId context),
      au_actorIp = ac_actorIp context, au_actorUserAgent = ac_actorUserAgent context,
      au_action = action, au_entityType = entityType, au_entityId = entityId,
      au_beforeState = stripSecrets beforeState, au_afterState = stripSecrets afterState,
      au_outcome = outcome, au_reason = reason, au_createdAt = now\<rparr>"

lemma audit_keeps_iso [keeps_intros]:
  "keeps (txinv (same_for_others t) t d0) (audit_log ctx act ty eid b a oc rs)"
  unfolding audit_log_def Let_def by (intro keeps_intros)

lemma audit_keeps_hist [keeps_intros]:
  "keeps (txinv history t d0) (audit_log ctx act ty eid b a oc rs)"
  unfolding audit_log_def Let_def by (intro keeps_intros)

section \<open>Runs of AuditService.log\<close>

lemma audit_log_returns: "fst (audit_log ctx act ty eid b a oc rs E s) = Inr ()"
  by (auto simp: audit_log_def tcatch_def treturn_def Let_def split: sum.splits prod.splits)

text \<open>The insert of the audit row, as one case distinction.\<close>

definition audit_insertable :: "env \<Rightarrow> nat \<Rightarrow> string option \<Rightarrow> db \<Rightarrow> audit_row \<Rightarrow> bool" where
  "audit_insertable E n g d r \<longleftrightarrow>
     e_fault E n = None \<and> audit_row_ok E r \<and> rls_visible g (au_tenantId r)
     \<and> au_id r \<notin> au_id ` set (auditEvents d) \<and> au_tenantId r \<in> tn_id ` set (tenants d)"

definition audit_outcome_db :: "env \<Rightarrow> audit_row \<Rightarrow> nat \<Rightarrow> string option \<Rightarrow> db \<Rightarrow> db" where
  "audit_outcome_db E r n g d =
     (if audit_insertable E n g d r then d\<lparr>auditEvents := auditEvents d @ [r]\<rparr> else d)"

lemma savepoint_run:
  "e_fault E (x_tick (t_ext s)) = None \<Longrightarrow> \<not> t_aborted s \<Longrightarrow>
     savepoint nm E s = (Inr (), s\<lparr>t_ext := tick (t_ext s), t_saves := (nm, t_db s) # t_saves s\<rparr>)"
  by (simp add: savepoint_def statement_def Let_def)

lemma release_run:
  "e_fault E (x_tick (t_ext s)) = None \<Longrightarrow> \<not> t_aborted s \<Longrightarrow> t_saves s = (nm, d) # sv \<Longrightarrow>
     release_savepoint nm E s = (Inr (), s\<lparr>t_ext := tick (t_ext s), t_saves := sv\<rparr>)"
  by (simp add: release_savepoint_def statement_def Let_def)

lemma rollback_run:
  "e_fault E (x_tick (t_ext s)) = None \<Longrightarrow> t_saves s = (nm, d) # sv \<Longrightarrow>
     rollback_to_savepoint nm E s =
       (Inr (), s\<lparr>t_ext := tick (t_ext s), t_db := d, t_aborted := False\<rparr>)"
  by (simp add: rollback_to_savepoint_def Let_def)

text \<open>The statement between the savepoint and its release.\<close>

definition audit_insert ::
  "audit_context \<Rightarrow> audit_action \<Rightarrow> string \<Rightarrow> uuid option \<Rightarrow> (string \<times> json) list option
    \<Rightarrow> (string \<times> json) list option \<Rightarrow> audit_outcome \<Rightarrow> string option \<Rightarrow> audit_row list tx" where
  "audit_insert ctx act ty eid b a oc rs =
     insert_returning audit_events_t audit_row_ok (\<lambda>r r'. au_id r = au_id r')
       (\<lambda>d r. au_tenantId r \<in> tn_id ` set (tenants d)) (audit_record ctx act ty eid b a oc rs)"

lemma audit_log_parts:
  "audit_log ctx act ty eid b a oc rs =
     tcatch (tthen (savepoint ''audit_write'')
         (tthen (audit_insert ctx act ty eid b a oc rs) (release_savepoint ''audit_write'')))
       (\<lambda>err. tcatch (rollback_to_savepoint ''audit_write'') (\<lambda>rollbackErr. treturn ()))"
  unfolding audit_log_def audit_insert_def audit_record_def Let_def by (rule refl)

text \<open>
  Apart from the audit insert no statement of the call fails: the business data are those of before
  the call, the transaction goes on, and the row is there exactly when it was insertable.
\<close>

definition audited :: "env \<Rightarrow> (uuid \<Rightarrow> instant \<Rightarrow> audit_row) \<Rightarrow> txs \<Rightarrow> txs" where
  "audited E mk s =
     (let n = x_tick (t_ext s); r = mk (e_uuid E (Suc n)) (t_now s)
      in s\<lparr>t_ext := tick (tick (tick (t_ext s))),
           t_saves := (if audit_insertable E (Suc n) (t_tenant s) (t_db s) r then t_saves s
             else (''audit_write'', t_db s) # t_saves s),
           t_db := audit_outcome_db E r (Suc n) (t_tenant s) (t_db s)\<rparr>)"

lemma audited_simps [simp]:
  "t_ext (audited E mk s) = tick (tick (tick (t_ext s)))"
  "t_aborted (audited E mk s) = t_aborted s" "t_now (audited E mk s) = t_now s"
  "t_tenant (audited E mk s) = t_tenant s"
  "t_db (audited E mk s) = audit_outcome_db E (mk (e_uuid E (Suc (x_tick (t_ext s)))) (t_now s))
     (Suc (x_tick (t_ext s))) (t_tenant s) (t_db s)"
  by (simp_all add: audited_def Let_def)

lemma audit_outcome_db_simps [simp]:
  "tenants (audit_outcome_db E r n g d) = tenants d"
  "employees (audit_outcome_db E r n g d) = employees d"
  "documents (audit_outcome_db E r n g d) = documents d"
  "expiryPolicies (audit_outcome_db E r n g d) = expiryPolicies d"
  "idempotencyKeys (audit_outcome_db E r n g d) = idempotencyKeys d"
  "tenantNotificationPolicies (audit_outcome_db E r n g d) = tenantNotificationPolicies d"
  "notificationLog (audit_outcome_db E r n g d) = notificationLog d"
  "importBatches (audit_outcome_db E r n g d) = importBatches d"
  by (simp_all add: audit_outcome_db_def)

lemma audit_log_run:
  fixes s :: txs and E :: env and ctx act ty eid b a oc rs
  defines "n \<equiv> x_tick (t_ext s)"
  defines "r \<equiv> audit_record ctx act ty eid b a oc rs (e_uuid E (Suc n)) (t_now s)"
  assumes ab: "\<not> t_aborted s" and ok: "e_fault E n = None" "e_fault E (Suc (Suc n)) = None"
  shows "audit_log ctx act ty eid b a oc rs E s =
    (Inr (), audited E (audit_record ctx act ty eid b a oc rs) s)"
proof -
  let ?s1 = "s\<lparr>t_ext := tick (t_ext s), t_saves := (''audit_write'', t_db s) # t_saves s\<rparr>"
  have s1: "savepoint ''audit_write'' E s = (Inr (), ?s1)"
    using ab ok by (simp add: savepoint_run n_def)
  let ?ins = "audit_insert ctx act ty eid b a oc rs"
  note log = audit_log_parts
  show ?thesis
  proof (cases "audit_insertable E (Suc n) (t_tenant s) (t_db s) r")
    case True
    let ?s2 = "?s1\<lparr>t_ext := tick (tick (t_ext s)),
      t_db := (t_db s)\<lparr>auditEvents := auditEvents (t_db s) @ [r]\<rparr>\<rparr>"
    have "?ins E ?s1 = (Inr [r], ?s2)"
      using True ab unfolding audit_insert_def insert_returning_def r_def audit_insertable_def
      by (auto simp: statement_def Let_def n_def audit_events_t_def list_ex_iff audit_record_def)
    then show ?thesis
      using True ok ab
      by (auto simp: log tcatch_def tbind_def s1 audit_outcome_db_def n_def release_run audited_def Let_def r_def
          simp flip: n_def)
  next
    case False
    have "\<exists>c. ?ins E ?s1 = (Inl c, ?s1\<lparr>t_ext := tick (tick (t_ext s)), t_aborted := True\<rparr>)"
      using False ab unfolding audit_insert_def insert_returning_def r_def audit_insertable_def
      by (auto simp: statement_def Let_def n_def audit_events_t_def list_ex_iff audit_record_def
          split: option.splits)
    then show ?thesis
      using False ok ab
      by (auto simp: log tcatch_def tbind_def s1 audit_outcome_db_def n_def rollback_run audited_def Let_def r_def
          simp flip: n_def)
  qed
qed

lemma audit_log_quiet:
  "quiet E \<Longrightarrow> \<not> t_aborted s \<Longrightarrow> audit_log ctx act ty eid b a oc rs E s =
     (Inr (), audited E (audit_record ctx act ty eid b a oc rs) s)"
  by (rule audit_log_run) (simp_all add: quiet_def)

lemma audit_insertable_quiet:
  "quiet E \<Longrightarrow> audit_insertable E n g d r \<longleftrightarrow>
     audit_row_ok E r \<and> rls_visible g (au_tenantId r) \<and> au_id r \<notin> au_id ` set (auditEvents d)
     \<and> au_tenantId r \<in> tn_id ` set (tenants d)"
  by (simp add: audit_insertable_def quiet_def)

text \<open>Whatever the environment does, from a state without a savepoint of that name.\<close>

lemma savepoint_result:
  assumes "savepoint nm E s = (r, s')"
  shows "t_db s' = t_db s \<and> t_now s' = t_now s \<and> t_tenant s' = t_tenant s \<and> t_ext s' = tick (t_ext s)
    \<and> (case r of Inl _ \<Rightarrow> t_saves s' = t_saves s \<and> t_aborted s'
        | Inr _ \<Rightarrow> t_saves s' = (nm, t_db s) # t_saves s \<and> t_aborted s' = t_aborted s)"
  using assms by (auto simp: savepoint_def statement_def Let_def split: if_splits option.splits)

lemma release_result:
  assumes "release_savepoint nm E s = (r, s')"
  shows "t_db s' = t_db s \<and> (case r of Inl _ \<Rightarrow> t_aborted s' \<and> t_saves s' = t_saves s | Inr _ \<Rightarrow> True)"
  using assms by (auto simp: release_savepoint_def statement_def Let_def split: if_splits option.splits)

lemma rollback_result:
  assumes "rollback_to_savepoint nm E s = (r, s')"
  shows "case r of Inl _ \<Rightarrow> t_db s' = t_db s \<and> t_aborted s'
    | Inr _ \<Rightarrow> \<not> t_aborted s' \<and> (\<exists>p ps. dropWhile (\<lambda>p. fst p \<noteq> nm) (t_saves s) = p # ps \<and> t_db s' = snd p)"
  using assms by (auto simp: rollback_to_savepoint_def Let_def split: if_splits option.splits list.splits)

lemma insert_result:
  assumes "insert_returning T typ clash fk mk E s = (x, s')"
  shows "t_saves s' = t_saves s \<and>
    (case x of Inl _ \<Rightarrow> t_db s' = t_db s \<and> t_aborted s'
     | Inr rs \<Rightarrow> (let r = mk (e_uuid E (x_tick (t_ext s))) (t_now s) in
         rs = [r] \<and> \<not> t_aborted s \<and> \<not> t_aborted s' \<and> typ E r \<and> rls_visible (t_tenant s) (tb_tenant T r)
         \<and> \<not> list_ex (clash r) (tb_rows T (t_db s)) \<and> fk (t_db s) r
         \<and> t_db s' = tb_put T (tb_rows T (t_db s) @ [r]) (t_db s)))"
  using assms by (auto simp: insert_returning_def statement_def Let_def split: if_splits option.splits)

text \<open>
  When the audit insert came through, when the caller's transaction is aborted after the call, and what the
  call leaves otherwise: \<open>n\<close> is the number of the call's first statement, the savepoint; the release or the
  rollback of a failed insert is its third, the rollback of a failed release its fourth.
\<close>

definition audit_stored :: "env \<Rightarrow> (uuid \<Rightarrow> instant \<Rightarrow> audit_row) \<Rightarrow> txs \<Rightarrow> bool" where
  "audit_stored E mk s \<longleftrightarrow> (let n = x_tick (t_ext s) in
     audit_insertable E (Suc n) (t_tenant s) (t_db s) (mk (e_uuid E (Suc n)) (t_now s)))"

lemma audit_insert_run:
  assumes "\<not> t_aborted s"
  shows "audit_insert ctx act ty eid b a oc rs E s =
    (let r = audit_record ctx act ty eid b a oc rs (e_uuid E (x_tick (t_ext s))) (t_now s); s' = s\<lparr>t_ext := tick (t_ext s)\<rparr>
     in if audit_insertable E (x_tick (t_ext s)) (t_tenant s) (t_db s) r
        then (Inr [r], s'\<lparr>t_db := (t_db s)\<lparr>auditEvents := auditEvents (t_db s) @ [r]\<rparr>\<rparr>)
        else (Inl (DbError (case e_fault E (x_tick (t_ext s)) of Some c \<Rightarrow> c
            | None \<Rightarrow> if \<not> audit_row_ok E r then ''22P02'' else if \<not> rls_visible (t_tenant s) (au_tenantId r) then ''42501''
                else if au_id r \<in> au_id ` set (auditEvents (t_db s)) then ''23505'' else ''23503'')),
          s'\<lparr>t_aborted := True\<rparr>))"
  using assms unfolding audit_insert_def insert_returning_def audit_insertable_def
  by (auto simp: statement_def Let_def list_ex_iff audit_record_def split: option.splits)

lemma audit_log_cases:
  fixes s :: txs and E :: env and ctx act ty eid b a oc rs
  defines "n \<equiv> x_tick (t_ext s)"
    and "r \<equiv> audit_record ctx act ty eid b a oc rs (e_uuid E (Suc (x_tick (t_ext s)))) (t_now s)"
    and "s' \<equiv> snd (audit_log ctx act ty eid b a oc rs E s)"
    and "stored \<equiv> audit_stored E (audit_record ctx act ty eid b a oc rs) s"
  assumes live: "\<not> t_aborted s" and fresh: "''audit_write'' \<notin> fst ` set (t_saves s)"
  shows "t_aborted s' \<longleftrightarrow> e_fault E n \<noteq> None
      \<or> e_fault E (n + 2) \<noteq> None \<and> (if stored then e_fault E (n + 3) \<noteq> None else True)"
    and "\<not> t_aborted s' \<Longrightarrow> t_db s' = (if stored \<and> e_fault E (n + 2) = None
      then (t_db s)\<lparr>auditEvents := auditEvents (t_db s) @ [r]\<rparr> else t_db s)"
    and "t_tenant s' = t_tenant s" and "t_now s' = t_now s"
proof -
  have no: "dropWhile (\<lambda>p. fst p \<noteq> ''audit_write'') (t_saves s) = []"
    using fresh by (force simp: dropWhile_eq_Nil_conv)
  note run = audit_log_parts savepoint_def statement_def release_savepoint_def rollback_to_savepoint_def Let_def tcatch_def
    tbind_def treturn_def audit_insert_run audit_stored_def r_def [symmetric] numeral_eq_Suc
  have "(t_aborted s' \<longleftrightarrow> e_fault E n \<noteq> None
      \<or> e_fault E (n + 2) \<noteq> None \<and> (if stored then e_fault E (n + 3) \<noteq> None else True))
    \<and> (\<not> t_aborted s' \<longrightarrow> t_db s' = (if stored \<and> e_fault E (n + 2) = None
      then (t_db s)\<lparr>auditEvents := auditEvents (t_db s) @ [r]\<rparr> else t_db s))
    \<and> t_tenant s' = t_tenant s \<and> t_now s' = t_now s"
  proof (cases "e_fault E n")
    case (Some c)
    then show ?thesis using live no unfolding s'_def n_def
      by (auto simp: run simp del: dropWhile_eq_Nil_conv split: option.split)
  next
    case None
    show ?thesis
    proof (cases stored)
      case True
      then show ?thesis using live None unfolding s'_def stored_def n_def
        by (simp add: run split: option.split)
    next
      case False
      then show ?thesis using live None unfolding s'_def stored_def n_def
        by (simp add: run split: option.split)
    qed
  qed
  then show "t_aborted s' \<longleftrightarrow> e_fault E n \<noteq> None
      \<or> e_fault E (n + 2) \<noteq> None \<and> (if stored then e_fault E (n + 3) \<noteq> None else True)"
    and "\<not> t_aborted s' \<Longrightarrow> t_db s' = (if stored \<and> e_fault E (n + 2) = None
      then (t_db s)\<lparr>auditEvents := auditEvents (t_db s) @ [r]\<rparr> else t_db s)"
    and "t_tenant s' = t_tenant s" and "t_now s' = t_now s"
    by blast+
qed

lemma audit_log_effect:
  fixes s :: txs and E :: env and ctx act ty eid b a oc rs
  defines "s' \<equiv> snd (audit_log ctx act ty eid b a oc rs E s)"
    and "r \<equiv> audit_record ctx act ty eid b a oc rs (e_uuid E (Suc (x_tick (t_ext s)))) (t_now s)"
  assumes "\<not> t_aborted s" and "''audit_write'' \<notin> fst ` set (t_saves s)"
  shows "t_aborted s' \<or> t_db s' = t_db s
    \<or> (t_db s' = (t_db s)\<lparr>auditEvents := auditEvents (t_db s) @ [r]\<rparr> \<and> audit_row_ok E r)"
  using audit_log_cases(2) [OF assms(3,4), of ctx act ty eid b a oc rs E]
  unfolding s'_def r_def audit_stored_def audit_insertable_def Let_def by (auto split: if_splits)

text \<open>
  C10. The audit trail cannot damage the operation it records, whatever statement of the call fails and
  for whatever reason. \<open>AuditService.log\<close> never throws; from a live transaction it leaves one that can go on
  and commit, unless the savepoint itself cannot be set or the statement that undoes a failed insert or a
  failed release fails too; and a transaction that can go on has the data it had, with exactly the row of
  this call appended to the audit table when that row was accepted and its savepoint released, and with
  nothing of the call otherwise.
\<close>

theorem audit_log_contained:
  assumes "\<not> t_aborted s" and "''audit_write'' \<notin> fst ` set (t_saves s)"
  shows "let n = x_tick (t_ext s); mk = audit_record ctx act ty eid b a oc rs;
             r = mk (e_uuid E (n + 1)) (t_now s); stored = audit_insertable E (n + 1) (t_tenant s) (t_db s) r;
             (res, s') = audit_log ctx act ty eid b a oc rs E s
         in res = Inr ()
          \<and> (t_aborted s' \<longleftrightarrow> e_fault E n \<noteq> None \<or> e_fault E (n + 2) \<noteq> None \<and> (stored \<longrightarrow> e_fault E (n + 3) \<noteq> None))
          \<and> (\<not> t_aborted s' \<longrightarrow> t_db s' = (if stored \<and> e_fault E (n + 2) = None
                then (t_db s)\<lparr>auditEvents := auditEvents (t_db s) @ [r]\<rparr> else t_db s))
          \<and> t_tenant s' = t_tenant s \<and> t_now s' = t_now s"
  using audit_log_cases [OF assms, of ctx act ty eid b a oc rs E] audit_log_returns [of ctx act ty eid b a oc rs E s]
  by (cases "audit_log ctx act ty eid b a oc rs E s") (auto simp: audit_stored_def Let_def)

text \<open>The insert of the audit row fails; the transaction of the caller goes on with the caller's data.\<close>

theorem audit_log_contained_witness:
  "let s' = snd (audit_log sample_context EMPLOYEE_CREATED ''employee'' None None None SUCCESS None
     (faulty_env 2) (start sample_env sample_world)) in \<not> t_aborted s' \<and> t_db s' = sample_db"
  using audit_log_contained [of "start sample_env sample_world" sample_context EMPLOYEE_CREATED
    "''employee''" None None None SUCCESS None "faulty_env 2"]
  by (auto simp: Let_def faulty_env_def sample_env_def audit_insertable_def)

text \<open>
  No secret reaches the trail: the state \<open>stripSecrets\<close> keeps is exactly the entries, in their
  order, whose key contains none of the words password, secret, token, credential in any case.
\<close>

lemma stripSecrets_keeps_order:
  "stripSecrets None = None
   \<and> stripSecrets (Some state) = Some (filter (\<lambda>p. \<not> secret_key (fst p)) state)
   \<and> (\<forall>k v. (k, v) \<in> set (the (stripSecrets (Some state))) \<longleftrightarrow> (k, v) \<in> set state \<and> \<not> secret_key k)"
  unfolding stripSecrets_Some by auto

text \<open>
  The correlation id decides whether an operation is recorded at all: the column is a \<open>uuid\<close>,
  the value is the request's header, and a context whose correlation id is no UUID leaves the audit
  table as it was, silently, in every environment.
\<close>

lemma audit_log_needs_uuid:
  assumes "\<not> t_aborted s" and "''audit_write'' \<notin> fst ` set (t_saves s)"
    and "ac_correlationId ctx = Some c" and "\<not> pg_uuid c"
  shows "fst (audit_log ctx act ty eid b a oc rs E s) = Inr ()
    \<and> (let s' = snd (audit_log ctx act ty eid b a oc rs E s)
       in t_aborted s' \<or> auditEvents (t_db s') = auditEvents (t_db s))"
  using audit_log_effect [OF assms(1,2), of ctx act ty eid b a oc rs E] assms(3,4)
  by (auto simp: audit_log_returns Let_def audit_row_ok_def audit_record_def)

lemma audit_log_needs_uuid_witness:
  "auditEvents (t_db (snd (audit_log (sample_context\<lparr>ac_correlationId := Some ''trace-1''\<rparr>)
     EMPLOYEE_CREATED ''employee'' None None None SUCCESS None sample_env (start sample_env sample_world)))) = []
   \<or> t_aborted (snd (audit_log (sample_context\<lparr>ac_correlationId := Some ''trace-1''\<rparr>)
     EMPLOYEE_CREATED ''employee'' None None None SUCCESS None sample_env (start sample_env sample_world)))"
  using audit_log_needs_uuid [of "start sample_env sample_world"
    "sample_context\<lparr>ac_correlationId := Some ''trace-1''\<rparr>" "''trace-1''" EMPLOYEE_CREATED "''employee''"
    None None None SUCCESS None sample_env]
  by (auto simp: Let_def sample_world_def sample_db_def pg_uuid_def is_hex_def is_digit_def numeral_eq_Suc)

end
