(* ===== verification/Employees.thy ===== *)
theory Employees
  imports AuditTrail
begin

text \<open>
  The employee service, \<open>apps/api/src/employees/employees.service.ts\<close>: search, read, create, update
  under an optimistic version check, archive (a soft delete). Each operation is one transaction;
  the update is written as its read and its write, so that an interleaving with another request
  between the two can be stated. PostgreSQL's full-text match is the parameter \<open>fts\<close> of the search.
\<close>

section \<open>Rows and conditions\<close>

fun isUniqueViolation :: "exn \<Rightarrow> bool" where
  "isUniqueViolation (DbError c) = (c = ''23505'')"
| "isUniqueViolation (HttpEx st b) = False"
| "isUniqueViolation (JsError m) = False"

text \<open>\<open>and(eq(employees.id, id), isNull(employees.deletedAt))\<close>.\<close>

definition live_employee :: "string \<Rightarrow> employee_row \<Rightarrow> bool" where
  "live_employee i r \<longleftrightarrow> same_uuid (em_id r) i \<and> em_deletedAt r = None"

text \<open>The primary key and \<open>unique (tenant_id, employee_code)\<close>; the foreign key to \<open>tenants\<close>.\<close>

definition employee_clash :: "employee_row \<Rightarrow> employee_row \<Rightarrow> bool" where
  "employee_clash r r' \<longleftrightarrow> same_uuid (em_id r) (em_id r')
     \<or> (em_tenantId r = em_tenantId r' \<and> em_employeeCode r = em_employeeCode r')"

definition employee_fk :: "db \<Rightarrow> employee_row \<Rightarrow> bool" where
  "employee_fk d r \<longleftrightarrow> em_tenantId r \<in> tn_id ` set (tenants d)"

definition employee_typed :: "env \<Rightarrow> employee_row \<Rightarrow> bool" where
  "employee_typed E r \<longleftrightarrow> pg_uuid (em_tenantId r)"

section \<open>findAll\<close>

definition employee_text :: "employee_row \<Rightarrow> string" where
  "employee_text r = em_employeeCode r @ '' '' @ nullish (em_firstName r) '''' @ '' '' @
     nullish (em_lastName r) '''' @ '' '' @ nullish (em_department r) ''''"

definition employee_filter :: "(string \<Rightarrow> string \<Rightarrow> bool) \<Rightarrow> employee_search \<Rightarrow> employee_row \<Rightarrow> bool" where
  "employee_filter fts params r \<longleftrightarrow>
     em_deletedAt r = None
     \<and> (if truthy (es_department params) then em_department r = es_department params else True)
     \<and> (if truthy (es_branch params) then em_branch r = es_branch params else True)
     \<and> (case es_status params of None \<Rightarrow> True | Some st \<Rightarrow> em_status r = st)
     \<and> (if truthy (es_q params) then fts (employee_text r) (nullish (es_q params) '''') else True)"

definition EmployeesService_findAll ::
  "(string \<Rightarrow> string \<Rightarrow> bool) \<Rightarrow> uuid \<Rightarrow> employee_search \<Rightarrow> (employee_row list \<times> int) io" where
  "EmployeesService_findAll fts tenantId params =
     (let page = nullish (es_page params) 1; limit = nullish (es_limit params) 20;
          whereClause = employee_filter fts params
      in transaction
           (tthen (setTenantContext tenantId)
             (tbind (select_page employees_t whereClause em_createdAt limit ((page - 1) * limit))
               (\<lambda>rows. tbind (select_count employees_t whereClause)
                 (\<lambda>total. treturn (rows, total))))))"

section \<open>findOne\<close>

text \<open>\<open>select().from(employees).where(...).limit(1)\<close> and its first row, or the 404.\<close>

definition employee_lookup :: "string \<Rightarrow> employee_row tx" where
  "employee_lookup i =
     tbind (well_typed ''22P02'' (pg_uuid i) (select_where employees_t (live_employee i)))
       (\<lambda>rows. case first_row (take 1 rows) of
          None \<Rightarrow> tthrow (NotFoundException (Message ''Employee not found''))
        | Some employee \<Rightarrow> treturn employee)"

definition EmployeesService_findOne :: "uuid \<Rightarrow> string \<Rightarrow> employee_row io" where
  "EmployeesService_findOne tenantId i = transaction (tthen (setTenantContext tenantId) (employee_lookup i))"

section \<open>create\<close>

definition new_employee :: "uuid \<Rightarrow> create_employee_dto \<Rightarrow> uuid \<Rightarrow> instant \<Rightarrow> employee_row" where
  "new_employee tenantId dto u now =
     \<lparr>em_id = u, em_tenantId = tenantId, em_employeeCode = ce_employeeCode dto,
      em_fullName = js_trim (ce_firstName dto @ '' '' @ ce_lastName dto),
      em_firstName = Some (ce_firstName dto), em_lastName = Some (ce_lastName dto),
      em_email = nullish_opt (ce_email dto) None, em_department = nullish_opt (ce_department dto) None,
      em_jobTitle = nullish_opt (ce_jobTitle dto) None, em_branch = nullish_opt (ce_branch dto) None,
      em_responsibleOfficerId = nullish_opt (ce_responsibleOfficerId dto) None,
      em_status = Active, em_createdAt = now, em_version = 1, em_deletedAt = None\<rparr>"

definition duplicate_code :: exn where
  "duplicate_code = ConflictException (Custom
     [(''message'', JStr ''Employee code already exists''), (''detail'', JStr ''duplicate_code'')])"

definition employee_insert :: "uuid \<Rightarrow> create_employee_dto \<Rightarrow> employee_row tx" where
  "employee_insert tenantId dto =
     tcatch
       (tbind (insert_returning employees_t employee_typed employee_clash employee_fk (new_employee tenantId dto))
         (\<lambda>inserted. case first_row inserted of
            None \<Rightarrow> tthrow (JsError ''Employee insert did not return a row'')
          | Some insertedRow \<Rightarrow> treturn insertedRow))
       (\<lambda>err. if isUniqueViolation err then tthrow duplicate_code else tthrow err)"

definition EmployeesService_create :: "uuid \<Rightarrow> create_employee_dto \<Rightarrow> audit_context \<Rightarrow> employee_row io" where
  "EmployeesService_create tenantId dto auditContext =
     transaction
       (tthen (setTenantContext tenantId)
         (tbind (employee_insert tenantId dto)
           (\<lambda>created. tthen
             (audit_log auditContext EMPLOYEE_CREATED ''employee'' (Some (em_id created))
                None (Some (employee_json created)) SUCCESS None)
             (treturn created))))"

section \<open>update\<close>

definition employee_set :: "employee_row \<Rightarrow> update_employee_dto \<Rightarrow> employee_row \<Rightarrow> employee_row" where
  "employee_set before dto r =
     (let firstName = nullish (nullish_opt (ue_firstName dto) (em_firstName before)) '''';
          lastName = nullish (nullish_opt (ue_lastName dto) (em_lastName before)) '''';
          joined = js_trim (firstName @ '' '' @ lastName)
      in r\<lparr>em_firstName := nullish_opt (ue_firstName dto) (em_firstName before),
           em_lastName := nullish_opt (ue_lastName dto) (em_lastName before),
           em_fullName := (if joined = [] then em_fullName before else joined),
           em_email := nullish_opt (ue_email dto) (em_email before),
           em_department := nullish_opt (ue_department dto) (em_department before),
           em_jobTitle := nullish_opt (ue_jobTitle dto) (em_jobTitle before),
           em_branch := nullish_opt (ue_branch dto) (em_branch before),
           em_responsibleOfficerId := nullish_opt (ue_responsibleOfficerId dto) (em_responsibleOfficerId before),
           em_version := em_version before + 1\<rparr>)"

definition employee_conflict :: exn where
  "employee_conflict = ConflictException (Custom
     [(''message'', JStr ''Employee was modified by another request''), (''detail'', JStr ''version_mismatch'')])"

definition employee_write :: "string \<Rightarrow> update_employee_dto \<Rightarrow> audit_context \<Rightarrow> employee_row \<Rightarrow> employee_row tx" where
  "employee_write i dto auditContext before =
     tbind (well_typed ''22003'' (int4 (em_version before + 1) \<and> int4 (ue_version dto))
         (update_returning employees_t (\<lambda>r. live_employee i r \<and> em_version r = ue_version dto)
           (\<lambda>now. employee_set before dto)))
       (\<lambda>updatedRows. case first_row updatedRows of
          None \<Rightarrow> tthrow employee_conflict
        | Some after \<Rightarrow> tthen
            (audit_log auditContext EMPLOYEE_UPDATED ''employee'' (Some i)
               (Some (employee_json before)) (Some (employee_json after)) SUCCESS None)
            (treturn after))"

definition EmployeesService_update ::
  "uuid \<Rightarrow> string \<Rightarrow> update_employee_dto \<Rightarrow> audit_context \<Rightarrow> employee_row io" where
  "EmployeesService_update tenantId i dto auditContext =
     transaction (tthen (setTenantContext tenantId)
       (tbind (employee_lookup i) (employee_write i dto auditContext)))"

section \<open>archive\<close>

definition employee_archive_set :: "instant \<Rightarrow> employee_row \<Rightarrow> employee_row" where
  "employee_archive_set now r = r\<lparr>em_deletedAt := Some now, em_status := Archived\<rparr>"

definition employee_archive_write :: "string \<Rightarrow> audit_context \<Rightarrow> employee_row \<Rightarrow> (uuid \<times> string) tx" where
  "employee_archive_write i auditContext before =
     tbind (update_returning employees_t (live_employee i) employee_archive_set)
       (\<lambda>updatedRows. case first_row updatedRows of
          None \<Rightarrow> tthrow (NotFoundException (Message ''Employee not found''))
        | Some after \<Rightarrow> tthen
            (audit_log auditContext EMPLOYEE_ARCHIVED ''employee'' (Some i)
               (Some (employee_json before)) (Some (employee_json after)) SUCCESS None)
            (case em_deletedAt after of
               None \<Rightarrow> tthrow (JsError ''Cannot read properties of null'')
             | Some t \<Rightarrow> treturn (em_id after, toISOString t)))"

definition EmployeesService_archive :: "uuid \<Rightarrow> string \<Rightarrow> audit_context \<Rightarrow> (uuid \<times> string) io" where
  "EmployeesService_archive tenantId i auditContext =
     transaction (tthen (setTenantContext tenantId)
       (tbind (employee_lookup i) (employee_archive_write i auditContext)))"

lemmas employee_defs = EmployeesService_findAll_def EmployeesService_findOne_def EmployeesService_create_def
  EmployeesService_update_def EmployeesService_archive_def employee_archive_write_def employee_lookup_def employee_insert_def employee_write_def

section \<open>What every operation keeps\<close>

lemma employee_set_tenant [simp]: "em_tenantId (employee_set b dto r) = em_tenantId r"
  by (simp add: employee_set_def Let_def)

lemma employee_archive_set_tenant [simp]: "em_tenantId (employee_archive_set now r) = em_tenantId r"
  and employee_archive_set_id: "em_id (employee_archive_set now r) = em_id r"
  by (simp_all add: employee_archive_set_def)

lemma employees_iso_ops [io_intros]:
  "io_rel (same_for_others t) (EmployeesService_findAll fts t params)"
  "io_rel (same_for_others t) (EmployeesService_findOne t i)"
  "io_rel (same_for_others t) (EmployeesService_create t cdto ctx)"
  "io_rel (same_for_others t) (EmployeesService_update t i udto ctx)"
  "io_rel (same_for_others t) (EmployeesService_archive t i ctx)"
  unfolding employee_defs Let_def
  by (auto intro!: io_intros keeps_intros)

lemma employee_set_later: "live_employee i r \<Longrightarrow> employee_later r (employee_set b dto r)"
  by (simp add: employee_later_def employee_set_def live_employee_def Let_def)

lemma employee_archive_later: "live_employee i r \<Longrightarrow> employee_later r (employee_archive_set now r)"
  by (simp add: employee_later_def employee_archive_set_def live_employee_def)

lemma employees_hist_ops [io_intros]:
  "io_rel history (EmployeesService_findAll fts t params)"
  "io_rel history (EmployeesService_findOne t i)"
  "io_rel history (EmployeesService_create t cdto ctx)"
  "io_rel history (EmployeesService_update t i udto ctx)"
  "io_rel history (EmployeesService_archive t i ctx)"
  unfolding employee_defs Let_def
  by (auto intro!: io_intros keeps_intros intro: employee_set_later employee_archive_later)

section \<open>Runs without outside failures\<close>

interpretation employee_ids: keyed_table employees_t "\<lambda>r. uuid_canon (em_id r)" live_employee
  by unfold_locales (auto simp: live_employee_def same_uuid_def)

text \<open>The employee a tenant's request for an id finds, and the ids being distinct.\<close>

abbreviation live_of :: "uuid \<Rightarrow> string \<Rightarrow> db \<Rightarrow> employee_row option" where
  "live_of t i d \<equiv> found employees_t t (live_employee i) d"

abbreviation employee_ids_distinct :: "db \<Rightarrow> bool" where
  "employee_ids_distinct d \<equiv> ids_distinct employees_t (\<lambda>r. uuid_canon (em_id r)) d"

lemma employee_lookup_quiet:
  "quiet E \<Longrightarrow> \<not> t_aborted s \<Longrightarrow> pg_uuid i \<Longrightarrow> t_tenant s = Some t \<Longrightarrow>
     employee_lookup i E s =
       (case live_of t i (t_db s) of
          None \<Rightarrow> (Inl (NotFoundException (Message ''Employee not found'')), s\<lparr>t_ext := tick (t_ext s)\<rparr>)
        | Some e \<Rightarrow> (Inr e, s\<lparr>t_ext := tick (t_ext s)\<rparr>))"
  by (simp add: employee_lookup_def quiet_simps tx_simps found_def split: option.split)

lemma employee_write_quiet:
  assumes "quiet E" "\<not> t_aborted s" "t_tenant s = Some t" "employee_ids_distinct (t_db s)"
    and "live_of t i (t_db s) = Some e" "int4 (em_version before + 1)" "int4 (ue_version dto)"
  shows "employee_write i dto ctx before E s =
    (if em_version e = ue_version dto
     then (Inr (employee_set before dto e),
       audited E (audit_record ctx EMPLOYEE_UPDATED ''employee'' (Some i) (Some (employee_json before))
           (Some (employee_json (employee_set before dto e))) SUCCESS None)
         (s\<lparr>t_ext := tick (t_ext s), t_db := replace_row employees_t e (employee_set before dto e) (t_db s)\<rparr>))
     else (Inl employee_conflict, s\<lparr>t_ext := tick (t_ext s)\<rparr>))"
  using assms by (simp add: employee_write_def tx_simps audit_log_quiet employee_ids.update_one_quiet)

lemma live_of_outcome [simp]: "live_of t i (audit_outcome_db E r n g d) = live_of t i d"
  by (simp add: found_def visible_rows_def)

lemma distinct_outcome [simp]: "employee_ids_distinct (audit_outcome_db E r n g d) = employee_ids_distinct d"
  by (simp add: ids_distinct_def)

lemma employee_set_keeps [simp]:
  "em_id (employee_set b dto r) = em_id r" "em_deletedAt (employee_set b dto r) = em_deletedAt r"
  "em_version (employee_set b dto r) = em_version b + 1" "em_status (employee_set b dto r) = em_status r"
  by (simp_all add: employee_set_def Let_def)

lemma employee_lookup_bad:
  "quiet E \<Longrightarrow> \<not> t_aborted s \<Longrightarrow> \<not> pg_uuid i \<Longrightarrow>
     employee_lookup i E s = (Inl (DbError ''22P02''), s\<lparr>t_ext := tick (t_ext s), t_aborted := True\<rparr>)"
  by (simp add: employee_lookup_def well_typed_bad_quiet tx_simps)

lemma employee_write_bad:
  "quiet E \<Longrightarrow> \<not> t_aborted s \<Longrightarrow> \<not> (int4 (em_version before + 1) \<and> int4 (ue_version dto)) \<Longrightarrow>
     employee_write i dto ctx before E s =
       (Inl (DbError ''22003''), s\<lparr>t_ext := tick (t_ext s), t_aborted := True\<rparr>)"
  unfolding employee_write_def by (subst tbind_def, subst well_typed_bad_quiet) auto

text \<open>The outcomes of an update: what it returns and the database after it.\<close>

definition update_outcome ::
  "env \<Rightarrow> uuid \<Rightarrow> string \<Rightarrow> update_employee_dto \<Rightarrow> audit_context \<Rightarrow> world \<Rightarrow> (exn + employee_row) \<times> db" where
  "update_outcome E t i dto ctx w =
     (let n = x_tick (w_ext w); d = w_db w
      in if \<not> pg_uuid i then (Inl (DbError ''22P02''), d)
         else case live_of t i d of
           None \<Rightarrow> (Inl (NotFoundException (Message ''Employee not found'')), d)
         | Some e \<Rightarrow>
             if \<not> (int4 (em_version e + 1) \<and> int4 (ue_version dto)) then (Inl (DbError ''22003''), d)
             else if em_version e \<noteq> ue_version dto then (Inl employee_conflict, d)
             else (let e' = employee_set e dto e
                   in (Inr e', audit_outcome_db E
                        (audit_record ctx EMPLOYEE_UPDATED ''employee'' (Some i) (Some (employee_json e))
                           (Some (employee_json e')) SUCCESS None (e_uuid E (n + 5)) (e_clock E n))
                        (n + 5) (Some t) (replace_row employees_t e e' d))))"

lemma update_run:
  assumes "quiet E" "employee_ids_distinct (w_db w)"
  shows "(case EmployeesService_update t i dto ctx E w of (r, w') \<Rightarrow> (r, w_db w')) = update_outcome E t i dto ctx w"
proof (cases "pg_uuid i")
  case True
  show ?thesis
  proof (cases "live_of t i (w_db w)")
    case None
    then show ?thesis using assms True
      by (simp add: EmployeesService_update_def quiet_simps tx_simps employee_lookup_quiet update_outcome_def Let_def)
  next
    case (Some e)
    show ?thesis
    proof (cases "int4 (em_version e + 1) \<and> int4 (ue_version dto)")
      case False
      then show ?thesis using assms True Some
        by (simp add: EmployeesService_update_def quiet_simps tx_simps employee_lookup_quiet update_outcome_def
            employee_write_bad Let_def)
    next
      case int: True
      then show ?thesis using assms True Some
        by (simp add: EmployeesService_update_def quiet_simps tx_simps employee_lookup_quiet update_outcome_def
            employee_write_quiet [where t = t and e = e] Let_def numeral_eq_Suc)
    qed
  qed
qed (use assms in \<open>simp add: EmployeesService_update_def quiet_simps tx_simps employee_lookup_bad
  update_outcome_def Let_def\<close>)

text \<open>The outcomes of a create.\<close>

lemma create_run:
  fixes dto :: create_employee_dto
  assumes "quiet E" "t \<noteq> []" "pg_uuid t" "t \<in> tn_id ` set (tenants (w_db w))"
  defines "n \<equiv> x_tick (w_ext w)"
  defines "e \<equiv> new_employee t dto (e_uuid E (n + 2)) (e_clock E n)"
  shows "(case EmployeesService_create t dto ctx E w of (r, w') \<Rightarrow> (r, w_db w')) =
    (if list_ex (employee_clash e) (employees (w_db w)) then (Inl duplicate_code, w_db w)
     else (Inr e, audit_outcome_db E
        (audit_record ctx EMPLOYEE_CREATED ''employee'' (Some (em_id e)) None (Some (employee_json e))
           SUCCESS None (e_uuid E (n + 4)) (e_clock E n))
        (n + 4) (Some t) ((w_db w)\<lparr>employees := employees (w_db w) @ [e]\<rparr>)))"
proof (cases "list_ex (employee_clash e) (employees (w_db w))")
  case True
  then show ?thesis using assms
    by (simp add: EmployeesService_create_def employee_insert_def quiet_simps tx_simps Let_def
        employee_typed_def rls_visible_def new_employee_def numeral_eq_Suc)
next
  case False
  then show ?thesis using assms
    by (simp add: EmployeesService_create_def employee_insert_def quiet_simps tx_simps Let_def
        employee_typed_def rls_visible_def employee_fk_def new_employee_def numeral_eq_Suc audit_log_quiet)
qed

text \<open>The outcomes of an archive.\<close>

lemma archive_run:
  assumes "quiet E" "employee_ids_distinct (w_db w)" "pg_uuid i"
  defines "n \<equiv> x_tick (w_ext w)"
  shows "(case EmployeesService_archive t i ctx E w of (r, w') \<Rightarrow> (r, w_db w')) =
    (case live_of t i (w_db w) of
       None \<Rightarrow> (Inl (NotFoundException (Message ''Employee not found'')), w_db w)
     | Some e \<Rightarrow> (let e' = employee_archive_set (e_clock E n) e in
         (Inr (em_id e, toISOString (e_clock E n)), audit_outcome_db E
            (audit_record ctx EMPLOYEE_ARCHIVED ''employee'' (Some i) (Some (employee_json e))
               (Some (employee_json e')) SUCCESS None (e_uuid E (n + 5)) (e_clock E n))
            (n + 5) (Some t) (replace_row employees_t e e' (w_db w)))))"
proof (cases "live_of t i (w_db w)")
  case None
  then show ?thesis using assms
    by (simp add: EmployeesService_archive_def quiet_simps tx_simps employee_lookup_quiet Let_def)
next
  case (Some e)
  show ?thesis using assms Some
    by (simp add: EmployeesService_archive_def employee_archive_write_def frame_simps employee_lookup_quiet Let_def
        employee_ids.update_all_quiet audit_log_quiet numeral_eq_Suc employee_archive_set_def [of _ e])
qed

lemma sample_live [simp]:
  "employee_ids_distinct sample_db" "live_of acme (sample_uuid 11) sample_db = Some sample_employee"
  by code_simp+

lemma sample_int4 [simp]: "em_version sample_employee = 1" "ue_version (sample_update v) = v" "int4 1" "int4 2" "int4 3"
  by (simp_all add: sample_employee_def sample_update_def int4_def)

section \<open>Properties\<close>

text \<open>
  C8. What an employee update does, on every branch: with unique ids, an id that is no UUID or a
  version outside \<open>integer\<close> is the database's error, an unknown, archived or foreign id is the 404, a
  version that is not the stored one is the 409, all without a change; otherwise exactly that row
  becomes the merge of the stored row and the request with the version one higher, it is returned,
  and the audit row of the call is the only other change to the database.
\<close>

theorem update_employee_spec:
  assumes "quiet E" and "employee_ids_distinct (w_db w)"
  shows "let n = x_tick (w_ext w); d = w_db w; (r, w') = EmployeesService_update t i dto ctx E w; d' = w_db w'
         in if \<not> pg_uuid i then r = Inl (DbError ''22P02'') \<and> d' = d
            else case live_of t i d of
              None \<Rightarrow> r = Inl (NotFoundException (Message ''Employee not found'')) \<and> d' = d
            | Some e \<Rightarrow>
                if \<not> (int4 (em_version e + 1) \<and> int4 (ue_version dto)) then r = Inl (DbError ''22003'') \<and> d' = d
                else if em_version e \<noteq> ue_version dto then r = Inl employee_conflict \<and> d' = d
                else r = Inr (employee_set e dto e)
                  \<and> d' = audit_outcome_db E
                      (audit_record ctx EMPLOYEE_UPDATED ''employee'' (Some i) (Some (employee_json e))
                         (Some (employee_json (employee_set e dto e))) SUCCESS None
                         (e_uuid E (n + 5)) (e_clock E n))
                      (n + 5) (Some t) (replace_row employees_t e (employee_set e dto e) d)"
  using update_run [OF assms, of t i dto ctx]
  by (auto simp: update_outcome_def Let_def split: option.splits if_splits prod.splits)

theorem update_employee_spec_witness:
  "fst (EmployeesService_update acme (sample_uuid 11) (sample_update 1) sample_context sample_env sample_world)
     = Inr (employee_set sample_employee (sample_update 1) sample_employee)"
  using update_employee_spec [of sample_env sample_world acme "sample_uuid 11" "sample_update 1" sample_context]
  by (auto simp: Let_def split: prod.splits)

text \<open>
  No update is lost: of two requests that both send the version they read, the second one to
  run is refused with the 409 and changes nothing, whatever the two requests write.
\<close>

lemma second_update_conflicts:
  assumes "quiet E" and "employee_ids_distinct (w_db w)"
    and "EmployeesService_update t i dto1 ctx1 E w = (Inr a, w1)"
    and "ue_version dto2 = ue_version dto1" and "int4 (ue_version dto1 + 2)"
  shows "fst (EmployeesService_update t i dto2 ctx2 E w1) = Inl employee_conflict
    \<and> w_db (snd (EmployeesService_update t i dto2 ctx2 E w1)) = w_db w1"
proof -
  obtain e where e: "pg_uuid i" "live_of t i (w_db w) = Some e" "em_version e = ue_version dto1"
    "int4 (em_version e + 1)" "int4 (ue_version dto1)" and a: "a = employee_set e dto1 e"
    and "\<exists>r n. w_db w1 = audit_outcome_db E r n (Some t) (replace_row employees_t e a (w_db w))"
    using update_run [OF assms(1,2), of t i dto1 ctx1] assms(3)
    by (auto simp: update_outcome_def Let_def split: option.splits if_splits)
  then obtain r n where w1: "w_db w1 = audit_outcome_db E r n (Some t) (replace_row employees_t e a (w_db w))"
    by blast
  have "live_employee i a" "em_tenantId a = em_tenantId e" "em_id a = em_id e"
    using found_visible [OF e(2)] by (simp_all add: a live_employee_def)
  then have "live_of t i (w_db w1) = Some a" "employee_ids_distinct (w_db w1)"
    using assms(2) by (simp_all add: w1 employee_ids.found_replaced [OF assms(2) e(2)] employee_ids.replace_distinct)
  moreover have "int4 (2 + ue_version dto1)" using assms(5) by (simp add: add.commute)
  ultimately show ?thesis
    using update_run [OF assms(1), of w1 t i dto2 ctx2] e assms(4)
    by (auto simp: update_outcome_def Let_def a split: option.splits if_splits prod.splits)
qed

lemma second_update_conflicts_witness:
  "\<exists>a w1. EmployeesService_update acme (sample_uuid 11) (sample_update 1) sample_context sample_env sample_world = (Inr a, w1)
     \<and> fst (EmployeesService_update acme (sample_uuid 11) (sample_update 1) sample_context sample_env w1) = Inl employee_conflict"
proof -
  obtain a w1 where 1: "EmployeesService_update acme (sample_uuid 11) (sample_update 1) sample_context
      sample_env sample_world = (Inr a, w1)"
    using update_run [of sample_env sample_world acme "sample_uuid 11" "sample_update 1" sample_context]
    by (auto simp: update_outcome_def Let_def split: prod.splits)
  show ?thesis using 1 second_update_conflicts [OF _ _ 1, of "sample_update 1" sample_context] by simp
qed

text \<open>
  C14. Registering an employee: for an existing tenant, the code must be new to the tenant (and the
  generated id new); a clash is the 409 \<open>duplicate_code\<close> and changes nothing, otherwise the row built
  from the request, version 1 and active, is appended and returned, and the audit row is the only
  other change.
\<close>

theorem create_employee_spec:
  assumes "quiet E" and "t \<noteq> []" and "pg_uuid t" and "t \<in> tn_id ` set (tenants (w_db w))"
  shows "let n = x_tick (w_ext w); d = w_db w; e = new_employee t dto (e_uuid E (n + 2)) (e_clock E n);
             (r, w') = EmployeesService_create t dto ctx E w
         in if (\<exists>x \<in> set (employees d). em_tenantId x = t \<and> em_employeeCode x = ce_employeeCode dto
                 \<or> same_uuid (em_id x) (em_id e))
            then r = Inl duplicate_code \<and> w_db w' = d
            else r = Inr e \<and> w_db w' = audit_outcome_db E
              (audit_record ctx EMPLOYEE_CREATED ''employee'' (Some (em_id e)) None (Some (employee_json e))
                 SUCCESS None (e_uuid E (n + 4)) (e_clock E n))
              (n + 4) (Some t) (d\<lparr>employees := employees d @ [e]\<rparr>)"
proof -
  let ?e = "new_employee t dto (e_uuid E (x_tick (w_ext w) + 2)) (e_clock E (x_tick (w_ext w)))"
  have c: "list_ex (employee_clash ?e) (employees (w_db w)) \<longleftrightarrow>
      (\<exists>x \<in> set (employees (w_db w)). em_tenantId x = t \<and> em_employeeCode x = ce_employeeCode dto
         \<or> same_uuid (em_id x) (em_id ?e))"
    unfolding list_ex_iff employee_clash_def by (intro bex_cong) (auto simp: new_employee_def same_uuid_def)
  show ?thesis
    using create_run [OF assms, of dto ctx] unfolding c
    by (auto simp: Let_def split: prod.splits if_splits)
qed

theorem create_employee_spec_witness:
  "fst (EmployeesService_create acme (sample_create ''E-1'') sample_context sample_env sample_world) = Inl duplicate_code"
  using create_employee_spec [of sample_env acme sample_world "sample_create ''E-1''" sample_context]
  by (auto simp: Let_def sample_employee_def sample_create_def split: prod.splits)

text \<open>
  The version check compares the request with the stored row but counts from the row read
  before: when another request commits between the two statements and the request names the version
  that one produced, the write goes through, the version does not move and the columns the request
  leaves out fall back to their older values.
\<close>

lemma stale_read_overwrites:
  assumes "quiet E" and "\<not> t_aborted s" and "t_tenant s = Some t" and "employee_ids_distinct (t_db s)"
    and "live_of t i (t_db s) = Some e" and "int4 (em_version e)"
    and "em_version before + 1 = em_version e" and "ue_version dto = em_version e"
  shows "\<exists>after s'. employee_write i dto ctx before E s = (Inr after, s')
    \<and> em_version after = em_version e
    \<and> em_department after = nullish_opt (ue_department dto) (em_department before)
    \<and> after \<in> set (employees (t_db s'))"
proof -
  have e: "e \<in> set (employees (t_db s))"
    using found_visible [OF assms(5)] by simp
  show ?thesis
    using employee_write_quiet [OF assms(1-5), of before dto ctx] assms(6-8) e
    by (auto simp: replace_row_def employee_set_def Let_def)
qed

lemma stale_read_overwrites_witness:
  "\<exists>after s'. employee_write (sample_uuid 11) (sample_update 1) sample_context
       (sample_employee\<lparr>em_version := 0\<rparr>) sample_env ((start sample_env sample_world)\<lparr>t_tenant := Some acme\<rparr>)
     = (Inr after, s') \<and> em_version after = 1"
  using stale_read_overwrites [of sample_env "(start sample_env sample_world)\<lparr>t_tenant := Some acme\<rparr>" acme
    "sample_uuid 11" sample_employee "sample_employee\<lparr>em_version := 0\<rparr>" "sample_update 1" sample_context]
  by auto

text \<open>
  A success that is not there: when the statement that opens the audit savepoint fails, the
  transaction is aborted, the error is swallowed, the commit rolls back without an error, and the
  create answers with a row that no table holds.
\<close>

lemma create_lost_with_savepoint:
  assumes "t \<noteq> []" and "pg_uuid t" and "t \<in> tn_id ` set (tenants (w_db w))"
    and "\<And>k. e_fault E k \<noteq> None \<longleftrightarrow> k = x_tick (w_ext w) + 3"
    and "\<not> list_ex (employee_clash (new_employee t dto (e_uuid E (x_tick (w_ext w) + 2)) (e_clock E (x_tick (w_ext w)))))
            (employees (w_db w))"
  shows "\<exists>e. fst (EmployeesService_create t dto ctx E w) = Inr e
    \<and> w_db (snd (EmployeesService_create t dto ctx E w)) = w_db w \<and> e \<notin> set (employees (w_db w))"
proof -
  let ?n = "x_tick (w_ext w)"
  obtain c where c: "e_fault E (?n + 3) = Some c" using assms(4) by blast
  have f0: "e_fault E k = None" if "k \<noteq> ?n + 3" for k using assms(4) [of k] that by auto
  have f: "e_fault E ?n = None" "e_fault E (Suc ?n) = None" "e_fault E (Suc (Suc ?n)) = None"
    "e_fault E (Suc (Suc (Suc ?n))) = Some c"
    "e_fault E (Suc (Suc (Suc (Suc ?n)))) = None" "e_fault E (Suc (Suc (Suc (Suc (Suc ?n))))) = None"
    using c by (simp_all add: f0 numeral_eq_Suc)
  have "new_employee t dto u now \<notin> set (employees (w_db w))" if "\<not> list_ex (employee_clash (new_employee t dto u now)) (employees (w_db w))" for u now
    using that by (auto simp: list_ex_iff employee_clash_def same_uuid_def)
  with assms f show ?thesis
    by (simp add: EmployeesService_create_def transaction_def employee_insert_def insert_returning_def
        setTenantContext_def statement_def tx_simps Let_def employee_typed_def rls_visible_def employee_fk_def
        new_employee_def numeral_eq_Suc audit_log_parts savepoint_def rollback_to_savepoint_def)
qed

lemma create_lost_with_savepoint_witness:
  "\<exists>e. fst (EmployeesService_create acme (sample_create ''E-2'') sample_context (faulty_env 3) sample_world) = Inr e
     \<and> w_db (snd (EmployeesService_create acme (sample_create ''E-2'') sample_context (faulty_env 3) sample_world)) = sample_db"
proof -
  let ?E = "faulty_env 3" and ?n = "x_tick (w_ext sample_world)"
  have 1: "e_fault ?E k \<noteq> None \<longleftrightarrow> k = ?n + 3" for k
    by (simp add: faulty_env_def sample_env_def)
  have 2: "\<not> list_ex (employee_clash (new_employee acme (sample_create ''E-2'') (e_uuid ?E (?n + 2)) (e_clock ?E ?n)))
      (employees (w_db sample_world))"
    by code_simp
  show ?thesis
    using create_lost_with_savepoint [OF _ _ _ 1 2, of sample_context] by auto
qed

lemma findAll_run:
  assumes "quiet E" "es_limit params = Some l" "es_page params = Some p" "0 \<le> l" "1 \<le> p" "int8 l" "int8 ((p - 1) * l)"
  shows "fst (EmployeesService_findAll fts t params E w) =
    (let hits = visible_rows employees_t (Some t) (employee_filter fts params) (w_db w)
     in Inr (take (nat l) (drop (nat ((p - 1) * l)) (sort_key em_createdAt (scan_order E (x_tick (w_ext w) + 2) hits))),
             int (length hits)))"
  using assms by (simp add: EmployeesService_findAll_def quiet_simps tx_simps limit_offset_def Let_def
      mult_less_0_iff numeral_eq_Suc)

lemma employee_filter_page [simp]: "employee_filter fts (params\<lparr>es_page := p\<rparr>) = employee_filter fts params"
  by (rule ext) (simp add: employee_filter_def)

lemma concat_pages:
  "concat (map (\<lambda>p. take l (drop ((p - Suc 0) * l) xs)) [Suc 0..<Suc n]) = take (n * l) xs"
proof (induction n)
  case (Suc n)
  have "[Suc 0..<Suc (Suc n)] = [Suc 0..<Suc n] @ [Suc n]" and "Suc n * l = n * l + l" by simp_all
  then show ?case using Suc by (simp only: take_add) (simp del: upt_Suc)
qed simp

lemma int8_smaller: "0 \<le> v \<Longrightarrow> v \<le> u \<Longrightarrow> int8 u \<Longrightarrow> int8 v"
  by (simp add: int8_def)

text \<open>
  C26. Reading the search page by page. The pages 1 to \<open>n\<close>, each asked for by a request of its own on the same
  rows, report the same total, the number of matching employees of the tenant; put together they hold
  matching employees only, with the first \<open>n * limit\<close> of the creation times of all of them, in order; and
  where no two matching employees were created at the same time, they are the first \<open>n * limit\<close> employees,
  none missed and none repeated. The order has no tie-break, so that with equal times only the times are
  certain (\<open>tied_pages_repeat\<close>).
\<close>

theorem search_pages_cover:
  fixes E :: "nat \<Rightarrow> env" and fts t params and w :: "nat \<Rightarrow> world"
  assumes "\<And>p. quiet (E p)" and "\<And>p. w_db (w p) = d" and "es_limit params = Some l" and "1 \<le> l" and "int8 (int n * l)"
  defines "hits \<equiv> visible_rows employees_t (Some t) (employee_filter fts params) d"
    and "page \<equiv> \<lambda>p. fst (EmployeesService_findAll fts t (params\<lparr>es_page := Some (int p)\<rparr>) (E p) (w p))"
  defines "rows \<equiv> concat (map (\<lambda>p. case page p of Inr (rs, cnt) \<Rightarrow> rs | Inl e \<Rightarrow> []) [1..<Suc n])"
  shows "(\<forall>p. 1 \<le> p \<and> p \<le> n \<longrightarrow> (\<exists>rs. page p = Inr (rs, int (length hits))))
    \<and> set rows \<subseteq> set hits
    \<and> map em_createdAt rows = take (n * nat l) (sort (map em_createdAt hits))
    \<and> (inj_on em_createdAt (set hits) \<longrightarrow> rows = take (n * nat l) (sort_key em_createdAt hits))"
proof -
  define scan where "scan p = sort_key em_createdAt (scan_order (E p) (x_tick (w_ext (w p)) + 2) hits)" for p
  have page: "page p = Inr (take (nat l) (drop ((p - 1) * nat l) (scan p)), int (length hits))"
    if "1 \<le> p" "p \<le> n" for p
  proof -
    have "1 * l \<le> int n * l" "int (p - 1) * l \<le> int n * l"
      using that assms(4) by (intro mult_right_mono; simp)+
    then have "int8 l" "int8 (int (p - 1) * l)"
      using assms(4) by (auto intro!: int8_smaller [OF _ _ assms(5)])
    then show ?thesis
      using assms(1-4) that findAll_run [of "E p" "params\<lparr>es_page := Some (int p)\<rparr>" l "int p" fts t "w p"]
      by (simp add: page_def hits_def scan_def Let_def nat_mult_distrib nat_diff_distrib of_nat_diff)
  qed
  have rows: "rows = concat (map (\<lambda>p. take (nat l) (drop ((p - 1) * nat l) (scan p))) [1..<Suc n])"
    unfolding rows_def by (intro arg_cong [of _ _ concat] map_cong) (auto simp: page)
  have "set (scan p) = set hits" for p by (simp add: scan_def)
  then have "set (take (nat l) (drop ((p - 1) * nat l) (scan p))) \<subseteq> set hits" for p
    by (blast dest: in_set_takeD in_set_dropD)
  then have "set rows \<subseteq> set hits" unfolding rows set_concat set_map
    by (intro UN_least) (elim imageE, simp)
  moreover have "map em_createdAt rows = take (n * nat l) (sort (map em_createdAt hits))"
    unfolding rows by (simp add: map_concat comp_def scan_def page_keys concat_pages del: upt_Suc flip: take_map drop_map)
  moreover have "rows = take (n * nat l) (sort_key em_createdAt hits)" if "inj_on em_createdAt (set hits)"
    unfolding rows by (simp add: scan_def page_rows [OF that] concat_pages del: upt_Suc)
  ultimately show ?thesis using page by blast
qed

theorem search_pages_cover_witness:
  "concat (map (\<lambda>p. case fst (EmployeesService_findAll (\<lambda>_ _. True) acme
       \<lparr>es_q = None, es_department = Some ''IT'', es_branch = None, es_status = None,
         es_page = Some (int p), es_limit = Some 5\<rparr> sample_env sample_world)
       of Inr (rows, cnt) \<Rightarrow> rows | Inl e \<Rightarrow> []) [1..<3]) = [sample_employee]"
proof -
  have f: "visible_rows employees_t (Some acme) (employee_filter (\<lambda>_ _. True) \<lparr>es_q = None,
      es_department = Some ''IT'', es_branch = None, es_status = None, es_page = None, es_limit = Some 5\<rparr>)
      sample_db = [sample_employee]"
    by code_simp
  show ?thesis
    using search_pages_cover [of "\<lambda>_. sample_env" "\<lambda>_. sample_world" sample_db "\<lparr>es_q = None,
      es_department = Some ''IT'', es_branch = None, es_status = None, es_page = None, es_limit = Some 5\<rparr>" 5 2 "\<lambda>_ _. True" acme]
    by (simp add: f numeral_eq_Suc int8_def)
qed

text \<open>
  Two employees stored by one transaction have the same creation time. Read in pages of one, the first page
  and the second may show the same of the two, and the other is on no page.
\<close>

definition tied_employee :: employee_row where
  "tied_employee = sample_employee\<lparr>em_id := sample_uuid 12, em_employeeCode := ''E-2''\<rparr>"

definition tied_world :: world where
  "tied_world = sample_world\<lparr>w_db := sample_db\<lparr>employees := [sample_employee, tied_employee]\<rparr>\<rparr>"

definition page_of_one :: "int \<Rightarrow> employee_search" where
  "page_of_one p = \<lparr>es_q = None, es_department = None, es_branch = None, es_status = None,
     es_page = Some p, es_limit = Some 1\<rparr>"

definition reversed_env :: env where
  "reversed_env = sample_env\<lparr>e_rank := \<lambda>_ i. 1 - i\<rparr>"

lemma tied_pages_repeat:
  "fst (EmployeesService_findAll (\<lambda>_ _. True) acme (page_of_one 1) sample_env tied_world) = Inr ([sample_employee], 2)
   \<and> fst (EmployeesService_findAll (\<lambda>_ _. True) acme (page_of_one 2) reversed_env tied_world)
     = Inr ([sample_employee], 2)"
proof -
  have h: "visible_rows employees_t (Some acme) (employee_filter (\<lambda>_ _. True) (page_of_one p)) (w_db tied_world)
      = [sample_employee, tied_employee]" for p
    by (simp add: visible_rows_def employee_filter_def page_of_one_def tied_world_def tied_employee_def sample_employee_def
        rls_visible_def)
  have q: "quiet reversed_env" using quiet_sample by (simp add: quiet_def reversed_env_def)
  have e: "em_createdAt tied_employee = em_createdAt sample_employee" by (simp add: tied_employee_def)
  have r: "scan_order sample_env n [sample_employee, tied_employee] = [sample_employee, tied_employee]"
    "scan_order reversed_env n [sample_employee, tied_employee] = [tied_employee, sample_employee]" for n
    by (simp_all add: scan_order_def sample_env_def reversed_env_def upt_rec)
  have p: "es_limit (page_of_one p) = Some 1" "es_page (page_of_one p) = Some p" for p by (simp_all add: page_of_one_def)
  show ?thesis
    using findAll_run [OF quiet_sample p, of 1 "\<lambda>_ _. True" acme tied_world]
      findAll_run [OF q p, of 2 "\<lambda>_ _. True" acme tied_world]
    by (simp add: h r e int8_def)
qed

end
