(* ===== verification/Documents.thy ===== *)
theory Documents
  imports Expiry Employees
begin

text \<open>
  The document service, \<open>apps/api/src/documents/documents.service.ts\<close>: documents of an employee, their
  expiry status computed from the tenant's policy for the type at every write, or set by hand to one
  of the two sticky values; listing, update under a version check, soft delete.
\<close>

section \<open>Rows and conditions\<close>

definition DEFAULT_POLICY :: expiry_policy where
  "DEFAULT_POLICY = \<lparr>warningDays1 = 90, warningDays2 = 60, warningDays3 = 30, criticalDays = 14,
     gracePeriodDays = 0, autoBlock = False\<rparr>"

definition live_document :: "string \<Rightarrow> document_row \<Rightarrow> bool" where
  "live_document i r \<longleftrightarrow> same_uuid (dc_id r) i \<and> dc_deletedAt r = None"

definition document_clash :: "document_row \<Rightarrow> document_row \<Rightarrow> bool" where
  "document_clash r r' \<longleftrightarrow> same_uuid (dc_id r) (dc_id r')"

definition document_fk :: "db \<Rightarrow> document_row \<Rightarrow> bool" where
  "document_fk d r \<longleftrightarrow> dc_tenantId r \<in> tn_id ` set (tenants d)
     \<and> (case dc_employeeId r of None \<Rightarrow> True | Some i \<Rightarrow> list_ex (\<lambda>e. same_uuid (em_id e) i) (employees d))"

definition document_typed :: "env \<Rightarrow> document_row \<Rightarrow> bool" where
  "document_typed E r \<longleftrightarrow> pg_uuid (dc_tenantId r) \<and> (case dc_employeeId r of None \<Rightarrow> True | Some i \<Rightarrow> pg_uuid i)"

text \<open>\<open>loadPolicy\<close>: the tenant's row for the type, else the default.\<close>

definition loadPolicy :: "uuid \<Rightarrow> document_type \<Rightarrow> expiry_policy tx" where
  "loadPolicy tenantId docType =
     tbind (select_where expiry_policies_t (\<lambda>p. ep_tenantId p = tenantId \<and> ep_docType p = docType))
       (\<lambda>rows. treturn (case first_row (take 1 rows) of None \<Rightarrow> DEFAULT_POLICY | Some p \<Rightarrow> ep_policy p))"

section \<open>create\<close>

definition new_document ::
  "uuid \<Rightarrow> string \<Rightarrow> create_document_dto \<Rightarrow> expiry_status \<Rightarrow> uuid \<Rightarrow> instant \<Rightarrow> document_row" where
  "new_document tenantId employeeId dto expiryStatus u now =
     \<lparr>dc_id = u, dc_tenantId = tenantId, dc_employeeId = Some employeeId, dc_docType = cd_docType dto,
      dc_docNumber = cd_docNumber dto, dc_issueDate = nullish_opt (cd_issueDate dto) None,
      dc_expiryDate = nullish_opt (cd_expiryDate dto) None, dc_status = ''valid'',
      dc_expiryStatus = expiryStatus, dc_version = 1, dc_renewalStartedAt = None,
      dc_exceptionReason = None, dc_createdAt = now, dc_deletedAt = None\<rparr>"

definition document_insert :: "uuid \<Rightarrow> string \<Rightarrow> create_document_dto \<Rightarrow> expiry_status \<Rightarrow> document_row tx" where
  "document_insert tenantId employeeId dto expiryStatus =
     tbind (well_typed ''22008'' (opt_date_ok (cd_issueDate dto) \<and> opt_date_ok (cd_expiryDate dto))
         (insert_returning documents_t document_typed document_clash document_fk
           (new_document tenantId employeeId dto expiryStatus)))
       (\<lambda>inserted. case first_row inserted of
          None \<Rightarrow> tthrow (JsError ''Document insert did not return a row'')
        | Some created \<Rightarrow> treturn created)"

definition DocumentsService_create ::
  "uuid \<Rightarrow> string \<Rightarrow> create_document_dto \<Rightarrow> audit_context \<Rightarrow> document_row io" where
  "DocumentsService_create tenantId employeeId dto auditContext =
     transaction (tthen (setTenantContext tenantId)
       (tthen (employee_lookup employeeId)
         (tbind (loadPolicy tenantId (cd_docType dto))
           (\<lambda>policy. tbind new_Date
             (\<lambda>now. tbind (document_insert tenantId employeeId dto
                 (calculateStatus (map_option DStr (nullish_opt (cd_expiryDate dto) None)) policy VALID now))
               (\<lambda>created. tthen
                 (audit_log auditContext DOCUMENT_CREATED ''document'' (Some (dc_id created))
                    None (Some (document_json created)) SUCCESS None)
                 (treturn created)))))))"

section \<open>findAllForEmployee, findAll\<close>

definition DocumentsService_findAllForEmployee :: "uuid \<Rightarrow> string \<Rightarrow> document_row list io" where
  "DocumentsService_findAllForEmployee tenantId employeeId =
     transaction (tthen (setTenantContext tenantId)
       (well_typed ''22P02'' (pg_uuid employeeId)
         (select_where documents_t (\<lambda>r.
           (case dc_employeeId r of None \<Rightarrow> False | Some i \<Rightarrow> same_uuid i employeeId) \<and> dc_deletedAt r = None))))"

definition document_filter :: "document_search \<Rightarrow> document_row \<Rightarrow> bool" where
  "document_filter params r \<longleftrightarrow>
     dc_deletedAt r = None
     \<and> (case ds_docType params of None \<Rightarrow> True | Some ty \<Rightarrow> dc_docType r = ty)
     \<and> (case ds_expiryStatus params of None \<Rightarrow> True | Some st \<Rightarrow> dc_expiryStatus r = st)"

definition DocumentsService_findAll :: "uuid \<Rightarrow> document_search \<Rightarrow> (document_row list \<times> int) io" where
  "DocumentsService_findAll tenantId params =
     (let page = nullish (ds_page params) 1; limit = nullish (ds_limit params) 20;
          whereClause = document_filter params
      in transaction
           (tthen (setTenantContext tenantId)
             (tbind (select_page documents_t whereClause dc_createdAt limit ((page - 1) * limit))
               (\<lambda>rows. tbind (select_count documents_t whereClause)
                 (\<lambda>total. treturn (rows, total))))))"

section \<open>update\<close>

definition document_lookup :: "string \<Rightarrow> document_row tx" where
  "document_lookup i =
     tbind (well_typed ''22P02'' (pg_uuid i) (select_where documents_t (live_document i)))
       (\<lambda>rows. case first_row (take 1 rows) of
          None \<Rightarrow> tthrow (NotFoundException (Message ''Document not found''))
        | Some doc \<Rightarrow> treturn doc)"

definition document_next_status :: "uuid \<Rightarrow> update_document_dto \<Rightarrow> document_row \<Rightarrow> expiry_status tx" where
  "document_next_status tenantId dto before =
     (case ud_expiryStatus dto of
        Some manualOverride \<Rightarrow> treturn manualOverride
      | None \<Rightarrow> tbind (loadPolicy tenantId (dc_docType before))
          (\<lambda>policy. tbind new_Date (\<lambda>now. treturn
            (calculateStatus (map_option DStr (nullish_opt (ud_expiryDate dto) (dc_expiryDate before)))
               policy (dc_expiryStatus before) now))))"

definition document_set ::
  "document_row \<Rightarrow> update_document_dto \<Rightarrow> expiry_status \<Rightarrow> instant \<Rightarrow> document_row \<Rightarrow> document_row" where
  "document_set before dto nextExpiryStatus now r =
     r\<lparr>dc_docNumber := nullish (ud_docNumber dto) (dc_docNumber before),
       dc_issueDate := nullish_opt (ud_issueDate dto) (dc_issueDate before),
       dc_expiryDate := nullish_opt (ud_expiryDate dto) (dc_expiryDate before),
       dc_expiryStatus := nextExpiryStatus,
       dc_exceptionReason := (if ud_expiryStatus dto = Some EXCEPTION then nullish_opt (ud_exceptionReason dto) None
         else dc_exceptionReason before),
       dc_renewalStartedAt := (if ud_expiryStatus dto = Some RENEWAL_IN_PROGRESS then Some now
         else dc_renewalStartedAt before),
       dc_version := dc_version before + 1\<rparr>"

definition document_conflict :: exn where
  "document_conflict = ConflictException (Custom
     [(''message'', JStr ''Document was modified by another request''), (''detail'', JStr ''version_mismatch'')])"

definition override_reason :: "update_document_dto \<Rightarrow> string option" where
  "override_reason dto = (case ud_expiryStatus dto of
     None \<Rightarrow> None
   | Some m \<Rightarrow> Some (nullish (ud_exceptionReason dto) (''manual override: '' @ expiry_status_text m)))"

definition status_json :: "expiry_status \<Rightarrow> (string \<times> json) list" where
  "status_json st = [(''expiryStatus'', JStr (expiry_status_text st))]"

definition document_write ::
  "string \<Rightarrow> update_document_dto \<Rightarrow> audit_context \<Rightarrow> document_row \<Rightarrow> expiry_status \<Rightarrow> document_row tx" where
  "document_write i dto auditContext before nextExpiryStatus =
     tbind (well_typed ''22008'' (opt_date_ok (ud_issueDate dto) \<and> opt_date_ok (ud_expiryDate dto))
         (well_typed ''22003'' (int4 (dc_version before + 1) \<and> int4 (ud_version dto))
           (update_returning documents_t (\<lambda>r. live_document i r \<and> dc_version r = ud_version dto)
             (document_set before dto nextExpiryStatus))))
       (\<lambda>updatedRows. case first_row updatedRows of
          None \<Rightarrow> tthrow document_conflict
        | Some after \<Rightarrow> tthen
            (audit_log auditContext DOCUMENT_UPDATED ''document'' (Some i)
               (Some (document_json before)) (Some (document_json after)) SUCCESS (override_reason dto))
            (tthen
              (if dc_expiryStatus before \<noteq> dc_expiryStatus after
               then audit_log auditContext EXPIRY_STATUS_CHANGED ''document'' (Some i)
                      (Some (status_json (dc_expiryStatus before))) (Some (status_json (dc_expiryStatus after)))
                      SUCCESS None
               else treturn ())
              (treturn after)))"

definition reason_required :: exn where
  "reason_required = BadRequestException (Custom [(''fieldErrors'', JObj [(''exceptionReason'',
     JList [JStr ''exceptionReason is required when expiryStatus is EXCEPTION''])])])"

definition DocumentsService_update ::
  "uuid \<Rightarrow> string \<Rightarrow> update_document_dto \<Rightarrow> audit_context \<Rightarrow> document_row io" where
  "DocumentsService_update tenantId i dto auditContext =
     (if ud_expiryStatus dto = Some EXCEPTION \<and> \<not> truthy (ud_exceptionReason dto) then iothrow reason_required
      else transaction (tthen (setTenantContext tenantId)
        (tbind (document_lookup i)
          (\<lambda>before. tbind (document_next_status tenantId dto before)
            (document_write i dto auditContext before)))))"

section \<open>archive\<close>

definition document_archive_set :: "instant \<Rightarrow> document_row \<Rightarrow> document_row" where
  "document_archive_set now r = r\<lparr>dc_deletedAt := Some now\<rparr>"

definition document_archive_write :: "string \<Rightarrow> audit_context \<Rightarrow> document_row \<Rightarrow> (uuid \<times> string) tx" where
  "document_archive_write i auditContext before =
     tbind (update_returning documents_t (live_document i) document_archive_set)
       (\<lambda>updatedRows. case first_row updatedRows of
          None \<Rightarrow> tthrow (NotFoundException (Message ''Document not found''))
        | Some after \<Rightarrow> tthen
            (audit_log auditContext DOCUMENT_ARCHIVED ''document'' (Some i)
               (Some (document_json before)) (Some (document_json after)) SUCCESS None)
            (case dc_deletedAt after of
               None \<Rightarrow> tthrow (JsError ''Cannot read properties of null'')
             | Some t \<Rightarrow> treturn (dc_id after, toISOString t)))"

definition DocumentsService_archive :: "uuid \<Rightarrow> string \<Rightarrow> audit_context \<Rightarrow> (uuid \<times> string) io" where
  "DocumentsService_archive tenantId i auditContext =
     transaction (tthen (setTenantContext tenantId)
       (tbind (document_lookup i) (document_archive_write i auditContext)))"

lemmas document_defs = DocumentsService_create_def DocumentsService_findAllForEmployee_def
  DocumentsService_findAll_def DocumentsService_update_def DocumentsService_archive_def document_archive_write_def loadPolicy_def
  document_lookup_def document_insert_def document_next_status_def document_write_def

section \<open>What every operation keeps\<close>

lemma document_set_keeps [simp]:
  "dc_id (document_set b dto st now r) = dc_id r" "dc_tenantId (document_set b dto st now r) = dc_tenantId r"
  "dc_employeeId (document_set b dto st now r) = dc_employeeId r"
  "dc_deletedAt (document_set b dto st now r) = dc_deletedAt r"
  "dc_expiryStatus (document_set b dto st now r) = st"
  "dc_version (document_set b dto st now r) = dc_version b + 1"
  by (simp_all add: document_set_def)

lemma document_archive_set_tenant [simp]: "dc_tenantId (document_archive_set now r) = dc_tenantId r"
  by (simp add: document_archive_set_def)

lemma employee_lookup_keeps [keeps_intros]:
  "keeps (txinv (same_for_others t) t d0) (employee_lookup i)" "keeps (txinv history t d0) (employee_lookup i)"
  unfolding employee_lookup_def by (auto intro!: keeps_intros)

lemma documents_iso_ops [io_intros]:
  "io_rel (same_for_others t) (DocumentsService_create t i cdto ctx)"
  "io_rel (same_for_others t) (DocumentsService_findAllForEmployee t i)"
  "io_rel (same_for_others t) (DocumentsService_findAll t params)"
  "io_rel (same_for_others t) (DocumentsService_update t i udto ctx)"
  "io_rel (same_for_others t) (DocumentsService_archive t i ctx)"
  unfolding document_defs Let_def
  by (auto intro!: io_intros keeps_intros)

lemma document_set_later: "live_document i r \<Longrightarrow> document_later r (document_set b dto st now r)"
  by (simp add: document_later_def document_set_def live_document_def)

lemma document_archive_later: "live_document i r \<Longrightarrow> document_later r (document_archive_set now r)"
  by (simp add: document_later_def document_archive_set_def live_document_def)

lemma documents_hist_ops [io_intros]:
  "io_rel history (DocumentsService_create t i cdto ctx)"
  "io_rel history (DocumentsService_findAllForEmployee t i)"
  "io_rel history (DocumentsService_findAll t params)"
  "io_rel history (DocumentsService_update t i udto ctx)"
  "io_rel history (DocumentsService_archive t i ctx)"
  unfolding document_defs Let_def
  by (auto intro!: io_intros keeps_intros intro: document_set_later document_archive_later)

section \<open>Runs without outside failures\<close>

interpretation document_ids: keyed_table documents_t "\<lambda>r. uuid_canon (dc_id r)" live_document
  by unfold_locales (auto simp: live_document_def same_uuid_def)

abbreviation live_doc_of :: "uuid \<Rightarrow> string \<Rightarrow> db \<Rightarrow> document_row option" where
  "live_doc_of t i d \<equiv> found documents_t t (live_document i) d"

abbreviation document_ids_distinct :: "db \<Rightarrow> bool" where
  "document_ids_distinct d \<equiv> ids_distinct documents_t (\<lambda>r. uuid_canon (dc_id r)) d"

text \<open>The policy in force for a tenant and a type.\<close>

definition policy_of :: "uuid \<Rightarrow> document_type \<Rightarrow> db \<Rightarrow> expiry_policy" where
  "policy_of t ty d =
     (case found expiry_policies_t t (\<lambda>p. ep_tenantId p = t \<and> ep_docType p = ty) d of
        None \<Rightarrow> DEFAULT_POLICY | Some p \<Rightarrow> ep_policy p)"

lemma loadPolicy_quiet:
  "quiet E \<Longrightarrow> \<not> t_aborted s \<Longrightarrow> t_tenant s = Some t \<Longrightarrow>
     loadPolicy t ty E s = (Inr (policy_of t ty (t_db s)), s\<lparr>t_ext := tick (t_ext s)\<rparr>)"
  by (simp add: loadPolicy_def quiet_simps tx_simps policy_of_def found_def)

lemma document_lookup_quiet:
  "quiet E \<Longrightarrow> \<not> t_aborted s \<Longrightarrow> pg_uuid i \<Longrightarrow> t_tenant s = Some t \<Longrightarrow>
     document_lookup i E s =
       (case live_doc_of t i (t_db s) of
          None \<Rightarrow> (Inl (NotFoundException (Message ''Document not found'')), s\<lparr>t_ext := tick (t_ext s)\<rparr>)
        | Some x \<Rightarrow> (Inr x, s\<lparr>t_ext := tick (t_ext s)\<rparr>))"
  by (simp add: document_lookup_def quiet_simps tx_simps found_def split: option.split)

lemma document_lookup_bad:
  "quiet E \<Longrightarrow> \<not> t_aborted s \<Longrightarrow> \<not> pg_uuid i \<Longrightarrow>
     document_lookup i E s = (Inl (DbError ''22P02''), s\<lparr>t_ext := tick (t_ext s), t_aborted := True\<rparr>)"
  by (simp add: document_lookup_def well_typed_bad_quiet tx_simps)

text \<open>The status an update writes, from the stored row, the request, the policy and the time.\<close>

definition next_status :: "uuid \<Rightarrow> update_document_dto \<Rightarrow> document_row \<Rightarrow> db \<Rightarrow> instant \<Rightarrow> expiry_status" where
  "next_status t dto x d now =
     (case ud_expiryStatus dto of
        Some m \<Rightarrow> m
      | None \<Rightarrow> calculateStatus (map_option DStr (nullish_opt (ud_expiryDate dto) (dc_expiryDate x)))
          (policy_of t (dc_docType x) d) (dc_expiryStatus x) now)"

lemma next_status_quiet:
  "quiet E \<Longrightarrow> \<not> t_aborted s \<Longrightarrow> t_tenant s = Some t \<Longrightarrow>
     document_next_status t dto x E s =
       (Inr (next_status t dto x (t_db s) (e_clock E (Suc (x_tick (t_ext s))))),
        if ud_expiryStatus dto = None then s\<lparr>t_ext := tick (t_ext s)\<rparr> else s)"
  by (simp add: document_next_status_def tx_simps loadPolicy_quiet next_status_def split: option.split)

definition document_params_ok :: "update_document_dto \<Rightarrow> document_row \<Rightarrow> bool" where
  "document_params_ok dto before \<longleftrightarrow> opt_date_ok (ud_issueDate dto) \<and> opt_date_ok (ud_expiryDate dto)
     \<and> int4 (dc_version before + 1) \<and> int4 (ud_version dto)"

text \<open>The audit entries of an update: one, and a second one when the status moved.\<close>

definition update_audit ::
  "env \<Rightarrow> string \<Rightarrow> update_document_dto \<Rightarrow> audit_context \<Rightarrow> document_row \<Rightarrow> document_row \<Rightarrow> txs \<Rightarrow> txs" where
  "update_audit E i dto ctx before after s =
     (let s' = audited E (audit_record ctx DOCUMENT_UPDATED ''document'' (Some i) (Some (document_json before))
            (Some (document_json after)) SUCCESS (override_reason dto)) s
      in if dc_expiryStatus before \<noteq> dc_expiryStatus after
         then audited E (audit_record ctx EXPIRY_STATUS_CHANGED ''document'' (Some i)
            (Some (status_json (dc_expiryStatus before))) (Some (status_json (dc_expiryStatus after))) SUCCESS None) s'
         else s')"

lemma update_audit_simps [simp]:
  "t_aborted (update_audit E i dto ctx b a s) = t_aborted s"
  "documents (t_db (update_audit E i dto ctx b a s)) = documents (t_db s)"
  "employees (t_db (update_audit E i dto ctx b a s)) = employees (t_db s)"
  "expiryPolicies (t_db (update_audit E i dto ctx b a s)) = expiryPolicies (t_db s)"
  by (simp_all add: update_audit_def Let_def)

lemma document_write_quiet:
  assumes "quiet E" "\<not> t_aborted s" "t_tenant s = Some t" "document_ids_distinct (t_db s)"
    and "live_doc_of t i (t_db s) = Some x" "document_params_ok dto before"
  shows "document_write i dto ctx before st E s =
    (let after = document_set before dto st (t_now s) x
     in if dc_version x = ud_version dto
        then (Inr after, update_audit E i dto ctx before after
                (s\<lparr>t_ext := tick (t_ext s), t_db := replace_row documents_t x after (t_db s)\<rparr>))
        else (Inl document_conflict, s\<lparr>t_ext := tick (t_ext s)\<rparr>))"
  using assms unfolding document_params_ok_def
  by (simp add: document_write_def tx_simps audit_log_quiet document_ids.update_one_quiet Let_def update_audit_def)

lemma document_write_bad:
  assumes "quiet E" "\<not> t_aborted s" "\<not> document_params_ok dto before"
  shows "document_write i dto ctx before st E s =
    (Inl (DbError (if opt_date_ok (ud_issueDate dto) \<and> opt_date_ok (ud_expiryDate dto) then ''22003'' else ''22008'')),
     s\<lparr>t_ext := tick (t_ext s), t_aborted := True\<rparr>)"
proof (cases "opt_date_ok (ud_issueDate dto) \<and> opt_date_ok (ud_expiryDate dto)")
  case True
  then show ?thesis
    using assms unfolding document_params_ok_def document_write_def
    by (subst tbind_def) (auto simp: well_typed_bad_quiet)
next
  case False
  then show ?thesis
    using assms unfolding document_params_ok_def document_write_def
    by (subst tbind_def) (auto simp: well_typed_bad_quiet)
qed

text \<open>The database with the entries of an update, the first of which is the statement \<open>k\<close>.\<close>

definition update_trail ::
  "env \<Rightarrow> uuid \<Rightarrow> string \<Rightarrow> update_document_dto \<Rightarrow> audit_context \<Rightarrow> document_row \<Rightarrow> document_row \<Rightarrow> nat \<Rightarrow> instant \<Rightarrow> db \<Rightarrow> db" where
  "update_trail E t i dto ctx x y k now d =
     (let d1 = audit_outcome_db E
            (audit_record ctx DOCUMENT_UPDATED ''document'' (Some i) (Some (document_json x)) (Some (document_json y))
               SUCCESS (override_reason dto) (e_uuid E k) now) k (Some t) d
      in if dc_expiryStatus x \<noteq> dc_expiryStatus y
         then audit_outcome_db E
            (audit_record ctx EXPIRY_STATUS_CHANGED ''document'' (Some i) (Some (status_json (dc_expiryStatus x)))
               (Some (status_json (dc_expiryStatus y))) SUCCESS None (e_uuid E (k + 3)) now) (k + 3) (Some t) d1
         else d1)"

lemma update_audit_db:
  "t_tenant s = Some t \<Longrightarrow>
    t_db (update_audit E i dto ctx x y s) = update_trail E t i dto ctx x y (Suc (x_tick (t_ext s))) (t_now s) (t_db s)"
  by (simp add: update_audit_def update_trail_def Let_def numeral_eq_Suc)

lemma update_trail_tables [simp]:
  "documents (update_trail E t i dto ctx x y k now d) = documents d"
  "employees (update_trail E t i dto ctx x y k now d) = employees d"
  by (simp_all add: update_trail_def Let_def)

text \<open>The outcomes of an update.\<close>

lemma replace_document_other [simp]:
  "employees (replace_row documents_t x x' d) = employees d"
  "auditEvents (replace_row documents_t x x' d) = auditEvents d"
  by (simp_all add: replace_row_def)

definition document_updated :: "env \<Rightarrow> uuid \<Rightarrow> update_document_dto \<Rightarrow> world \<Rightarrow> document_row \<Rightarrow> document_row" where
  "document_updated E t dto w x =
     document_set x dto (next_status t dto x (w_db w) (e_clock E (x_tick (w_ext w) + 4))) (e_clock E (x_tick (w_ext w))) x"

lemma document_update_run:
  fixes E dto w t i ctx
  assumes "quiet E" "document_ids_distinct (w_db w)"
    and "ud_expiryStatus dto = Some EXCEPTION \<longrightarrow> truthy (ud_exceptionReason dto)"
  defines "res \<equiv> DocumentsService_update t i dto ctx E w"
  shows "\<not> pg_uuid i \<Longrightarrow> fst res = Inl (DbError ''22P02'') \<and> w_db (snd res) = w_db w"
    and "pg_uuid i \<Longrightarrow> live_doc_of t i (w_db w) = None \<Longrightarrow>
      fst res = Inl (NotFoundException (Message ''Document not found'')) \<and> w_db (snd res) = w_db w"
    and "pg_uuid i \<Longrightarrow> live_doc_of t i (w_db w) = Some x \<Longrightarrow> \<not> document_params_ok dto x \<Longrightarrow>
      (\<exists>c. fst res = Inl (DbError c)) \<and> w_db (snd res) = w_db w"
    and "pg_uuid i \<Longrightarrow> live_doc_of t i (w_db w) = Some x \<Longrightarrow> document_params_ok dto x \<Longrightarrow>
      dc_version x \<noteq> ud_version dto \<Longrightarrow> fst res = Inl document_conflict \<and> w_db (snd res) = w_db w"
    and "pg_uuid i \<Longrightarrow> live_doc_of t i (w_db w) = Some x \<Longrightarrow> document_params_ok dto x \<Longrightarrow>
      dc_version x = ud_version dto \<Longrightarrow>
      fst res = Inr (document_updated E t dto w x)
      \<and> w_db (snd res) = update_trail E t i dto ctx x (document_updated E t dto w x)
          (x_tick (w_ext w) + (if ud_expiryStatus dto = None then 6 else 5)) (e_clock E (x_tick (w_ext w)))
          (replace_row documents_t x (document_updated E t dto w x) (w_db w))"
proof -
  have r: "res = transaction (tthen (setTenantContext t) (tbind (document_lookup i)
      (\<lambda>before. tbind (document_next_status t dto before) (document_write i dto ctx before)))) E w"
    using assms(3) by (auto simp: res_def DocumentsService_update_def)
  note F = r frame_simps document_lookup_quiet document_lookup_bad next_status_quiet
  show "\<not> pg_uuid i \<Longrightarrow> fst res = Inl (DbError ''22P02'') \<and> w_db (snd res) = w_db w"
    using assms(1) by (simp add: F)
  show "fst res = Inl (NotFoundException (Message ''Document not found'')) \<and> w_db (snd res) = w_db w"
    if "pg_uuid i" "live_doc_of t i (w_db w) = None"
    using assms(1) that by (simp add: F)
  show "(\<exists>c. fst res = Inl (DbError c)) \<and> w_db (snd res) = w_db w"
    if "pg_uuid i" "live_doc_of t i (w_db w) = Some x" "\<not> document_params_ok dto x"
    using assms(1) that by (simp add: F document_write_bad)
  show "fst res = Inl document_conflict \<and> w_db (snd res) = w_db w"
    if "pg_uuid i" "live_doc_of t i (w_db w) = Some x" "document_params_ok dto x" "dc_version x \<noteq> ud_version dto"
    using assms(1,2) that by (simp add: F document_write_quiet [where t = t and x = x] Let_def)
  show "fst res = Inr (document_updated E t dto w x)
      \<and> w_db (snd res) = update_trail E t i dto ctx x (document_updated E t dto w x)
          (x_tick (w_ext w) + (if ud_expiryStatus dto = None then 6 else 5)) (e_clock E (x_tick (w_ext w)))
          (replace_row documents_t x (document_updated E t dto w x) (w_db w))"
    if "pg_uuid i" "live_doc_of t i (w_db w) = Some x" "document_params_ok dto x" "dc_version x = ud_version dto"
  proof (cases "ud_expiryStatus dto")
    case None
    show ?thesis using assms(1,2) that None
      by (simp add: F document_write_quiet [where t = t and x = x] Let_def document_updated_def update_audit_db numeral_eq_Suc)
  next
    case (Some m)
    show ?thesis using assms(1,2) that Some
      by (simp add: F document_write_quiet [where t = t and x = x] Let_def document_updated_def next_status_def
          update_audit_db numeral_eq_Suc)
  qed
qed

text \<open>The outcomes of a create.\<close>

lemma document_create_run:
  fixes E w t i dto ctx
  assumes "quiet E" "pg_uuid i" "pg_uuid t" "t \<in> tn_id ` set (tenants (w_db w))"
    and "opt_date_ok (cd_issueDate dto)" "opt_date_ok (cd_expiryDate dto)"
  defines "n \<equiv> x_tick (w_ext w)"
  defines "x \<equiv> new_document t i dto
      (calculateStatus (map_option DStr (cd_expiryDate dto)) (policy_of t (cd_docType dto) (w_db w)) VALID (e_clock E (n + 4)))
      (e_uuid E (n + 4)) (e_clock E n)"
  assumes "\<not> list_ex (document_clash x) (documents (w_db w))"
  shows "(case DocumentsService_create t i dto ctx E w of (r, w') \<Rightarrow> (r, w_db w')) =
    (case live_of t i (w_db w) of
       None \<Rightarrow> (Inl (NotFoundException (Message ''Employee not found'')), w_db w)
     | Some e \<Rightarrow> (Inr x, audit_outcome_db E
          (audit_record ctx DOCUMENT_CREATED ''document'' (Some (dc_id x)) None (Some (document_json x))
             SUCCESS None (e_uuid E (n + 6)) (e_clock E n))
          (n + 6) (Some t) ((w_db w)\<lparr>documents := documents (w_db w) @ [x]\<rparr>)))"
proof (cases "live_of t i (w_db w)")
  case None
  then show ?thesis using assms
    by (simp add: DocumentsService_create_def frame_simps employee_lookup_quiet)
next
  case (Some e)
  have e: "e \<in> set (employees (w_db w))" "t \<noteq> []" "same_uuid (em_id e) i"
    using found_visible [OF Some] by (auto simp: rls_visible_def live_employee_def)
  then have "list_ex (\<lambda>e. same_uuid (em_id e) i) (employees (w_db w))" by (auto simp: list_ex_iff)
  then show ?thesis using assms Some e(2)
    by (simp add: DocumentsService_create_def frame_simps employee_lookup_quiet loadPolicy_quiet
        document_insert_def insert_returning_quiet Let_def document_typed_def document_fk_def
        new_document_def rls_visible_def audit_log_quiet numeral_eq_Suc)
qed

lemma sample_documents [simp]:
  "document_ids_distinct sample_db" "live_doc_of acme (sample_uuid 21) sample_db = Some sample_document"
  by code_simp+

lemma sample_document_simps [simp]:
  "dc_version sample_document = 1" "dc_expiryStatus sample_document = VALID"
  by (simp_all add: sample_document_def)

section \<open>Properties\<close>

text \<open>
  C7. What a document update does, on every branch: an exception without a reason is refused before
  the database is asked; a malformed id, an unknown, archived or foreign document, a parameter no
  column can hold, a version that is not the stored one are errors that change nothing; otherwise
  exactly that document becomes the merge of the stored row and the request with the computed status
  and the version one higher, it is returned, and the only other change to the database are the audit
  entries: one of the update with the row before and after and the reason of a manual status, and, when and
  only when the status moved, a second one with the two statuses.
\<close>

theorem update_document_spec:
  assumes "quiet E" and "document_ids_distinct (w_db w)"
  shows "let d = w_db w; (r, w') = DocumentsService_update t i dto ctx E w; d' = w_db w'
         in if ud_expiryStatus dto = Some EXCEPTION \<and> \<not> truthy (ud_exceptionReason dto)
            then r = Inl reason_required \<and> d' = d
            else if \<not> pg_uuid i then r = Inl (DbError ''22P02'') \<and> d' = d
            else case live_doc_of t i d of
              None \<Rightarrow> r = Inl (NotFoundException (Message ''Document not found'')) \<and> d' = d
            | Some x \<Rightarrow>
                if \<not> document_params_ok dto x then (\<exists>c. r = Inl (DbError c)) \<and> d' = d
                else if dc_version x \<noteq> ud_version dto then r = Inl document_conflict \<and> d' = d
                else let y = document_updated E t dto w x; now = e_clock E (x_tick (w_ext w));
                         k = x_tick (w_ext w) + (if ud_expiryStatus dto = None then 6 else 5);
                         d1 = d\<lparr>documents := map (\<lambda>z. if z = x then y else z) (documents d)\<rparr>;
                         d2 = audit_outcome_db E
                           (audit_record ctx DOCUMENT_UPDATED ''document'' (Some i) (Some (document_json x))
                              (Some (document_json y)) SUCCESS (override_reason dto) (e_uuid E k) now) k (Some t) d1
                  in r = Inr y \<and> d' =
                     (if dc_expiryStatus x = dc_expiryStatus y then d2
                      else audit_outcome_db E
                        (audit_record ctx EXPIRY_STATUS_CHANGED ''document'' (Some i)
                           (Some (status_json (dc_expiryStatus x))) (Some (status_json (dc_expiryStatus y)))
                           SUCCESS None (e_uuid E (k + 3)) now) (k + 3) (Some t) d2)"
proof (cases "ud_expiryStatus dto = Some EXCEPTION \<and> \<not> truthy (ud_exceptionReason dto)")
  case True
  then show ?thesis by (simp add: DocumentsService_update_def iothrow_def)
next
  case False
  then have g: "ud_expiryStatus dto = Some EXCEPTION \<longrightarrow> truthy (ud_exceptionReason dto)" by simp
  note run = document_update_run [OF assms g, where t = t and i = i and ctx = ctx]
  obtain r w' where res: "DocumentsService_update t i dto ctx E w = (r, w')" by force
  have nf: "(ud_expiryStatus dto = Some EXCEPTION \<and> \<not> truthy (ud_exceptionReason dto)) = False"
    using False by blast
  note eqs = Let_def nf res prod.case if_False option.case
  show ?thesis
  proof (cases "live_doc_of t i (w_db w)")
    case None
    show ?thesis unfolding eqs None using run(1,2) res None by auto
  next
    case (Some x)
    note R = run(1) run(3-5) [OF _ Some]
    show ?thesis
      unfolding eqs Some using R
      by (cases "pg_uuid i"; cases "document_params_ok dto x"; cases "dc_version x = ud_version dto")
        (auto simp: res update_trail_def replace_row_def Let_def)
  qed
qed

theorem update_document_spec_witness:
  "fst (DocumentsService_update acme (sample_uuid 21) (sample_override EXCEPTION (Some ''visa pending'') 2)
     sample_context sample_env sample_world) = Inl document_conflict"
  using update_document_spec [where E = sample_env and w = sample_world and t = acme and i = "sample_uuid 21"
    and dto = "sample_override EXCEPTION (Some ''visa pending'') 2" and ctx = sample_context]
  by (simp add: Let_def sample_override_def document_params_ok_def split: prod.splits)

text \<open>
  C24. A manual status is final: no update, whatever it asks for, takes a document out of renewal or
  exception, and one that names no status leaves it exactly as it was, a new expiry date included.
\<close>

theorem manual_status_is_final:
  assumes "quiet E" and "document_ids_distinct (w_db w)" and "live_doc_of t i (w_db w) = Some x"
    and "dc_expiryStatus x \<in> {RENEWAL_IN_PROGRESS, EXCEPTION}"
    and "\<forall>m. ud_expiryStatus dto = Some m \<longrightarrow> m \<in> {RENEWAL_IN_PROGRESS, EXCEPTION}"
    and "DocumentsService_update t i dto ctx E w = (Inr y, w')"
  shows "dc_expiryStatus y \<in> {RENEWAL_IN_PROGRESS, EXCEPTION}
    \<and> (ud_expiryStatus dto = None \<longrightarrow> dc_expiryStatus y = dc_expiryStatus x)"
proof -
  have g: "ud_expiryStatus dto = Some EXCEPTION \<longrightarrow> truthy (ud_exceptionReason dto)"
    using assms(6) by (auto simp: DocumentsService_update_def iothrow_def split: if_splits)
  note run = document_update_run [OF assms(1,2) g, where t = t and i = i and ctx = ctx]
  have "pg_uuid i" "document_params_ok dto x" "dc_version x = ud_version dto"
    using run(1) run(3,4) [OF _ assms(3)] assms(6) by force+
  then have "y = document_updated E t dto w x"
    using run(5) [OF _ assms(3)] assms(6) by simp
  then show ?thesis
    using assms(4,5) by (auto simp: document_updated_def next_status_def calculateStatus_def split: option.splits)
qed

theorem manual_status_is_final_witness:
  "\<exists>y w'. DocumentsService_update acme (sample_uuid 21) sample_renewal sample_context sample_env renewing_world = (Inr y, w')
     \<and> dc_expiryStatus y = RENEWAL_IN_PROGRESS"
proof -
  let ?x = "sample_document\<lparr>dc_expiryStatus := RENEWAL_IN_PROGRESS\<rparr>"
  have ids: "document_ids_distinct (w_db renewing_world)"
    and x: "live_doc_of acme (sample_uuid 21) (w_db renewing_world) = Some ?x"
    and p: "document_params_ok sample_renewal ?x"
    by code_simp+
  have s: "ud_expiryStatus sample_renewal = None" "ud_version sample_renewal = 1"
    by (simp_all add: sample_renewal_def)
  have v: "dc_version ?x = ud_version sample_renewal" by (simp add: s)
  obtain y w' where 1: "DocumentsService_update acme (sample_uuid 21) sample_renewal sample_context sample_env
      renewing_world = (Inr y, w')"
    using document_update_run(5) [where ctx = sample_context and E = sample_env and dto = sample_renewal
        and w = renewing_world and i = "sample_uuid 21" and t = acme and x = ?x] ids x p v s
    by (cases "DocumentsService_update acme (sample_uuid 21) sample_renewal sample_context sample_env renewing_world")
      simp
  show ?thesis
    using manual_status_is_final [OF quiet_sample ids x _ _ 1] 1 s by simp
qed

text \<open>
  C25. Archiving an employee hides the employee for good and nothing else: the archive marks exactly the row it
  found, with the time and the status, and the marked row stays in the table. Whenever the same tenant asks
  later, on any database that grew out of the one the archive left, reading, changing, archiving and
  registering a document for the id are the 404, and no page of a search shows it; its documents were not
  touched, and their list still answers.
\<close>

theorem archived_employee_is_gone:
  assumes "quiet E" and "employee_ids_distinct (w_db w)" and "pg_uuid i"
    and "EmployeesService_archive t i ctx E w = (Inr a, w1)"
    and "quiet E'" and "history (w_db w1) (w_db w2)" and "employee_ids_distinct (w_db w2)"
  shows "let gone = NotFoundException (Message ''Employee not found''); now = e_clock E (x_tick (w_ext w))
    in (\<exists>e. live_of t i (w_db w) = Some e \<and> a = (em_id e, toISOString now)
          \<and> employees (w_db w1) = map (\<lambda>r. if r = e then e\<lparr>em_deletedAt := Some now, em_status := Archived\<rparr> else r)
              (employees (w_db w))
          \<and> e\<lparr>em_deletedAt := Some now, em_status := Archived\<rparr> \<in> set (employees (w_db w2)))
      \<and> documents (w_db w1) = documents (w_db w)
      \<and> fst (EmployeesService_findOne t i E' w2) = Inl gone
      \<and> fst (EmployeesService_update t i dto ctx' E' w2) = Inl gone
      \<and> fst (EmployeesService_archive t i ctx' E' w2) = Inl gone
      \<and> fst (DocumentsService_create t i cdto ctx' E' w2) = Inl gone
      \<and> (case fst (EmployeesService_findAll fts t params E' w2) of
           Inl _ \<Rightarrow> True | Inr (rows, cnt) \<Rightarrow> list_all (\<lambda>r. \<not> same_uuid (em_id r) i) rows)
      \<and> fst (DocumentsService_findAllForEmployee t i E' w2) = Inr (visible_rows documents_t (Some t)
           (\<lambda>r. (case dc_employeeId r of None \<Rightarrow> False | Some j \<Rightarrow> same_uuid j i) \<and> dc_deletedAt r = None) (w_db w2))"
proof -
  let ?now = "e_clock E (x_tick (w_ext w))"
  obtain e where e: "live_of t i (w_db w) = Some e" "a = (em_id e, toISOString ?now)"
    and w1: "\<exists>r n. w_db w1 = audit_outcome_db E r n (Some t) (replace_row employees_t e (employee_archive_set ?now e) (w_db w))"
    using archive_run [OF assms(1-3), of t ctx] assms(4)
    by (cases "live_of t i (w_db w)") (auto simp: Let_def)
  define e' where "e' = employee_archive_set ?now e"
  have e': "e' = e\<lparr>em_deletedAt := Some ?now, em_status := Archived\<rparr>" "em_id e' = em_id e" "em_deletedAt e' \<noteq> None"
    by (simp_all add: e'_def employee_archive_set_def)
  have rows: "employees (w_db w1) = map (\<lambda>r. if r = e then e' else r) (employees (w_db w))"
    and docs: "documents (w_db w1) = documents (w_db w)"
    using w1 [folded e'_def] by (auto simp: replace_row_def)
  have "e' \<in> set (employees (w_db w1))" using found_visible [OF e(1)] by (auto simp: rows)
  moreover have "grows employee_later (employees (w_db w1)) (employees (w_db w2))"
    using assms(6) by (simp add: history_def)
  ultimately obtain e2 where "e2 \<in> set (employees (w_db w2))" "employee_later e' e2"
    using grows_member by fast
  then have stays: "e' \<in> set (employees (w_db w2))" using e'(3) by (auto simp: employee_later_def)
  have others: "r = e'" if "r \<in> set (employees (w_db w2))" "same_uuid (em_id r) i" for r
  proof (rule inj_onD)
    show "inj_on (\<lambda>r. uuid_canon (em_id r)) (set (employees (w_db w2)))"
      using assms(7) by (simp add: ids_distinct_def distinct_map)
  qed (use that stays found_visible [OF e(1)] e'(2) in \<open>simp_all add: same_uuid_def live_employee_def\<close>)
  have "live_of t i (w_db w2) = None"
    using others e'(3) by (force simp: found_def visible_rows_def filter_empty_conv live_employee_def)
  note gone = this assms(3,5)
  have "list_all (\<lambda>r. \<not> same_uuid (em_id r) i) rows"
    if "fst (EmployeesService_findAll fts t params E' w2) = Inr (rows, cnt)" for rows cnt
  proof -
    have "set rows \<subseteq> set (visible_rows employees_t (Some t) (employee_filter fts params) (w_db w2))"
      using that assms(5)
      by (auto simp: EmployeesService_findAll_def quiet_simps tx_simps limit_offset_def Let_def
          split: if_splits dest!: in_set_takeD in_set_dropD)
    then show ?thesis
      using others e'(3) by (force simp: list_all_iff visible_rows_def employee_filter_def)
  qed
  then have search: "case fst (EmployeesService_findAll fts t params E' w2) of
      Inl _ \<Rightarrow> True | Inr (rows, cnt) \<Rightarrow> list_all (\<lambda>r. \<not> same_uuid (em_id r) i) rows"
    by (auto split: sum.split)
  show ?thesis
    unfolding Let_def
  proof (intro conjI exI, rule e(1), rule e(2))
    show "fst (EmployeesService_update t i dto ctx' E' w2) = Inl (NotFoundException (Message ''Employee not found''))"
      using update_run [OF assms(5,7), of t i dto ctx'] gone by (auto simp: update_outcome_def Let_def split: prod.splits)
    show "fst (EmployeesService_archive t i ctx' E' w2) = Inl (NotFoundException (Message ''Employee not found''))"
      using archive_run [OF assms(5,7,3), of t ctx'] gone by (auto split: prod.splits)
  qed (use rows docs stays search gone e'(1) in \<open>simp_all add: EmployeesService_findOne_def DocumentsService_create_def
    DocumentsService_findAllForEmployee_def quiet_simps tx_simps employee_lookup_quiet\<close>)
qed

theorem archived_employee_is_gone_witness:
  "\<exists>a w1. EmployeesService_archive acme (sample_uuid 11) sample_context sample_env sample_world = (Inr a, w1)
     \<and> fst (EmployeesService_findOne acme (sample_uuid 11) sample_env w1)
       = Inl (NotFoundException (Message ''Employee not found''))
     \<and> documents (w_db w1) = [sample_document]"
proof -
  obtain a w1 where 1: "EmployeesService_archive acme (sample_uuid 11) sample_context sample_env sample_world = (Inr a, w1)"
    and d: "\<exists>r n e'. em_id e' = em_id sample_employee \<and> w_db w1 = audit_outcome_db sample_env r n (Some acme)
      (replace_row employees_t sample_employee e' sample_db)"
    using archive_run [of sample_env sample_world "sample_uuid 11" acme sample_context]
    by (auto simp: Let_def split: prod.splits) (metis employee_archive_set_id)
  have "employee_ids_distinct (w_db w1)"
    using d by (auto simp: employee_ids.replace_distinct)
  then show ?thesis
    using 1 archived_employee_is_gone [OF _ _ _ 1 quiet_sample hist.R_refl, of "sample_update 1" sample_context sample_new_document]
    by (auto simp: Let_def)
qed

text \<open>
  C13. Registering a document: for a live employee of the tenant the row built from the request is
  appended with the status the expiry engine computes for the tenant's policy of the type (the
  default policy when there is none) and returned; for any other employee it is the 404 and nothing
  changes.
\<close>

theorem create_document_spec:
  assumes "quiet E" and "pg_uuid i" and "pg_uuid t" and "t \<in> tn_id ` set (tenants (w_db w))"
    and "opt_date_ok (cd_issueDate dto)" and "opt_date_ok (cd_expiryDate dto)"
    and "\<forall>r \<in> set (documents (w_db w)). \<not> same_uuid (dc_id r) (e_uuid E (x_tick (w_ext w) + 4))"
  shows "let n = x_tick (w_ext w); d = w_db w; (r, w') = DocumentsService_create t i dto ctx E w
         in case live_of t i d of
              None \<Rightarrow> r = Inl (NotFoundException (Message ''Employee not found'')) \<and> w_db w' = d
            | Some e \<Rightarrow> (\<exists>x. r = Inr x \<and> documents (w_db w') = documents d @ [x] \<and> employees (w_db w') = employees d
                \<and> dc_tenantId x = t \<and> dc_employeeId x = Some i \<and> dc_version x = 1 \<and> dc_deletedAt x = None
                \<and> dc_expiryDate x = cd_expiryDate dto
                \<and> dc_expiryStatus x = calculateStatus (map_option DStr (cd_expiryDate dto))
                    (policy_of t (cd_docType dto) d) VALID (e_clock E (n + 4)))"
proof -
  have c: "\<not> list_ex (document_clash (new_document t i dto st (e_uuid E (x_tick (w_ext w) + 4)) now)) (documents (w_db w))" for st now
    using assms(7) by (auto simp: list_ex_iff document_clash_def new_document_def same_uuid_def)
  show ?thesis
    using document_create_run [OF assms(1-6) c, of ctx]
    by (auto simp: Let_def new_document_def split: option.splits prod.splits)
qed

theorem create_document_spec_witness:
  "\<exists>x. fst (DocumentsService_create acme (sample_uuid 11) sample_new_document sample_context sample_env sample_world) = Inr x
     \<and> dc_expiryStatus x = EXPIRING_SOON"
proof -
  have c: "\<forall>r \<in> set (documents (w_db sample_world)). \<not> same_uuid (dc_id r) (e_uuid sample_env (x_tick (w_ext sample_world) + 4))"
    by code_simp
  have dates: "opt_date_ok (cd_issueDate sample_new_document)" "opt_date_ok (cd_expiryDate sample_new_document)"
    by code_simp+
  have st: "calculateStatus (map_option DStr (cd_expiryDate sample_new_document))
      (policy_of acme (cd_docType sample_new_document) sample_db) VALID (e_clock sample_env 4) = EXPIRING_SOON"
    by code_simp
  show ?thesis
    using create_document_spec [OF quiet_sample _ _ _ dates c, where t = acme and i = "sample_uuid 11"
        and ctx = sample_context] st
    by (auto simp: Let_def split: prod.splits)
qed

end
