(* ===== verification/Access.thy ===== *)
theory Access
  imports Documents
begin

text \<open>
  Who may call what: the request-id middleware, the three guards of every protected route in their
  order (\<open>auth.guard.ts\<close> with \<open>jwt.strategy.ts\<close>, \<open>tenant.middleware.ts\<close> with \<open>tenant.resolver.ts\<close>,
  \<open>rbac.guard.ts\<close>) and \<open>common/audit-context.ts\<close>. The verification of a JWT (\<open>jose\<close>) and the parsing of
  a URL are parameters. Role levels are JavaScript numbers, NaN included.
\<close>

section \<open>Requests\<close>

text \<open>The verified claims of a token, as far as the code reads them.\<close>

record jwt_payload =
  jp_sub :: "string option"
  jp_org_slug :: "string option"
  jp_roles :: "string list option"
  jp_typ :: "string option"

datatype header_value = HStr string | HArr "string list"

record request =
  rq_authorization :: "header_value option"
  rq_correlationHeader :: "header_value option"
  rq_userAgent :: "string option"
  rq_ip :: "string option"
  rq_requestId :: "string option"
  rq_correlationId :: "string option"
  rq_auth :: "jwt_payload option"
  rq_tenantId :: "uuid option"

text \<open>\<open>RequestIdMiddleware.use\<close> with the two UUIDs \<open>randomUUID()\<close> returns.\<close>

definition RequestIdMiddleware_use :: "uuid \<Rightarrow> uuid \<Rightarrow> request \<Rightarrow> request" where
  "RequestIdMiddleware_use u1 u2 req =
     req\<lparr>rq_requestId := Some u1,
         rq_correlationId := Some (case rq_correlationHeader req of
             Some (HStr c) \<Rightarrow> if 0 < length c then c else u2
           | _ \<Rightarrow> u2)\<rparr>"

section \<open>AuthGuard\<close>

record auth_settings =
  KEYCLOAK_ISSUER :: "string option"
  KEYCLOAK_CLIENT_ID :: "string option"
  KEYCLOAK_JWKS_URI :: "string option"

text \<open>
  \<open>getJwks\<close>: the module keeps the key set it made (its URI here) for all later calls; \<open>new URL\<close>
  throws when the text is no URL.
\<close>

definition getJwks :: "(string \<Rightarrow> bool) \<Rightarrow> auth_settings \<Rightarrow> string option \<Rightarrow> (exn + string) \<times> string option" where
  "getJwks is_url cfg jwks =
     (case jwks of
        Some k \<Rightarrow> (Inr k, jwks)
      | None \<Rightarrow>
          (case KEYCLOAK_JWKS_URI cfg of
             None \<Rightarrow> (Inl (JsError ''KEYCLOAK_JWKS_URI is not set''), jwks)
           | Some uri \<Rightarrow>
               if uri = [] then (Inl (JsError ''KEYCLOAK_JWKS_URI is not set''), jwks)
               else if \<not> is_url uri then (Inl (JsError ''Invalid URL''), jwks)
               else (Inr uri, Some uri)))"

text \<open>\<open>jwtVerify token keys issuer audience\<close> is the library's verdict: an error or the payload.\<close>

type_synonym jwt_verify = "string \<Rightarrow> string \<Rightarrow> string \<Rightarrow> string list \<Rightarrow> exn + jwt_payload"

definition verifyAccessToken ::
  "jwt_verify \<Rightarrow> (string \<Rightarrow> bool) \<Rightarrow> auth_settings \<Rightarrow> string option \<Rightarrow> string
    \<Rightarrow> (exn + jwt_payload) \<times> string option" where
  "verifyAccessToken jwtVerify is_url cfg jwks token =
     (let clientId = nullish (KEYCLOAK_CLIENT_ID cfg) ''e0-api''
      in if \<not> truthy (KEYCLOAK_ISSUER cfg) then (Inl (JsError ''KEYCLOAK_ISSUER is not set''), jwks)
         else case getJwks is_url cfg jwks of
             (Inl e, jwks') \<Rightarrow> (Inl e, jwks')
           | (Inr keys, jwks') \<Rightarrow>
               (case jwtVerify token keys (nullish (KEYCLOAK_ISSUER cfg) '''') [clientId, ''account''] of
                  Inl e \<Rightarrow> (Inl e, jwks')
                | Inr claims \<Rightarrow>
                    if jp_typ claims \<noteq> Some ''Bearer'' then (Inl (JsError ''Token is not an access token''), jwks')
                    else (Inr claims, jwks')))"

definition startsWith :: "string \<Rightarrow> string \<Rightarrow> bool" where
  "startsWith s p \<longleftrightarrow> take (length p) s = p"

definition AuthGuard_canActivate ::
  "jwt_verify \<Rightarrow> (string \<Rightarrow> bool) \<Rightarrow> auth_settings \<Rightarrow> string option \<Rightarrow> request
    \<Rightarrow> (exn + request) \<times> string option" where
  "AuthGuard_canActivate jwtVerify is_url cfg jwks req =
     (case rq_authorization req of
        Some (HStr header) \<Rightarrow>
          if header = [] \<or> \<not> startsWith header ''Bearer ''
          then (Inl (UnauthorizedException (Message ''Missing bearer token'')), jwks)
          else (case verifyAccessToken jwtVerify is_url cfg jwks (js_trim (drop 7 header)) of
              (Inr payload, jwks') \<Rightarrow> (Inr (req\<lparr>rq_auth := Some payload\<rparr>), jwks')
            | (Inl e, jwks') \<Rightarrow> (Inl (UnauthorizedException (Message ''Invalid or expired token'')), jwks'))
      | _ \<Rightarrow> (Inl (UnauthorizedException (Message ''Missing bearer token'')), jwks))"

section \<open>Tenant resolution\<close>

definition resolveActiveTenantId :: "string \<Rightarrow> uuid option io" where
  "resolveActiveTenantId orgSlug =
     iobind (query_tenants (\<lambda>t. tn_slug t = orgSlug \<and> tn_status t = TenantActive))
       (\<lambda>rows. ioreturn (map_option tn_id (first_row (take 1 rows))))"

definition TenantMiddleware_canActivate :: "request \<Rightarrow> request io" where
  "TenantMiddleware_canActivate req =
     (let orgSlug = (case rq_auth req of None \<Rightarrow> None | Some a \<Rightarrow> jp_org_slug a)
      in if \<not> truthy orgSlug then iothrow (ForbiddenException (Message ''Missing org_slug claim''))
         else iobind (resolveActiveTenantId (nullish orgSlug ''''))
           (\<lambda>tenantId. if \<not> truthy tenantId then iothrow (ForbiddenException (Message ''Unknown or inactive tenant''))
             else ioreturn (req\<lparr>rq_tenantId := tenantId\<rparr>)))"

section \<open>Roles\<close>

datatype role = Viewer | HrStaff | HrManager | TenantAdmin | PlatformAdmin

fun role_name :: "role \<Rightarrow> string" where
  "role_name Viewer = ''viewer''"
| "role_name HrStaff = ''hr-staff''"
| "role_name HrManager = ''hr-manager''"
| "role_name TenantAdmin = ''tenant-admin''"
| "role_name PlatformAdmin = ''platform-admin''"

text \<open>\<open>ROLE_HIERARCHY\<close>.\<close>

fun role_rank :: "role \<Rightarrow> int" where
  "role_rank PlatformAdmin = 5"
| "role_rank TenantAdmin = 4"
| "role_rank HrManager = 3"
| "role_rank HrStaff = 2"
| "role_rank Viewer = 1"

text \<open>A role is below another one when its rank is.\<close>

instantiation role :: linorder
begin

definition less_eq_role :: "role \<Rightarrow> role \<Rightarrow> bool" where
  "less_eq_role a b \<longleftrightarrow> role_rank a \<le> role_rank b"

definition less_role :: "role \<Rightarrow> role \<Rightarrow> bool" where
  "less_role a b \<longleftrightarrow> role_rank a < role_rank b"

instance
proof
  fix a b :: role
  show "a \<le> b \<Longrightarrow> b \<le> a \<Longrightarrow> a = b"
    by (cases a; cases b) (simp_all add: less_eq_role_def)
qed (auto simp: less_eq_role_def less_role_def)

end

section \<open>RbacGuard\<close>

text \<open>A JavaScript number as far as this code computes with it.\<close>

datatype js_number = Num int | NaN

text \<open>
  \<open>ROLE_HIERARCHY[r] ?? 0\<close> for an arbitrary string: the level of a role; for a key every object
  inherits from \<open>Object.prototype\<close> a function or an object, which \<open>Math.max\<close> converts to NaN; 0 else.
\<close>

definition prototype_keys :: "string list" where
  "prototype_keys = [''constructor'', ''__defineGetter__'', ''__defineSetter__'', ''hasOwnProperty'',
     ''__lookupGetter__'', ''__lookupSetter__'', ''isPrototypeOf'', ''propertyIsEnumerable'', ''toString'',
     ''valueOf'', ''__proto__'', ''toLocaleString'']"

definition all_roles :: "role list" where
  "all_roles = [Viewer, HrStaff, HrManager, TenantAdmin, PlatformAdmin]"

definition hierarchy_lookup :: "string \<Rightarrow> js_number" where
  "hierarchy_lookup r =
     (case first_row (filter (\<lambda>x. role_name x = r) all_roles) of
        Some x \<Rightarrow> Num (role_rank x)
      | None \<Rightarrow> if r \<in> set prototype_keys then NaN else Num 0)"

fun js_max2 :: "js_number \<Rightarrow> js_number \<Rightarrow> js_number" where
  "js_max2 (Num a) (Num b) = Num (max a b)"
| "js_max2 a b = NaN"

fun js_less :: "js_number \<Rightarrow> js_number \<Rightarrow> bool" where
  "js_less (Num a) (Num b) = (a < b)"
| "js_less a b = False"

definition user_level :: "string list \<Rightarrow> js_number" where
  "user_level userRoles = foldl js_max2 (Num 0) (map hierarchy_lookup userRoles)"

definition min_required_level :: "role list \<Rightarrow> js_number" where
  "min_required_level required = Num (Min (set (map role_rank required)))"

definition RbacGuard_canActivate :: "role list option \<Rightarrow> request \<Rightarrow> exn + bool" where
  "RbacGuard_canActivate required req =
     (case required of
        None \<Rightarrow> Inr True
      | Some rs \<Rightarrow>
          if rs = [] then Inr True
          else (let userRoles = nullish (case rq_auth req of None \<Rightarrow> None | Some a \<Rightarrow> jp_roles a) [];
                    userLevel = user_level userRoles
                in if userLevel = Num 0 \<or> js_less userLevel (min_required_level rs)
                   then Inl (ForbiddenException (Message ''Insufficient role''))
                   else Inr True))"

section \<open>The pipeline of a protected route\<close>

text \<open>\<open>@UseGuards(AuthGuard, TenantMiddleware, RbacGuard)\<close>: the request the handler gets.\<close>

definition guards ::
  "jwt_verify \<Rightarrow> (string \<Rightarrow> bool) \<Rightarrow> auth_settings \<Rightarrow> string option \<Rightarrow> role list option \<Rightarrow> request \<Rightarrow> request io" where
  "guards jwtVerify is_url cfg jwks required req =
     (case AuthGuard_canActivate jwtVerify is_url cfg jwks req of
        (Inl e, _) \<Rightarrow> iothrow e
      | (Inr req1, _) \<Rightarrow> iobind (TenantMiddleware_canActivate req1)
          (\<lambda>req2. case RbacGuard_canActivate required req2 of Inl e \<Rightarrow> iothrow e | Inr _ \<Rightarrow> ioreturn req2))"

definition buildAuditContext :: "request \<Rightarrow> exn + audit_context" where
  "buildAuditContext req =
     (let actorUserId = (case rq_auth req of None \<Rightarrow> None | Some a \<Rightarrow> jp_sub a)
      in if \<not> truthy (rq_tenantId req) \<or> \<not> truthy actorUserId
         then Inl (ForbiddenException (Message ''Missing tenant or actor context''))
         else Inr \<lparr>ac_tenantId = nullish (rq_tenantId req) '''', ac_actorUserId = nullish actorUserId '''',
                   ac_actorIp = rq_ip req, ac_actorUserAgent = rq_userAgent req,
                   ac_requestId = rq_requestId req, ac_correlationId = rq_correlationId req\<rparr>)"

section \<open>Lemmas\<close>

lemma role_name_inj [simp]: "role_name a = role_name b \<longleftrightarrow> a = b"
  by (cases a; cases b) simp_all

lemma role_in_all [simp]: "r \<in> set all_roles"
  by (cases r) (simp_all add: all_roles_def)

lemma hierarchy_role [simp]: "hierarchy_lookup (role_name r) = Num (role_rank r)"
  by (cases r) (simp_all add: hierarchy_lookup_def all_roles_def)

lemma hierarchy_other:
  "(\<And>x. r \<noteq> role_name x) \<Longrightarrow> hierarchy_lookup r = (if r \<in> set prototype_keys then NaN else Num 0)"
proof -
  assume "\<And>x. r \<noteq> role_name x"
  then have "filter (\<lambda>x. role_name x = r) all_roles = []" by (metis (mono_tags, lifting) filter_False)
  then show ?thesis by (simp add: hierarchy_lookup_def)
qed

lemma prototype_not_role: "r \<in> set prototype_keys \<Longrightarrow> r \<noteq> role_name x"
  by (cases x) (auto simp: prototype_keys_def)

lemma role_rank_pos [simp]: "1 \<le> role_rank r" "0 < role_rank r" "role_rank r \<noteq> 0"
  by (cases r; simp)+

lemma js_max_NaN: "foldl js_max2 NaN xs = NaN"
proof (induction xs)
  case (Cons a xs)
  then show ?case by (cases a) simp_all
qed simp

lemma js_max_with_NaN: "NaN \<in> set xs \<Longrightarrow> foldl js_max2 a xs = NaN"
proof (induction xs arbitrary: a)
  case (Cons x xs)
  then show ?case by (cases "x = NaN"; cases a) (auto simp: js_max_NaN)
qed simp

lemma js_max_numbers: "foldl js_max2 (Num a) (map Num ks) = Num (Max (set (a # ks)))"
proof -
  have "foldl js_max2 (Num a) (map Num ks) = Num (fold max ks a)"
    by (induction ks arbitrary: a) (simp_all add: max.commute)
  then show ?thesis by (simp only: Max.set_eq_fold)
qed

text \<open>The levels of roles none of which is inherited from \<open>Object.prototype\<close>.\<close>

definition known_level :: "string \<Rightarrow> int" where
  "known_level r = (case first_row (filter (\<lambda>x. role_name x = r) all_roles) of Some x \<Rightarrow> role_rank x | None \<Rightarrow> 0)"

lemma known_level_role [simp]: "known_level (role_name r) = role_rank r"
  by (cases r) (simp_all add: known_level_def all_roles_def)

lemma known_level_cases: "known_level r = 0 \<or> (\<exists>x. r = role_name x)"
  unfolding known_level_def by (auto split: option.splits dest!: first_row_filter_Some)

lemma user_level_known:
  assumes "set rs \<inter> set prototype_keys = {}"
  shows "user_level rs = Num (Max (set (0 # map known_level rs)))"
proof -
  have "hierarchy_lookup r = Num (known_level r)" if "r \<in> set rs" for r
    using assms that by (auto simp: hierarchy_lookup_def known_level_def split: option.split)
  then have "map hierarchy_lookup rs = map Num (map known_level rs)" by simp
  then show ?thesis unfolding user_level_def by (simp only: js_max_numbers)
qed

lemma Max_levels: "(k::int) \<le> Max (set (0 # map known_level rs)) \<longleftrightarrow> k \<le> 0 \<or> (\<exists>r \<in> set rs. k \<le> known_level r)"
  by (simp add: Max_ge_iff)

lemma min_required: "rs \<noteq> [] \<Longrightarrow> Min (set (map role_rank rs)) \<le> k \<longleftrightarrow> (\<exists>r \<in> set rs. role_rank r \<le> k)"
  by (simp add: Min_le_iff)

lemma AuthGuard_ok:
  assumes "AuthGuard_canActivate jwtVerify is_url cfg jwks req = (Inr req1, jwks')"
  shows "\<exists>header a keys. rq_authorization req = Some (HStr header) \<and> startsWith header ''Bearer ''
    \<and> jwtVerify (js_trim (drop 7 header)) keys (the (KEYCLOAK_ISSUER cfg))
        [nullish (KEYCLOAK_CLIENT_ID cfg) ''e0-api'', ''account''] = Inr a
    \<and> jp_typ a = Some ''Bearer'' \<and> req1 = req\<lparr>rq_auth := Some a\<rparr>"
proof -
  obtain header where h: "rq_authorization req = Some (HStr header)" "startsWith header ''Bearer ''"
    and v: "\<exists>a. verifyAccessToken jwtVerify is_url cfg jwks (js_trim (drop 7 header)) = (Inr a, jwks')
      \<and> req1 = req\<lparr>rq_auth := Some a\<rparr>"
    using assms
    by (auto simp: AuthGuard_canActivate_def split: option.splits header_value.splits if_splits prod.splits sum.splits)
  then obtain a where a: "verifyAccessToken jwtVerify is_url cfg jwks (js_trim (drop 7 header)) = (Inr a, jwks')"
    "req1 = req\<lparr>rq_auth := Some a\<rparr>" by blast
  obtain iss where "KEYCLOAK_ISSUER cfg = Some iss"
    using a(1) by (cases "KEYCLOAK_ISSUER cfg") (auto simp: verifyAccessToken_def)
  then have "\<exists>keys. jwtVerify (js_trim (drop 7 header)) keys (the (KEYCLOAK_ISSUER cfg))
      [nullish (KEYCLOAK_CLIENT_ID cfg) ''e0-api'', ''account''] = Inr a \<and> jp_typ a = Some ''Bearer''"
    using a(1) by (auto simp: verifyAccessToken_def Let_def split: if_splits prod.splits sum.splits)
  then show ?thesis using h a(2) by blast
qed

lemma TenantMiddleware_ok:
  assumes "TenantMiddleware_canActivate req E w = (Inr req2, w')"
  shows "\<exists>a t. rq_auth req = Some a \<and> t \<in> set (tenants (w_db w)) \<and> tn_status t = TenantActive
    \<and> jp_org_slug a = Some (tn_slug t) \<and> tn_id t \<noteq> [] \<and> req2 = req\<lparr>rq_tenantId := Some (tn_id t)\<rparr>
    \<and> w_db w' = w_db w"
proof (cases "rq_auth req")
  case (Some a)
  show ?thesis
  proof (cases "jp_org_slug a")
    case slug: (Some s)
    have "e_fault E (x_tick (w_ext w)) = None"
      using assms Some slug
      by (auto simp: TenantMiddleware_canActivate_def Let_def resolveActiveTenantId_def query_tenants_def
          iobind_def ioreturn_def iothrow_def split: if_splits option.splits)
    moreover from this obtain t where t:
        "first_row (filter (\<lambda>t. tn_slug t = s \<and> tn_status t = TenantActive) (tenants (w_db w))) = Some t"
      using assms Some slug
      by (cases "first_row (filter (\<lambda>t. tn_slug t = s \<and> tn_status t = TenantActive) (tenants (w_db w)))")
        (auto simp: TenantMiddleware_canActivate_def Let_def resolveActiveTenantId_def query_tenants_def
          iobind_def ioreturn_def iothrow_def split: if_splits)
    moreover note first_row_filter_Some [OF t]
    ultimately show ?thesis
      using assms Some slug
      by (auto simp: TenantMiddleware_canActivate_def Let_def resolveActiveTenantId_def query_tenants_def
          iobind_def ioreturn_def iothrow_def split: if_splits)
  qed (use assms Some in \<open>simp add: TenantMiddleware_canActivate_def iothrow_def\<close>)
qed (use assms in \<open>simp add: TenantMiddleware_canActivate_def iothrow_def\<close>)

section \<open>Properties\<close>

text \<open>
  C16. The role check implements the role order: for a user none of whose role names is inherited from
  \<open>Object.prototype\<close>, a route with required roles is open exactly when some role of the user is at
  least some required role; names that are no role never help.
\<close>

theorem rbac_implements_order:
  assumes "set (nullish (case rq_auth req of None \<Rightarrow> None | Some a \<Rightarrow> jp_roles a) []) \<inter> set prototype_keys = {}"
    and "required \<noteq> []"
  shows "RbacGuard_canActivate (Some required) req =
    (if \<exists>have need. role_name have \<in> set (nullish (case rq_auth req of None \<Rightarrow> None | Some a \<Rightarrow> jp_roles a) [])
          \<and> need \<in> set required \<and> need \<le> have
     then Inr True else Inl (ForbiddenException (Message ''Insufficient role'')))"
proof -
  define rs where "rs = nullish (case rq_auth req of None \<Rightarrow> None | Some a \<Rightarrow> jp_roles a) []"
  define l where "l = Max (set (0 # map known_level rs))"
  have u: "user_level rs = Num l" using assms(1) by (simp add: user_level_known rs_def l_def)
  have m: "min_required_level required = Num (Min (set (map role_rank required)))"
    by (simp add: min_required_level_def)
  have "1 \<le> Min (set (map role_rank required))" using assms(2) by (simp add: Min_ge_iff)
  then have "\<not> (l = 0 \<or> l < Min (set (map role_rank required))) \<longleftrightarrow> Min (set (map role_rank required)) \<le> l"
    by linarith
  also have "\<dots> \<longleftrightarrow> (\<exists>need \<in> set required. role_rank need \<le> l)" using assms(2) by (rule min_required)
  also have "\<dots> \<longleftrightarrow> (\<exists>need \<in> set required. \<exists>r \<in> set rs. role_rank need \<le> known_level r)"
  proof -
    have "\<not> role_rank need \<le> 0" for need by (cases need) simp_all
    then show ?thesis unfolding l_def Max_levels by blast
  qed
  also have "\<dots> \<longleftrightarrow> (\<exists>have need. role_name have \<in> set rs \<and> need \<in> set required \<and> need \<le> have)"
  proof
    assume "\<exists>need \<in> set required. \<exists>r \<in> set rs. role_rank need \<le> known_level r"
    then obtain need r where nr: "need \<in> set required" "r \<in> set rs" "role_rank need \<le> known_level r" by blast
    then obtain x where "r = role_name x"
      using known_level_cases [of r] role_rank_pos(2) [of need] by fastforce
    with nr show "\<exists>have need. role_name have \<in> set rs \<and> need \<in> set required \<and> need \<le> have"
      by (auto simp: less_eq_role_def)
  qed (force simp: less_eq_role_def)
  finally show ?thesis
    using assms(2) u m by (auto simp: RbacGuard_canActivate_def Let_def rs_def [symmetric])
qed

theorem rbac_implements_order_witness:
  "RbacGuard_canActivate (Some [HrManager])
     \<lparr>rq_authorization = None, rq_correlationHeader = None, rq_userAgent = None, rq_ip = None,
      rq_requestId = None, rq_correlationId = None,
      rq_auth = Some \<lparr>jp_sub = None, jp_org_slug = None, jp_roles = Some [''offline_access'', ''hr-staff''], jp_typ = None\<rparr>,
      rq_tenantId = None\<rparr> = Inl (ForbiddenException (Message ''Insufficient role''))"
proof -
  let ?req = "\<lparr>rq_authorization = None, rq_correlationHeader = None, rq_userAgent = None, rq_ip = None,
      rq_requestId = None, rq_correlationId = None,
      rq_auth = Some \<lparr>jp_sub = None, jp_org_slug = None, jp_roles = Some [''offline_access'', ''hr-staff''], jp_typ = None\<rparr>,
      rq_tenantId = None\<rparr>"
  have p: "set (nullish (case rq_auth ?req of None \<Rightarrow> None | Some a \<Rightarrow> jp_roles a) []) \<inter> set prototype_keys = {}"
    by (simp add: prototype_keys_def)
  have "\<not> (role_name h \<in> {''offline_access'', ''hr-staff''} \<and> HrManager \<le> h)" for h
    by (cases h) (simp_all add: less_eq_role_def)
  then show ?thesis using rbac_implements_order [OF p, of "[HrManager]"] by auto
qed

text \<open>
  C29. The role check fails open: a user one of whose roles bears a name that every JavaScript object
  inherits, say \<open>constructor\<close>, passes every route, the highest required role included, because the
  level becomes NaN and NaN is neither zero nor below anything.
\<close>

theorem rbac_prototype_role_opens_all:
  assumes "rq_auth req = Some a" and "jp_roles a = Some roles" and "\<exists>r \<in> set roles. r \<in> set prototype_keys"
  shows "RbacGuard_canActivate required req = Inr True"
proof -
  obtain r where r: "r \<in> set roles" "r \<in> set prototype_keys" using assms(3) by blast
  have "hierarchy_lookup r = NaN"
    using hierarchy_other [of r] prototype_not_role [OF r(2)] r(2) by auto
  then have "NaN \<in> set (map hierarchy_lookup roles)" using r(1) by force
  then have "user_level roles = NaN" by (simp add: user_level_def js_max_with_NaN)
  then show ?thesis using assms(1,2) by (simp add: RbacGuard_canActivate_def Let_def split: option.split)
qed

theorem rbac_prototype_role_opens_all_witness:
  "RbacGuard_canActivate (Some [PlatformAdmin])
     \<lparr>rq_authorization = None, rq_correlationHeader = None, rq_userAgent = None, rq_ip = None,
      rq_requestId = None, rq_correlationId = None,
      rq_auth = Some \<lparr>jp_sub = None, jp_org_slug = None, jp_roles = Some [''constructor''], jp_typ = None\<rparr>,
      rq_tenantId = None\<rparr> = Inr True"
  by (rule rbac_prototype_role_opens_all [where roles = "[''constructor'']"
      and a = "\<lparr>jp_sub = None, jp_org_slug = None, jp_roles = Some [''constructor''], jp_typ = None\<rparr>"])
    (simp_all add: prototype_keys_def)

lemma guards_pass:
  assumes "guards jwtVerify is_url cfg jwks required req E w = (Inr req2, w')"
  shows "\<exists>header a keys t. rq_authorization req = Some (HStr header) \<and> startsWith header ''Bearer ''
    \<and> jwtVerify (js_trim (drop 7 header)) keys (the (KEYCLOAK_ISSUER cfg))
        [nullish (KEYCLOAK_CLIENT_ID cfg) ''e0-api'', ''account''] = Inr a
    \<and> jp_typ a = Some ''Bearer'' \<and> rq_auth req2 = Some a
    \<and> t \<in> set (tenants (w_db w)) \<and> tn_status t = TenantActive \<and> jp_org_slug a = Some (tn_slug t)
    \<and> rq_tenantId req2 = Some (tn_id t) \<and> tn_id t \<noteq> [] \<and> w_db w' = w_db w
    \<and> RbacGuard_canActivate required req2 = Inr True"
proof -
  obtain req1 j where 1: "AuthGuard_canActivate jwtVerify is_url cfg jwks req = (Inr req1, j)"
    and 2: "iobind (TenantMiddleware_canActivate req1)
      (\<lambda>req2. case RbacGuard_canActivate required req2 of Inl e \<Rightarrow> iothrow e | Inr _ \<Rightarrow> ioreturn req2) E w = (Inr req2, w')"
    using assms by (auto simp: guards_def iothrow_def split: prod.splits sum.splits)
  obtain w1 where 3: "TenantMiddleware_canActivate req1 E w = (Inr req2, w1)" "w' = w1"
    and 4: "\<exists>b. RbacGuard_canActivate required req2 = Inr b"
    using 2 by (auto simp: iobind_def iothrow_def ioreturn_def split: prod.splits sum.splits)
  have "RbacGuard_canActivate required req2 = Inr True"
    using 4 by (auto simp: RbacGuard_canActivate_def Let_def split: option.splits if_splits)
  then show ?thesis using AuthGuard_ok [OF 1] TenantMiddleware_ok [OF 3(1)] 3(2) by fastforce
qed



definition sample_payload :: jwt_payload where
  "sample_payload = \<lparr>jp_sub = Some ''user-1'', jp_org_slug = Some ''acme'', jp_roles = Some [''hr-manager''],
     jp_typ = Some ''Bearer''\<rparr>"

definition sample_verify :: jwt_verify where
  "sample_verify token keys iss aud = (if token = ''good'' then Inr sample_payload else Inl (JsError ''bad signature''))"

definition sample_settings :: auth_settings where
  "sample_settings = \<lparr>KEYCLOAK_ISSUER = Some ''https://idp.test'', KEYCLOAK_CLIENT_ID = None,
     KEYCLOAK_JWKS_URI = Some ''https://idp.test/certs''\<rparr>"

definition sample_request :: "string \<Rightarrow> request" where
  "sample_request header = \<lparr>rq_authorization = Some (HStr header), rq_correlationHeader = None,
     rq_userAgent = None, rq_ip = Some ''10.0.0.1'', rq_requestId = Some (sample_uuid 5),
     rq_correlationId = Some (sample_uuid 6), rq_auth = None, rq_tenantId = None\<rparr>"


end
