(* ===== verification/Requests.thy ===== *)
theory Requests
  imports Access
begin

text \<open>
  What a request body, query or parameter may be: the \<open>zod\<close> schemas of the controllers, of
  \<open>employees.schemas.ts\<close> and of the job queues, as data. The library that checks a value against a
  schema is the parameter \<open>zod\<close>; \<open>zod_sound\<close> is what it documents of a value it accepts, over the
  library's own tests of a mail address, a UUID and a calendar date. The accepted data are read into
  the request types of the services.
\<close>

section \<open>Schemas\<close>

datatype string_check = MinLength nat | MaxLength nat | EmailText | UuidText | DateText

datatype number_check = IntNumber | AtLeast int | AtMost int | Positive | NonNegative

datatype zod_type =
    ZString "string_check list"
  | ZNumber "number_check list"
  | ZCoerceNumber "number_check list"
  | ZBoolean
  | ZEnum "string list"
  | ZArray zod_type nat nat
  | ZOptional zod_type
  | ZDefault zod_type json

type_synonym zod_schema = "(string \<times> zod_type) list"

text \<open>The error of a refused value: the issues with their paths, and what \<open>flatten()\<close> makes of them.\<close>

record zod_error =
  ze_issues :: "(string list \<times> string) list"
  ze_flat :: "(string \<times> json) list"

type_synonym zod_data = "string \<Rightarrow> json option"

type_synonym zod_parser = "zod_schema \<Rightarrow> json option \<Rightarrow> zod_error + zod_data"

definition createEmployeeSchema :: zod_schema where
  "createEmployeeSchema =
     [(''employeeCode'', ZString [MinLength 1, MaxLength 64]),
      (''firstName'', ZString [MinLength 1, MaxLength 128]),
      (''lastName'', ZString [MinLength 1, MaxLength 128]),
      (''email'', ZOptional (ZString [EmailText])),
      (''department'', ZOptional (ZString [MaxLength 128])),
      (''jobTitle'', ZOptional (ZString [MaxLength 128])),
      (''branch'', ZOptional (ZString [MaxLength 128])),
      (''responsibleOfficerId'', ZOptional (ZString [MaxLength 128]))]"

definition updateEmployeeSchema :: zod_schema where
  "updateEmployeeSchema =
     [(''firstName'', ZOptional (ZString [MinLength 1, MaxLength 128])),
      (''lastName'', ZOptional (ZString [MinLength 1, MaxLength 128])),
      (''email'', ZOptional (ZString [EmailText])),
      (''department'', ZOptional (ZString [MaxLength 128])),
      (''jobTitle'', ZOptional (ZString [MaxLength 128])),
      (''branch'', ZOptional (ZString [MaxLength 128])),
      (''responsibleOfficerId'', ZOptional (ZString [MaxLength 128])),
      (''version'', ZCoerceNumber [IntNumber, AtLeast 1])]"

definition page_fields :: zod_schema where
  "page_fields =
     [(''page'', ZDefault (ZCoerceNumber [IntNumber, AtLeast 1]) (JNum 1)),
      (''limit'', ZDefault (ZCoerceNumber [IntNumber, AtLeast 1, AtMost 100]) (JNum 20))]"

definition searchSchema :: zod_schema where
  "searchSchema =
     [(''q'', ZOptional (ZString [MaxLength 256])),
      (''department'', ZOptional (ZString [MaxLength 128])),
      (''branch'', ZOptional (ZString [MaxLength 128])),
      (''status'', ZOptional (ZEnum [''active'', ''suspended'']))] @ page_fields"

definition idParamSchema :: zod_schema where
  "idParamSchema = [(''id'', ZString [UuidText])]"

definition document_types :: "string list" where
  "document_types = [''passport'', ''residence'', ''badge'']"

definition listSchema :: zod_schema where
  "listSchema =
     [(''docType'', ZOptional (ZEnum document_types)),
      (''expiryStatus'', ZOptional (ZEnum
         [''VALID'', ''EXPIRING_SOON'', ''RENEWAL_IN_PROGRESS'', ''EXCEPTION'', ''EXPIRED'', ''BLOCKED'']))] @ page_fields"

definition updateDocumentSchema :: zod_schema where
  "updateDocumentSchema =
     [(''docNumber'', ZOptional (ZString [MinLength 1, MaxLength 128])),
      (''issueDate'', ZOptional (ZString [DateText])),
      (''expiryDate'', ZOptional (ZString [DateText])),
      (''expiryStatus'', ZOptional (ZEnum [''RENEWAL_IN_PROGRESS'', ''EXCEPTION''])),
      (''exceptionReason'', ZOptional (ZString [MinLength 1, MaxLength 512])),
      (''version'', ZCoerceNumber [IntNumber, AtLeast 1])]"

definition employeeIdParamSchema :: zod_schema where
  "employeeIdParamSchema = [(''employeeId'', ZString [UuidText])]"

definition createDocumentSchema :: zod_schema where
  "createDocumentSchema =
     [(''docType'', ZEnum document_types),
      (''docNumber'', ZString [MinLength 1, MaxLength 128]),
      (''issueDate'', ZOptional (ZString [DateText])),
      (''expiryDate'', ZOptional (ZString [DateText]))]"

definition expiringSchema :: zod_schema where
  "expiringSchema =
     [(''withinDays'', ZDefault (ZCoerceNumber [IntNumber, AtLeast 1, AtMost 365]) (JNum 30)),
      (''docType'', ZOptional (ZEnum document_types))] @ page_fields"

definition statsQuerySchema :: zod_schema where
  "statsQuerySchema = [(''windowHours'', ZDefault (ZCoerceNumber [IntNumber, AtLeast 1, AtMost 720]) (JNum 24))]"

definition updateNotificationPolicySchema :: zod_schema where
  "updateNotificationPolicySchema =
     [(''reminderDaysBefore'', ZOptional (ZArray (ZNumber [IntNumber, Positive, AtMost 3650]) 1 10)),
      (''emailFrom'', ZOptional (ZString [EmailText])),
      (''emailTemplateId'', ZOptional (ZString [MinLength 1, MaxLength 128])),
      (''enabled'', ZOptional ZBoolean)]"

definition importJobSchema :: zod_schema where
  "importJobSchema =
     [(''tenantId'', ZString [UuidText]), (''jobId'', ZString []), (''idempotencyKey'', ZString []),
      (''rowCount'', ZNumber [IntNumber, NonNegative])]"

section \<open>What an accepted value is\<close>

text \<open>The library's own tests of texts.\<close>

record text_tests =
  is_email :: "string \<Rightarrow> bool"
  is_uuid :: "string \<Rightarrow> bool"
  is_date :: "string \<Rightarrow> bool"

fun string_ok :: "text_tests \<Rightarrow> string_check \<Rightarrow> string \<Rightarrow> bool" where
  "string_ok T (MinLength n) s = (n \<le> length s)"
| "string_ok T (MaxLength n) s = (length s \<le> n)"
| "string_ok T EmailText s = is_email T s"
| "string_ok T UuidText s = is_uuid T s"
| "string_ok T DateText s = is_date T s"

fun number_ok :: "number_check \<Rightarrow> int \<Rightarrow> bool" where
  "number_ok IntNumber i = True"
| "number_ok (AtLeast n) i = (n \<le> i)"
| "number_ok (AtMost n) i = (i \<le> n)"
| "number_ok Positive i = (0 < i)"
| "number_ok NonNegative i = (0 \<le> i)"

text \<open>A field of the accepted data against its type; an absent field is \<open>None\<close>.\<close>

fun field_ok :: "text_tests \<Rightarrow> zod_type \<Rightarrow> json option \<Rightarrow> bool" where
  "field_ok T (ZString cs) v = (case v of Some (JStr s) \<Rightarrow> list_all (\<lambda>c. string_ok T c s) cs | _ \<Rightarrow> False)"
| "field_ok T (ZNumber cs) v = (case v of Some (JNum i) \<Rightarrow> list_all (\<lambda>c. number_ok c i) cs | _ \<Rightarrow> False)"
| "field_ok T (ZCoerceNumber cs) v = (case v of Some (JNum i) \<Rightarrow> list_all (\<lambda>c. number_ok c i) cs | _ \<Rightarrow> False)"
| "field_ok T ZBoolean v = (case v of Some (JBool b) \<Rightarrow> True | _ \<Rightarrow> False)"
| "field_ok T (ZEnum vs) v = (case v of Some (JStr s) \<Rightarrow> s \<in> set vs | _ \<Rightarrow> False)"
| "field_ok T (ZArray ty lo hi) v =
     (case v of Some (JList xs) \<Rightarrow> lo \<le> length xs \<and> length xs \<le> hi \<and> list_all (\<lambda>x. field_ok T ty (Some x)) xs | _ \<Rightarrow> False)"
| "field_ok T (ZOptional ty) v = (v = None \<or> field_ok T ty v)"
| "field_ok T (ZDefault ty d) v = field_ok T ty v"

definition conforms :: "text_tests \<Rightarrow> zod_schema \<Rightarrow> zod_data \<Rightarrow> bool" where
  "conforms T schema data \<longleftrightarrow> list_all (\<lambda>(k, ty). field_ok T ty (data k)) schema"

text \<open>
  The documented contract: accepted data conform to the schema, and a plain object whose fields conform
  as they are is accepted as those fields.
\<close>

definition zod_sound :: "text_tests \<Rightarrow> zod_parser \<Rightarrow> bool" where
  "zod_sound T zod \<longleftrightarrow> (\<forall>schema v data. zod schema v = Inr data \<longrightarrow> conforms T schema data)"

definition zod_accepts :: "text_tests \<Rightarrow> zod_parser \<Rightarrow> bool" where
  "zod_accepts T zod \<longleftrightarrow> (\<forall>schema entries. conforms T schema (map_of entries) \<longrightarrow>
     (\<exists>data. zod schema (Some (JObj entries)) = Inr data \<and> (\<forall>k \<in> fst ` set schema. data k = map_of entries k)))"

text \<open>An implementation of the contract, without coercions, for the witnesses.\<close>

definition strict_zod :: "text_tests \<Rightarrow> zod_parser" where
  "strict_zod T schema v =
     (case v of
        Some (JObj entries) \<Rightarrow>
          if conforms T schema (map_of entries)
          then Inr (\<lambda>k. if k \<in> fst ` set schema then map_of entries k else None)
          else Inl \<lparr>ze_issues = [([], ''Invalid input'')], ze_flat = [(''formErrors'', JList []), (''fieldErrors'', JObj [])]\<rparr>
      | _ \<Rightarrow> Inl \<lparr>ze_issues = [([], ''Expected object'')], ze_flat = [(''formErrors'', JList []), (''fieldErrors'', JObj [])]\<rparr>)"

definition sample_tests :: text_tests where
  "sample_tests = \<lparr>is_email = (\<lambda>s. CHR 0x40 \<in> set s), is_uuid = pg_uuid, is_date = pg_date\<rparr>"

lemma strict_zod_ok: "zod_sound T (strict_zod T)" "zod_accepts T (strict_zod T)"
proof -
  have c: "conforms T schema (\<lambda>k. if k \<in> fst ` set schema then data k else None) = conforms T schema data" for schema data
    unfolding conforms_def list_all_iff
  proof (intro ball_cong)
    fix p assume "p \<in> set schema"
    then have "fst p \<in> fst ` set schema" by simp
    then show "(case p of (k, ty) \<Rightarrow> field_ok T ty (if k \<in> fst ` set schema then data k else None))
        = (case p of (k, ty) \<Rightarrow> field_ok T ty (data k))"
      by (simp only: case_prod_unfold if_True)
  qed (rule refl)
  show "zod_sound T (strict_zod T)"
    by (auto simp: zod_sound_def strict_zod_def c split: option.splits json.splits if_splits)
  show "zod_accepts T (strict_zod T)" by (simp add: zod_accepts_def strict_zod_def)
qed

section \<open>Reading accepted data\<close>

definition get_str :: "zod_data \<Rightarrow> string \<Rightarrow> string option" where
  "get_str data k = (case data k of Some (JStr s) \<Rightarrow> Some s | _ \<Rightarrow> None)"

definition get_int :: "zod_data \<Rightarrow> string \<Rightarrow> int option" where
  "get_int data k = (case data k of Some (JNum i) \<Rightarrow> Some i | _ \<Rightarrow> None)"

definition get_bool :: "zod_data \<Rightarrow> string \<Rightarrow> bool option" where
  "get_bool data k = (case data k of Some (JBool b) \<Rightarrow> Some b | _ \<Rightarrow> None)"

definition get_ints :: "zod_data \<Rightarrow> string \<Rightarrow> int list option" where
  "get_ints data k = (case data k of
     Some (JList xs) \<Rightarrow> Some (map (\<lambda>x. case x of JNum i \<Rightarrow> i | _ \<Rightarrow> 0) xs) | _ \<Rightarrow> None)"

text \<open>The member of a vocabulary with a given text.\<close>

definition of_text :: "('a \<Rightarrow> string) \<Rightarrow> 'a list \<Rightarrow> string option \<Rightarrow> 'a option" where
  "of_text f xs s = (case s of None \<Rightarrow> None | Some u \<Rightarrow> first_row (filter (\<lambda>x. f x = u) xs))"

definition all_document_types :: "document_type list" where
  "all_document_types = [Passport, Residence, Badge]"

definition all_expiry_statuses :: "expiry_status list" where
  "all_expiry_statuses = [VALID, EXPIRING_SOON, RENEWAL_IN_PROGRESS, EXCEPTION, EXPIRED, BLOCKED]"

definition all_employee_statuses :: "employee_status list" where
  "all_employee_statuses = [Active, Suspended, Archived]"

definition create_employee_of :: "zod_data \<Rightarrow> create_employee_dto" where
  "create_employee_of data = \<lparr>ce_employeeCode = nullish (get_str data ''employeeCode'') '''',
     ce_firstName = nullish (get_str data ''firstName'') '''', ce_lastName = nullish (get_str data ''lastName'') '''',
     ce_email = get_str data ''email'', ce_department = get_str data ''department'',
     ce_jobTitle = get_str data ''jobTitle'', ce_branch = get_str data ''branch'',
     ce_responsibleOfficerId = get_str data ''responsibleOfficerId''\<rparr>"

definition update_employee_of :: "zod_data \<Rightarrow> update_employee_dto" where
  "update_employee_of data = \<lparr>ue_firstName = get_str data ''firstName'', ue_lastName = get_str data ''lastName'',
     ue_email = get_str data ''email'', ue_department = get_str data ''department'',
     ue_jobTitle = get_str data ''jobTitle'', ue_branch = get_str data ''branch'',
     ue_responsibleOfficerId = get_str data ''responsibleOfficerId'', ue_version = nullish (get_int data ''version'') 0\<rparr>"

definition employee_search_of :: "zod_data \<Rightarrow> employee_search" where
  "employee_search_of data = \<lparr>es_q = get_str data ''q'', es_department = get_str data ''department'',
     es_branch = get_str data ''branch'',
     es_status = of_text employee_status_text all_employee_statuses (get_str data ''status''),
     es_page = get_int data ''page'', es_limit = get_int data ''limit''\<rparr>"

definition create_document_of :: "string \<Rightarrow> zod_data \<Rightarrow> create_document_dto" where
  "create_document_of employeeId data = \<lparr>cd_employeeId = employeeId,
     cd_docType = nullish (of_text document_type_text all_document_types (get_str data ''docType'')) Passport,
     cd_docNumber = nullish (get_str data ''docNumber'') '''', cd_issueDate = get_str data ''issueDate'',
     cd_expiryDate = get_str data ''expiryDate''\<rparr>"

definition update_document_of :: "zod_data \<Rightarrow> update_document_dto" where
  "update_document_of data = \<lparr>ud_docNumber = get_str data ''docNumber'', ud_issueDate = get_str data ''issueDate'',
     ud_expiryDate = get_str data ''expiryDate'',
     ud_expiryStatus = of_text expiry_status_text all_expiry_statuses (get_str data ''expiryStatus''),
     ud_exceptionReason = get_str data ''exceptionReason'', ud_version = nullish (get_int data ''version'') 0\<rparr>"

definition document_search_of :: "zod_data \<Rightarrow> document_search" where
  "document_search_of data = \<lparr>ds_docType = of_text document_type_text all_document_types (get_str data ''docType''),
     ds_expiryStatus = of_text expiry_status_text all_expiry_statuses (get_str data ''expiryStatus''),
     ds_page = get_int data ''page'', ds_limit = get_int data ''limit''\<rparr>"

text \<open>The page fields of accepted data are numbers within the bounds of the schema.\<close>

lemma page_fields_bounds:
  assumes "conforms T (s @ page_fields) data"
  shows "1 \<le> nullish (get_int data ''page'') 0 \<and> 1 \<le> nullish (get_int data ''limit'') 0 \<and> nullish (get_int data ''limit'') 0 \<le> 100"
  using assms
  by (auto simp: conforms_def page_fields_def get_int_def split: option.splits json.splits)

end
