(* ===== verification/Reminders.thy ===== *)
theory Reminders
  imports Documents
begin

text \<open>
  The reminder pipeline of \<open>apps/worker\<close>: the threshold rule (\<open>reminder-policy.ts\<close>), the daily scan that
  queues one job per document and threshold (\<open>reminder-scanner.worker.ts\<close>), the worker that sends it
  (\<open>reminder.worker.ts\<close>) and the dispatchers (\<open>email-dispatcher.ts\<close>). The dispatcher is the interface
  \<open>dispatcher\<close>, a locale with both implementations as instances. The mail transport and the queue
  server are the environment's; \<open>drizzle_message\<close> is the message of the library's error for an
  SQLSTATE, and \<open>is_uuid\<close> the library's test of a job's ids.
\<close>

section \<open>The threshold rule\<close>

definition matchReminderThreshold :: "int option \<Rightarrow> int list \<Rightarrow> int option" where
  "matchReminderThreshold daysUntilExpiry reminderDaysBefore =
     first_row (filter (\<lambda>threshold. daysUntilExpiry = Some threshold) reminderDaysBefore)"

lemma matchReminderThreshold_Some:
  "matchReminderThreshold days thresholds = Some th \<longleftrightarrow> days = Some th \<and> th \<in> set thresholds"
  by (induction thresholds) (auto simp: matchReminderThreshold_def)

section \<open>The daily scan\<close>

definition DEFAULT_REMINDER_DAYS_BEFORE :: "int list" where
  "DEFAULT_REMINDER_DAYS_BEFORE = [90, 60, 30, 14, 7, 1]"

definition reminder_job_for :: "uuid \<Rightarrow> uuid \<Rightarrow> int \<Rightarrow> reminder_job" where
  "reminder_job_for tenantId docId threshold =
     \<lparr>rj_tenantId = tenantId, rj_documentId = docId, rj_daysBeforeExpiry = threshold,
      rj_jobId = docId @ '':'' @ dec_int threshold,
      rj_idempotencyKey = ''reminder:'' @ docId @ '':'' @ dec_int threshold\<rparr>"

definition queue_reminder :: "reminder_job \<Rightarrow> unit tx" where
  "queue_reminder job = external e_redis (\<lambda>x. x\<lparr>x_reminders := x_reminders x @ [job]\<rparr>)"

definition already_sent :: "uuid \<Rightarrow> int \<Rightarrow> notification_log_row \<Rightarrow> bool" where
  "already_sent docId threshold l \<longleftrightarrow>
     nl_documentId l = Some docId \<and> nl_daysBeforeExpiry l = threshold \<and> nl_status l = SENT"

definition remind_candidate :: "uuid \<Rightarrow> int list \<Rightarrow> document_row \<Rightarrow> unit tx" where
  "remind_candidate tenantId reminderDaysBefore doc =
     (if \<not> truthy (dc_expiryDate doc) then treturn ()
      else tbind new_Date (\<lambda>now.
        case matchReminderThreshold (calendarDaysUntil (DStr (nullish (dc_expiryDate doc) '''')) now) reminderDaysBefore of
          None \<Rightarrow> treturn ()
        | Some threshold \<Rightarrow>
            tbind (select_where notification_log_t (already_sent (dc_id doc) threshold))
              (\<lambda>alreadySent. if take 1 alreadySent \<noteq> [] then treturn ()
                 else queue_reminder (reminder_job_for tenantId (dc_id doc) threshold))))"

definition reminder_candidate :: "uuid \<Rightarrow> document_row \<Rightarrow> bool" where
  "reminder_candidate tenantId r \<longleftrightarrow> dc_tenantId r = tenantId \<and> dc_deletedAt r = None
     \<and> dc_expiryDate r \<noteq> None \<and> dc_expiryStatus r = EXPIRING_SOON"

definition active_tenant :: "uuid \<Rightarrow> tenant_row \<Rightarrow> bool" where
  "active_tenant tenantId t \<longleftrightarrow> tn_id t = tenantId \<and> tn_status t = TenantActive"

definition scan_tenant :: "uuid \<Rightarrow> unit tx" where
  "scan_tenant tenantId =
     tthen (setTenantContext tenantId)
       (tbind (select_tenants (active_tenant tenantId))
         (\<lambda>stillActive. if stillActive = [] then treturn ()
            else tbind (select_where notification_policies_t (\<lambda>p. np_tenantId p = tenantId))
              (\<lambda>policyRows. let policy = first_row (take 1 policyRows)
                 in if policy \<noteq> None \<and> \<not> np_enabled (the policy) then treturn ()
                    else let reminderDaysBefore =
                           nullish (map_option np_reminderDaysBefore policy) DEFAULT_REMINDER_DAYS_BEFORE
                         in tbind (select_where documents_t (reminder_candidate tenantId))
                              (\<lambda>candidates. tforeach (remind_candidate tenantId reminderDaysBefore) candidates))))"

definition reminder_scan :: "unit io" where
  "reminder_scan =
     iobind (query_tenants (\<lambda>t. tn_status t = TenantActive))
       (\<lambda>activeTenants. ioforeach (\<lambda>tenant. transaction (scan_tenant (tn_id tenant))) activeTenants)"

section \<open>Dispatchers\<close>

record reminder_email =
  re_to :: string
  re_documentId :: uuid
  re_docType :: document_type
  re_daysBeforeExpiry :: int
  re_emailFrom :: "string option"
  re_emailTemplateId :: "string option"

definition LogEmailDispatcher_send :: "reminder_email \<Rightarrow> unit tx" where
  "LogEmailDispatcher_send input = treturn ()"

text \<open>The lines of the mail, joined by newlines.\<close>

definition reminder_mail :: "string \<Rightarrow> reminder_email \<Rightarrow> mail" where
  "reminder_mail defaultFrom input =
     (let dayWord = (if re_daysBeforeExpiry input = 1 then ''day'' else ''days'');
          ty = document_type_text (re_docType input); n = dec_int (re_daysBeforeExpiry input); nl = [CHR 0x0A]
      in \<lparr>ml_to = re_to input, ml_from = nullish (re_emailFrom input) defaultFrom,
          ml_subject = ''Document renewal reminder: '' @ ty @ '' expires in '' @ n @ '' '' @ dayWord,
          ml_text = ''Your '' @ ty @ '' is due to expire in '' @ n @ '' '' @ dayWord @ ''.'' @ nl
            @ ''Please arrange renewal as soon as possible.'' @ nl @ nl
            @ ''Reference: '' @ re_documentId input\<rparr>)"

definition SmtpEmailDispatcher_send :: "string \<Rightarrow> reminder_email \<Rightarrow> unit tx" where
  "SmtpEmailDispatcher_send defaultFrom input =
     external e_smtp (\<lambda>x. x\<lparr>x_mails := x_mails x @ [reminder_mail defaultFrom input]\<rparr>)"

section \<open>The reminder worker\<close>

definition log_notification ::
  "uuid \<Rightarrow> uuid option \<Rightarrow> int \<Rightarrow> notification_status \<Rightarrow> string option \<Rightarrow> notification_log_row list tx" where
  "log_notification tenantId documentId daysBeforeExpiry st errorMessage =
     insert_returning notification_log_t (\<lambda>E r. pg_uuid (nl_tenantId r)) (\<lambda>r r'. same_uuid (nl_id r) (nl_id r'))
       (\<lambda>d r. nl_tenantId r \<in> tn_id ` set (tenants d)
          \<and> (case nl_documentId r of None \<Rightarrow> True | Some i \<Rightarrow> list_ex (\<lambda>x. same_uuid (dc_id x) i) (documents d)))
       (\<lambda>u now. \<lparr>nl_id = u, nl_tenantId = tenantId, nl_documentId = documentId,
          nl_daysBeforeExpiry = daysBeforeExpiry, nl_sentAt = now, nl_status = st, nl_errorMessage = errorMessage\<rparr>)"

definition claim_key :: "string \<Rightarrow> uuid \<Rightarrow> idempotency_row list tx" where
  "claim_key key tenantId =
     insert_returning idempotency_keys_t (\<lambda>E r. pg_uuid (ik_tenantId r)) (\<lambda>r r'. ik_key r = ik_key r') (\<lambda>d r. True)
       (\<lambda>u now. \<lparr>ik_key = key, ik_tenantId = tenantId, ik_createdAt = now\<rparr>)"

text \<open>The document with its employee's mail address: a left join, under the policies of both tables.\<close>

definition employee_email :: "string option \<Rightarrow> db \<Rightarrow> document_row \<Rightarrow> string option" where
  "employee_email g d r =
     (case dc_employeeId r of
        None \<Rightarrow> None
      | Some i \<Rightarrow>
          (case first_row (visible_rows employees_t g (\<lambda>e. same_uuid (em_id e) i) d) of
             None \<Rightarrow> None | Some e \<Rightarrow> em_email e))"

definition select_document_email ::
  "(document_row \<Rightarrow> bool) \<Rightarrow> (document_row \<times> string option) list tx" where
  "select_document_email p = statement (\<lambda>E n now g d.
     Inr (map (\<lambda>r. (r, employee_email g d r)) (visible_rows documents_t g p d), d))"

definition reminder_job_valid :: "(string \<Rightarrow> bool) \<Rightarrow> reminder_job \<Rightarrow> bool" where
  "reminder_job_valid is_uuid job \<longleftrightarrow>
     is_uuid (rj_tenantId job) \<and> is_uuid (rj_documentId job) \<and> 0 < rj_daysBeforeExpiry job"

definition suppress :: "reminder_job \<Rightarrow> uuid option \<Rightarrow> string \<Rightarrow> unit tx" where
  "suppress job documentId message =
     tthen (log_notification (rj_tenantId job) documentId (rj_daysBeforeExpiry job) SUPPRESSED (Some message))
       (tthen (claim_key (rj_idempotencyKey job) (rj_tenantId job)) (treturn ()))"

definition send_and_record ::
  "(string \<Rightarrow> string) \<Rightarrow> (reminder_email \<Rightarrow> unit tx) \<Rightarrow> reminder_job \<Rightarrow> reminder_email \<Rightarrow> unit tx" where
  "send_and_record drizzle_message send job email =
     tcatch
       (tthen (send email)
         (tthen (log_notification (rj_tenantId job) (Some (rj_documentId job)) (rj_daysBeforeExpiry job) SENT None)
           (tthen (claim_key (rj_idempotencyKey job) (rj_tenantId job)) (treturn ()))))
       (\<lambda>err. tthen
         (log_notification (rj_tenantId job) (Some (rj_documentId job)) (rj_daysBeforeExpiry job) FAILED_SEND
            (Some (take 500 (exn_message drizzle_message err))))
         (treturn ()))"

definition reminder_document :: "reminder_job \<Rightarrow> document_row \<Rightarrow> bool" where
  "reminder_document job r \<longleftrightarrow>
     same_uuid (dc_id r) (rj_documentId job) \<and> dc_tenantId r = rj_tenantId job \<and> dc_deletedAt r = None"

definition deliver_reminder ::
  "(string \<Rightarrow> string) \<Rightarrow> (reminder_email \<Rightarrow> unit tx) \<Rightarrow> reminder_job \<Rightarrow> unit tx" where
  "deliver_reminder drizzle_message send job =
     tbind (select_document_email (reminder_document job))
       (\<lambda>docRows. case first_row (take 1 docRows) of
          None \<Rightarrow> suppress job None ''document_not_found''
        | Some (doc, employeeEmail) \<Rightarrow>
            if \<not> truthy employeeEmail then suppress job (Some (rj_documentId job)) ''no_email_on_file''
            else tbind (select_where notification_policies_t (\<lambda>p. np_tenantId p = rj_tenantId job))
              (\<lambda>policyRows. let policy = first_row (take 1 policyRows)
                 in send_and_record drizzle_message send job
                      \<lparr>re_to = nullish employeeEmail '''', re_documentId = rj_documentId job,
                       re_docType = dc_docType doc, re_daysBeforeExpiry = rj_daysBeforeExpiry job,
                       re_emailFrom = (case policy of None \<Rightarrow> None | Some p \<Rightarrow> np_emailFrom p),
                       re_emailTemplateId = (case policy of None \<Rightarrow> None | Some p \<Rightarrow> np_emailTemplateId p)\<rparr>))"

definition process_reminder ::
  "(string \<Rightarrow> bool) \<Rightarrow> (string \<Rightarrow> string) \<Rightarrow> (reminder_email \<Rightarrow> unit tx) \<Rightarrow> reminder_job \<Rightarrow> unit io" where
  "process_reminder is_uuid drizzle_message send job =
     (if \<not> reminder_job_valid is_uuid job then iothrow (JsError ''Job rejected: missing or invalid tenantId'')
      else transaction
        (tthen (setTenantContext (rj_tenantId job))
          (tbind (select_tenants (active_tenant (rj_tenantId job)))
            (\<lambda>tenantRows. if tenantRows = [] then tthrow (JsError ''Tenant not active or not found'')
               else tbind (select_where idempotency_keys_t (\<lambda>k. ik_key k = rj_idempotencyKey job))
                 (\<lambda>existing. if existing \<noteq> [] then treturn ()
                    else deliver_reminder drizzle_message send job)))))"

section \<open>The dispatcher interface\<close>

text \<open>A dispatcher touches neither the database nor the transaction that calls it.\<close>

locale dispatcher =
  fixes send :: "reminder_email \<Rightarrow> unit tx"
  assumes send_frame: "send input E s = (r, s') \<Longrightarrow> \<exists>x. s' = s\<lparr>t_ext := x\<rparr>"
begin

lemma send_keeps [keeps_intros]: "keeps (txinv R t d0) (send input)"
  unfolding keeps_def
proof (intro allI impI)
  fix E s assume I: "txinv R t d0 s"
  obtain r s' where m: "send input E s = (r, s')" by force
  obtain x where "s' = s\<lparr>t_ext := x\<rparr>" using send_frame [OF m] by blast
  then show "txinv R t d0 (snd (send input E s))" using I m by (simp add: txinv_def)
qed

end

interpretation log_dispatcher: dispatcher LogEmailDispatcher_send
proof
  fix input E s r s' assume "LogEmailDispatcher_send input E s = (r, s')"
  then have "s' = s\<lparr>t_ext := t_ext s\<rparr>" by (simp add: LogEmailDispatcher_send_def treturn_def)
  then show "\<exists>x. s' = s\<lparr>t_ext := x\<rparr>" by blast
qed

interpretation smtp_dispatcher: dispatcher "SmtpEmailDispatcher_send from" for "from"
  by unfold_locales (auto simp: SmtpEmailDispatcher_send_def external_def split: option.splits)

lemma keeps_document_email [keeps_intros]:
  "keeps (txinv (same_for_others t) t d0) (select_document_email p)"
  "keeps (txinv history t d0) (select_document_email p)"
  unfolding select_document_email_def
  by (rule iso.keeps_query hist.keeps_query)+

lemma keeps_case_prod [keeps_intros]: "(\<And>a b. p = (a, b) \<Longrightarrow> keeps I (k a b)) \<Longrightarrow> keeps I (case p of (a, b) \<Rightarrow> k a b)"
  by (cases p) simp

lemmas reminder_defs = reminder_scan_def scan_tenant_def remind_candidate_def queue_reminder_def
  process_reminder_def deliver_reminder_def send_and_record_def suppress_def log_notification_def claim_key_def

text \<open>With any dispatcher the worker touches its own tenant's rows only and takes nothing back.\<close>

context dispatcher begin

lemma process_iso: "io_rel (same_for_others (rj_tenantId job)) (process_reminder is_uuid dm send job)"
  unfolding process_reminder_def deliver_reminder_def send_and_record_def suppress_def log_notification_def
    claim_key_def Let_def
  by (auto intro!: io_intros keeps_intros)

lemma process_hist: "io_rel history (process_reminder is_uuid dm send job)"
  unfolding process_reminder_def deliver_reminder_def send_and_record_def suppress_def log_notification_def
    claim_key_def Let_def
  by (auto intro!: io_intros keeps_intros)

end

lemma scan_reads_only: "io_rel (\<lambda>d d'. d' = d) reminder_scan"
  unfolding reminder_scan_def scan_tenant_def remind_candidate_def queue_reminder_def Let_def
  by (auto intro!: unchanged.transaction_rel unchanged.iobind_rel unchanged.io_foreach_rel
      unchanged.io_query_tenants_rel keeps_intros)

section \<open>What a scan queues\<close>

definition due_job :: "db \<Rightarrow> instant \<Rightarrow> uuid \<Rightarrow> int list \<Rightarrow> document_row \<Rightarrow> reminder_job list" where
  "due_job d now t days doc =
     (if \<not> truthy (dc_expiryDate doc) then []
      else case matchReminderThreshold (calendarDaysUntil (DStr (nullish (dc_expiryDate doc) '''')) now) days of
          None \<Rightarrow> []
        | Some th \<Rightarrow>
            if visible_rows notification_log_t (Some t) (already_sent (dc_id doc) th) d \<noteq> [] then []
            else [reminder_job_for t (dc_id doc) th])"

definition due_reminders :: "db \<Rightarrow> instant \<Rightarrow> uuid \<Rightarrow> reminder_job list" where
  "due_reminders d now t =
     (case found notification_policies_t t (\<lambda>p. np_tenantId p = t) d of
        Some p \<Rightarrow>
          if np_enabled p
          then concat (map (due_job d now t (np_reminderDaysBefore p)) (visible_rows documents_t (Some t) (reminder_candidate t) d))
          else []
      | None \<Rightarrow> concat (map (due_job d now t DEFAULT_REMINDER_DAYS_BEFORE)
          (visible_rows documents_t (Some t) (reminder_candidate t) d)))"

definition one_day :: "env \<Rightarrow> instant \<Rightarrow> bool" where
  "one_day E now \<longleftrightarrow> (\<forall>n. day_of (e_clock E n) = day_of now)"

definition redis_up :: "env \<Rightarrow> bool" where
  "redis_up E \<longleftrightarrow> (\<forall>n. e_redis E n = None)"

lemma calendarDaysUntil_one_day:
  "one_day E now \<Longrightarrow> calendarDaysUntil (DStr e) (e_clock E n) = calendarDaysUntil (DStr e) now"
  using getUTC_day_only [of "e_clock E n" now] by (simp add: one_day_def calendarDaysUntil_def)

lemma remind_candidate_run:
  assumes "quiet E" "redis_up E" "one_day E now" "\<not> t_aborted s" "t_tenant s = Some t"
  shows "\<exists>x. remind_candidate t days doc E s = (Inr (), s\<lparr>t_ext := x\<rparr>)
    \<and> x_reminders x = x_reminders (t_ext s) @ due_job (t_db s) now t days doc"
proof (cases "truthy (dc_expiryDate doc)")
  case True
  let ?m = "matchReminderThreshold (calendarDaysUntil (DStr (nullish (dc_expiryDate doc) '''')) now) days"
  show ?thesis
  proof (cases ?m)
    case None
    have "s = s\<lparr>t_ext := t_ext s\<rparr>" by simp
    then show ?thesis using True None assms
      by (auto simp: remind_candidate_def due_job_def tx_simps calendarDaysUntil_one_day intro!: exI [of _ "t_ext s"])
  next
    case (Some th)
    then show ?thesis using True assms
      by (auto simp: remind_candidate_def due_job_def tx_simps calendarDaysUntil_one_day select_where_quiet
          queue_reminder_def external_def redis_up_def)
  qed
next
  case False
  then show ?thesis
    by (auto simp: remind_candidate_def due_job_def tx_simps intro!: exI [of _ "t_ext s"])
qed

lemma remind_all_run:
  assumes "quiet E" "redis_up E" "one_day E now" "\<not> t_aborted s" "t_tenant s = Some t"
  shows "\<exists>x. tforeach (remind_candidate t days) docs E s = (Inr (), s\<lparr>t_ext := x\<rparr>)
    \<and> x_reminders x = x_reminders (t_ext s) @ concat (map (due_job (t_db s) now t days) docs)"
  using assms(4,5)
proof (induction docs arbitrary: s)
  case Nil
  then show ?case by (auto simp: tx_simps intro!: exI [of _ "t_ext s"])
next
  case (Cons doc docs)
  obtain x where 1: "remind_candidate t days doc E s = (Inr (), s\<lparr>t_ext := x\<rparr>)"
    "x_reminders x = x_reminders (t_ext s) @ due_job (t_db s) now t days doc"
    using remind_candidate_run [OF assms(1-3) Cons.prems] by blast
  obtain y where 2: "tforeach (remind_candidate t days) docs E (s\<lparr>t_ext := x\<rparr>) = (Inr (), s\<lparr>t_ext := y\<rparr>)"
    "x_reminders y = x_reminders x @ concat (map (due_job (t_db s) now t days) docs)"
    using Cons.IH [of "s\<lparr>t_ext := x\<rparr>"] Cons.prems by auto
  show ?case using 1 2 by (auto simp: tx_simps)
qed

lemma scan_tenant_run:
  assumes "quiet E" "redis_up E" "one_day E now" "\<exists>r \<in> set (tenants (w_db w)). active_tenant t r"
  shows "\<exists>x. transaction (scan_tenant t) E w = (Inr (), w\<lparr>w_ext := x\<rparr>)
    \<and> x_reminders x = x_reminders (w_ext w) @ due_reminders (w_db w) now t"
proof -
  have a: "filter (active_tenant t) (tenants (w_db w)) \<noteq> []" using assms(4) by (auto simp: filter_empty_conv)
  have w: "w\<lparr>w_ext := x\<rparr> = \<lparr>w_db = w_db w, w_ext = x\<rparr>" for x by simp
  show ?thesis
  proof (cases "found notification_policies_t t (\<lambda>p. np_tenantId p = t) (w_db w)")
    case None
    let ?s = "(start E w)\<lparr>t_tenant := Some t, t_ext := tick (tick (tick (tick (tick (w_ext w)))))\<rparr>"
    obtain x where "tforeach (remind_candidate t DEFAULT_REMINDER_DAYS_BEFORE)
        (visible_rows documents_t (Some t) (reminder_candidate t) (w_db w)) E ?s = (Inr (), ?s\<lparr>t_ext := x\<rparr>)"
      "x_reminders x = x_reminders (w_ext w) @ due_reminders (w_db w) now t"
      using remind_all_run [OF assms(1-3), of ?s t DEFAULT_REMINDER_DAYS_BEFORE] None
      by (auto simp: due_reminders_def)
    then show ?thesis using assms(1) a None
      by (auto simp: scan_tenant_def quiet_simps tx_simps found_def w)
  next
    case (Some p)
    let ?s = "(start E w)\<lparr>t_tenant := Some t, t_ext := tick (tick (tick (tick (tick (w_ext w)))))\<rparr>"
    obtain x where "tforeach (remind_candidate t (np_reminderDaysBefore p))
        (visible_rows documents_t (Some t) (reminder_candidate t) (w_db w)) E ?s = (Inr (), ?s\<lparr>t_ext := x\<rparr>)"
      "np_enabled p \<Longrightarrow> x_reminders x = x_reminders (w_ext w) @ due_reminders (w_db w) now t"
      using remind_all_run [OF assms(1-3), of ?s t "np_reminderDaysBefore p"] Some
      by (auto simp: due_reminders_def)
    then show ?thesis using assms(1) a Some
      by (cases "np_enabled p") (auto simp: scan_tenant_def quiet_simps tx_simps found_def w due_reminders_def)
  qed
qed

lemma scan_all_run:
  assumes "quiet E" "redis_up E" "one_day E now" "\<forall>r \<in> set ts. r \<in> set (tenants (w_db w)) \<and> tn_status r = TenantActive"
  shows "\<exists>x. ioforeach (\<lambda>tenant. transaction (scan_tenant (tn_id tenant))) ts E w = (Inr (), w\<lparr>w_ext := x\<rparr>)
    \<and> x_reminders x = x_reminders (w_ext w) @ concat (map (\<lambda>r. due_reminders (w_db w) now (tn_id r)) ts)"
  using assms(4)
proof (induction ts arbitrary: w)
  case Nil
  then show ?case by (auto simp: tx_simps intro!: exI [of _ "w_ext w"])
next
  case (Cons r ts)
  obtain x where 1: "transaction (scan_tenant (tn_id r)) E w = (Inr (), w\<lparr>w_ext := x\<rparr>)"
    "x_reminders x = x_reminders (w_ext w) @ due_reminders (w_db w) now (tn_id r)"
    using scan_tenant_run [OF assms(1-3), of w "tn_id r"] Cons.prems by (auto simp: active_tenant_def)
  obtain y where 2: "ioforeach (\<lambda>tenant. transaction (scan_tenant (tn_id tenant))) ts E (w\<lparr>w_ext := x\<rparr>) = (Inr (), w\<lparr>w_ext := y\<rparr>)"
    "x_reminders y = x_reminders x @ concat (map (\<lambda>r. due_reminders (w_db w) now (tn_id r)) ts)"
    using Cons.IH [of "w\<lparr>w_ext := x\<rparr>"] Cons.prems by auto
  show ?case using 1 2 by (auto simp: tx_simps)
qed

lemma due_reminders_member:
  assumes "j \<in> set (due_reminders d now t)"
  obtains doc e th where "doc \<in> set (documents d)" "dc_tenantId doc = t" "dc_deletedAt doc = None"
    "dc_expiryStatus doc = EXPIRING_SOON" "dc_expiryDate doc = Some e"
    "calendarDaysUntil (DStr e) now = Some th" "j = reminder_job_for t (dc_id doc) th"
    "visible_rows notification_log_t (Some t) (already_sent (dc_id doc) th) d = []"
proof -
  obtain days doc where doc: "doc \<in> set (visible_rows documents_t (Some t) (reminder_candidate t) d)"
    and j: "j \<in> set (due_job d now t days doc)"
    using assms by (auto simp: due_reminders_def split: option.splits if_splits)
  have c: "doc \<in> set (documents d)" "dc_tenantId doc = t" "dc_deletedAt doc = None" "dc_expiryStatus doc = EXPIRING_SOON"
    using doc by (auto simp: visible_rows_def reminder_candidate_def)
  obtain e where e: "dc_expiryDate doc = Some e"
    using j by (cases "dc_expiryDate doc") (auto simp: due_job_def)
  obtain th where "calendarDaysUntil (DStr e) now = Some th" "j = reminder_job_for t (dc_id doc) th"
    "visible_rows notification_log_t (Some t) (already_sent (dc_id doc) th) d = []"
  proof (cases "matchReminderThreshold (calendarDaysUntil (DStr e) now) days")
    case (Some th)
    then have "calendarDaysUntil (DStr e) now = Some th" by (simp add: matchReminderThreshold_Some)
    then show ?thesis using j e Some that [of th] by (auto simp: due_job_def split: if_splits)
  qed (use j e in \<open>simp add: due_job_def split: if_splits\<close>)
  with c e show ?thesis by (rule that)
qed

lemma reminder_scan_run:
  assumes "quiet E" "redis_up E" "one_day E now"
  shows "\<exists>x. reminder_scan E w = (Inr (), w\<lparr>w_ext := x\<rparr>) \<and> x_reminders x = x_reminders (w_ext w) @
    concat (map (\<lambda>r. due_reminders (w_db w) now (tn_id r)) (filter (\<lambda>r. tn_status r = TenantActive) (tenants (w_db w))))"
proof -
  let ?ts = "filter (\<lambda>r. tn_status r = TenantActive) (tenants (w_db w))"
  let ?w = "w\<lparr>w_ext := tick (w_ext w)\<rparr>"
  obtain x where "ioforeach (\<lambda>tenant. transaction (scan_tenant (tn_id tenant))) ?ts E ?w = (Inr (), ?w\<lparr>w_ext := x\<rparr>)"
    "x_reminders x = x_reminders (w_ext ?w) @ concat (map (\<lambda>r. due_reminders (w_db ?w) now (tn_id r)) ?ts)"
    using scan_all_run [OF assms, of ?ts ?w] by auto
  then show ?thesis using assms(1)
    by (auto simp: reminder_scan_def iobind_def query_tenants_def quiet_def Let_def)
qed

definition still_env :: env where
  "still_env = sample_env\<lparr>e_clock := (\<lambda>_. 1767225600000)\<rparr>"

text \<open>The same after the reminder of this threshold was sent.\<close>

definition reminded_world :: world where
  "reminded_world = sample_world\<lparr>w_db := expiring_db\<lparr>notificationLog :=
     [\<lparr>nl_id = sample_uuid 31, nl_tenantId = acme, nl_documentId = Some (sample_uuid 21), nl_daysBeforeExpiry = 14,
       nl_sentAt = 0, nl_status = SENT, nl_errorMessage = None\<rparr>]\<rparr>\<rparr>"

lemma sample_day [simp]: "redis_up sample_env" "one_day still_env 1767225600000" "redis_up still_env" "quiet still_env"
  by (simp_all add: still_env_def sample_env_def redis_up_def one_day_def quiet_def)

section \<open>Properties\<close>

text \<open>
  C19. What the daily scan does: when neither the database nor the queue fails and the day does not
  change under it, it changes no row and queues exactly the due reminders, tenant by tenant: for each
  active tenant whose policy is not disabled, each live document stored as EXPIRING_SOON whose days to
  expiry are one of the thresholds and for which no reminder of this threshold was sent.
\<close>

theorem reminder_scan_queues_due:
  assumes "quiet E" and "redis_up E" and "one_day E now"
  shows "fst (reminder_scan E w) = Inr () \<and> w_db (snd (reminder_scan E w)) = w_db w
    \<and> x_reminders (w_ext (snd (reminder_scan E w))) = x_reminders (w_ext w) @
        concat (map (\<lambda>r. due_reminders (w_db w) now (tn_id r)) (filter (\<lambda>r. tn_status r = TenantActive) (tenants (w_db w))))"
  using reminder_scan_run [OF assms, of w] by auto

theorem reminder_scan_queues_due_witness:
  "x_reminders (w_ext (snd (reminder_scan still_env (sample_world\<lparr>w_db := expiring_db\<rparr>)))) =
     [reminder_job_for acme (sample_uuid 21) 14]"
proof -
  have d: "concat (map (\<lambda>r. due_reminders expiring_db 1767225600000 (tn_id r))
      (filter (\<lambda>r. tn_status r = TenantActive) (tenants expiring_db))) = [reminder_job_for acme (sample_uuid 21) 14]"
    by code_simp
  show ?thesis
    using reminder_scan_queues_due [of still_env 1767225600000 "sample_world\<lparr>w_db := expiring_db\<rparr>"] d
    by (simp add: sample_world_def sample_ext_def)
qed

text \<open>
  A reminder is only as good as the stored status: a document whose rows are not stored as
  EXPIRING_SOON is never queued, however near its expiry date is, and the status is computed when a
  document is written and at no other time.
\<close>

lemma stale_status_is_never_reminded:
  assumes "quiet E" and "redis_up E" and "one_day E now"
    and "\<forall>doc \<in> set (documents (w_db w)). dc_id doc = i \<longrightarrow> dc_expiryStatus doc \<noteq> EXPIRING_SOON"
    and "\<forall>j \<in> set (x_reminders (w_ext w)). rj_documentId j \<noteq> i"
  shows "\<forall>j \<in> set (x_reminders (w_ext (snd (reminder_scan E w)))). rj_documentId j \<noteq> i"
proof -
  have no: "rj_documentId j \<noteq> i" if "j \<in> set (due_reminders (w_db w) now t)" for j t
    using that assms(4) by (elim due_reminders_member) (auto simp: reminder_job_for_def)
  obtain x where "reminder_scan E w = (Inr (), w\<lparr>w_ext := x\<rparr>)"
    "set (x_reminders x) = set (x_reminders (w_ext w)) \<union>
      (\<Union>r \<in> {r \<in> set (tenants (w_db w)). tn_status r = TenantActive}. set (due_reminders (w_db w) now (tn_id r)))"
    using reminder_scan_run [OF assms(1-3), of w] by auto
  then show ?thesis using assms(5) by (auto dest: no)
qed

lemma stale_status_is_never_reminded_witness:
  "calendarDaysUntil (DStr ''2026-01-15'') 1767225600000 = Some 14
   \<and> sample_uuid 21 \<notin> rj_documentId ` set (x_reminders (w_ext (snd (reminder_scan still_env
      (sample_world\<lparr>w_db := sample_db\<lparr>documents := [sample_document\<lparr>dc_expiryDate := Some ''2026-01-15''\<rparr>]\<rparr>\<rparr>)))))"
proof
  show "calendarDaysUntil (DStr ''2026-01-15'') 1767225600000 = Some 14" by code_simp
  have "\<forall>j \<in> set (x_reminders (w_ext (snd (reminder_scan still_env
      (sample_world\<lparr>w_db := sample_db\<lparr>documents := [sample_document\<lparr>dc_expiryDate := Some ''2026-01-15''\<rparr>]\<rparr>\<rparr>))))).
        rj_documentId j \<noteq> sample_uuid 21"
    by (rule stale_status_is_never_reminded [of still_env 1767225600000]) (simp_all add: sample_world_def sample_ext_def)
  then show "sample_uuid 21 \<notin> rj_documentId ` set (x_reminders (w_ext (snd (reminder_scan still_env
      (sample_world\<lparr>w_db := sample_db\<lparr>documents := [sample_document\<lparr>dc_expiryDate := Some ''2026-01-15''\<rparr>]\<rparr>\<rparr>)))))"
    by auto
qed

text \<open>
  A reminder once sent is never sent again for its threshold, a renewal notwithstanding: with a
  SENT entry of the tenant for a document and a threshold no scan queues that pair, whatever expiry
  date the document has been given since.
\<close>

lemma sent_threshold_is_final:
  assumes "quiet E" and "redis_up E" and "one_day E now"
    and "\<exists>l \<in> set (notificationLog (w_db w)). nl_tenantId l = t \<and> already_sent i th l"
    and "x_reminders (w_ext w) = []" and "t \<noteq> []"
  shows "\<forall>j \<in> set (x_reminders (w_ext (snd (reminder_scan E w)))).
    \<not> (rj_tenantId j = t \<and> rj_documentId j = i \<and> rj_daysBeforeExpiry j = th)"
proof -
  have "visible_rows notification_log_t (Some t) (already_sent i th) (w_db w) \<noteq> []"
    using assms(4,6) by (auto simp: visible_rows_def rls_visible_def filter_empty_conv)
  then have no: "\<not> (rj_tenantId j = t \<and> rj_documentId j = i \<and> rj_daysBeforeExpiry j = th)"
    if "j \<in> set (due_reminders (w_db w) now t')" for j t'
    using that by (elim due_reminders_member) (auto simp: reminder_job_for_def)
  obtain x where "reminder_scan E w = (Inr (), w\<lparr>w_ext := x\<rparr>)"
    "set (x_reminders x) =
      (\<Union>r \<in> {r \<in> set (tenants (w_db w)). tn_status r = TenantActive}. set (due_reminders (w_db w) now (tn_id r)))"
    using reminder_scan_run [OF assms(1-3), of w] assms(5) by auto
  then show ?thesis by (auto dest: no)
qed

lemma sent_threshold_is_final_witness:
  "reminder_job_for acme (sample_uuid 21) 14 \<notin> set (x_reminders (w_ext (snd (reminder_scan still_env reminded_world))))"
proof -
  have "\<forall>j \<in> set (x_reminders (w_ext (snd (reminder_scan still_env reminded_world)))).
      \<not> (rj_tenantId j = acme \<and> rj_documentId j = sample_uuid 21 \<and> rj_daysBeforeExpiry j = 14)"
    by (rule sent_threshold_is_final [of still_env 1767225600000])
      (simp_all add: reminded_world_def sample_world_def sample_ext_def already_sent_def)
  then show ?thesis by (auto simp: reminder_job_for_def)
qed

section \<open>Properties of the worker\<close>

definition sent_entry :: "uuid \<Rightarrow> instant \<Rightarrow> reminder_job \<Rightarrow> notification_log_row" where
  "sent_entry u now job = \<lparr>nl_id = u, nl_tenantId = rj_tenantId job, nl_documentId = Some (rj_documentId job),
     nl_daysBeforeExpiry = rj_daysBeforeExpiry job, nl_sentAt = now, nl_status = SENT, nl_errorMessage = None\<rparr>"

definition claimed_key :: "instant \<Rightarrow> reminder_job \<Rightarrow> idempotency_row" where
  "claimed_key now job = \<lparr>ik_key = rj_idempotencyKey job, ik_tenantId = rj_tenantId job, ik_createdAt = now\<rparr>"

text \<open>A job whose document is live, whose employee has a mail address, whose tenant is active.\<close>

definition deliverable :: "(string \<Rightarrow> bool) \<Rightarrow> reminder_job \<Rightarrow> document_row \<Rightarrow> string \<Rightarrow> db \<Rightarrow> bool" where
  "deliverable is_uuid job doc email d \<longleftrightarrow>
     reminder_job_valid is_uuid job \<and> pg_uuid (rj_tenantId job)
     \<and> (\<exists>r \<in> set (tenants d). active_tenant (rj_tenantId job) r)
     \<and> found documents_t (rj_tenantId job) (reminder_document job) d = Some doc
     \<and> employee_email (Some (rj_tenantId job)) d doc = Some email \<and> email \<noteq> []"

definition email_input :: "reminder_job \<Rightarrow> document_row \<Rightarrow> string \<Rightarrow> db \<Rightarrow> reminder_email" where
  "email_input job doc email d =
     (let policy = found notification_policies_t (rj_tenantId job) (\<lambda>p. np_tenantId p = rj_tenantId job) d
      in \<lparr>re_to = email, re_documentId = rj_documentId job, re_docType = dc_docType doc,
          re_daysBeforeExpiry = rj_daysBeforeExpiry job,
          re_emailFrom = (case policy of None \<Rightarrow> None | Some p \<Rightarrow> np_emailFrom p),
          re_emailTemplateId = (case policy of None \<Rightarrow> None | Some p \<Rightarrow> np_emailTemplateId p)\<rparr>)"

lemma deliverable_facts:
  assumes "deliverable is_uuid job doc email d"
  shows "rj_tenantId job \<noteq> []" "rj_tenantId job \<in> tn_id ` set (tenants d)"
    "list_ex (\<lambda>x. same_uuid (dc_id x) (rj_documentId job)) (documents d)"
    "filter (active_tenant (rj_tenantId job)) (tenants d) \<noteq> []"
proof -
  have f: "doc \<in> set (documents d)" "rls_visible (Some (rj_tenantId job)) (dc_tenantId doc)" "reminder_document job doc"
    using assms found_visible [of documents_t] by (auto simp: deliverable_def)
  then show "rj_tenantId job \<noteq> []" by (simp add: rls_visible_def)
  show "list_ex (\<lambda>x. same_uuid (dc_id x) (rj_documentId job)) (documents d)"
    using f by (auto simp: list_ex_iff reminder_document_def)
  show "rj_tenantId job \<in> tn_id ` set (tenants d)" "filter (active_tenant (rj_tenantId job)) (tenants d) \<noteq> []"
    using assms by (auto simp: deliverable_def active_tenant_def filter_empty_conv intro: image_eqI [of _ tn_id] rev_image_eqI)
qed

lemma process_reminder_sent:
  assumes "quiet E" "deliverable is_uuid job doc email (w_db w)" "\<forall>k \<in> set (idempotencyKeys (w_db w)). ik_key k \<noteq> rj_idempotencyKey job"
    and "e_smtp E (x_tick (w_ext w) + 6) = None"
    and "\<forall>l \<in> set (notificationLog (w_db w)). \<not> same_uuid (nl_id l) (e_uuid E (x_tick (w_ext w) + 7))"
  shows "\<exists>x. process_reminder is_uuid dm (SmtpEmailDispatcher_send from) job E w =
      (Inr (), \<lparr>w_db = (w_db w)\<lparr>
          notificationLog := notificationLog (w_db w) @ [sent_entry (e_uuid E (x_tick (w_ext w) + 7)) (e_clock E (x_tick (w_ext w))) job],
          idempotencyKeys := idempotencyKeys (w_db w) @ [claimed_key (e_clock E (x_tick (w_ext w))) job]\<rparr>, w_ext = x\<rparr>)
    \<and> x_mails x = x_mails (w_ext w) @ [reminder_mail from (email_input job doc email (w_db w))]"
proof -
  note D = deliverable_facts [OF assms(2)]
  have free: "filter (\<lambda>r. rls_visible (Some (rj_tenantId job)) (ik_tenantId r) \<and> ik_key r = rj_idempotencyKey job)
      (idempotencyKeys (w_db w)) = []"
    "\<not> list_ex (\<lambda>k. rj_idempotencyKey job = ik_key k) (idempotencyKeys (w_db w))"
    using assms(3) by (auto simp: filter_empty_conv list_ex_iff)
  have new: "\<not> list_ex (\<lambda>l. same_uuid (e_uuid E (x_tick (w_ext w) + 7)) (nl_id l)) (notificationLog (w_db w))"
    using assms(5) by (auto simp: list_ex_iff same_uuid_def)
  have doc: "first_row (visible_rows documents_t (Some (rj_tenantId job)) (reminder_document job) (w_db w)) = Some doc"
    and mail: "employee_email (Some (rj_tenantId job)) (w_db w) doc = Some email" "email \<noteq> []"
    and v: "reminder_job_valid is_uuid job" "pg_uuid (rj_tenantId job)"
    using assms(2) by (auto simp: deliverable_def found_def)
  show ?thesis
    using assms(1,4) D free new doc mail v
    by (simp add: process_reminder_def frame_simps select_tenants_quiet select_where_quiet visible_rows_def [of idempotency_keys_t]
        deliver_reminder_def select_document_email_def statement_quiet first_row_map Let_def send_and_record_def
        SmtpEmailDispatcher_send_def external_def log_notification_def claim_key_def insert_returning_quiet
        rls_visible_def email_input_def found_def sent_entry_def claimed_key_def numeral_eq_Suc cong: option.case_cong)
qed

lemma process_reminder_known:
  assumes "quiet E" "reminder_job_valid is_uuid job" "\<exists>r \<in> set (tenants (w_db w)). active_tenant (rj_tenantId job) r"
    and "\<exists>k \<in> set (idempotencyKeys (w_db w)). ik_key k = rj_idempotencyKey job \<and> ik_tenantId k = rj_tenantId job"
    and "rj_tenantId job \<noteq> []"
  shows "\<exists>x. process_reminder is_uuid dm send job E w = (Inr (), \<lparr>w_db = w_db w, w_ext = x\<rparr>) \<and> x_mails x = x_mails (w_ext w)"
proof -
  have "filter (active_tenant (rj_tenantId job)) (tenants (w_db w)) \<noteq> []"
    using assms(3) by (auto simp: filter_empty_conv)
  moreover have "visible_rows idempotency_keys_t (Some (rj_tenantId job)) (\<lambda>k. ik_key k = rj_idempotencyKey job) (w_db w) \<noteq> []"
    using assms(4,5) by (auto simp: visible_rows_def rls_visible_def filter_empty_conv)
  ultimately show ?thesis
    using assms(1,2) by (simp add: process_reminder_def frame_simps select_tenants_quiet select_where_quiet)
qed

definition failed_entry :: "uuid \<Rightarrow> instant \<Rightarrow> reminder_job \<Rightarrow> string \<Rightarrow> notification_log_row" where
  "failed_entry u now job msg = (sent_entry u now job)\<lparr>nl_status := FAILED_SEND, nl_errorMessage := Some (take 500 msg)\<rparr>"

lemma deliverable_sample:
  "deliverable (\<lambda>_. True) (reminder_job_for acme (sample_uuid 21) 14) (sample_document\<lparr>dc_expiryStatus := EXPIRING_SOON,
     dc_expiryDate := Some ''2026-01-15''\<rparr>) ''ada@acme.test'' expiring_db"
  by code_simp

text \<open>A run that finds the key of its job claimed sends and changes nothing, whatever statement of it fails.\<close>

lemma process_reminder_claimed:
  assumes "process_reminder is_uuid dm send job E w = (res, w')" "rj_tenantId job \<noteq> []"
    and "\<exists>k \<in> set (idempotencyKeys (w_db w)). ik_key k = rj_idempotencyKey job \<and> ik_tenantId k = rj_tenantId job"
  shows "w_db w' = w_db w \<and> x_mails (w_ext w') = x_mails (w_ext w)"
proof -
  have "visible_rows idempotency_keys_t (Some (rj_tenantId job)) (\<lambda>k. ik_key k = rj_idempotencyKey job) (w_db w) \<noteq> []"
    using assms(2,3) by (auto simp: visible_rows_def rls_visible_def filter_empty_conv)
  then show ?thesis
    using assms(1)
    by (auto simp: process_reminder_def transaction_def setTenantContext_def select_tenants_def select_where_def
        statement_def tx_simps Let_def split: if_splits option.splits)
qed

text \<open>
  C9. A reminder goes out once: the worker sends one mail to the employee's address, and in one
  transaction that changes nothing else it records the mail as sent and claims the job's key. Every run of
  a job with that key that starts later, on any database that grew out of this one and whatever fails in the
  run, sends nothing and changes nothing; when nothing fails it succeeds. (Runs that overlap with the first
  one are another matter: \<open>Reruns\<close>.)
\<close>

theorem reminder_sent_once:
  assumes "quiet E" "deliverable is_uuid job doc email (w_db w)"
    and "\<forall>k \<in> set (idempotencyKeys (w_db w)). ik_key k \<noteq> rj_idempotencyKey job"
    and "e_smtp E (x_tick (w_ext w) + 6) = None"
    and "\<forall>l \<in> set (notificationLog (w_db w)). \<not> same_uuid (nl_id l) (e_uuid E (x_tick (w_ext w) + 7))"
    and "process_reminder is_uuid dm (SmtpEmailDispatcher_send from) job E w = (res, w1)"
  shows "res = Inr () \<and> x_mails (w_ext w1) = x_mails (w_ext w) @ [reminder_mail from (email_input job doc email (w_db w))]
    \<and> (\<exists>l k. w_db w1 = (w_db w)\<lparr>notificationLog := notificationLog (w_db w) @ [l],
          idempotencyKeys := idempotencyKeys (w_db w) @ [k]\<rparr>
        \<and> nl_status l = SENT \<and> nl_tenantId l = rj_tenantId job
        \<and> nl_documentId l = Some (rj_documentId job) \<and> nl_daysBeforeExpiry l = rj_daysBeforeExpiry job
        \<and> ik_key k = rj_idempotencyKey job \<and> ik_tenantId k = rj_tenantId job)
    \<and> (\<forall>is_uuid' dm' send' job' E' w2 w3 res'. history (w_db w1) (w_db w2)
          \<and> rj_idempotencyKey job' = rj_idempotencyKey job \<and> rj_tenantId job' = rj_tenantId job
          \<and> process_reminder is_uuid' dm' send' job' E' w2 = (res', w3)
        \<longrightarrow> w_db w3 = w_db w2 \<and> x_mails (w_ext w3) = x_mails (w_ext w2)
          \<and> (quiet E' \<and> reminder_job_valid is_uuid' job' \<longrightarrow> res' = Inr ()))"
proof -
  define l where "l = sent_entry (e_uuid E (x_tick (w_ext w) + 7)) (e_clock E (x_tick (w_ext w))) job"
  define k where "k = claimed_key (e_clock E (x_tick (w_ext w))) job"
  obtain x where x: "process_reminder is_uuid dm (SmtpEmailDispatcher_send from) job E w =
      (Inr (), \<lparr>w_db = (w_db w)\<lparr>notificationLog := notificationLog (w_db w) @ [l],
          idempotencyKeys := idempotencyKeys (w_db w) @ [k]\<rparr>, w_ext = x\<rparr>)"
    and m: "x_mails x = x_mails (w_ext w) @ [reminder_mail from (email_input job doc email (w_db w))]"
    using process_reminder_sent [OF assms(1-5), of dm "from"] unfolding l_def k_def by blast
  have r: "res = Inr ()" and w1: "w1 = \<lparr>w_db = (w_db w)\<lparr>notificationLog := notificationLog (w_db w) @ [l],
          idempotencyKeys := idempotencyKeys (w_db w) @ [k]\<rparr>, w_ext = x\<rparr>"
    using x assms(6) by simp_all
  have k: "ik_key k = rj_idempotencyKey job" "ik_tenantId k = rj_tenantId job" "k \<in> set (idempotencyKeys (w_db w1))"
    by (simp_all add: k_def claimed_key_def w1)
  have again: "w_db w3 = w_db w2 \<and> x_mails (w_ext w3) = x_mails (w_ext w2)
      \<and> (quiet E' \<and> reminder_job_valid is_uuid' job' \<longrightarrow> res' = Inr ())"
    if h: "history (w_db w1) (w_db w2)"
      and j: "rj_idempotencyKey job' = rj_idempotencyKey job" "rj_tenantId job' = rj_tenantId job"
      and p: "process_reminder is_uuid' dm' send' job' E' w2 = (res', w3)"
    for is_uuid' dm' send' job' E' w2 w3 res'
  proof -
    have "grows (=) (idempotencyKeys (w_db w1)) (idempotencyKeys (w_db w2))" and t: "tenants (w_db w2) = tenants (w_db w1)"
      using h by (simp_all add: history_def)
    then have claimed: "\<exists>k \<in> set (idempotencyKeys (w_db w2)). ik_key k = rj_idempotencyKey job' \<and> ik_tenantId k = rj_tenantId job'"
      using grows_member [OF _ k(3)] k(1,2) j by metis
    have ne: "rj_tenantId job' \<noteq> []" using deliverable_facts(1) [OF assms(2)] j by simp
    have active: "\<exists>r \<in> set (tenants (w_db w2)). active_tenant (rj_tenantId job') r"
      using assms(2) by (simp add: deliverable_def w1 t j)
    have "res' = Inr ()" if "quiet E'" "reminder_job_valid is_uuid' job'"
      using process_reminder_known [OF that active claimed ne, of dm' send'] p by auto
    then show ?thesis using process_reminder_claimed [OF p ne claimed] by blast
  qed
  have "w_db w1 = (w_db w)\<lparr>notificationLog := notificationLog (w_db w) @ [l], idempotencyKeys := idempotencyKeys (w_db w) @ [k]\<rparr>
      \<and> nl_status l = SENT \<and> nl_tenantId l = rj_tenantId job
      \<and> nl_documentId l = Some (rj_documentId job) \<and> nl_daysBeforeExpiry l = rj_daysBeforeExpiry job"
    by (simp add: w1 l_def sent_entry_def)
  moreover have "x_mails (w_ext w1) = x_mails (w_ext w) @ [reminder_mail from (email_input job doc email (w_db w))]"
    using m by (simp add: w1)
  ultimately show ?thesis using r again k(1,2) by blast
qed

theorem reminder_sent_once_witness:
  "\<exists>w1. process_reminder (\<lambda>_. True) id (SmtpEmailDispatcher_send ''hr@acme.test'') (reminder_job_for acme (sample_uuid 21) 14)
      sample_env (sample_world\<lparr>w_db := expiring_db\<rparr>) = (Inr (), w1) \<and> length (x_mails (w_ext w1)) = 1"
proof -
  let ?w = "sample_world\<lparr>w_db := expiring_db\<rparr>" and ?j = "reminder_job_for acme (sample_uuid 21) 14"
  obtain res w1 where 1: "process_reminder (\<lambda>_. True) id (SmtpEmailDispatcher_send ''hr@acme.test'') ?j sample_env ?w = (res, w1)"
    by force
  have e: "idempotencyKeys (w_db ?w) = []" "notificationLog (w_db ?w) = []" "x_mails (w_ext ?w) = []"
    "e_smtp sample_env k = None" for k
    by (simp_all add: expiring_db_def sample_db_def sample_world_def sample_ext_def sample_env_def)
  have "deliverable (\<lambda>_. True) ?j (sample_document\<lparr>dc_expiryStatus := EXPIRING_SOON, dc_expiryDate := Some ''2026-01-15''\<rparr>)
      ''ada@acme.test'' (w_db ?w)"
    using deliverable_sample by simp
  note once = reminder_sent_once [OF quiet_sample this _ _ _ 1]
  have "res = Inr ()" by (rule once [THEN conjunct1]) (simp_all add: e [simplified])
  moreover have "x_mails (w_ext w1) = x_mails (w_ext ?w) @ [reminder_mail ''hr@acme.test'' (email_input ?j
      (sample_document\<lparr>dc_expiryStatus := EXPIRING_SOON, dc_expiryDate := Some ''2026-01-15''\<rparr>) ''ada@acme.test'' (w_db ?w))]"
    by (rule once [THEN conjunct2, THEN conjunct1]) (simp_all add: e [simplified])
  ultimately show ?thesis using 1 e(3) by simp
qed

text \<open>
  A failed delivery is retried: when the mail transport throws, no mail leaves, the failure is
  recorded with the first 500 characters of its message, no key is claimed, and the transaction
  commits, so that the job can run again.
\<close>

lemma reminder_failure_recorded:
  assumes "quiet E" "deliverable is_uuid job doc email (w_db w)"
    and "\<forall>k \<in> set (idempotencyKeys (w_db w)). ik_key k \<noteq> rj_idempotencyKey job"
    and "e_smtp E (x_tick (w_ext w) + 6) = Some msg"
    and "\<forall>l \<in> set (notificationLog (w_db w)). \<not> same_uuid (nl_id l) (e_uuid E (x_tick (w_ext w) + 7))"
  shows "\<exists>w1. process_reminder is_uuid dm (SmtpEmailDispatcher_send from) job E w = (Inr (), w1)
    \<and> x_mails (w_ext w1) = x_mails (w_ext w) \<and> idempotencyKeys (w_db w1) = idempotencyKeys (w_db w)
    \<and> notificationLog (w_db w1) = notificationLog (w_db w) @
        [failed_entry (e_uuid E (x_tick (w_ext w) + 7)) (e_clock E (x_tick (w_ext w))) job msg]"
proof -
  note D = deliverable_facts [OF assms(2)]
  have free: "filter (\<lambda>r. rls_visible (Some (rj_tenantId job)) (ik_tenantId r) \<and> ik_key r = rj_idempotencyKey job)
      (idempotencyKeys (w_db w)) = []"
    using assms(3) by (auto simp: filter_empty_conv)
  have new: "\<not> list_ex (\<lambda>l. same_uuid (e_uuid E (x_tick (w_ext w) + 7)) (nl_id l)) (notificationLog (w_db w))"
    using assms(5) by (auto simp: list_ex_iff same_uuid_def)
  have doc: "first_row (visible_rows documents_t (Some (rj_tenantId job)) (reminder_document job) (w_db w)) = Some doc"
    and mail: "employee_email (Some (rj_tenantId job)) (w_db w) doc = Some email" "email \<noteq> []"
    and v: "reminder_job_valid is_uuid job" "pg_uuid (rj_tenantId job)"
    using assms(2) by (auto simp: deliverable_def found_def)
  show ?thesis
    using assms(1,4) D free new doc mail v
    by (simp add: process_reminder_def frame_simps select_tenants_quiet select_where_quiet visible_rows_def [of idempotency_keys_t]
        deliver_reminder_def select_document_email_def statement_quiet first_row_map Let_def send_and_record_def
        SmtpEmailDispatcher_send_def external_def log_notification_def claim_key_def insert_returning_quiet
        rls_visible_def failed_entry_def sent_entry_def numeral_eq_Suc cong: option.case_cong)
qed

lemma reminder_failure_recorded_witness:
  "\<exists>w1. process_reminder (\<lambda>_. True) id (SmtpEmailDispatcher_send ''hr@acme.test'') (reminder_job_for acme (sample_uuid 21) 14)
      (sample_env\<lparr>e_smtp := (\<lambda>_. Some ''ECONNREFUSED'')\<rparr>) (sample_world\<lparr>w_db := expiring_db\<rparr>) = (Inr (), w1)
     \<and> x_mails (w_ext w1) = []"
proof -
  let ?w = "sample_world\<lparr>w_db := expiring_db\<rparr>" and ?j = "reminder_job_for acme (sample_uuid 21) 14"
  let ?E = "sample_env\<lparr>e_smtp := (\<lambda>_. Some ''ECONNREFUSED'')\<rparr>"
  have e: "idempotencyKeys (w_db ?w) = []" "notificationLog (w_db ?w) = []" "x_mails (w_ext ?w) = []" "quiet ?E"
    by (simp_all add: expiring_db_def sample_db_def sample_world_def sample_ext_def sample_env_def quiet_def)
  have "deliverable (\<lambda>_. True) ?j (sample_document\<lparr>dc_expiryStatus := EXPIRING_SOON, dc_expiryDate := Some ''2026-01-15''\<rparr>)
      ''ada@acme.test'' (w_db ?w)"
    using deliverable_sample by simp
  from reminder_failure_recorded [OF e(4) this, of "''ECONNREFUSED''" id "''hr@acme.test''"] show ?thesis using e by auto
qed

text \<open>
  A mail nobody remembers: when the statement that claims the key fails, for instance because
  another run of the job has just claimed it, the transaction is aborted, the entry that should record
  the failure is refused with it, the job throws although the handler means not to, and everything is
  rolled back except the mail, which has been sent.
\<close>

lemma mail_sent_but_rolled_back:
  assumes "deliverable is_uuid job doc email (w_db w)"
    and "\<forall>k \<in> set (idempotencyKeys (w_db w)). ik_key k \<noteq> rj_idempotencyKey job"
    and "e_smtp E (x_tick (w_ext w) + 6) = None"
    and "\<forall>l \<in> set (notificationLog (w_db w)). \<not> same_uuid (nl_id l) (e_uuid E (x_tick (w_ext w) + 7))"
    and "\<And>k. e_fault E k \<noteq> None \<longleftrightarrow> k = x_tick (w_ext w) + 8"
  shows "\<exists>w1. process_reminder is_uuid dm (SmtpEmailDispatcher_send from) job E w = (Inl (DbError ''25P02''), w1)
    \<and> w_db w1 = w_db w
    \<and> x_mails (w_ext w1) = x_mails (w_ext w) @ [reminder_mail from (email_input job doc email (w_db w))]"
proof -
  let ?n = "x_tick (w_ext w)"
  note D = deliverable_facts [OF assms(1)]
  have f0: "e_fault E k = None" if "k \<noteq> ?n + 8" for k using assms(5) [of k] that by auto
  obtain c where c: "e_fault E (?n + 8) = Some c" using assms(5) by blast
  have f: "e_fault E ?n = None" "e_fault E (Suc ?n) = None" "e_fault E (Suc (Suc ?n)) = None"
    "e_fault E (Suc (Suc (Suc ?n))) = None" "e_fault E (Suc (Suc (Suc (Suc ?n)))) = None"
    "e_fault E (Suc (Suc (Suc (Suc (Suc ?n))))) = None" "e_fault E (Suc (Suc (Suc (Suc (Suc (Suc (Suc ?n))))))) = None"
    "e_fault E (Suc (Suc (Suc (Suc (Suc (Suc (Suc (Suc ?n)))))))) = Some c"
    using c by (simp_all add: f0 numeral_eq_Suc)
  have free: "filter (\<lambda>r. rls_visible (Some (rj_tenantId job)) (ik_tenantId r) \<and> ik_key r = rj_idempotencyKey job)
      (idempotencyKeys (w_db w)) = []"
    using assms(2) by (auto simp: filter_empty_conv)
  have new: "\<not> list_ex (\<lambda>l. same_uuid (e_uuid E (x_tick (w_ext w) + 7)) (nl_id l)) (notificationLog (w_db w))"
    using assms(4) by (auto simp: list_ex_iff same_uuid_def)
  have doc: "first_row (visible_rows documents_t (Some (rj_tenantId job)) (reminder_document job) (w_db w)) = Some doc"
    and mail: "employee_email (Some (rj_tenantId job)) (w_db w) doc = Some email" "email \<noteq> []"
    and v: "reminder_job_valid is_uuid job" "pg_uuid (rj_tenantId job)"
    using assms(1) by (auto simp: deliverable_def found_def)
  show ?thesis
    using assms(3) D free new doc mail v f
    by (simp add: process_reminder_def transaction_def setTenantContext_def statement_def tx_simps select_tenants_def
        select_where_def visible_rows_def [of idempotency_keys_t] deliver_reminder_def select_document_email_def
        first_row_map Let_def send_and_record_def SmtpEmailDispatcher_send_def external_def log_notification_def
        claim_key_def insert_returning_def rls_visible_def email_input_def found_def numeral_eq_Suc cong: option.case_cong)
qed

lemma mail_sent_but_rolled_back_witness:
  "\<exists>w1. process_reminder (\<lambda>_. True) id (SmtpEmailDispatcher_send ''hr@acme.test'') (reminder_job_for acme (sample_uuid 21) 14)
      (faulty_env 8) (sample_world\<lparr>w_db := expiring_db\<rparr>) = (Inl (DbError ''25P02''), w1) \<and> length (x_mails (w_ext w1)) = 1"
proof -
  let ?w = "sample_world\<lparr>w_db := expiring_db\<rparr>" and ?j = "reminder_job_for acme (sample_uuid 21) 14"
  have e: "idempotencyKeys (w_db ?w) = []" "notificationLog (w_db ?w) = []" "x_mails (w_ext ?w) = []"
    "e_smtp (faulty_env 8) k = None" "e_fault (faulty_env 8) k \<noteq> None \<longleftrightarrow> k = x_tick (w_ext ?w) + 8" for k
    by (simp_all add: expiring_db_def sample_db_def sample_world_def sample_ext_def sample_env_def faulty_env_def)
  have "deliverable (\<lambda>_. True) ?j (sample_document\<lparr>dc_expiryStatus := EXPIRING_SOON, dc_expiryDate := Some ''2026-01-15''\<rparr>)
      ''ada@acme.test'' (w_db ?w)"
    using deliverable_sample by simp
  from mail_sent_but_rolled_back [OF this _ _ _ e(5), of id "''hr@acme.test''"] show ?thesis using e(1-4) by auto
qed

end
