(* ===== verification/Imports.thy ===== *)
theory Imports
  imports Requests Reminders "HOL-Library.Sublist"
begin

text \<open>
  Import and export of employees: \<open>apps/api/src/import-export\<close> (\<open>employee-row.ts\<close>, \<open>import.service.ts\<close>,
  \<open>export.service.ts\<close>, \<open>import-queue.service.ts\<close>) and the worker that takes note of a finished import
  (\<open>import.worker.ts\<close>). The spreadsheet library is a parameter: \<open>load\<close> gives the worksheets of an uploaded
  file or \<open>None\<close> when it throws; \<open>digest\<close> is the SHA-256 digest of the file. A number or a date of a cell is carried
  as the text \<open>String\<close> gives for it.
\<close>

section \<open>Cells and rows\<close>

datatype formula_result = TextResult string | NumberResult string | BoolResult bool | ObjectResult

datatype cell =
    CellNull
  | CellText string
  | CellNumber string
  | CellBool bool
  | CellDate string
  | CellRich "string list"
  | CellLink "string option"
  | CellFormula "formula_result option"
  | CellError

fun bool_text :: "bool \<Rightarrow> string" where
  "bool_text True = ''true''"
| "bool_text False = ''false''"

definition non_empty :: "string \<Rightarrow> string option" where
  "non_empty s = (if s = [] then None else Some s)"

fun normalizeCellValue :: "cell \<Rightarrow> string option" where
  "normalizeCellValue CellNull = None"
| "normalizeCellValue (CellRich parts) = Some (concat parts)"
| "normalizeCellValue (CellLink txt) = txt"
| "normalizeCellValue (CellFormula None) = None"
| "normalizeCellValue (CellFormula (Some (TextResult s))) = Some s"
| "normalizeCellValue (CellFormula (Some (NumberResult s))) = Some s"
| "normalizeCellValue (CellFormula (Some (BoolResult b))) = Some (bool_text b)"
| "normalizeCellValue (CellFormula (Some ObjectResult)) = None"
| "normalizeCellValue (CellDate s) = None"
| "normalizeCellValue CellError = None"
| "normalizeCellValue (CellText s) = non_empty (js_trim s)"
| "normalizeCellValue (CellNumber s) = non_empty (js_trim s)"
| "normalizeCellValue (CellBool b) = non_empty (js_trim (bool_text b))"

text \<open>\<open>String(cell.value ?? '')\<close>.\<close>

fun cell_string :: "cell \<Rightarrow> string" where
  "cell_string CellNull = ''''"
| "cell_string (CellText s) = s"
| "cell_string (CellNumber s) = s"
| "cell_string (CellBool b) = bool_text b"
| "cell_string (CellDate s) = s"
| "cell_string _ = ''[object Object]''"

type_synonym sheet_row = "cell list"
type_synonym worksheet = "sheet_row list"

type_synonym row_record = "string \<Rightarrow> string option"

text \<open>\<open>rowValues[index + 1]\<close>: the cell of a column, nothing beyond the row's end.\<close>

definition cell_at :: "sheet_row \<Rightarrow> nat \<Rightarrow> cell" where
  "cell_at row index = (if index < length row then row ! index else CellNull)"

fun set_columns :: "(nat \<times> string) list \<Rightarrow> sheet_row \<Rightarrow> row_record \<Rightarrow> row_record" where
  "set_columns [] row rec = rec"
| "set_columns ((index, header) # rest) row rec =
     set_columns rest row (if header = [] then rec else rec(header := normalizeCellValue (cell_at row index)))"

definition buildRowRecord :: "string list \<Rightarrow> sheet_row \<Rightarrow> row_record" where
  "buildRowRecord headers row = set_columns (enumerate 0 headers) row (\<lambda>_. None)"

text \<open>The record as the object \<open>safeParse\<close> reads; an undefined field is no field.\<close>

definition record_json :: "row_record \<Rightarrow> json" where
  "record_json rec = JObj (concat (map (\<lambda>(k, ty). case rec k of None \<Rightarrow> [] | Some s \<Rightarrow> [(k, JStr s)]) createEmployeeSchema))"

fun join :: "string \<Rightarrow> string list \<Rightarrow> string" where
  "join sep [] = []"
| "join sep [s] = s"
| "join sep (s # rest) = s @ sep @ join sep rest"

definition parseEmployeeImportRow :: "zod_parser \<Rightarrow> row_record \<Rightarrow> string + create_employee_dto" where
  "parseEmployeeImportRow zod rawRow =
     (case zod createEmployeeSchema (Some (record_json rawRow)) of
        Inl err \<Rightarrow>
          (let firstIssue = first_row (ze_issues err);
               path = join ''.'' (case firstIssue of None \<Rightarrow> [] | Some (p, m) \<Rightarrow> p);
               field = (if path = [] then ''row'' else path);
               message = (case firstIssue of None \<Rightarrow> ''Invalid row'' | Some (p, m) \<Rightarrow> m)
           in Inl (field @ '': '' @ message))
      | Inr data \<Rightarrow> Inr (create_employee_of data))"

section \<open>Reading the workbook\<close>

definition REQUIRED_HEADERS :: "string list" where
  "REQUIRED_HEADERS = [''employeeCode'', ''firstName'', ''lastName'']"

definition MAX_IMPORT_ROWS :: nat where
  "MAX_IMPORT_ROWS = 5000"

text \<open>\<open>getRow(1).eachCell({ includeEmpty: false }, ...)\<close>: a hole where the cell is empty.\<close>

definition header_row :: "worksheet \<Rightarrow> string list" where
  "header_row ws = map (\<lambda>c. js_trim (cell_string c)) (case ws of [] \<Rightarrow> [] | r # _ \<Rightarrow> r)"

definition actualCellCount :: "sheet_row \<Rightarrow> nat" where
  "actualCellCount row = length (filter (\<lambda>c. c \<noteq> CellNull) row)"

fun data_rows :: "string list \<Rightarrow> nat \<Rightarrow> worksheet \<Rightarrow> (nat \<times> row_record) list" where
  "data_rows headers rowNumber [] = []"
| "data_rows headers rowNumber (row # rows) =
     (if actualCellCount row = 0 then data_rows headers (Suc rowNumber) rows
      else (rowNumber, buildRowRecord headers row) # data_rows headers (Suc rowNumber) rows)"

definition parseWorkbook :: "('file \<Rightarrow> worksheet list option) \<Rightarrow> 'file \<Rightarrow> exn + (nat \<times> row_record) list" where
  "parseWorkbook load fileBuffer =
     (case load fileBuffer of
        None \<Rightarrow> Inl (BadRequestException (Message ''Could not parse the uploaded file as an .xlsx workbook''))
      | Some worksheets \<Rightarrow>
          (case first_row worksheets of
             None \<Rightarrow> Inl (BadRequestException (Message ''Workbook has no worksheets''))
           | Some worksheet \<Rightarrow>
               (let headers = header_row worksheet;
                    missingHeaders = filter (\<lambda>h. h \<notin> set headers) REQUIRED_HEADERS
                in if missingHeaders \<noteq> []
                   then Inl (BadRequestException (Message (''Missing required column(s): '' @ join '', '' missingHeaders)))
                   else let rowRecords = data_rows headers 2 (drop 1 worksheet)
                     in if rowRecords = [] then Inl (BadRequestException (Message ''Workbook has no data rows''))
                        else if MAX_IMPORT_ROWS < length rowRecords
                        then Inl (BadRequestException (Message (''File has '' @ dec (length rowRecords) @ '' rows, exceeding the '' @
                               dec MAX_IMPORT_ROWS @ ''-row limit'')))
                        else Inr rowRecords)))"

section \<open>The import\<close>

record import_row_error =
  ir_row :: nat
  ir_employeeCode :: "string option"
  ir_message :: string

definition batch_of_hash :: "uuid \<Rightarrow> string \<Rightarrow> import_batch_row \<Rightarrow> bool" where
  "batch_of_hash tenantId fileHash b \<longleftrightarrow> ib_tenantId b = tenantId \<and> ib_fileHash b = fileHash"

definition findExistingBatch :: "uuid \<Rightarrow> string \<Rightarrow> import_batch_row option io" where
  "findExistingBatch tenantId fileHash =
     transaction (tthen (setTenantContext tenantId)
       (tbind (select_where import_batches_t (batch_of_hash tenantId fileHash))
         (\<lambda>rows. treturn (first_row (take 1 rows)))))"

definition upsertEmployeeRow :: "uuid \<Rightarrow> create_employee_dto \<Rightarrow> audit_context \<Rightarrow> unit io" where
  "upsertEmployeeRow tenantId dto auditContext =
     iobind (transaction (tthen (setTenantContext tenantId)
         (select_where employees_t (\<lambda>r. em_tenantId r = tenantId \<and> em_employeeCode r = ce_employeeCode dto))))
       (\<lambda>existingRows. case first_row (take 1 existingRows) of
          Some existing \<Rightarrow>
            if em_deletedAt existing \<noteq> None then iothrow (JsError ''employee_code belongs to an archived employee'')
            else iobind (EmployeesService_update tenantId (em_id existing)
                \<lparr>ue_firstName = Some (ce_firstName dto), ue_lastName = Some (ce_lastName dto), ue_email = ce_email dto,
                 ue_department = ce_department dto, ue_jobTitle = ce_jobTitle dto, ue_branch = ce_branch dto,
                 ue_responsibleOfficerId = ce_responsibleOfficerId dto, ue_version = em_version existing\<rparr> auditContext)
              (\<lambda>_. ioreturn ())
        | None \<Rightarrow> iobind (EmployeesService_create tenantId dto auditContext) (\<lambda>_. ioreturn ()))"

text \<open>The loop over the rows: how many were written, and the errors of the others.\<close>

fun import_rows ::
  "zod_parser \<Rightarrow> (string \<Rightarrow> string) \<Rightarrow> uuid \<Rightarrow> audit_context \<Rightarrow> (nat \<times> row_record) list \<Rightarrow> int \<Rightarrow> import_row_error list
    \<Rightarrow> (int \<times> import_row_error list) io" where
  "import_rows zod dm tenantId ctx [] processedRows errors = ioreturn (processedRows, errors)"
| "import_rows zod dm tenantId ctx ((rowNumber, record) # rest) processedRows errors =
     (let employeeCode = record ''employeeCode'';
          err = (\<lambda>msg. \<lparr>ir_row = rowNumber, ir_employeeCode = employeeCode, ir_message = msg\<rparr>)
      in case parseEmployeeImportRow zod record of
           Inl msg \<Rightarrow> import_rows zod dm tenantId ctx rest processedRows (errors @ [err msg])
         | Inr data \<Rightarrow> iobind (ioattempt (upsertEmployeeRow tenantId data ctx))
             (\<lambda>outcome. case outcome of
                Inr _ \<Rightarrow> import_rows zod dm tenantId ctx rest (processedRows + 1) errors
              | Inl e \<Rightarrow> import_rows zod dm tenantId ctx rest processedRows (errors @ [err (exn_message dm e)])))"

definition new_batch :: "uuid \<Rightarrow> int \<Rightarrow> string \<Rightarrow> string \<Rightarrow> uuid \<Rightarrow> instant \<Rightarrow> import_batch_row" where
  "new_batch tenantId totalRows fileHash createdBy u now =
     \<lparr>ib_importBatchId = u, ib_tenantId = tenantId, ib_status = PROCESSING, ib_totalRows = totalRows,
      ib_processedRows = 0, ib_errorRows = 0, ib_fileHash = fileHash, ib_createdAt = now, ib_completedAt = None,
      ib_createdBy = Some createdBy\<rparr>"

text \<open>The primary key and \<open>unique (tenant_id, file_hash)\<close>.\<close>

definition batch_clash :: "import_batch_row \<Rightarrow> import_batch_row \<Rightarrow> bool" where
  "batch_clash b b' \<longleftrightarrow> ib_importBatchId b = ib_importBatchId b'
     \<or> (ib_tenantId b = ib_tenantId b' \<and> ib_fileHash b = ib_fileHash b')"

definition start_batch :: "uuid \<Rightarrow> int \<Rightarrow> string \<Rightarrow> string \<Rightarrow> import_batch_row list io" where
  "start_batch tenantId totalRows fileHash createdBy =
     transaction (tthen (setTenantContext tenantId)
       (insert_returning import_batches_t (\<lambda>E b. pg_uuid (ib_tenantId b)) batch_clash
          (\<lambda>d b. ib_tenantId b \<in> tn_id ` set (tenants d)) (new_batch tenantId totalRows fileHash createdBy)))"

definition batch_done :: "int \<Rightarrow> int \<Rightarrow> instant \<Rightarrow> import_batch_row \<Rightarrow> import_batch_row" where
  "batch_done processedRows errorRows now b =
     b\<lparr>ib_status := COMPLETED, ib_processedRows := processedRows, ib_errorRows := errorRows, ib_completedAt := Some now\<rparr>"

definition import_outcome :: "int \<Rightarrow> int \<Rightarrow> audit_outcome" where
  "import_outcome processedRows errorRows =
     (if errorRows = 0 then SUCCESS else if processedRows = 0 then FAILED else PARTIAL)"

definition finish_batch :: "uuid \<Rightarrow> import_batch_row \<Rightarrow> int \<Rightarrow> int \<Rightarrow> int \<Rightarrow> audit_context \<Rightarrow> import_batch_row list io" where
  "finish_batch tenantId batch totalRows processedRows errorRows ctx =
     transaction (tthen (setTenantContext tenantId)
       (tbind (update_returning import_batches_t (\<lambda>b. ib_importBatchId b = ib_importBatchId batch)
           (batch_done processedRows errorRows))
         (\<lambda>updated. tthen
           (audit_log ctx IMPORT_BATCH_COMPLETED ''import_batch'' (Some (ib_importBatchId batch)) None
              (Some [(''totalRows'', JNum totalRows), (''processedRows'', JNum processedRows), (''errorRows'', JNum errorRows)])
              (import_outcome processedRows errorRows) None)
           (treturn updated))))"

definition enqueueCompletion :: "uuid \<Rightarrow> uuid \<Rightarrow> int \<Rightarrow> unit io" where
  "enqueueCompletion tenantId importBatchId rowCount =
     io_external e_redis (\<lambda>x. x\<lparr>x_imports := x_imports x @
       [\<lparr>ij_tenantId = tenantId, ij_jobId = importBatchId, ij_idempotencyKey = ''import:'' @ importBatchId,
         ij_rowCount = rowCount\<rparr>]\<rparr>)"

text \<open>From the batch's row to the answer.\<close>

definition import_batch ::
  "zod_parser \<Rightarrow> (string \<Rightarrow> string) \<Rightarrow> uuid \<Rightarrow> string \<Rightarrow> string \<Rightarrow> audit_context \<Rightarrow> (nat \<times> row_record) list
    \<Rightarrow> (import_batch_row \<times> import_row_error list) io" where
  "import_batch zod dm tenantId fileHash actorUserId auditContext rowRecords =
     (let totalRows = int (length rowRecords)
      in iobind (start_batch tenantId totalRows fileHash actorUserId)
        (\<lambda>inserted. case first_row inserted of
           None \<Rightarrow> iothrow (JsError ''Import batch insert did not return a row'')
         | Some batch \<Rightarrow> iobind (import_rows zod dm tenantId auditContext rowRecords 0 [])
             (\<lambda>(processedRows, errors).
                iobind (finish_batch tenantId batch totalRows processedRows (int (length errors)) auditContext)
                  (\<lambda>completedRows. case first_row completedRows of
                     None \<Rightarrow> iothrow (JsError ''Import batch update did not return a row'')
                   | Some completed \<Rightarrow>
                       iobind (enqueueCompletion tenantId (ib_importBatchId batch) totalRows)
                         (\<lambda>_. ioreturn (completed, errors))))))"

definition ImportService_importEmployees ::
  "('file \<Rightarrow> string) \<Rightarrow> ('file \<Rightarrow> worksheet list option) \<Rightarrow> zod_parser \<Rightarrow> (string \<Rightarrow> string)
    \<Rightarrow> uuid \<Rightarrow> 'file \<Rightarrow> string \<Rightarrow> audit_context \<Rightarrow> (import_batch_row \<times> import_row_error list) io" where
  "ImportService_importEmployees digest load zod dm tenantId fileBuffer actorUserId auditContext =
     (let fileHash = digest fileBuffer
      in iobind (findExistingBatch tenantId fileHash)
        (\<lambda>existingBatch. case existingBatch of
           Some b \<Rightarrow> ioreturn (b, [])
         | None \<Rightarrow> iobind (ioresult (parseWorkbook load fileBuffer))
             (import_batch zod dm tenantId fileHash actorUserId auditContext)))"

definition ImportService_findBatch :: "uuid \<Rightarrow> string \<Rightarrow> import_batch_row option io" where
  "ImportService_findBatch tenantId importBatchId =
     transaction (tthen (setTenantContext tenantId)
       (tbind (well_typed ''22P02'' (pg_uuid importBatchId)
           (select_where import_batches_t (\<lambda>b. same_uuid (ib_importBatchId b) importBatchId \<and> ib_tenantId b = tenantId)))
         (\<lambda>rows. treturn (first_row (take 1 rows)))))"

section \<open>The export\<close>

definition EXPORT_COLUMNS :: "string list" where
  "EXPORT_COLUMNS = [''employeeCode'', ''firstName'', ''lastName'', ''email'', ''department'', ''jobTitle'',
     ''branch'', ''responsibleOfficerId'']"

definition opt_cell :: "string option \<Rightarrow> cell" where
  "opt_cell v = (case v of None \<Rightarrow> CellNull | Some s \<Rightarrow> CellText s)"

definition export_row :: "employee_row \<Rightarrow> sheet_row" where
  "export_row r = [CellText (em_employeeCode r), opt_cell (em_firstName r), opt_cell (em_lastName r), opt_cell (em_email r),
     opt_cell (em_department r), opt_cell (em_jobTitle r), opt_cell (em_branch r), opt_cell (em_responsibleOfficerId r)]"

definition ExportService_exportEmployees :: "(worksheet list \<Rightarrow> 'file) \<Rightarrow> uuid \<Rightarrow> 'file io" where
  "ExportService_exportEmployees write tenantId =
     iobind (transaction (tthen (setTenantContext tenantId) (select_where employees_t (\<lambda>r. em_deletedAt r = None))))
       (\<lambda>rows. ioreturn (write [map CellText EXPORT_COLUMNS # map export_row rows]))"

section \<open>The import worker\<close>

definition import_job_valid :: "(string \<Rightarrow> bool) \<Rightarrow> import_job \<Rightarrow> bool" where
  "import_job_valid is_uuid_text job \<longleftrightarrow> is_uuid_text (ij_tenantId job) \<and> 0 \<le> ij_rowCount job"

definition process_import :: "(string \<Rightarrow> bool) \<Rightarrow> import_job \<Rightarrow> unit io" where
  "process_import is_uuid_text job =
     (if \<not> import_job_valid is_uuid_text job then iothrow (JsError ''Job rejected: missing or invalid tenantId'')
      else transaction
        (tthen (setTenantContext (ij_tenantId job))
          (tbind (select_tenants (\<lambda>t. tn_id t = ij_tenantId job \<and> tn_status t = TenantActive))
            (\<lambda>tenantRows. if tenantRows = [] then tthrow (JsError ''Tenant not active or not found'')
               else tbind (select_where idempotency_keys_t (\<lambda>k. ik_key k = ij_idempotencyKey job))
                 (\<lambda>existing. if existing \<noteq> [] then treturn ()
                    else tthen (claim_key (ij_idempotencyKey job) (ij_tenantId job)) (treturn ()))))))"

section \<open>Control flow\<close>

lemma batch_done_frame [simp]:
  "ib_tenantId (batch_done p e now b) = ib_tenantId b" "ib_importBatchId (batch_done p e now b) = ib_importBatchId b"
  "ib_fileHash (batch_done p e now b) = ib_fileHash b" "ib_totalRows (batch_done p e now b) = ib_totalRows b"
  "ib_status (batch_done p e now b) = COMPLETED" "ib_processedRows (batch_done p e now b) = p"
  "ib_errorRows (batch_done p e now b) = e"
  by (simp_all add: batch_done_def)

lemma io_prod_rel [io_intros]: "(\<And>a b. p = (a, b) \<Longrightarrow> io_rel R (k a b)) \<Longrightarrow> io_rel R (case p of (a, b) \<Rightarrow> k a b)"
  by (cases p) simp

lemma upsert_iso [io_intros]: "io_rel (same_for_others t) (upsertEmployeeRow t dto ctx)"
  and upsert_hist [io_intros]: "io_rel history (upsertEmployeeRow t dto ctx)"
  unfolding upsertEmployeeRow_def by (auto intro!: io_intros keeps_intros)

lemma import_rows_iso [io_intros]: "io_rel (same_for_others t) (import_rows zod dm t ctx rows p errs)"
  and import_rows_hist [io_intros]: "io_rel history (import_rows zod dm t ctx rows p errs)"
  by (induction zod dm t ctx rows p errs rule: import_rows.induct) (auto simp: Let_def intro!: io_intros)

lemma batch_done_later: "import_batch_later b (batch_done p e now b)"
  by (simp add: import_batch_later_def)

lemmas import_defs = ImportService_importEmployees_def import_batch_def findExistingBatch_def start_batch_def finish_batch_def
  enqueueCompletion_def ImportService_findBatch_def

lemma import_iso: "io_rel (same_for_others t) (ImportService_importEmployees digest load zod dm t upload actor ctx)"
  and import_hist: "io_rel history (ImportService_importEmployees digest load zod dm t upload actor ctx)"
  unfolding import_defs Let_def by (auto intro!: io_intros keeps_intros batch_done_later)

lemma export_reads_only: "io_rel (\<lambda>d d'. d' = d) (ExportService_exportEmployees write t)"
  and find_batch_reads_only: "io_rel (\<lambda>d d'. d' = d) (ImportService_findBatch t i)"
  unfolding ExportService_exportEmployees_def import_defs
  by (auto intro!: unchanged.transaction_rel unchanged.iobind_rel unchanged.io_return_rel keeps_intros)

lemma process_import_iso: "io_rel (same_for_others (ij_tenantId job)) (process_import is_uuid_text job)"
  and process_import_hist: "io_rel history (process_import is_uuid_text job)"
  unfolding process_import_def claim_key_def Let_def by (auto intro!: io_intros keeps_intros)

text \<open>Writing employees leaves the batches alone.\<close>

interpretation batches_kept: db_relation "\<lambda>d d'. importBatches d' = importBatches d"
  by unfold_locales auto

lemma keeps_batches [keeps_intros]:
  "keeps (txinv (\<lambda>d d'. importBatches d' = importBatches d) t d0) (insert_returning employees_t typ clash fk mk)"
  "keeps (txinv (\<lambda>d d'. importBatches d' = importBatches d) t d0) (update_returning employees_t p f)"
  "keeps (txinv (\<lambda>d d'. importBatches d' = importBatches d) t d0) (insert_returning audit_events_t typ' clash' fk' mk')"
  unfolding insert_returning_def update_returning_def
  by (rule batches_kept.keeps_statement; auto simp: stmt_rel_def Let_def split: if_splits)+

lemma keeps_batches_audit [keeps_intros]:
  "keeps (txinv (\<lambda>d d'. importBatches d' = importBatches d) t d0) (audit_log ctx act ty eid b a oc rs)"
  unfolding audit_log_def Let_def by (intro keeps_intros)

lemma upsert_keeps_batches [io_intros]: "io_rel (\<lambda>d d'. importBatches d' = importBatches d) (upsertEmployeeRow t dto ctx)"
  unfolding upsertEmployeeRow_def EmployeesService_update_def EmployeesService_create_def employee_lookup_def
    employee_write_def employee_insert_def
  by (auto intro!: io_intros keeps_intros)

lemma import_rows_keeps_batches: "io_rel (\<lambda>d d'. importBatches d' = importBatches d) (import_rows zod dm t ctx rows p errs)"
  by (induction zod dm t ctx rows p errs rule: import_rows.induct) (auto simp: Let_def intro!: io_intros)

section \<open>The loop over the rows\<close>

lemma import_rows_run:
  "\<exists>p' es w'. import_rows zod dm t ctx rows p errs E w = (Inr (p', errs @ es), w')
    \<and> p' + int (length es) = p + int (length rows) \<and> p \<le> p' \<and> subseq (map ir_row es) (map fst rows)
    \<and> tenants (w_db w') = tenants (w_db w) \<and> importBatches (w_db w') = importBatches (w_db w)"
proof -
  have run: "\<exists>p' es w'. import_rows zod dm t ctx rows p errs E w = (Inr (p', errs @ es), w')
      \<and> p' + int (length es) = p + int (length rows) \<and> p \<le> p' \<and> subseq (map ir_row es) (map fst rows)"
  proof (induction rows arbitrary: p errs w)
    case Nil
    then show ?case by (auto simp: ioreturn_def)
  next
    case (Cons row rows)
    obtain n rec where row: "row = (n, rec)" by force
    show ?case
    proof (cases "parseEmployeeImportRow zod rec")
      case (Inl msg)
      let ?e = "\<lparr>ir_row = n, ir_employeeCode = rec ''employeeCode'', ir_message = msg\<rparr>"
      obtain p' es w' where "import_rows zod dm t ctx rows p (errs @ [?e]) E w = (Inr (p', (errs @ [?e]) @ es), w')"
        "p' + int (length es) = p + int (length rows)" "p \<le> p'" "subseq (map ir_row es) (map fst rows)"
        using Cons.IH [of p "errs @ [?e]" w] by blast
      then show ?thesis using row Inl
        by (intro exI [of _ p'] exI [of _ "?e # es"] exI [of _ w']) (simp add: Let_def)
    next
      case (Inr dto)
      obtain r w1 where u: "upsertEmployeeRow t dto ctx E w = (r, w1)" by force
      show ?thesis
      proof (cases r)
        case (Inl e)
        let ?e = "\<lparr>ir_row = n, ir_employeeCode = rec ''employeeCode'', ir_message = exn_message dm e\<rparr>"
        obtain p' es w' where "import_rows zod dm t ctx rows p (errs @ [?e]) E w1 = (Inr (p', (errs @ [?e]) @ es), w')"
          "p' + int (length es) = p + int (length rows)" "p \<le> p'" "subseq (map ir_row es) (map fst rows)"
          using Cons.IH [of p "errs @ [?e]" w1] by blast
        then show ?thesis using row Inr u Inl
          by (intro exI [of _ p'] exI [of _ "?e # es"] exI [of _ w']) (simp add: Let_def iobind_def ioattempt_def)
      next
        case (Inr x)
        obtain p' es w' where "import_rows zod dm t ctx rows (p + 1) errs E w1 = (Inr (p', errs @ es), w')"
          "p' + int (length es) = p + 1 + int (length rows)" "p + 1 \<le> p'" "subseq (map ir_row es) (map fst rows)"
          using Cons.IH [of "p + 1" errs w1] by blast
        then show ?thesis using row \<open>parseEmployeeImportRow zod rec = Inr dto\<close> u Inr
          by (intro exI [of _ p'] exI [of _ es] exI [of _ w']) (simp add: Let_def iobind_def ioattempt_def list_emb_Cons)
      qed
    qed
  qed
  have "tenants (w_db (snd (import_rows zod dm t ctx rows p errs E w))) = tenants (w_db w)"
    using import_rows_iso [of t zod dm ctx rows p errs] by (simp add: io_rel_def same_for_others_def)
  moreover have "importBatches (w_db (snd (import_rows zod dm t ctx rows p errs E w))) = importBatches (w_db w)"
    using import_rows_keeps_batches [of zod dm t ctx rows p errs] by (simp add: io_rel_def)
  ultimately show ?thesis using run by (metis snd_conv)
qed

lemma import_rows_result:
  assumes "import_rows zod dm t ctx rows p errs E w = (Inr (p', errs'), w')"
  shows "p' + int (length errs') = p + int (length errs) + int (length rows)" "p \<le> p'"
    "errs = [] \<Longrightarrow> subseq (map ir_row errs') (map fst rows)" "importBatches (w_db w') = importBatches (w_db w)"
proof -
  obtain q es v where run: "import_rows zod dm t ctx rows p errs E w = (Inr (q, errs @ es), v)"
    "q + int (length es) = p + int (length rows)" "p \<le> q" "subseq (map ir_row es) (map fst rows)"
    "importBatches (w_db v) = importBatches (w_db w)"
    using import_rows_run [of zod dm t ctx rows p errs E w] by blast
  have "q = p'" "errs' = errs @ es" "v = w'" using run(1) assms by simp_all
  with run(2-5) show "p' + int (length errs') = p + int (length errs) + int (length rows)" "p \<le> p'"
    "errs = [] \<Longrightarrow> subseq (map ir_row errs') (map fst rows)" "importBatches (w_db w') = importBatches (w_db w)"
    by simp_all
qed

lemma transaction_result:
  assumes "transaction body E w = (Inr a, w')"
  obtains s s' where "body E s = (Inr a, s')"
  using assms by (auto simp: transaction_def Let_def split: option.splits sum.splits prod.splits)

lemma tbind_result:
  assumes "tbind m k E s = (Inr b, s')"
  obtains a s1 where "m E s = (Inr a, s1)" "k a E s1 = (Inr b, s')"
  using assms by (auto simp: tbind_def split: sum.splits prod.splits)

lemma iobind_result:
  assumes "iobind m k E w = (Inr b, w')"
  obtains a w1 where "m E w = (Inr a, w1)" "k a E w1 = (Inr b, w')"
  using assms by (auto simp: iobind_def split: sum.splits prod.splits)

lemma ioresult_result: "ioresult r E w = (Inr a, w') \<longleftrightarrow> r = Inr a \<and> w' = w"
  by (cases r) (auto simp: ioreturn_def iothrow_def)

lemma finish_batch_result:
  assumes "finish_batch t batch n p e ctx E w = (Inr rows, w')" "b \<in> set rows"
  shows "\<exists>now b0. b = batch_done p e now b0"
proof -
  obtain s s' where "tthen (setTenantContext t)
      (tbind (update_returning import_batches_t (\<lambda>b. ib_importBatchId b = ib_importBatchId batch) (batch_done p e))
        (\<lambda>updated. tthen (audit_log ctx IMPORT_BATCH_COMPLETED ''import_batch'' (Some (ib_importBatchId batch)) None
            (Some [(''totalRows'', JNum n), (''processedRows'', JNum p), (''errorRows'', JNum e)]) (import_outcome p e) None)
          (treturn updated))) E s = (Inr rows, s')"
    using assms(1) unfolding finish_batch_def by (elim transaction_result)
  then obtain s1 s2 where "update_returning import_batches_t (\<lambda>b. ib_importBatchId b = ib_importBatchId batch) (batch_done p e) E s1
      = (Inr rows, s2)"
    by (elim tbind_result) (auto simp: treturn_def)
  then have "\<exists>now bs. rows = map (batch_done p e now) bs"
    by (auto simp: update_returning_def statement_def Let_def split: option.splits if_splits)
  then show ?thesis using assms(2) by (elim exE) (simp, blast)
qed

text \<open>What a first import of a file is made of.\<close>

lemma import_parts:
  assumes "ImportService_importEmployees digest load zod dm t upload actor ctx E w = (Inr (b, errs), w')"
    and "findExistingBatch t (digest upload) E w = (Inr None, w1)"
  obtains recs inserted batch p rows w2 w3 w4 where
    "parseWorkbook load upload = Inr recs"
    "start_batch t (int (length recs)) (digest upload) actor E w1 = (Inr inserted, w2)" "first_row inserted = Some batch"
    "import_rows zod dm t ctx recs 0 [] E w2 = (Inr (p, errs), w3)"
    "finish_batch t batch (int (length recs)) p (int (length errs)) ctx E w3 = (Inr rows, w4)" "first_row rows = Some b"
    "enqueueCompletion t (ib_importBatchId batch) (int (length recs)) E w4 = (Inr (), w')"
proof -
  have "iobind (ioresult (parseWorkbook load upload)) (import_batch zod dm t (digest upload) actor ctx) E w1 = (Inr (b, errs), w')"
    using assms by (simp add: ImportService_importEmployees_def iobind_def Let_def)
  then obtain recs where 1: "parseWorkbook load upload = Inr recs"
    "import_batch zod dm t (digest upload) actor ctx recs E w1 = (Inr (b, errs), w')"
    by (elim iobind_result) (auto simp: ioresult_result)
  from 1(2) obtain inserted batch w2 where 2: "start_batch t (int (length recs)) (digest upload) actor E w1 = (Inr inserted, w2)"
    "first_row inserted = Some batch" and
    3: "iobind (import_rows zod dm t ctx recs 0 [])
      (\<lambda>(p, errors). iobind (finish_batch t batch (int (length recs)) p (int (length errors)) ctx)
        (\<lambda>completedRows. case first_row completedRows of
           None \<Rightarrow> iothrow (JsError ''Import batch update did not return a row'')
         | Some completed \<Rightarrow> iobind (enqueueCompletion t (ib_importBatchId batch) (int (length recs)))
             (\<lambda>_. ioreturn (completed, errors)))) E w2 = (Inr (b, errs), w')"
    unfolding import_batch_def Let_def
    by (elim iobind_result) (auto simp: iothrow_def split: option.splits)
  from 3 obtain p errs' w3 where 4: "import_rows zod dm t ctx recs 0 [] E w2 = (Inr (p, errs'), w3)" and
    5: "iobind (finish_batch t batch (int (length recs)) p (int (length errs')) ctx)
        (\<lambda>completedRows. case first_row completedRows of
           None \<Rightarrow> iothrow (JsError ''Import batch update did not return a row'')
         | Some completed \<Rightarrow> iobind (enqueueCompletion t (ib_importBatchId batch) (int (length recs)))
             (\<lambda>_. ioreturn (completed, errs'))) E w3 = (Inr (b, errs), w')"
    by (rule iobind_result) auto
  from 5 obtain rows w4 where 6: "finish_batch t batch (int (length recs)) p (int (length errs')) ctx E w3 = (Inr rows, w4)"
    "first_row rows = Some b" "errs' = errs" "enqueueCompletion t (ib_importBatchId batch) (int (length recs)) E w4 = (Inr (), w')"
    by (elim iobind_result) (auto simp: iothrow_def ioreturn_def elim!: iobind_result split: option.splits)
  show thesis using that 1(1) 2 4 6 by blast
qed

section \<open>Runs without outside failures\<close>

abbreviation stored_batch :: "uuid \<Rightarrow> string \<Rightarrow> db \<Rightarrow> import_batch_row option" where
  "stored_batch t h d \<equiv> found import_batches_t t (batch_of_hash t h) d"

lemma findExistingBatch_run:
  "quiet E \<Longrightarrow> \<exists>x. findExistingBatch t h E w = (Inr (stored_batch t h (w_db w)), w\<lparr>w_ext := x\<rparr>) \<and> x_imports x = x_imports (w_ext w)"
  by (simp add: findExistingBatch_def frame_simps select_where_quiet found_def same_db_world)
    (metis tick_simps(4) world.update_convs(2))

lemma import_replay:
  assumes "quiet E" "stored_batch t (digest upload) (w_db w) = Some b"
  shows "\<exists>x. ImportService_importEmployees digest load zod dm t upload actor ctx E w = (Inr (b, []), w\<lparr>w_ext := x\<rparr>)
    \<and> x_imports x = x_imports (w_ext w)"
  using findExistingBatch_run [OF assms(1), of t "digest upload" w] assms(2)
  by (auto simp: ImportService_importEmployees_def iobind_def Let_def ioreturn_def)

lemma start_batch_run:
  assumes "quiet E" "start_batch t n h actor E w = (Inr inserted, w')"
  shows "\<exists>u now x. inserted = [new_batch t n h actor u now]
    \<and> w' = \<lparr>w_db = (w_db w)\<lparr>importBatches := importBatches (w_db w) @ [new_batch t n h actor u now]\<rparr>, w_ext = x\<rparr>
    \<and> (\<forall>b \<in> set (importBatches (w_db w)). u \<noteq> ib_importBatchId b) \<and> t \<noteq> []"
  using assms
  by (auto simp: start_batch_def frame_simps insert_returning_quiet Let_def rls_visible_def batch_clash_def list_ex_iff
      new_batch_def split: if_splits)

lemma finish_batch_run:
  assumes "quiet E" "t \<noteq> []" "importBatches (w_db w) = bs @ [nb]" "ib_tenantId nb = t"
    and "\<forall>b \<in> set bs. ib_importBatchId nb \<noteq> ib_importBatchId b"
  shows "\<exists>now w'. finish_batch t nb n p e ctx E w = (Inr [batch_done p e now nb], w')
    \<and> importBatches (w_db w') = bs @ [batch_done p e now nb]"
proof -
  let ?hit = "\<lambda>b. rls_visible (Some t) (ib_tenantId b) \<and> ib_importBatchId b = ib_importBatchId nb"
  have "filter ?hit (bs @ [nb]) = [nb]"
    using assms(2,4,5) by (fastforce simp: rls_visible_def filter_empty_conv)
  moreover have "map (\<lambda>b. if ?hit b then f b else b) (bs @ [nb]) = bs @ [f nb]" for f
    using assms(2,4,5) by (fastforce simp: rls_visible_def intro!: map_id_on)
  ultimately show ?thesis
    using assms(1,3)
    by (auto simp: finish_batch_def frame_simps update_returning_quiet visible_rows_def audit_log_quiet)
qed

text \<open>A successful first import leaves its batch as the stored one of the file.\<close>

lemma import_stores_batch:
  assumes "quiet E" "stored_batch t (digest upload) (w_db w) = None"
    and "ImportService_importEmployees digest load zod dm t upload actor ctx E w = (Inr (b, errs), w')"
  shows "stored_batch t (digest upload) (w_db w') = Some b"
proof -
  let ?h = "digest upload"
  obtain w1 where w1: "findExistingBatch t ?h E w = (Inr None, w1)" "w_db w1 = w_db w"
    using findExistingBatch_run [OF assms(1), of t ?h w] assms(2) by auto
  obtain recs inserted batch p rows w2 w3 w4 where I: "parseWorkbook load upload = Inr recs"
    "start_batch t (int (length recs)) ?h actor E w1 = (Inr inserted, w2)" "first_row inserted = Some batch"
    "import_rows zod dm t ctx recs 0 [] E w2 = (Inr (p, errs), w3)"
    "finish_batch t batch (int (length recs)) p (int (length errs)) ctx E w3 = (Inr rows, w4)" "first_row rows = Some b"
    "enqueueCompletion t (ib_importBatchId batch) (int (length recs)) E w4 = (Inr (), w')"
    by (rule import_parts [OF assms(3) w1(1)])
  obtain u now where S: "batch = new_batch t (int (length recs)) ?h actor u now"
    "importBatches (w_db w2) = importBatches (w_db w) @ [batch]"
    "\<forall>b \<in> set (importBatches (w_db w)). u \<noteq> ib_importBatchId b" "t \<noteq> []"
    using start_batch_run [OF assms(1) I(2)] I(3) w1(2) by auto
  have "importBatches (w_db w3) = importBatches (w_db w2)" using import_rows_result(4) [OF I(4)] .
  then have b3: "importBatches (w_db w3) = importBatches (w_db w) @ [batch]" using S(2) by simp
  have nb: "ib_tenantId batch = t" "ib_fileHash batch = ?h" "ib_importBatchId batch = u" using S(1) by (simp_all add: new_batch_def)
  obtain now' where F: "rows = [batch_done p (int (length errs)) now' batch]"
    "importBatches (w_db w4) = importBatches (w_db w) @ [batch_done p (int (length errs)) now' batch]"
    using finish_batch_run [OF assms(1) S(4) b3 nb(1)] S(3) nb(3) I(5) by (metis Pair_inject sum.inject(2))
  have "w_db w' = w_db w4" using I(7) by (auto simp: enqueueCompletion_def io_external_def split: option.splits)
  then have "importBatches (w_db w') = importBatches (w_db w) @ [b]" using F I(6) by simp
  moreover have "ib_tenantId b = t" "ib_fileHash b = ?h" using F(1) I(6) nb by auto
  moreover have "visible_rows import_batches_t (Some t) (batch_of_hash t ?h) (w_db w) = []"
    using assms(2) by (simp add: found_def)
  ultimately show ?thesis
    using S(4) by (simp add: found_def visible_rows_def rls_visible_def batch_of_hash_def)
qed

lemma import_completes:
  assumes "quiet E" "redis_up E" "pg_uuid t" "t \<in> tn_id ` set (tenants (w_db w))"
    and "stored_batch t (digest upload) (w_db w) = None" "parseWorkbook load upload = Inr recs"
    and "\<And>n b. b \<in> set (importBatches (w_db w)) \<Longrightarrow> e_uuid E n \<noteq> ib_importBatchId b"
  shows "\<exists>b errs w'. ImportService_importEmployees digest load zod dm t upload actor ctx E w = (Inr (b, errs), w')"
proof -
  let ?h = "digest upload" and ?n = "int (length recs)"
  have t: "t \<noteq> []" using assms(3) by (auto simp: pg_uuid_def numeral_eq_Suc)
  obtain x where 1: "findExistingBatch t ?h E w = (Inr None, w\<lparr>w_ext := x\<rparr>)"
    using findExistingBatch_run [OF assms(1), of t ?h w] assms(5) by auto
  have "visible_rows import_batches_t (Some t) (batch_of_hash t ?h) (w_db w) = []" using assms(5) by (simp add: found_def)
  then have "ib_tenantId b \<noteq> t \<or> ib_fileHash b \<noteq> ?h" if "b \<in> set (importBatches (w_db w))" for b
    using that t by (auto simp: visible_rows_def rls_visible_def batch_of_hash_def filter_empty_conv)
  then have "\<exists>r. start_batch t ?n ?h actor E (w\<lparr>w_ext := x\<rparr>) = r \<and> (\<exists>i w2. r = (Inr i, w2))"
    using assms(1,3,4,7) t
    by (fastforce simp: start_batch_def frame_simps insert_returning_quiet Let_def rls_visible_def batch_clash_def list_ex_iff
        new_batch_def)
  then obtain inserted w2 where 2: "start_batch t ?n ?h actor E (w\<lparr>w_ext := x\<rparr>) = (Inr inserted, w2)" by blast
  obtain u now where S: "inserted = [new_batch t ?n ?h actor u now]"
    "importBatches (w_db w2) = importBatches (w_db w) @ [new_batch t ?n ?h actor u now]"
    "\<forall>b \<in> set (importBatches (w_db w)). u \<noteq> ib_importBatchId b"
    using start_batch_run [OF assms(1) 2] by auto
  obtain p errs w3 where 3: "import_rows zod dm t ctx recs 0 [] E w2 = (Inr (p, errs), w3)"
    "importBatches (w_db w3) = importBatches (w_db w2)"
    using import_rows_run [of zod dm t ctx recs 0 "[]" E w2] by auto
  obtain now' w4 where 4: "finish_batch t (new_batch t ?n ?h actor u now) ?n p (int (length errs)) ctx E w3 =
      (Inr [batch_done p (int (length errs)) now' (new_batch t ?n ?h actor u now)], w4)"
    using finish_batch_run [OF assms(1) t, of w3 "importBatches (w_db w)" "new_batch t ?n ?h actor u now" ?n p "int (length errs)" ctx]
      S(2,3) 3(2) by (auto simp: new_batch_def)
  show ?thesis
    using 1 2 3(1) 4 S(1) assms(2,6)
    by (simp add: ImportService_importEmployees_def import_batch_def iobind_def Let_def ioreturn_def enqueueCompletion_def
        io_external_def redis_up_def)
qed

section \<open>Properties\<close>

text \<open>
  C11. An import accounts for every row of its file, whatever fails on the way: when the upload of a new
  file is answered with a batch, the batch is marked completed and its processed and failed rows add up to
  the data rows of the workbook; there is one error for each failed row, in the order of the rows and with
  the number of a data row of the file.
\<close>

theorem import_accounts_for_every_row:
  assumes "ImportService_importEmployees digest load zod dm t upload actor ctx E w = (Inr (b, errs), w')"
    and "fst (findExistingBatch t (digest upload) E w) = Inr None"
  shows "\<exists>recs. parseWorkbook load upload = Inr recs \<and> ib_status b = COMPLETED
    \<and> ib_processedRows b + ib_errorRows b = int (length recs) \<and> 0 \<le> ib_processedRows b
    \<and> ib_errorRows b = int (length errs) \<and> subseq (map ir_row errs) (map fst recs)"
proof -
  obtain w1 where "findExistingBatch t (digest upload) E w = (Inr None, w1)" using assms(2) by (metis prod.collapse)
  then obtain recs inserted batch p rows w2 w3 w4 where I: "parseWorkbook load upload = Inr recs"
    "start_batch t (int (length recs)) (digest upload) actor E w1 = (Inr inserted, w2)" "first_row inserted = Some batch"
    "import_rows zod dm t ctx recs 0 [] E w2 = (Inr (p, errs), w3)"
    "finish_batch t batch (int (length recs)) p (int (length errs)) ctx E w3 = (Inr rows, w4)" "first_row rows = Some b"
    "enqueueCompletion t (ib_importBatchId batch) (int (length recs)) E w4 = (Inr (), w')"
    by (rule import_parts [OF assms(1)])
  obtain now b0 where "b = batch_done p (int (length errs)) now b0"
    using finish_batch_result [OF I(5) first_row_Some [OF I(6)]] by blast
  then show ?thesis using I(1) import_rows_result(1-3) [OF I(4)] by simp
qed

definition sample_sheet :: worksheet where
  "sample_sheet =
     [[CellText ''employeeCode'', CellText ''firstName'', CellText ''lastName'', CellText ''department''],
      [CellText ''E-1'', CellText ''Ada'', CellText ''King'', CellNull],
      [CellNull, CellNull],
      [CellText ''E-2'', CellText '' '', CellText ''Turing'', CellNull],
      [CellText ''E-3'', CellText ''Alan'', CellText ''Turing'', CellText ''IT'']]"

lemma sample_parse: "\<exists>recs. parseWorkbook (\<lambda>_. Some [sample_sheet]) ''bytes'' = Inr recs \<and> map fst recs = [2, 4, 5]"
proof -
  have h: "list_all (\<lambda>h. h \<in> set (header_row sample_sheet)) REQUIRED_HEADERS" by code_simp
  have n: "map fst (data_rows (header_row sample_sheet) 2 (drop 1 sample_sheet)) = [2, 4, 5]"
    by (simp add: sample_sheet_def actualCellCount_def)
  then have l: "length (data_rows (header_row sample_sheet) 2 (drop 1 sample_sheet)) = 3"
    by (metis length_map length_Cons list.size(3) numeral_3_eq_3)
  show ?thesis
    using h n l by (auto simp: parseWorkbook_def Let_def list_all_iff filter_empty_conv MAX_IMPORT_ROWS_def)
qed

theorem import_accounts_for_every_row_witness:
  "\<exists>b errs w'. ImportService_importEmployees (\<lambda>f. f) (\<lambda>_. Some [sample_sheet]) (strict_zod sample_tests) (\<lambda>c. c) acme ''bytes''
       ''user-1'' sample_context sample_env sample_world = (Inr (b, errs), w')
     \<and> ib_processedRows b + ib_errorRows b = 3 \<and> subseq (map ir_row errs) [2, 4, 5]"
proof -
  obtain recs where recs: "parseWorkbook (\<lambda>_. Some [sample_sheet]) ''bytes'' = Inr recs" "map fst recs = [2, 4, 5]"
    using sample_parse by (elim exE conjE)
  then have n: "length recs = 3" by (metis length_map length_Cons list.size(3) numeral_3_eq_3)
  have none: "stored_batch acme ''bytes'' sample_db = None" "importBatches sample_db = []" by code_simp+
  have up: "redis_up sample_env" by (simp add: sample_env_def redis_up_def)
  have "\<exists>b errs w'. ImportService_importEmployees (\<lambda>f. f) (\<lambda>_. Some [sample_sheet]) (strict_zod sample_tests) (\<lambda>c. c)
      acme ''bytes'' ''user-1'' sample_context sample_env sample_world = (Inr (b, errs), w')"
    by (rule import_completes [where recs = recs]) (simp_all add: none up recs(1))
  then obtain b errs w' where run: "ImportService_importEmployees (\<lambda>f. f) (\<lambda>_. Some [sample_sheet]) (strict_zod sample_tests) (\<lambda>c. c)
      acme ''bytes'' ''user-1'' sample_context sample_env sample_world = (Inr (b, errs), w')" by blast
  have "fst (findExistingBatch acme ''bytes'' sample_env sample_world) = Inr None"
    using findExistingBatch_run [OF quiet_sample, of acme "''bytes''" sample_world] none(1) by auto
  from import_accounts_for_every_row [OF run this]
  have "ib_processedRows b + ib_errorRows b = int (length recs)" "subseq (map ir_row errs) (map fst recs)"
    using recs(1) by simp_all
  then have "ib_processedRows b + ib_errorRows b = 3 \<and> subseq (map ir_row errs) [2, 4, 5]" using recs(2) n by simp
  then show ?thesis using run by blast
qed

text \<open>
  C12. An upload is processed once: after a successful import every further upload of a file with the same
  digest by the tenant, whatever its workbook holds and whoever sends it, is answered with the stored batch
  and no errors, changes no row and queues no job.
\<close>

theorem import_replay_changes_nothing:
  assumes "quiet E" and "quiet E'"
    and "ImportService_importEmployees digest load zod dm t upload actor ctx E w = (Inr (b, errs), w')"
    and "digest upload' = digest upload"
  shows "\<exists>x. ImportService_importEmployees digest load' zod' dm' t upload' actor' ctx' E' w' = (Inr (b, []), w'\<lparr>w_ext := x\<rparr>)
    \<and> x_imports x = x_imports (w_ext w')"
proof -
  have "stored_batch t (digest upload) (w_db w') = Some b"
  proof (cases "stored_batch t (digest upload) (w_db w)")
    case (Some b')
    then show ?thesis using import_replay [OF assms(1), of t digest upload w b' load zod dm actor ctx] assms(3) by auto
  next
    case None
    then show ?thesis by (rule import_stores_batch [OF assms(1) _ assms(3)])
  qed
  then show ?thesis using import_replay [OF assms(2), of t digest upload' w' b] assms(4) by simp
qed

definition sample_batch :: "import_status \<Rightarrow> import_batch_row" where
  "sample_batch st = (new_batch acme 3 ''bytes'' ''user-1'' (sample_uuid 41) 0)\<lparr>ib_status := st\<rparr>"

definition batch_world :: "import_status \<Rightarrow> world" where
  "batch_world st = sample_world\<lparr>w_db := sample_db\<lparr>importBatches := [sample_batch st]\<rparr>\<rparr>"

lemma sample_stored: "stored_batch acme ''bytes'' (w_db (batch_world st)) = Some (sample_batch st)"
  by (simp add: batch_world_def sample_batch_def new_batch_def found_def visible_rows_def rls_visible_def batch_of_hash_def)

theorem import_replay_changes_nothing_witness:
  "\<exists>x w'. ImportService_importEmployees (\<lambda>f. f) (\<lambda>_. None) (strict_zod sample_tests) (\<lambda>c. c) acme ''bytes'' ''user-2''
     sample_context sample_env w' = (Inr (sample_batch COMPLETED, []), w'\<lparr>w_ext := x\<rparr>)"
proof -
  obtain w' where "ImportService_importEmployees (\<lambda>f. f) (\<lambda>_. None) (strict_zod sample_tests) (\<lambda>c. c) acme ''bytes'' ''user-1''
      sample_context sample_env (batch_world COMPLETED) = (Inr (sample_batch COMPLETED, []), w')"
    using import_replay [OF quiet_sample, of acme "\<lambda>f. f" "''bytes''" "batch_world COMPLETED"] sample_stored by blast
  then show ?thesis
    using import_replay_changes_nothing [OF quiet_sample quiet_sample, where digest = "\<lambda>f. f" and upload' = "''bytes''"] by blast
qed

text \<open>
  C34. An interrupted import is never resumed: when a process died between the insert of the batch and its
  completion, the batch is stored as PROCESSING, and from then on every upload of the file is answered with
  that batch and no errors, with no row read from the workbook and nothing changed.
\<close>

theorem interrupted_import_is_never_resumed:
  assumes "quiet E" and "stored_batch t (digest upload) (w_db w) = Some b" and "ib_status b = PROCESSING"
  shows "\<exists>x. ImportService_importEmployees digest load zod dm t upload actor ctx E w = (Inr (b, []), w\<lparr>w_ext := x\<rparr>)
    \<and> stored_batch t (digest upload) (w_db (w\<lparr>w_ext := x\<rparr>)) = Some b \<and> ib_status b = PROCESSING"
  using import_replay [OF assms(1), of t digest upload w b load zod dm actor ctx] assms(2,3) by auto

theorem interrupted_import_is_never_resumed_witness:
  "\<exists>x. ImportService_importEmployees (\<lambda>f. f) (\<lambda>_. Some [sample_sheet]) (strict_zod sample_tests) (\<lambda>c. c) acme ''bytes'' ''user-1''
     sample_context sample_env (batch_world PROCESSING) = (Inr (sample_batch PROCESSING, []), (batch_world PROCESSING)\<lparr>w_ext := x\<rparr>)"
  using interrupted_import_is_never_resumed [OF quiet_sample, of acme "\<lambda>f. f" "''bytes''" "batch_world PROCESSING" "sample_batch PROCESSING"]
    sample_stored by (auto simp: sample_batch_def)

section \<open>The export read back\<close>

text \<open>The data of a row that both the export and the import carry.\<close>

definition row_dto :: "employee_row \<Rightarrow> create_employee_dto" where
  "row_dto r = \<lparr>ce_employeeCode = em_employeeCode r, ce_firstName = nullish (em_firstName r) '''',
     ce_lastName = nullish (em_lastName r) '''', ce_email = em_email r, ce_department = em_department r,
     ce_jobTitle = em_jobTitle r, ce_branch = em_branch r, ce_responsibleOfficerId = em_responsibleOfficerId r\<rparr>"

definition row_fields :: "employee_row \<Rightarrow> row_record" where
  "row_fields r = (\<lambda>_. None)(''employeeCode'' := Some (em_employeeCode r), ''firstName'' := em_firstName r,
     ''lastName'' := em_lastName r, ''email'' := em_email r, ''department'' := em_department r,
     ''jobTitle'' := em_jobTitle r, ''branch'' := em_branch r, ''responsibleOfficerId'' := em_responsibleOfficerId r)"

text \<open>A row whose texts are trimmed, not empty, and acceptable to the schema.\<close>

definition neat :: "string option \<Rightarrow> bool" where
  "neat v \<longleftrightarrow> (case v of None \<Rightarrow> True | Some s \<Rightarrow> s \<noteq> [] \<and> js_trim s = s)"

definition exportable :: "text_tests \<Rightarrow> employee_row \<Rightarrow> bool" where
  "exportable T r \<longleftrightarrow> neat (Some (em_employeeCode r)) \<and> neat (em_firstName r) \<and> neat (em_lastName r) \<and> neat (em_email r)
     \<and> neat (em_department r) \<and> neat (em_jobTitle r) \<and> neat (em_branch r) \<and> neat (em_responsibleOfficerId r)
     \<and> conforms T createEmployeeSchema (\<lambda>k. map_option JStr (row_fields r k))"

lemma normalize_neat:
  "neat v \<Longrightarrow> normalizeCellValue (opt_cell v) = v" "neat (Some s) \<Longrightarrow> non_empty (js_trim s) = Some s"
  by (auto simp: neat_def opt_cell_def non_empty_def split: option.splits)

lemma export_headers: "map js_trim EXPORT_COLUMNS = EXPORT_COLUMNS"
  by code_simp

lemma export_record: "exportable T r \<Longrightarrow> buildRowRecord EXPORT_COLUMNS (export_row r) = row_fields r"
  by (simp add: buildRowRecord_def EXPORT_COLUMNS_def export_row_def cell_at_def row_fields_def exportable_def
      normalize_neat numeral_eq_Suc)

lemma record_json_fields:
  "\<exists>entries. record_json rec = JObj entries \<and> (\<forall>k \<in> fst ` set createEmployeeSchema. map_of entries k = map_option JStr (rec k))"
proof (intro exI conjI)
  show "record_json rec = JObj (concat (map (\<lambda>(k, ty). case rec k of None \<Rightarrow> [] | Some s \<Rightarrow> [(k, JStr s)]) createEmployeeSchema))"
    by (rule record_json_def)
  have "map_of (concat (map (\<lambda>(k, ty). case rec k of None \<Rightarrow> [] | Some s \<Rightarrow> [(k, JStr s)]) sch)) k
      = (if k \<in> fst ` set sch then map_option JStr (rec k) else None)" for k and sch :: zod_schema
  proof (induction sch)
    case (Cons p sch)
    obtain k' ty where "p = (k', ty)" by force
    then show ?case using Cons
      by (cases "rec k'"; cases "k = k'"; cases "k \<in> fst ` set sch")
        (auto simp: map_add_def split: option.split)
  qed simp
  then show "\<forall>k \<in> fst ` set createEmployeeSchema. map_of (concat (map (\<lambda>(k, ty). case rec k of None \<Rightarrow> [] | Some s \<Rightarrow> [(k, JStr s)])
      createEmployeeSchema)) k = map_option JStr (rec k)" by simp
qed

lemma parse_export_row:
  assumes "zod_accepts T zod" "exportable T r"
  shows "parseEmployeeImportRow zod (row_fields r) = Inr (row_dto r)"
proof -
  obtain entries where e: "record_json (row_fields r) = JObj entries"
    "\<forall>k \<in> fst ` set createEmployeeSchema. map_of entries k = map_option JStr (row_fields r k)"
    using record_json_fields by blast
  have "conforms T createEmployeeSchema (map_of entries) = conforms T createEmployeeSchema (\<lambda>k. map_option JStr (row_fields r k))"
    unfolding conforms_def list_all_iff using e(2) by (intro ball_cong) auto
  then obtain data where d: "zod createEmployeeSchema (Some (JObj entries)) = Inr data"
    "\<forall>k \<in> fst ` set createEmployeeSchema. data k = map_option JStr (row_fields r k)"
    using assms e(2) unfolding zod_accepts_def exportable_def by metis
  have "create_employee_of data = row_dto r"
    using d(2) by (simp add: create_employee_of_def get_str_def createEmployeeSchema_def row_fields_def row_dto_def
        split: option.split)
  then show ?thesis by (simp add: parseEmployeeImportRow_def e(1) d(1))
qed

lemma export_data_rows:
  "list_all (exportable T) rows \<Longrightarrow>
     map snd (data_rows EXPORT_COLUMNS n (map export_row rows)) = map row_fields rows"
proof (induction rows arbitrary: n)
  case (Cons r rows)
  then have "buildRowRecord EXPORT_COLUMNS (export_row r) = row_fields r" using export_record [of T r] by simp
  moreover have "actualCellCount (export_row r) \<noteq> 0" by (simp add: actualCellCount_def export_row_def)
  ultimately show ?case using Cons by simp
qed simp

text \<open>
  C22. What an export writes an import reads back: when the spreadsheet library loads what it wrote, the
  exported workbook of one to 5000 employees, whose texts are trimmed and acceptable to the schema, parses
  to exactly one row for each of them, in their order, and the data of each row are those of the employee.
\<close>

theorem export_import_roundtrip:
  fixes rows :: "employee_row list" and t :: uuid and w :: world
  defines "rows \<equiv> visible_rows employees_t (Some t) (\<lambda>r. em_deletedAt r = None) (w_db w)"
  assumes "quiet E" and "ExportService_exportEmployees write t E w = (Inr upload, w')"
    and "\<And>ws. load (write ws) = Some ws" and "zod_accepts T zod"
    and "list_all (exportable T) rows" and "rows \<noteq> []" and "length rows \<le> 5000"
  shows "\<exists>recs. parseWorkbook load upload = Inr recs
    \<and> map (\<lambda>(n, rec). parseEmployeeImportRow zod rec) recs = map (\<lambda>r. Inr (row_dto r)) rows"
proof -
  let ?recs = "data_rows EXPORT_COLUMNS 2 (map export_row rows)"
  have snds: "map snd ?recs = map row_fields rows" by (rule export_data_rows [OF assms(6)])
  then have len: "length ?recs = length rows" by (metis length_map)
  have "header_row (map CellText EXPORT_COLUMNS # map export_row rows) = EXPORT_COLUMNS"
    using export_headers by (simp add: header_row_def comp_def)
  moreover have "filter (\<lambda>h. h \<notin> set EXPORT_COLUMNS) REQUIRED_HEADERS = []" by code_simp
  moreover have "?recs \<noteq> []" using len assms(7) by (metis length_0_conv)
  moreover have "\<not> MAX_IMPORT_ROWS < length ?recs" using len assms(8) by (simp add: MAX_IMPORT_ROWS_def)
  moreover have "upload = write [map CellText EXPORT_COLUMNS # map export_row rows]"
    using assms(2,3) by (auto simp: ExportService_exportEmployees_def frame_simps select_where_quiet rows_def)
  ultimately have p: "parseWorkbook load upload = Inr ?recs"
    using assms(4) by (simp add: parseWorkbook_def Let_def)
  have "map (\<lambda>(n, rec). parseEmployeeImportRow zod rec) ?recs = map (parseEmployeeImportRow zod) (map snd ?recs)"
    by (simp add: case_prod_unfold)
  also have "\<dots> = map (\<lambda>r. parseEmployeeImportRow zod (row_fields r)) rows" by (simp add: snds)
  also have "\<dots> = map (\<lambda>r. Inr (row_dto r)) rows"
    using assms(5,6) parse_export_row by (auto simp: list_all_iff)
  finally show ?thesis using p by blast
qed

theorem export_import_roundtrip_witness:
  "\<exists>upload w' recs. ExportService_exportEmployees (\<lambda>ws. ws) acme sample_env sample_world = (Inr upload, w')
     \<and> parseWorkbook Some upload = Inr recs
     \<and> map (\<lambda>(n, rec). parseEmployeeImportRow (strict_zod sample_tests) rec) recs = [Inr (row_dto sample_employee)]"
proof -
  have v: "visible_rows employees_t (Some acme) (\<lambda>r. em_deletedAt r = None) (w_db sample_world) = [sample_employee]" by code_simp
  have e: "list_all (exportable sample_tests) [sample_employee]" by code_simp
  obtain upload w' where x: "ExportService_exportEmployees (\<lambda>ws. ws) acme sample_env sample_world = (Inr upload, w')"
    by (simp add: ExportService_exportEmployees_def frame_simps select_where_quiet)
  show ?thesis
    using export_import_roundtrip [OF quiet_sample x, where load = Some and T = sample_tests and zod = "strict_zod sample_tests"]
      strict_zod_ok(2) e x unfolding v by simp
qed

end
