(* ===== verification/Notifications.thy ===== *)
theory Notifications
  imports Documents
begin

text \<open>
  Notification policies and delivery statistics: \<open>notification-policies.service.ts\<close> (read with a
  default, upsert), \<open>notification-log.service.ts\<close> (counts of a trailing window), and the hourly scan of
  the worker that raises an alert for a failing tenant (\<open>failure-alert-policy.ts\<close>,
  \<open>failure-alert-scanner.worker.ts\<close>). A rate is kept as the pair of its counts. \<open>subHours\<close> takes hours
  of 3600000 milliseconds from an instant.
\<close>

section \<open>Policies\<close>

definition DEFAULT_NOTIFICATION_DAYS :: "int list" where
  "DEFAULT_NOTIFICATION_DAYS = [90, 60, 30, 14, 7, 1]"

text \<open>What \<open>getOrDefault\<close> returns: a stored row, or the default, whose id and time are null.\<close>

record policy_view =
  pv_id :: "uuid option"
  pv_tenantId :: uuid
  pv_reminderDaysBefore :: "int list"
  pv_emailFrom :: "string option"
  pv_emailTemplateId :: "string option"
  pv_enabled :: bool
  pv_updatedAt :: "instant option"

definition view_of_row :: "notification_policy_row \<Rightarrow> policy_view" where
  "view_of_row r = \<lparr>pv_id = Some (np_id r), pv_tenantId = np_tenantId r,
     pv_reminderDaysBefore = np_reminderDaysBefore r, pv_emailFrom = np_emailFrom r,
     pv_emailTemplateId = np_emailTemplateId r, pv_enabled = np_enabled r, pv_updatedAt = Some (np_updatedAt r)\<rparr>"

definition default_view :: "uuid \<Rightarrow> policy_view" where
  "default_view tenantId = \<lparr>pv_id = None, pv_tenantId = tenantId,
     pv_reminderDaysBefore = DEFAULT_NOTIFICATION_DAYS, pv_emailFrom = None, pv_emailTemplateId = None,
     pv_enabled = True, pv_updatedAt = None\<rparr>"

definition policy_rows :: "uuid \<Rightarrow> notification_policy_row list tx" where
  "policy_rows tenantId = select_where notification_policies_t (\<lambda>p. np_tenantId p = tenantId)"

definition NotificationPoliciesService_getOrDefault :: "uuid \<Rightarrow> policy_view io" where
  "NotificationPoliciesService_getOrDefault tenantId =
     transaction (tthen (setTenantContext tenantId)
       (tbind (policy_rows tenantId)
         (\<lambda>rows. treturn (case first_row (take 1 rows) of
            None \<Rightarrow> default_view tenantId | Some r \<Rightarrow> view_of_row r))))"

record update_policy_dto =
  up_reminderDaysBefore :: "int list option"
  up_emailFrom :: "string option"
  up_emailTemplateId :: "string option"
  up_enabled :: "bool option"

text \<open>The columns of the request over those of the stored row over the defaults.\<close>

definition next_policy ::
  "update_policy_dto \<Rightarrow> notification_policy_row option \<Rightarrow> notification_policy_row \<Rightarrow> notification_policy_row" where
  "next_policy dto before r = r\<lparr>
     np_reminderDaysBefore := nullish (nullish_opt (up_reminderDaysBefore dto) (map_option np_reminderDaysBefore before))
       DEFAULT_NOTIFICATION_DAYS,
     np_emailFrom := nullish_opt (up_emailFrom dto) (case before of None \<Rightarrow> None | Some b \<Rightarrow> np_emailFrom b),
     np_emailTemplateId := nullish_opt (up_emailTemplateId dto) (case before of None \<Rightarrow> None | Some b \<Rightarrow> np_emailTemplateId b),
     np_enabled := nullish (nullish_opt (up_enabled dto) (map_option np_enabled before)) True\<rparr>"

definition blank_policy :: "uuid \<Rightarrow> uuid \<Rightarrow> instant \<Rightarrow> notification_policy_row" where
  "blank_policy tenantId u now = \<lparr>np_id = u, np_tenantId = tenantId, np_reminderDaysBefore = [],
     np_emailFrom = None, np_emailTemplateId = None, np_enabled = True, np_updatedAt = now\<rparr>"

text \<open>
  \<open>INSERT ... ON CONFLICT (tenant_id) DO UPDATE ... RETURNING\<close>: the row of the tenant is updated in
  place when there is one, and inserted otherwise.
\<close>

definition upsert_policy ::
  "uuid \<Rightarrow> (notification_policy_row \<Rightarrow> notification_policy_row) \<Rightarrow> instant \<Rightarrow> notification_policy_row list tx" where
  "upsert_policy tenantId setNext updatedAt = statement (\<lambda>E n now g d.
     let r = setNext (blank_policy tenantId (e_uuid E n) now);
         upd = (\<lambda>p. (setNext p)\<lparr>np_updatedAt := updatedAt\<rparr>);
         old = filter (\<lambda>p. np_tenantId p = tenantId) (tenantNotificationPolicies d)
     in if \<not> pg_uuid tenantId \<or> \<not> list_all int4 (np_reminderDaysBefore r) then Inl ''22P02''
        else if \<not> rls_visible g tenantId then Inl ''42501''
        else if old \<noteq> [] then
          Inr (map upd old, d\<lparr>tenantNotificationPolicies :=
            map (\<lambda>p. if np_tenantId p = tenantId then upd p else p) (tenantNotificationPolicies d)\<rparr>)
        else if list_ex (\<lambda>p. same_uuid (np_id p) (np_id r)) (tenantNotificationPolicies d) then Inl ''23505''
        else if tenantId \<notin> tn_id ` set (tenants d) then Inl ''23503''
        else Inr ([r], d\<lparr>tenantNotificationPolicies := tenantNotificationPolicies d @ [r]\<rparr>))"

definition NotificationPoliciesService_update ::
  "uuid \<Rightarrow> update_policy_dto \<Rightarrow> audit_context \<Rightarrow> notification_policy_row io" where
  "NotificationPoliciesService_update tenantId dto auditContext =
     transaction (tthen (setTenantContext tenantId)
       (tbind (policy_rows tenantId)
         (\<lambda>existingRows. let before = first_row (take 1 existingRows)
            in tbind new_Date
              (\<lambda>now. tbind (upsert_policy tenantId (next_policy dto before) now)
                (\<lambda>upserted. case first_row upserted of
                   None \<Rightarrow> tthrow (JsError ''Notification policy upsert did not return a row'')
                 | Some after \<Rightarrow> tthen
                     (audit_log auditContext NOTIFICATION_POLICY_UPDATED ''notification_policy'' (Some (np_id after))
                        (map_option notification_policy_json before) (Some (notification_policy_json after)) SUCCESS None)
                     (treturn after))))))"

section \<open>Delivery statistics\<close>

text \<open>\<open>SELECT key, count(*) ... GROUP BY key\<close>: one pair for each key that occurs.\<close>

definition group_count :: "('r \<Rightarrow> 'k) \<Rightarrow> 'r list \<Rightarrow> ('k \<times> int) list" where
  "group_count key rs = map (\<lambda>k. (k, int (length (filter (\<lambda>r. key r = k) rs)))) (remdups (map key rs))"

definition subHours :: "instant \<Rightarrow> int \<Rightarrow> instant" where
  "subHours t hours = t - hours * 3600000"

definition window_counts :: "uuid \<Rightarrow> instant \<Rightarrow> (notification_status \<times> int) list tx" where
  "window_counts tenantId windowStart = statement (\<lambda>E n now g d.
     Inr (group_count nl_status (visible_rows notification_log_t g
       (\<lambda>l. nl_tenantId l = tenantId \<and> windowStart \<le> nl_sentAt l) d), d))"

record counts =
  sentCount :: int
  failedCount :: int
  suppressedCount :: int

fun read_counts :: "(notification_status \<times> int) list \<Rightarrow> counts \<Rightarrow> counts" where
  "read_counts [] c = c"
| "read_counts ((st, k) # rows) c = read_counts rows
     (case st of SENT \<Rightarrow> c\<lparr>sentCount := k\<rparr> | FAILED_SEND \<Rightarrow> c\<lparr>failedCount := k\<rparr> | SUPPRESSED \<Rightarrow> c\<lparr>suppressedCount := k\<rparr>)"

definition no_counts :: counts where
  "no_counts = \<lparr>sentCount = 0, failedCount = 0, suppressedCount = 0\<rparr>"

record log_stats =
  ls_windowHours :: int
  ls_windowStart :: string
  ls_windowEnd :: string
  ls_counts :: counts
  ls_totalAttempts :: int
  ls_failureRate :: "(int \<times> int) option"

text \<open>\<open>new Date()\<close> before a transaction is opened.\<close>

definition io_new_Date :: "instant io" where
  "io_new_Date E w = (Inr (e_clock E (x_tick (w_ext w))), w)"

text \<open>A second \<open>new Date()\<close> right after a first one: the clock may have moved on.\<close>

definition io_next_Date :: "instant io" where
  "io_next_Date E w = io_new_Date E (w\<lparr>w_ext := tick (w_ext w)\<rparr>)"

definition NotificationLogService_getStats :: "uuid \<Rightarrow> int \<Rightarrow> log_stats io" where
  "NotificationLogService_getStats tenantId windowHours =
     iobind io_new_Date (\<lambda>windowEnd. let windowStart = subHours windowEnd windowHours
       in transaction (tthen (setTenantContext tenantId)
         (tbind (window_counts tenantId windowStart)
           (\<lambda>rows. let c = read_counts rows no_counts; totalAttempts = sentCount c + failedCount c
              in treturn \<lparr>ls_windowHours = windowHours, ls_windowStart = toISOString windowStart,
                   ls_windowEnd = toISOString windowEnd, ls_counts = c, ls_totalAttempts = totalAttempts,
                   ls_failureRate = (if totalAttempts = 0 then None else Some (failedCount c, totalAttempts))\<rparr>))))"

section \<open>Failure alerts\<close>

text \<open>
  \<open>failedCount / totalAttempts >= 0.5\<close>: the rounded quotient of two counts reaches one half exactly
  when the exact one does, one half being a double and rounding monotone.
\<close>

definition shouldAlertOnFailureRate :: "counts \<Rightarrow> bool" where
  "shouldAlertOnFailureRate c =
     (let totalAttempts = sentCount c + failedCount c
      in if totalAttempts < 5 then False else totalAttempts \<le> 2 * failedCount c)"

definition emit_alert :: "failure_alert \<Rightarrow> unit tx" where
  "emit_alert a = external (\<lambda>_ _. None) (\<lambda>x. x\<lparr>x_alerts := x_alerts x @ [a]\<rparr>)"

definition SCAN_WINDOW_HOURS :: int where
  "SCAN_WINDOW_HOURS = 6"

definition failure_alert :: "uuid \<Rightarrow> counts \<Rightarrow> failure_alert" where
  "failure_alert tenantId c = \<lparr>fa_tenantIdPrefix = take 8 tenantId, fa_windowHours = SCAN_WINDOW_HOURS,
     fa_failedCount = failedCount c, fa_totalAttempts = sentCount c + failedCount c\<rparr>"

definition alert_tenant :: "instant \<Rightarrow> uuid \<Rightarrow> unit tx" where
  "alert_tenant windowStart tenantId =
     tthen (setTenantContext tenantId)
       (tbind (select_tenants (\<lambda>t. tn_id t = tenantId \<and> tn_status t = TenantActive))
         (\<lambda>stillActive. if stillActive = [] then treturn ()
            else tbind (window_counts tenantId windowStart)
              (\<lambda>rows. let c = read_counts rows no_counts
                 in if shouldAlertOnFailureRate c then emit_alert (failure_alert tenantId c) else treturn ())))"

definition failure_alert_scan :: "unit io" where
  "failure_alert_scan =
     iobind (query_tenants (\<lambda>t. tn_status t = TenantActive))
       (\<lambda>activeTenants. iobind io_new_Date
         (\<lambda>now. ioforeach (\<lambda>tenant. transaction (alert_tenant (subHours now SCAN_WINDOW_HOURS) (tn_id tenant)))
           activeTenants))"

section \<open>Control flow\<close>

lemma keeps_upsert [keeps_intros]:
  assumes "\<And>p. np_tenantId (setNext p) = np_tenantId p" "\<And>p. np_id (setNext p) = np_id p"
  shows "keeps (txinv (same_for_others t) t d0) (upsert_policy t setNext now)"
    and "keeps (txinv history t d0) (upsert_policy t setNext now)"
  unfolding upsert_policy_def
  by (rule iso.keeps_statement hist.keeps_statement;
      auto simp: stmt_rel_def Let_def rls_visible_def same_for_others_def others_def history_def
        notification_policy_later_def grows_refl assms blank_policy_def
      intro!: filter_map_keep grows_append grows_map split: if_splits option.splits)+

lemma next_policy_frame [simp]:
  "np_tenantId (next_policy dto b p) = np_tenantId p" "np_id (next_policy dto b p) = np_id p"
  by (simp_all add: next_policy_def)

lemma keeps_window_counts [keeps_intros]:
  "keeps (txinv (\<lambda>d d'. d' = d) t d0) (window_counts tid st)"
  unfolding window_counts_def by (rule unchanged.keeps_query)

lemma policy_update_iso: "io_rel (same_for_others t) (NotificationPoliciesService_update t dto ctx)"
  and policy_update_hist: "io_rel history (NotificationPoliciesService_update t dto ctx)"
  unfolding NotificationPoliciesService_update_def policy_rows_def Let_def
  by (auto intro!: io_intros keeps_intros)

lemma io_new_Date_rel [io_intros]: "io_rel (\<lambda>d d'. d' = d) io_new_Date" "io_rel (\<lambda>d d'. d' = d) io_next_Date"
  by (simp_all add: io_rel_def io_new_Date_def io_next_Date_def)

lemma policy_reads_only:
  "io_rel (\<lambda>d d'. d' = d) (NotificationPoliciesService_getOrDefault t)"
  "io_rel (\<lambda>d d'. d' = d) (NotificationLogService_getStats t h)"
  "io_rel (\<lambda>d d'. d' = d) failure_alert_scan"
  unfolding NotificationPoliciesService_getOrDefault_def NotificationLogService_getStats_def
    failure_alert_scan_def alert_tenant_def emit_alert_def policy_rows_def Let_def
  by (auto intro!: unchanged.transaction_rel unchanged.iobind_rel unchanged.io_foreach_rel
      unchanged.io_query_tenants_rel io_new_Date_rel keeps_intros)

section \<open>Reading the counts\<close>

definition tally :: "notification_status \<Rightarrow> notification_log_row list \<Rightarrow> int" where
  "tally st ls = int (length (filter (\<lambda>l. nl_status l = st) ls))"

lemma read_counts_distinct:
  "distinct ks \<Longrightarrow> read_counts (map (\<lambda>k. (k, f k)) ks) c =
     \<lparr>sentCount = (if SENT \<in> set ks then f SENT else sentCount c),
      failedCount = (if FAILED_SEND \<in> set ks then f FAILED_SEND else failedCount c),
      suppressedCount = (if SUPPRESSED \<in> set ks then f SUPPRESSED else suppressedCount c)\<rparr>"
proof (induction ks arbitrary: c)
  case (Cons k ks)
  then show ?case by (cases k) auto
qed simp

lemma tally_none: "st \<notin> nl_status ` set ls \<Longrightarrow> tally st ls = 0"
  by (auto simp: tally_def filter_empty_conv)

lemma read_counts_group:
  "read_counts (group_count nl_status ls) no_counts =
     \<lparr>sentCount = tally SENT ls, failedCount = tally FAILED_SEND ls, suppressedCount = tally SUPPRESSED ls\<rparr>"
  unfolding group_count_def read_counts_distinct [OF distinct_remdups]
  by (simp add: no_counts_def tally_none flip: tally_def)

lemma tally_sum: "tally SENT ls + tally FAILED_SEND ls + tally SUPPRESSED ls = int (length ls)"
proof (induction ls)
  case (Cons l ls)
  then show ?case by (cases "nl_status l") (auto simp: tally_def)
qed (simp add: tally_def)

text \<open>The log entries of a tenant from an instant on, as its policy shows them.\<close>

definition window_rows :: "uuid \<Rightarrow> instant \<Rightarrow> db \<Rightarrow> notification_log_row list" where
  "window_rows t st d = visible_rows notification_log_t (Some t) (\<lambda>l. nl_tenantId l = t \<and> st \<le> nl_sentAt l) d"

definition window_tally :: "uuid \<Rightarrow> instant \<Rightarrow> db \<Rightarrow> counts" where
  "window_tally t st d = (let ls = window_rows t st d in
     \<lparr>sentCount = tally SENT ls, failedCount = tally FAILED_SEND ls, suppressedCount = tally SUPPRESSED ls\<rparr>)"

lemma window_counts_quiet:
  "quiet E \<Longrightarrow> \<not> t_aborted s \<Longrightarrow> t_tenant s = Some t \<Longrightarrow>
     window_counts t st E s = (Inr (group_count nl_status (window_rows t st (t_db s))), s\<lparr>t_ext := tick (t_ext s)\<rparr>)"
  by (simp add: window_counts_def statement_quiet window_rows_def)

lemma read_window: "read_counts (group_count nl_status (window_rows t st d)) no_counts = window_tally t st d"
  by (simp add: read_counts_group window_tally_def Let_def)

section \<open>The runs\<close>

lemma getStats_run:
  assumes "quiet E"
  shows "\<exists>x. NotificationLogService_getStats t hours E w =
    (let now = e_clock E (x_tick (w_ext w)); c = window_tally t (subHours now hours) (w_db w);
         total = sentCount c + failedCount c
     in (Inr \<lparr>ls_windowHours = hours, ls_windowStart = toISOString (subHours now hours), ls_windowEnd = toISOString now,
              ls_counts = c, ls_totalAttempts = total,
              ls_failureRate = (if total = 0 then None else Some (failedCount c, total))\<rparr>, w\<lparr>w_ext := x\<rparr>))"
  using assms
  by (simp add: NotificationLogService_getStats_def io_new_Date_def iobind_def Let_def frame_simps window_counts_quiet
      read_window extends_world)

lemma alert_tenant_run:
  assumes "quiet E" "\<exists>r \<in> set (tenants (w_db w)). tn_id r = t \<and> tn_status r = TenantActive"
  shows "\<exists>x. transaction (alert_tenant st t) E w = (Inr (), w\<lparr>w_ext := x\<rparr>)
    \<and> x_alerts x = x_alerts (w_ext w) @
        (let c = window_tally t st (w_db w) in if shouldAlertOnFailureRate c then [failure_alert t c] else [])"
proof -
  have "filter (\<lambda>r. tn_id r = t \<and> tn_status r = TenantActive) (tenants (w_db w)) \<noteq> []"
    using assms(2) by (auto simp: filter_empty_conv)
  then show ?thesis using assms(1)
    by (simp add: alert_tenant_def frame_simps select_tenants_quiet window_counts_quiet read_window Let_def
        emit_alert_def external_def extends_world)
qed

lemma alert_all_run:
  assumes "quiet E" "\<forall>r \<in> set ts. r \<in> set (tenants (w_db w)) \<and> tn_status r = TenantActive"
  shows "\<exists>x. ioforeach (\<lambda>tenant. transaction (alert_tenant st (tn_id tenant))) ts E w = (Inr (), w\<lparr>w_ext := x\<rparr>)
    \<and> x_alerts x = x_alerts (w_ext w) @ concat (map (\<lambda>r. let c = window_tally (tn_id r) st (w_db w)
        in if shouldAlertOnFailureRate c then [failure_alert (tn_id r) c] else []) ts)"
  using assms(2)
proof (induction ts arbitrary: w)
  case Nil
  then show ?case by (auto simp: tx_simps intro!: exI [of _ "w_ext w"])
next
  case (Cons r ts)
  obtain x where 1: "transaction (alert_tenant st (tn_id r)) E w = (Inr (), w\<lparr>w_ext := x\<rparr>)"
    "x_alerts x = x_alerts (w_ext w) @ (let c = window_tally (tn_id r) st (w_db w)
      in if shouldAlertOnFailureRate c then [failure_alert (tn_id r) c] else [])"
    using alert_tenant_run [OF assms(1), of w "tn_id r"] Cons.prems by auto
  obtain y where 2: "ioforeach (\<lambda>tenant. transaction (alert_tenant st (tn_id tenant))) ts E (w\<lparr>w_ext := x\<rparr>) = (Inr (), w\<lparr>w_ext := y\<rparr>)"
    "x_alerts y = x_alerts x @ concat (map (\<lambda>r. let c = window_tally (tn_id r) st (w_db w)
      in if shouldAlertOnFailureRate c then [failure_alert (tn_id r) c] else []) ts)"
    using Cons.IH [of "w\<lparr>w_ext := x\<rparr>"] Cons.prems by auto
  show ?case using 1 2 by (auto simp: tx_simps)
qed

section \<open>Storing a policy\<close>

text \<open>What a tenant sees of the policy table: the stored row's view, or the default.\<close>

definition policy_in_force :: "uuid \<Rightarrow> db \<Rightarrow> policy_view" where
  "policy_in_force t d =
     (case found notification_policies_t t (\<lambda>p. np_tenantId p = t) d of None \<Rightarrow> default_view t | Some r \<Rightarrow> view_of_row r)"

definition stored_policy :: "uuid \<Rightarrow> update_policy_dto \<Rightarrow> db \<Rightarrow> uuid \<Rightarrow> instant \<Rightarrow> instant \<Rightarrow> notification_policy_row" where
  "stored_policy t dto d u now updatedAt =
     (case found notification_policies_t t (\<lambda>p. np_tenantId p = t) d of
        None \<Rightarrow> next_policy dto None (blank_policy t u now)
      | Some b \<Rightarrow> (next_policy dto (Some b) b)\<lparr>np_updatedAt := updatedAt\<rparr>)"

lemma getOrDefault_run:
  "quiet E \<Longrightarrow> \<exists>x. NotificationPoliciesService_getOrDefault t E w = (Inr (policy_in_force t (w_db w)), w\<lparr>w_ext := x\<rparr>)"
  by (simp add: NotificationPoliciesService_getOrDefault_def policy_rows_def frame_simps select_where_quiet
      policy_in_force_def found_def extends_world)

lemma visible_policies:
  "t \<noteq> [] \<Longrightarrow> visible_rows notification_policies_t (Some t) (\<lambda>p. np_tenantId p = t) d =
     filter (\<lambda>p. np_tenantId p = t) (tenantNotificationPolicies d)"
  by (auto simp: visible_rows_def rls_visible_def intro!: filter_cong)

definition policy_storable :: "uuid \<Rightarrow> update_policy_dto \<Rightarrow> db \<Rightarrow> uuid \<Rightarrow> bool" where
  "policy_storable t dto d u \<longleftrightarrow>
     pg_uuid t \<and> t \<in> tn_id ` set (tenants d) \<and> distinct (map np_tenantId (tenantNotificationPolicies d))
     \<and> list_all int4 (nullish (up_reminderDaysBefore dto) (pv_reminderDaysBefore (policy_in_force t d)))
     \<and> (\<forall>p \<in> set (tenantNotificationPolicies d). \<not> same_uuid (np_id p) u)"

lemma pg_uuid_nonempty: "pg_uuid t \<Longrightarrow> t \<noteq> []"
  by (auto simp: pg_uuid_def numeral_eq_Suc)

lemma next_policy_thresholds:
  "np_reminderDaysBefore (next_policy dto (found notification_policies_t t (\<lambda>p. np_tenantId p = t) d) p) =
     nullish (up_reminderDaysBefore dto) (pv_reminderDaysBefore (policy_in_force t d))"
  by (cases "up_reminderDaysBefore dto")
    (auto simp: next_policy_def policy_in_force_def default_view_def view_of_row_def split: option.split)

lemma policy_update_run:
  fixes E :: env and w :: world and t dto
  defines "u \<equiv> e_uuid E (x_tick (w_ext w) + 3)"
  defines "after \<equiv> stored_policy t dto (w_db w) u (e_clock E (x_tick (w_ext w))) (e_clock E (x_tick (w_ext w) + 3))"
  assumes q: "quiet E" and ok: "policy_storable t dto (w_db w) u"
  shows "\<exists>w'. NotificationPoliciesService_update t dto ctx E w = (Inr after, w')
    \<and> filter (\<lambda>p. np_tenantId p = t) (tenantNotificationPolicies (w_db w')) = [after]
    \<and> filter (\<lambda>p. np_tenantId p \<noteq> t) (tenantNotificationPolicies (w_db w'))
        = filter (\<lambda>p. np_tenantId p \<noteq> t) (tenantNotificationPolicies (w_db w))"
proof -
  let ?d = "w_db w"
  let ?b = "found notification_policies_t t (\<lambda>p. np_tenantId p = t) ?d"
  have t: "t \<noteq> []" using ok pg_uuid_nonempty by (simp add: policy_storable_def)
  have int4: "list_all int4 (np_reminderDaysBefore (next_policy dto ?b p))" for p
    using ok by (simp add: next_policy_thresholds policy_storable_def)
  show ?thesis
  proof (cases ?b)
    case None
    then have "filter (\<lambda>p. np_tenantId p = t) (tenantNotificationPolicies ?d) = []"
      using t by (simp add: found_def visible_policies)
    then show ?thesis
      using q t None int4 ok
      by (auto simp: NotificationPoliciesService_update_def policy_rows_def frame_simps select_where_quiet found_def
          visible_policies upsert_policy_def statement_quiet Let_def policy_storable_def list_ex_iff rls_visible_def
          audit_log_quiet after_def u_def stored_policy_def blank_policy_def numeral_eq_Suc)
  next
    case (Some b)
    then have "filter (\<lambda>p. np_tenantId p = t) (tenantNotificationPolicies ?d) = [b]"
      using t ok filter_unique [of np_tenantId "tenantNotificationPolicies ?d" b "\<lambda>p. np_tenantId p = t"]
        found_visible [of notification_policies_t t "\<lambda>p. np_tenantId p = t" ?d b]
      by (simp add: policy_storable_def)
    moreover have "np_tenantId b = t"
      using Some found_visible [of notification_policies_t t "\<lambda>p. np_tenantId p = t" ?d b] by simp
    moreover have "map (\<lambda>p. if np_tenantId p = t then f p else p) (filter (\<lambda>p. np_tenantId p \<noteq> t) ps)
        = filter (\<lambda>p. np_tenantId p \<noteq> t) ps" for f ps
      by (rule map_id_on) auto
    ultimately show ?thesis
      using q t Some int4 ok
      by (simp add: NotificationPoliciesService_update_def policy_rows_def frame_simps select_where_quiet found_def
          visible_policies upsert_policy_def statement_quiet Let_def policy_storable_def rls_visible_def filter_map comp_def
          audit_log_quiet after_def u_def stored_policy_def numeral_eq_Suc cong: if_cong)
  qed
qed

definition failing_log :: "notification_log_row list" where
  "failing_log = map (\<lambda>i. \<lparr>nl_id = sample_uuid (100 + i), nl_tenantId = acme, nl_documentId = None,
     nl_daysBeforeExpiry = 14, nl_sentAt = 1767225590000, nl_status = (if i < 3 then FAILED_SEND else SENT),
     nl_errorMessage = None\<rparr>) [0..<5]"

definition failing_world :: world where
  "failing_world = sample_world\<lparr>w_db := sample_db\<lparr>notificationLog := failing_log\<rparr>\<rparr>"

definition sample_policy_update :: update_policy_dto where
  "sample_policy_update = \<lparr>up_reminderDaysBefore = Some [30, 7], up_emailFrom = None, up_emailTemplateId = None,
     up_enabled = Some False\<rparr>"

section \<open>Properties\<close>

text \<open>
  C18. Storing a policy and reading it back: the update of a tenant's policy leaves exactly one row of the
  tenant, the one it returns, and the rows of the other tenants as they were; each column of it is the
  request's where the request has one, and what the tenant read before (a stored row or the defaults)
  where it has none; the next read shows this row.
\<close>

theorem policy_update_reads_back:
  assumes "quiet E" and "quiet E'" and "policy_storable t dto (w_db w) (e_uuid E (x_tick (w_ext w) + 3))"
  shows "\<exists>after w'. NotificationPoliciesService_update t dto ctx E w = (Inr after, w')
    \<and> filter (\<lambda>p. np_tenantId p = t) (tenantNotificationPolicies (w_db w')) = [after]
    \<and> filter (\<lambda>p. np_tenantId p \<noteq> t) (tenantNotificationPolicies (w_db w'))
        = filter (\<lambda>p. np_tenantId p \<noteq> t) (tenantNotificationPolicies (w_db w))
    \<and> (let v = policy_in_force t (w_db w) in
        np_reminderDaysBefore after = nullish (up_reminderDaysBefore dto) (pv_reminderDaysBefore v)
        \<and> np_emailFrom after = nullish_opt (up_emailFrom dto) (pv_emailFrom v)
        \<and> np_emailTemplateId after = nullish_opt (up_emailTemplateId dto) (pv_emailTemplateId v)
        \<and> np_enabled after = nullish (up_enabled dto) (pv_enabled v))
    \<and> fst (NotificationPoliciesService_getOrDefault t E' w') = Inr (view_of_row after)"
proof -
  let ?after = "stored_policy t dto (w_db w) (e_uuid E (x_tick (w_ext w) + 3)) (e_clock E (x_tick (w_ext w)))
    (e_clock E (x_tick (w_ext w) + 3))"
  obtain w' where w': "NotificationPoliciesService_update t dto ctx E w = (Inr ?after, w')"
    "filter (\<lambda>p. np_tenantId p = t) (tenantNotificationPolicies (w_db w')) = [?after]"
    "filter (\<lambda>p. np_tenantId p \<noteq> t) (tenantNotificationPolicies (w_db w'))
        = filter (\<lambda>p. np_tenantId p \<noteq> t) (tenantNotificationPolicies (w_db w))"
    using policy_update_run [OF assms(1,3)] by blast
  moreover have "t \<noteq> []" using assms(3) pg_uuid_nonempty by (simp add: policy_storable_def)
  ultimately have "policy_in_force t (w_db w') = view_of_row ?after"
    by (simp add: policy_in_force_def found_def visible_policies)
  then have "fst (NotificationPoliciesService_getOrDefault t E' w') = Inr (view_of_row ?after)"
    using getOrDefault_run [OF assms(2), of t w'] by auto
  moreover have "let v = policy_in_force t (w_db w) in
      np_reminderDaysBefore ?after = nullish (up_reminderDaysBefore dto) (pv_reminderDaysBefore v)
      \<and> np_emailFrom ?after = nullish_opt (up_emailFrom dto) (pv_emailFrom v)
      \<and> np_emailTemplateId ?after = nullish_opt (up_emailTemplateId dto) (pv_emailTemplateId v)
      \<and> np_enabled ?after = nullish (up_enabled dto) (pv_enabled v)"
    by (cases "up_reminderDaysBefore dto"; cases "up_emailFrom dto"; cases "up_emailTemplateId dto"; cases "up_enabled dto")
      (auto simp: stored_policy_def policy_in_force_def next_policy_def default_view_def view_of_row_def split: option.split)
  ultimately show ?thesis using w' by blast
qed

theorem policy_update_reads_back_witness:
  "\<exists>after w'. NotificationPoliciesService_update acme sample_policy_update sample_context sample_env sample_world = (Inr after, w')
     \<and> np_reminderDaysBefore after = [30, 7] \<and> np_enabled after = False \<and> np_emailFrom after = None
     \<and> fst (NotificationPoliciesService_getOrDefault acme sample_env w') = Inr (view_of_row after)"
proof -
  have "policy_storable acme sample_policy_update sample_db (e_uuid sample_env 3)"
    by code_simp
  moreover have "policy_in_force acme sample_db = default_view acme"
    by code_simp
  ultimately show ?thesis
    using policy_update_reads_back [OF quiet_sample quiet_sample, of acme sample_policy_update sample_world sample_context]
    by (auto simp: sample_policy_update_def default_view_def Let_def)
qed

text \<open>
  The statistics are the counts of the window: they change nothing, each count is the number of the
  tenant's log entries of that outcome since the window's start, the three make up all of them, and the
  rate is the share of the failures among the attempts, and absent exactly when there was no attempt.
\<close>

lemma stats_count_the_window:
  assumes "quiet E"
  shows "\<exists>st w'. NotificationLogService_getStats t hours E w = (Inr st, w') \<and> w_db w' = w_db w
    \<and> (let ls = window_rows t (e_clock E (x_tick (w_ext w)) - hours * 3600000) (w_db w); c = ls_counts st in
        sentCount c = tally SENT ls \<and> failedCount c = tally FAILED_SEND ls \<and> suppressedCount c = tally SUPPRESSED ls
        \<and> sentCount c + failedCount c + suppressedCount c = int (length ls)
        \<and> ls_totalAttempts st = int (length (filter (\<lambda>l. nl_status l \<noteq> SUPPRESSED) ls))
        \<and> (ls_failureRate st = None \<longleftrightarrow> filter (\<lambda>l. nl_status l \<noteq> SUPPRESSED) ls = [])
        \<and> (\<forall>p q. ls_failureRate st = Some (p, q) \<longrightarrow> 0 \<le> p \<and> p \<le> q \<and> 0 < q))"
proof -
  let ?now = "e_clock E (x_tick (w_ext w))"
  let ?ls = "window_rows t (?now - hours * 3600000) (w_db w)"
  have attempts: "tally SENT ls + tally FAILED_SEND ls = int (length (filter (\<lambda>l. nl_status l \<noteq> SUPPRESSED) ls))" for ls
    by (induction ls) (auto simp: tally_def split: notification_status.split intro: notification_status.exhaust)
  have nonneg: "0 \<le> tally k ls" for k ls by (simp add: tally_def)
  have none: "tally SENT ls + tally FAILED_SEND ls = 0 \<longleftrightarrow> filter (\<lambda>l. nl_status l \<noteq> SUPPRESSED) ls = []" for ls
    by (simp only: attempts) simp
  show ?thesis
    using getStats_run [OF assms, of t hours w] nonneg [of SENT ?ls] nonneg [of FAILED_SEND ?ls] none [of ?ls]
      attempts [of ?ls] tally_sum [of ?ls]
    by (auto simp: Let_def window_tally_def subHours_def)
qed

lemma stats_count_the_window_witness:
  "\<exists>st w'. NotificationLogService_getStats acme 24 sample_env failing_world = (Inr st, w')
     \<and> ls_totalAttempts st = 5 \<and> suppressedCount (ls_counts st) = 0"
proof -
  have rows: "window_rows acme (1767225600000 - 24 * 3600000) (w_db failing_world) = failing_log"
    by code_simp
  have c: "int (length (filter (\<lambda>l. nl_status l \<noteq> SUPPRESSED) failing_log)) = 5" "tally SUPPRESSED failing_log = 0"
    by code_simp+
  obtain st w' where "NotificationLogService_getStats acme 24 sample_env failing_world = (Inr st, w')"
    "suppressedCount (ls_counts st) = tally SUPPRESSED failing_log"
    "ls_totalAttempts st = int (length (filter (\<lambda>l. nl_status l \<noteq> SUPPRESSED) failing_log))"
    using stats_count_the_window [OF quiet_sample, of acme 24 failing_world] rows
    by (auto simp: Let_def sample_env_def failing_world_def)
  then show ?thesis using c by auto
qed

text \<open>
  C23. The alert scan, tenant by tenant: it changes no row and emits one alert for exactly the active
  tenants with at least five attempts in the last six hours of which at least half failed, with the
  numbers of the window and no more of the tenant's id than its first eight characters.
\<close>

theorem alert_scan_spec:
  assumes "quiet E"
  shows "fst (failure_alert_scan E w) = Inr () \<and> w_db (snd (failure_alert_scan E w)) = w_db w
    \<and> x_alerts (w_ext (snd (failure_alert_scan E w))) = x_alerts (w_ext w) @
        map (\<lambda>r. failure_alert (tn_id r) (window_tally (tn_id r) (e_clock E (x_tick (w_ext w) + 1) - 6 * 3600000) (w_db w)))
          (filter (\<lambda>r. tn_status r = TenantActive
              \<and> (let c = window_tally (tn_id r) (e_clock E (x_tick (w_ext w) + 1) - 6 * 3600000) (w_db w)
                 in 5 \<le> sentCount c + failedCount c \<and> sentCount c + failedCount c \<le> 2 * failedCount c))
            (tenants (w_db w)))"
proof -
  let ?ts = "filter (\<lambda>r. tn_status r = TenantActive) (tenants (w_db w))"
  let ?w = "w\<lparr>w_ext := tick (w_ext w)\<rparr>"
  let ?st = "e_clock E (Suc (x_tick (w_ext w))) - SCAN_WINDOW_HOURS * 3600000"
  let ?c = "\<lambda>r. window_tally (tn_id r) ?st (w_db w)"
  obtain x where x: "ioforeach (\<lambda>tenant. transaction (alert_tenant ?st (tn_id tenant))) ?ts E ?w = (Inr (), w\<lparr>w_ext := x\<rparr>)"
    "x_alerts x = x_alerts (w_ext w) @ concat (map (\<lambda>r. if shouldAlertOnFailureRate (?c r) then [failure_alert (tn_id r) (?c r)] else []) ?ts)"
    using alert_all_run [OF assms, of ?ts ?w ?st] by (auto simp: Let_def)
  have if_map: "concat (map (\<lambda>r. if P r then [f r] else []) rs) = map f (filter P rs)" for P f and rs :: "tenant_row list"
    by (induction rs) auto
  have gate: "shouldAlertOnFailureRate c \<longleftrightarrow> 5 \<le> sentCount c + failedCount c \<and> sentCount c + failedCount c \<le> 2 * failedCount c" for c
    by (auto simp: shouldAlertOnFailureRate_def Let_def)
  have "failure_alert_scan E w = (Inr (), w\<lparr>w_ext := x\<rparr>)"
    using assms x(1) by (simp add: failure_alert_scan_def iobind_def query_tenants_def quiet_def Let_def io_new_Date_def subHours_def)
  then show ?thesis
    using x(2) by (simp add: if_map gate SCAN_WINDOW_HOURS_def Let_def conj_commute)
qed

theorem alert_scan_spec_witness:
  "x_alerts (w_ext (snd (failure_alert_scan sample_env failing_world))) =
     [\<lparr>fa_tenantIdPrefix = ''00000000'', fa_windowHours = 6, fa_failedCount = 3, fa_totalAttempts = 5\<rparr>]"
proof -
  have "x_alerts (w_ext failing_world) @
      map (\<lambda>r. failure_alert (tn_id r) (window_tally (tn_id r) (e_clock sample_env (x_tick (w_ext failing_world) + 1) - 6 * 3600000) (w_db failing_world)))
        (filter (\<lambda>r. tn_status r = TenantActive
            \<and> (let c = window_tally (tn_id r) (e_clock sample_env (x_tick (w_ext failing_world) + 1) - 6 * 3600000) (w_db failing_world)
               in 5 \<le> sentCount c + failedCount c \<and> sentCount c + failedCount c \<le> 2 * failedCount c))
          (tenants (w_db failing_world)))
      = [\<lparr>fa_tenantIdPrefix = ''00000000'', fa_windowHours = 6, fa_failedCount = 3, fa_totalAttempts = 5\<rparr>]"
    by code_simp
  then show ?thesis using alert_scan_spec [OF quiet_sample, of failing_world] by metis
qed

end
