(* ===== verification/Dashboard.thy ===== *)
theory Dashboard
  imports Notifications
begin

text \<open>
  The dashboard, \<open>apps/api/src/dashboard/dashboard.service.ts\<close>: counts of the live documents by status
  and by type, and the pages of the documents expiring within a number of days. A \<open>date\<close> compares by
  its calendar day (\<open>date_value\<close>); \<open>addDays\<close> of \<open>date-fns\<close> moves the host's local date, which is the
  UTC date on the hosts the program is meant for.
\<close>

section \<open>Counts\<close>

definition ALL_EXPIRY_STATUSES :: "expiry_status list" where
  "ALL_EXPIRY_STATUSES = [VALID, EXPIRING_SOON, RENEWAL_IN_PROGRESS, EXCEPTION, EXPIRED, BLOCKED]"

record dashboard_summary =
  totalDocuments :: int
  byStatus :: "(expiry_status \<times> int) list"

record document_stats_row =
  st_docType :: document_type
  st_expiryStatus :: expiry_status
  st_count :: int

definition tenant_document :: "uuid \<Rightarrow> document_row \<Rightarrow> bool" where
  "tenant_document tenantId r \<longleftrightarrow> dc_tenantId r = tenantId \<and> dc_deletedAt r = None"

text \<open>\<open>SELECT key, count(*) FROM documents WHERE ... GROUP BY key\<close>.\<close>

definition document_counts :: "uuid \<Rightarrow> (document_row \<Rightarrow> 'k) \<Rightarrow> ('k \<times> int) list tx" where
  "document_counts tenantId key = statement (\<lambda>E n now g d.
     Inr (group_count key (visible_rows documents_t g (tenant_document tenantId) d), d))"

fun add_counts :: "(expiry_status \<times> int) list \<Rightarrow> dashboard_summary \<Rightarrow> dashboard_summary" where
  "add_counts [] s = s"
| "add_counts ((st, k) # rows) s = add_counts rows
     (s\<lparr>byStatus := map (\<lambda>p. if fst p = st then (st, k) else p) (byStatus s),
        totalDocuments := totalDocuments s + k\<rparr>)"

definition DashboardService_getSummary :: "uuid \<Rightarrow> dashboard_summary io" where
  "DashboardService_getSummary tenantId =
     transaction (tthen (setTenantContext tenantId)
       (tbind (document_counts tenantId dc_expiryStatus)
         (\<lambda>rows. treturn (add_counts rows
            \<lparr>totalDocuments = 0, byStatus = map (\<lambda>status. (status, 0)) ALL_EXPIRY_STATUSES\<rparr>))))"

definition DashboardService_getDocumentStats :: "uuid \<Rightarrow> document_stats_row list io" where
  "DashboardService_getDocumentStats tenantId =
     transaction (tthen (setTenantContext tenantId)
       (tbind (document_counts tenantId (\<lambda>r. (dc_docType r, dc_expiryStatus r)))
         (\<lambda>rows. treturn (map (\<lambda>((ty, st), k). \<lparr>st_docType = ty, st_expiryStatus = st, st_count = k\<rparr>) rows))))"

section \<open>Expiring documents\<close>

record expiring_params =
  xp_withinDays :: "int option"
  xp_docType :: "document_type option"
  xp_page :: "int option"
  xp_limit :: "int option"

definition addDays :: "instant \<Rightarrow> int \<Rightarrow> instant" where
  "addDays t days = t + days * ms_per_day"

text \<open>The calendar day of a \<open>date\<close>, as a day number.\<close>

definition date_value :: "string \<Rightarrow> int" where
  "date_value s =
     make_day (int (undec (take 4 s))) (int (undec (take 2 (drop 5 s))) - 1) (int (undec (take 2 (drop 8 s))))"

definition expiring_filter :: "uuid \<Rightarrow> string \<Rightarrow> string \<Rightarrow> document_type option \<Rightarrow> document_row \<Rightarrow> bool" where
  "expiring_filter tenantId today windowEnd docType r \<longleftrightarrow>
     dc_tenantId r = tenantId \<and> dc_deletedAt r = None
     \<and> (case dc_expiryDate r of None \<Rightarrow> False
        | Some e \<Rightarrow> date_value today \<le> date_value e \<and> date_value e \<le> date_value windowEnd)
     \<and> (case docType of None \<Rightarrow> True | Some ty \<Rightarrow> dc_docType r = ty)"

definition expiry_key :: "document_row \<Rightarrow> int" where
  "expiry_key r = (case dc_expiryDate r of None \<Rightarrow> 0 | Some e \<Rightarrow> date_value e)"

definition DashboardService_getExpiringDocuments ::
  "uuid \<Rightarrow> expiring_params \<Rightarrow> (document_row list \<times> int) io" where
  "DashboardService_getExpiringDocuments tenantId params =
     (let withinDays = nullish (xp_withinDays params) 30; page = nullish (xp_page params) 1;
          limit = nullish (xp_limit params) 20
      in iobind io_new_Date (\<lambda>d1. let today = toUtcDateString d1
         in iobind io_next_Date (\<lambda>d2. let windowEnd = toUtcDateString (addDays d2 withinDays);
              whereClause = expiring_filter tenantId today windowEnd (xp_docType params);
              typed = pg_date today \<and> pg_date windowEnd
            in transaction (tthen (setTenantContext tenantId)
              (tbind (well_typed ''22007'' typed (select_page documents_t whereClause expiry_key limit ((page - 1) * limit)))
                (\<lambda>rows. tbind (well_typed ''22007'' typed (select_count documents_t whereClause))
                  (\<lambda>total. treturn (rows, total))))))))"

lemma keeps_document_counts [keeps_intros]:
  "keeps (txinv (\<lambda>d d'. d' = d) t d0) (document_counts tid key)"
  unfolding document_counts_def by (rule unchanged.keeps_query)

lemma dashboard_reads_only:
  "io_rel (\<lambda>d d'. d' = d) (DashboardService_getSummary t)"
  "io_rel (\<lambda>d d'. d' = d) (DashboardService_getDocumentStats t)"
  "io_rel (\<lambda>d d'. d' = d) (DashboardService_getExpiringDocuments t p)"
  unfolding DashboardService_getSummary_def DashboardService_getDocumentStats_def
    DashboardService_getExpiringDocuments_def Let_def
  by (auto intro!: unchanged.transaction_rel unchanged.iobind_rel io_new_Date_rel keeps_intros)

section \<open>Group counts\<close>

lemma group_count_keys: "map fst (group_count key rs) = remdups (map key rs)"
  by (simp add: group_count_def comp_def)

lemma group_count_member:
  "(k, c) \<in> set (group_count key rs) \<longleftrightarrow> k \<in> key ` set rs \<and> c = int (length (filter (\<lambda>r. key r = k) rs))"
  by (auto simp: group_count_def)

lemma group_count_total: "sum_list (map snd (group_count key rs)) = int (length rs)"
proof -
  have "sum_list (map snd (group_count key rs)) = (\<Sum>k \<in> key ` set rs. int (length (filter (\<lambda>r. key r = k) rs)))"
    by (simp add: group_count_def comp_def sum_list_distinct_conv_sum_set)
  also have "\<dots> = int (\<Sum>k \<in> key ` set rs. count_list (map key rs) k)"
    by (simp add: count_list_eq_length_filter filter_map comp_def eq_commute)
  also have "\<dots> = int (length rs)"
    using sum_count_set [of "map key rs" "key ` set rs"] by simp
  finally show ?thesis .
qed

lemma add_counts_total:
  "totalDocuments (add_counts rows s) = totalDocuments s + sum_list (map snd rows)"
  by (induction rows s rule: add_counts.induct) auto

lemma add_counts_byStatus:
  "distinct (map fst rows) \<Longrightarrow> byStatus (add_counts rows s) =
     map (\<lambda>p. (fst p, case map_of rows (fst p) of None \<Rightarrow> snd p | Some k \<Rightarrow> k)) (byStatus s)"
proof (induction rows s rule: add_counts.induct)
  case (2 st k rows s)
  then have "map_of rows st = None" by (simp add: map_of_eq_None_iff)
  then show ?case using 2 by (auto simp del: map_of_eq_None_iff)
qed simp

lemma map_of_group_count:
  "map_of (group_count key rs) k =
     (if k \<in> key ` set rs then Some (int (length (filter (\<lambda>r. key r = k) rs))) else None)"
  by (auto simp: group_count_def map_of_map_restrict restrict_map_def)

section \<open>Dates of the database and days of the clock\<close>

lemma digits_Number: "list_all is_digit u \<Longrightarrow> u \<noteq> [] \<Longrightarrow> js_Number u = Some (int (undec u))"
  using js_trim_id [of u] is_digit_not_ws by (auto simp: js_Number_def list_all_iff Let_def)

lemma pg_date_parts:
  assumes "pg_date s"
  shows "length s = 10" "slice 0 4 s = take 4 s" "slice 5 7 s = take 2 (drop 5 s)" "slice 8 10 s = take 2 (drop 8 s)"
    "list_all is_digit (take 4 s)" "list_all is_digit (take 2 (drop 5 s))" "list_all is_digit (take 2 (drop 8 s))"
  using assms by (auto simp: pg_date_def Let_def slice_def take_drop)

lemma pg_date_utc:
  assumes "pg_date s"
  shows "utcMidnightMillis (DStr s) =
    Some (date_UTC (int (undec (take 4 s))) (int (undec (take 2 (drop 5 s))) - 1) (int (undec (take 2 (drop 8 s)))))"
proof -
  note P = pg_date_parts [OF assms]
  have "slice 0 10 s = s" using P(1) by (simp add: slice_def)
  moreover have "take 4 s \<noteq> []" "take 2 (drop 5 s) \<noteq> []" "take 2 (drop 8 s) \<noteq> []" using P(1) by auto
  ultimately show ?thesis using P by (simp add: digits_Number)
qed

lemma pg_date_days:
  assumes "pg_date s" "100 \<le> undec (take 4 s)" "100 \<le> getUTCFullYear now"
  shows "calendarDaysUntil (DStr s) now = Some (date_value s - day_of now)"
  using assms(2,3) utc_fields(5) [of now] js_round_div_exact
  unfolding calendarDaysUntil_def pg_date_utc [OF assms(1)]
  by (simp add: date_UTC_def date_value_def ms_per_day_def)

lemma utc_date_in_month:
  "getUTCDate t \<le> month_start (is_leap (getUTCFullYear t)) (getUTCMonth t + 1)
     - month_start (is_leap (getUTCFullYear t)) (getUTCMonth t)"
proof -
  let ?y = "getUTCFullYear t" and ?n = "day_of t"
  have "day_from_year ?y \<le> ?n" "?n < day_from_year (?y + 1)"
    using year_of_day_bounds [of ?n] by (simp_all add: getUTCFullYear_def)
  then have "0 \<le> ?n - day_from_year ?y" "?n - day_from_year ?y < month_start (is_leap ?y) 12"
    by (simp_all add: day_from_year_Suc month_start_12)
  from month_in_year_bounds [OF this] show ?thesis by (simp add: getUTCDate_def getUTCMonth_def Let_def)
qed

lemma month_length_nat:
  assumes "0 \<le> y" "0 \<le> m" "m \<le> 11"
  shows "month_start (is_leap y) (m + 1) - month_start (is_leap y) m = int (days_in_month (nat y) (nat (m + 1)))"
proof -
  have "m = 0 \<or> m = 1 \<or> m = 2 \<or> m = 3 \<or> m = 4 \<or> m = 5 \<or> m = 6 \<or> m = 7 \<or> m = 8 \<or> m = 9 \<or> m = 10 \<or> m = 11"
    using assms(2,3) by presburger
  then show ?thesis using assms(1) by (elim disjE) (simp_all add: month_start_def days_in_month_def)
qed

lemma pad_int_digits: "list_all is_digit (pad_int k i)"
  using pad_digits [of k "nat i"] by (simp add: pad_int_def list_all_iff)

lemma undec_pad_int [simp]: "undec (pad_int k i) = nat i"
  by (simp add: pad_int_def)

lemma date_string_parts:
  assumes "0 \<le> y" "y \<le> 9999" "1 \<le> m" "m \<le> 12" "1 \<le> d" "d \<le> 31"
  shows "take 4 (date_string y m d) = pad_int 4 y" "take 2 (drop 5 (date_string y m d)) = pad_int 2 m"
    "take 2 (drop 8 (date_string y m d)) = pad_int 2 d" "length (date_string y m d) = 10"
proof -
  have l: "length (pad_int 4 y) = 4" "length (pad_int 2 m) = 2" "length (pad_int 2 d) = 2"
    using assms by (simp_all add: length_pad_int)
  then show "take 4 (date_string y m d) = pad_int 4 y" "take 2 (drop 5 (date_string y m d)) = pad_int 2 m"
    "take 2 (drop 8 (date_string y m d)) = pad_int 2 d" "length (date_string y m d) = 10"
    by (simp_all add: date_string_def)
qed

definition in_calendar :: "instant \<Rightarrow> bool" where
  "in_calendar t \<longleftrightarrow> 100 \<le> getUTCFullYear t \<and> getUTCFullYear t \<le> 9999"

lemma day_from_year_mono: "y \<le> z \<Longrightarrow> day_from_year y \<le> day_from_year z"
proof (induction z rule: int_ge_induct)
  case (step z)
  then show ?case by (simp add: day_from_year_Suc split: if_splits)
qed simp

lemma in_calendar_days: "in_calendar t \<longleftrightarrow> day_from_year 100 \<le> day_of t \<and> day_of t < day_from_year 10000"
proof -
  let ?y = "getUTCFullYear t" and ?n = "day_of t"
  have b: "day_from_year ?y \<le> ?n" "?n < day_from_year (?y + 1)"
    using year_of_day_bounds [of ?n] by (simp_all add: getUTCFullYear_def)
  have "100 \<le> ?y \<longleftrightarrow> day_from_year 100 \<le> ?n"
    using b day_from_year_mono [of 100 ?y] day_from_year_mono [of "?y + 1" 100] by (cases "100 \<le> ?y") auto
  moreover have "?y \<le> 9999 \<longleftrightarrow> ?n < day_from_year 10000"
    using b day_from_year_mono [of 10000 ?y] day_from_year_mono [of "?y + 1" 10000] by (cases "?y \<le> 9999") auto
  ultimately show ?thesis by (simp add: in_calendar_def)
qed

lemma today_date:
  assumes "in_calendar t"
  shows "pg_date (toUtcDateString t)" "date_value (toUtcDateString t) = day_of t"
proof -
  let ?y = "getUTCFullYear t" and ?m = "getUTCMonth t" and ?d = "getUTCDate t"
  let ?s = "date_string ?y (?m + 1) ?d"
  have s: "toUtcDateString t = ?s" using assms by (simp add: in_calendar_def toUtcDateString_eq)
  have b: "0 \<le> ?y" "?y \<le> 9999" "1 \<le> ?m + 1" "?m + 1 \<le> 12" "1 \<le> ?d" "?d \<le> 31"
    using assms utc_fields [of t] by (auto simp: in_calendar_def)
  note P = date_string_parts [OF b]
  show "date_value (toUtcDateString t) = day_of t"
    unfolding s date_value_def P undec_pad_int using b utc_fields(5) [of t] by simp
  have "nat ?d \<le> days_in_month (nat ?y) (nat (?m + 1))"
    using utc_date_in_month [of t] month_length_nat [of ?y ?m] b by simp
  moreover have "list_all is_digit (pad_int 4 ?y @ pad_int 2 (?m + 1) @ pad_int 2 ?d)"
    using pad_int_digits by simp
  ultimately show "pg_date (toUtcDateString t)"
    unfolding s pg_date_def Let_def P undec_pad_int using b assms by (simp add: in_calendar_def date_string_def Suc_le_eq nat_le_iff)
qed

lemma day_of_addDays: "day_of (addDays t n) = day_of t + n"
  by (simp add: day_of_def addDays_def ms_per_day_def)

lemma in_calendar_between:
  "in_calendar t \<Longrightarrow> in_calendar (addDays t k) \<Longrightarrow> 0 \<le> days \<Longrightarrow> days \<le> k \<Longrightarrow> in_calendar (addDays t days)"
  by (simp add: in_calendar_days day_of_addDays)

section \<open>Properties\<close>

text \<open>The live documents of a tenant.\<close>

definition live_documents :: "uuid \<Rightarrow> db \<Rightarrow> document_row list" where
  "live_documents t d = filter (tenant_document t) (documents d)"

lemma visible_documents: "t \<noteq> [] \<Longrightarrow> visible_rows documents_t (Some t) (tenant_document t) d = live_documents t d"
  by (auto simp: visible_rows_def live_documents_def tenant_document_def rls_visible_def intro!: filter_cong)

lemma document_counts_quiet:
  "quiet E \<Longrightarrow> \<not> t_aborted s \<Longrightarrow> t_tenant s = Some t \<Longrightarrow> t \<noteq> [] \<Longrightarrow>
     document_counts t key E s = (Inr (group_count key (live_documents t (t_db s))), s\<lparr>t_ext := tick (t_ext s)\<rparr>)"
  by (simp add: document_counts_def statement_quiet visible_documents)

lemma getSummary_run:
  assumes "quiet E" "t \<noteq> []"
  shows "\<exists>x. DashboardService_getSummary t E w =
    (Inr \<lparr>totalDocuments = int (length (live_documents t (w_db w))),
          byStatus = map (\<lambda>st. (st, int (length (filter (\<lambda>r. dc_expiryStatus r = st) (live_documents t (w_db w))))))
            ALL_EXPIRY_STATUSES\<rparr>, w\<lparr>w_ext := x\<rparr>)"
proof -
  let ?ls = "live_documents t (w_db w)"
  let ?rows = "group_count dc_expiryStatus ?ls"
  let ?s = "add_counts ?rows \<lparr>totalDocuments = 0, byStatus = map (\<lambda>status. (status, 0)) ALL_EXPIRY_STATUSES\<rparr>"
  have "distinct (map fst ?rows)" by (simp add: group_count_keys)
  then have "byStatus ?s = map (\<lambda>st. (st, int (length (filter (\<lambda>r. dc_expiryStatus r = st) ?ls)))) ALL_EXPIRY_STATUSES"
    by (auto simp: add_counts_byStatus map_of_group_count filter_empty_conv)
  moreover have "totalDocuments ?s = int (length ?ls)" by (simp add: add_counts_total group_count_total)
  ultimately have "?s = \<lparr>totalDocuments = int (length ?ls),
      byStatus = map (\<lambda>st. (st, int (length (filter (\<lambda>r. dc_expiryStatus r = st) ?ls)))) ALL_EXPIRY_STATUSES\<rparr>"
    by simp
  then show ?thesis
    using assms by (simp add: DashboardService_getSummary_def frame_simps document_counts_quiet extends_world)
qed

text \<open>
  The summary adds up: the total is the number of the tenant's live documents, each of the six
  statuses is there with the number of those that have it, the six numbers make up the total, and so do
  the rows of the statistics by type and status, each of which counts at least one document.
\<close>

lemma dashboard_adds_up:
  assumes "quiet E" and "quiet E'" and "t \<noteq> []"
  shows "\<exists>summary stats w1 w2. DashboardService_getSummary t E w = (Inr summary, w1) \<and> w_db w1 = w_db w
    \<and> DashboardService_getDocumentStats t E' w1 = (Inr stats, w2) \<and> w_db w2 = w_db w
    \<and> map fst (byStatus summary) = ALL_EXPIRY_STATUSES
    \<and> (\<forall>st. map_of (byStatus summary) st = Some (int (length (filter (\<lambda>r. dc_expiryStatus r = st) (live_documents t (w_db w))))))
    \<and> totalDocuments summary = int (length (live_documents t (w_db w)))
    \<and> sum_list (map snd (byStatus summary)) = totalDocuments summary
    \<and> sum_list (map st_count stats) = totalDocuments summary
    \<and> list_all (\<lambda>row. 1 \<le> st_count row) stats"
proof -
  let ?ls = "live_documents t (w_db w)"
  let ?key = "\<lambda>r. (dc_docType r, dc_expiryStatus r)"
  let ?stats = "map (\<lambda>((ty, st), k). \<lparr>st_docType = ty, st_expiryStatus = st, st_count = k\<rparr>) (group_count ?key ?ls)"
  obtain x where 1: "DashboardService_getSummary t E w = (Inr \<lparr>totalDocuments = int (length ?ls),
      byStatus = map (\<lambda>st. (st, int (length (filter (\<lambda>r. dc_expiryStatus r = st) ?ls)))) ALL_EXPIRY_STATUSES\<rparr>, w\<lparr>w_ext := x\<rparr>)"
    (is "_ = (Inr ?sum, _)") using getSummary_run [OF assms(1,3)] by blast
  obtain y where 2: "DashboardService_getDocumentStats t E' (w\<lparr>w_ext := x\<rparr>) = (Inr ?stats, w\<lparr>w_ext := y\<rparr>)"
    using assms(2,3)
    by (auto simp: DashboardService_getDocumentStats_def frame_simps document_counts_quiet same_db_world)
  have "sum_list (map st_count ?stats) = sum_list (map snd (group_count ?key ?ls))"
    by (simp add: comp_def case_prod_unfold)
  then have a: "sum_list (map st_count ?stats) = int (length ?ls)" by (simp add: group_count_total)
  have b: "list_all (\<lambda>row. 1 \<le> st_count row) ?stats"
    by (auto simp: list_all_iff group_count_def Suc_le_eq int_one_le_iff_zero_less filter_empty_conv)
  have "int (length ls) = (\<Sum>st \<leftarrow> ALL_EXPIRY_STATUSES. int (length (filter (\<lambda>r. dc_expiryStatus r = st) ls)))" for ls
  proof (induction ls)
    case (Cons r ls)
    then show ?case by (cases "dc_expiryStatus r") (simp_all add: ALL_EXPIRY_STATUSES_def)
  qed (simp add: ALL_EXPIRY_STATUSES_def)
  from this [of ?ls] have c: "sum_list (map snd (byStatus ?sum)) = totalDocuments ?sum" by (simp add: comp_def)
  have d: "map_of (byStatus ?sum) st = Some (int (length (filter (\<lambda>r. dc_expiryStatus r = st) ?ls)))" for st
    by (cases st) (simp_all add: ALL_EXPIRY_STATUSES_def)
  show ?thesis
    by (intro exI conjI, rule 1, simp, rule 2) (use a b c d in \<open>simp_all add: comp_def\<close>)
qed

lemma dashboard_adds_up_witness:
  "\<exists>summary w1. DashboardService_getSummary acme sample_env sample_world = (Inr summary, w1)
     \<and> totalDocuments summary = 1 \<and> map_of (byStatus summary) VALID = Some 1 \<and> map_of (byStatus summary) EXPIRED = Some 0"
proof -
  have "live_documents acme (w_db sample_world) = [sample_document]"
    by code_simp
  then show ?thesis
    using dashboard_adds_up [OF quiet_sample quiet_sample, of acme sample_world]
    by (auto simp: sample_document_def)
qed

text \<open>
  The documents an expiring search is about, counted in days. The search reads the clock twice, for the
  first day of the window and for the last.
\<close>

definition expiring_within :: "uuid \<Rightarrow> instant \<Rightarrow> instant \<Rightarrow> int \<Rightarrow> document_type option \<Rightarrow> document_row \<Rightarrow> bool" where
  "expiring_within t now later days docType r \<longleftrightarrow>
     dc_tenantId r = t \<and> dc_deletedAt r = None
     \<and> (case dc_expiryDate r of None \<Rightarrow> False
        | Some e \<Rightarrow> (case (calendarDaysUntil (DStr e) now, calendarDaysUntil (DStr e) later) of
            (Some k, Some k') \<Rightarrow> 0 \<le> k \<and> k' \<le> days | _ \<Rightarrow> False))
     \<and> (docType = None \<or> docType = Some (dc_docType r))"

definition dates_readable :: "db \<Rightarrow> bool" where
  "dates_readable d \<longleftrightarrow> list_all (\<lambda>r. case dc_expiryDate r of None \<Rightarrow> True | Some e \<Rightarrow> pg_date e \<and> 100 \<le> undec (take 4 e)) (documents d)"

lemma expiring_filter_days:
  assumes "in_calendar now" "in_calendar later" "in_calendar (addDays later days)" "dates_readable d" "r \<in> set (documents d)"
  shows "expiring_filter t (toUtcDateString now) (toUtcDateString (addDays later days)) docType r
    = expiring_within t now later days docType r"
proof (cases "dc_expiryDate r")
  case (Some e)
  then have "pg_date e" "100 \<le> undec (take 4 e)" using assms(4,5) by (auto simp: dates_readable_def list_all_iff)
  then have "calendarDaysUntil (DStr e) now = Some (date_value e - day_of now)"
    "calendarDaysUntil (DStr e) later = Some (date_value e - day_of later)"
    using assms(1,2) by (auto intro!: pg_date_days simp: in_calendar_def)
  then show ?thesis
    using Some today_date(2) [OF assms(1)] today_date(2) [OF assms(3)]
    by (auto simp: expiring_filter_def expiring_within_def day_of_addDays split: option.split)
qed (simp add: expiring_filter_def expiring_within_def)

text \<open>
  C32. The expiring search by date strings is the search by days: with a clock in the years 100 to 9999
  and stored dates of these years, the total is the number of the tenant's live documents that have, by the
  count of UTC calendar days the expiry engine uses, no day less than zero left at the first reading of the
  clock and at most \<open>withinDays\<close> at the second; the rows are the page of these documents in an arrangement by
  their expiry dates, which is determined where the dates are distinct; and nothing is changed.
\<close>

theorem expiring_search_counts_days:
  fixes E :: env and w :: world
  defines "now \<equiv> e_clock E (x_tick (w_ext w))" and "later \<equiv> e_clock E (x_tick (w_ext w) + 1)"
  assumes "quiet E" and "t \<noteq> []" and "in_calendar now" and "in_calendar later" and "in_calendar (addDays later days)"
    and "dates_readable (w_db w)" and "1 \<le> page" and "0 \<le> limit" and "int8 limit" and "int8 ((page - 1) * limit)"
  shows "\<exists>w' hits. DashboardService_getExpiringDocuments t
      \<lparr>xp_withinDays = Some days, xp_docType = ty, xp_page = Some page, xp_limit = Some limit\<rparr> E w =
      (Inr (take (nat limit) (drop (nat ((page - 1) * limit)) hits), int (length hits)), w')
    \<and> mset hits = mset (filter (expiring_within t now later days ty) (documents (w_db w)))
    \<and> sorted (map expiry_key hits)
    \<and> (inj_on expiry_key (set hits) \<longrightarrow> hits = sort_key expiry_key (filter (expiring_within t now later days ty) (documents (w_db w))))
    \<and> w_db w' = w_db w"
proof -
  let ?f = "expiring_filter t (toUtcDateString now) (toUtcDateString (addDays later days)) ty"
  define found where "found = filter (expiring_within t now later days ty) (documents (w_db w))"
  define hits where "hits = sort_key expiry_key (scan_order E (x_tick (w_ext w) + 3) found)"
  have "visible_rows documents_t (Some t) ?f (w_db w) = found"
    using assms(4) expiring_filter_days [OF assms(5-8)] unfolding found_def
    by (auto simp: visible_rows_def rls_visible_def expiring_within_def intro!: filter_cong)
  moreover have "0 \<le> (page - 1) * limit" using assms(9,10) by simp
  ultimately have run: "\<exists>w'. DashboardService_getExpiringDocuments t
      \<lparr>xp_withinDays = Some days, xp_docType = ty, xp_page = Some page, xp_limit = Some limit\<rparr> E w =
      (Inr (take (nat limit) (drop (nat ((page - 1) * limit)) hits), int (length hits)), w') \<and> w_db w' = w_db w"
    using assms(3,10-12) today_date(1) [OF assms(5)] today_date(1) [OF assms(7)]
    by (simp add: DashboardService_getExpiringDocuments_def io_next_Date_def io_new_Date_def iobind_def Let_def frame_simps
        select_page_quiet select_count_quiet limit_offset_def now_def later_def hits_def numeral_eq_Suc)
  have "mset hits = mset found" "sorted (map expiry_key hits)" by (simp_all add: hits_def)
  moreover have "inj_on expiry_key (set hits) \<longrightarrow> hits = sort_key expiry_key found"
    using mset_eq_setD [OF calculation(1)] by (simp add: hits_def page_rows)
  ultimately show ?thesis using run unfolding found_def by blast
qed

theorem expiring_search_counts_days_witness:
  "\<exists>w'. DashboardService_getExpiringDocuments acme
      \<lparr>xp_withinDays = Some 30, xp_docType = None, xp_page = Some 1, xp_limit = Some 20\<rparr> sample_env
      (sample_world\<lparr>w_db := expiring_db\<rparr>) = (Inr (documents expiring_db, 1), w')"
proof -
  have c: "in_calendar (e_clock sample_env 0)" "in_calendar (e_clock sample_env 1)" "in_calendar (addDays (e_clock sample_env 1) 30)"
    "dates_readable expiring_db"
    "filter (expiring_within acme (e_clock sample_env 0) (e_clock sample_env 1) 30 None) (documents expiring_db) = documents expiring_db"
    "length (documents expiring_db) = 1" "int8 20" "int8 0"
    by code_simp+
  have one: "hits = documents expiring_db" if "mset hits = mset (documents expiring_db)" for hits
    using that c(6) by (cases "documents expiring_db") auto
  have n: "x_tick (w_ext (sample_world\<lparr>w_db := expiring_db\<rparr>)) = 0" by (simp add: sample_world_def sample_ext_def)
  obtain w' hits where r: "DashboardService_getExpiringDocuments acme
      \<lparr>xp_withinDays = Some 30, xp_docType = None, xp_page = Some 1, xp_limit = Some 20\<rparr> sample_env
      (sample_world\<lparr>w_db := expiring_db\<rparr>) = (Inr (take 20 hits, int (length hits)), w')"
    and m: "mset hits = mset (filter (expiring_within acme (e_clock sample_env 0) (e_clock sample_env 1) 30 None) (documents expiring_db))"
    using expiring_search_counts_days [OF quiet_sample, of acme "sample_world\<lparr>w_db := expiring_db\<rparr>" 30 1 20 None] c
    by (auto simp: n simp del: mset_filter)
  show ?thesis using r one [OF m [unfolded c(5)]] c(6) by auto
qed

end
