(* ===== verification/HttpErrors.thy ===== *)
theory HttpErrors
  imports Access
begin

text \<open>
  The global exception filter, \<open>apps/api/src/filters/http-exception.filter.ts\<close>: what a client sees of
  an exception. \<open>nest_body\<close> is the response body the NestJS library builds for an exception made from
  a status and a message text; a body given as an object is returned as it is. \<open>filter_shape\<close> gives the
  body of every branch; \<open>Pipeline\<close> says what of it the exceptions of the program can reach.
\<close>

fun error_name :: "nat \<Rightarrow> string option" where
  "error_name st =
     (if st = 400 then Some ''VALIDATION_ERROR'' else if st = 401 then Some ''UNAUTHORIZED''
      else if st = 403 then Some ''FORBIDDEN'' else if st = 404 then Some ''NOT_FOUND''
      else if st = 409 then Some ''CONFLICT'' else None)"

text \<open>\<open>extra.key\<close> in a \<open>??\<close> chain: absent and null alike are nothing.\<close>

definition defined_field :: "(string \<times> json) list \<Rightarrow> string \<Rightarrow> json option" where
  "defined_field extra key = (case map_of extra key of Some JNull \<Rightarrow> None | r \<Rightarrow> r)"

definition HttpExceptionFilter_catch ::
  "(nat \<Rightarrow> string \<Rightarrow> (string \<times> json) list) \<Rightarrow> exn \<Rightarrow> string option \<Rightarrow> instant \<Rightarrow> nat \<times> (string \<times> json) list" where
  "HttpExceptionFilter_catch nest_body exception reqId now =
     (let requestId = nullish reqId ''unknown''; timestamp = toISOString now
      in case exception of
           HttpEx status body \<Rightarrow>
             (let errorName = nullish (error_name status) ''ERROR'';
                  extra = (case body of Custom obj \<Rightarrow> obj | Message msg \<Rightarrow> nest_body status msg);
                  payload = [(''error'', JStr errorName), (''code'', JStr (''E'' @ dec status)),
                             (''requestId'', JStr requestId), (''timestamp'', JStr timestamp)];
                  details = (if status = 400
                    then [(''details'', nullish (nullish_opt (defined_field extra ''fieldErrors'')
                             (defined_field extra ''formErrors'')) (JObj extra))]
                    else []);
                  detail = (if status = 409 \<and> ''detail'' \<in> fst ` set extra
                    then [(''detail'', the (map_of extra ''detail''))] else [])
              in (status, payload @ details @ detail))
         | _ \<Rightarrow> (500, [(''error'', JStr ''INTERNAL_ERROR''), (''code'', JStr ''E500''),
                         (''requestId'', JStr requestId), (''timestamp'', JStr timestamp)]))"

section \<open>Properties\<close>

text \<open>
  No internal failure shows: a database error and any other error that is no HTTP exception are
  answered alike, whatever they say, by the 500 whose body holds the request id and the time only.
\<close>

lemma filter_hides_internals:
  assumes "\<forall>st b. e1 \<noteq> HttpEx st b" and "\<forall>st b. e2 \<noteq> HttpEx st b"
  shows "HttpExceptionFilter_catch nest_body e1 rid now = HttpExceptionFilter_catch nest_body e2 rid now
    \<and> fst (HttpExceptionFilter_catch nest_body e1 rid now) = 500"
  using assms by (cases e1; cases e2) (simp_all add: HttpExceptionFilter_catch_def Let_def)

lemma filter_hides_internals_witness:
  "HttpExceptionFilter_catch (\<lambda>_ _. []) (DbError ''23503'') None 0
     = HttpExceptionFilter_catch (\<lambda>_ _. []) (JsError ''secret path /srv'') None 0"
  using filter_hides_internals [of "DbError ''23503''" "JsError ''secret path /srv''" "\<lambda>_ _. []" None 0] by simp

text \<open>
  The body of every error answer: it is made of the status, the request id and the time, to which only a 400
  adds details and only a 409 a detail; nothing else of the exception is in it.
\<close>

fun error_title :: "exn \<Rightarrow> string" where
  "error_title (HttpEx st body) = nullish (error_name st) ''ERROR''"
| "error_title (DbError c) = ''INTERNAL_ERROR''"
| "error_title (JsError m) = ''INTERNAL_ERROR''"

fun error_status :: "exn \<Rightarrow> nat" where
  "error_status (HttpEx st body) = st"
| "error_status (DbError c) = 500"
| "error_status (JsError m) = 500"

fun exn_extra :: "(nat \<Rightarrow> string \<Rightarrow> (string \<times> json) list) \<Rightarrow> exn \<Rightarrow> (string \<times> json) list" where
  "exn_extra nest_body (HttpEx st (Custom b)) = b"
| "exn_extra nest_body (HttpEx st (Message m)) = nest_body st m"
| "exn_extra nest_body (DbError c) = []"
| "exn_extra nest_body (JsError m) = []"

lemma filter_shape:
  "HttpExceptionFilter_catch nest_body e rid now =
    (error_status e, [(''error'', JStr (error_title e)), (''code'', JStr (''E'' @ dec (error_status e))),
       (''requestId'', JStr (nullish rid ''unknown'')), (''timestamp'', JStr (toISOString now))] @
      (if error_status e = 400
       then [(''details'', nullish (nullish_opt (defined_field (exn_extra nest_body e) ''fieldErrors'')
          (defined_field (exn_extra nest_body e) ''formErrors'')) (JObj (exn_extra nest_body e)))]
       else []) @
      (if error_status e = 409 \<and> ''detail'' \<in> fst ` set (exn_extra nest_body e)
       then [(''detail'', the (map_of (exn_extra nest_body e) ''detail''))] else []))"
proof -
  have "dec 500 = ''500''" by code_simp
  then show ?thesis
    by (cases "(nest_body, e)" rule: exn_extra.cases) (auto simp: HttpExceptionFilter_catch_def Let_def)
qed

text \<open>
  What a client reads of a lost race or a duplicate: the conflicts of the employee and the document
  services are a 409 whose body names CONFLICT and carries exactly the detail the service gave.
\<close>

lemma conflict_answers:
  "HttpExceptionFilter_catch nest_body employee_conflict (Some rid) now =
     (409, [(''error'', JStr ''CONFLICT''), (''code'', JStr ''E409''), (''requestId'', JStr rid),
            (''timestamp'', JStr (toISOString now)), (''detail'', JStr ''version_mismatch'')])
   \<and> HttpExceptionFilter_catch nest_body document_conflict (Some rid) now
     = HttpExceptionFilter_catch nest_body employee_conflict (Some rid) now
   \<and> snd (HttpExceptionFilter_catch nest_body duplicate_code (Some rid) now) =
      [(''error'', JStr ''CONFLICT''), (''code'', JStr ''E409''), (''requestId'', JStr rid),
       (''timestamp'', JStr (toISOString now)), (''detail'', JStr ''duplicate_code'')]"
proof -
  have d: "dec 409 = ''409''" by code_simp
  show ?thesis
    by (simp add: HttpExceptionFilter_catch_def employee_conflict_def document_conflict_def
        duplicate_code_def Let_def d)
qed

end
