(* ===== verification/Controllers.thy ===== *)
theory Controllers
  imports Imports Dashboard Notifications HttpErrors
begin

text \<open>
  The HTTP handlers: the controllers of \<open>employees\<close>, \<open>documents\<close>, \<open>notifications\<close>, \<open>dashboard\<close>,
  \<open>import-export\<close>, \<open>rbac\<close> and \<open>perf\<close>. A handler checks its parameters and body against their schemas,
  answers 400 with the flattened issues when one is refused, and calls its service for the tenant the
  guards put into the request. A route is the guards with the roles of its decorator, then the handler.
\<close>

section \<open>Answers\<close>

record 'a reply =
  rp_data :: 'a
  rp_requestId :: "string option"

record 'a page_reply =
  pg_data :: "'a list"
  pg_total :: int
  pg_page :: int
  pg_limit :: int
  pg_tenant_id :: "uuid option"
  pg_requestId :: "string option"

definition reply_to :: "request \<Rightarrow> 'a \<Rightarrow> 'a reply" where
  "reply_to req a = \<lparr>rp_data = a, rp_requestId = rq_requestId req\<rparr>"

definition tenant_of :: "request \<Rightarrow> uuid" where
  "tenant_of req = nullish (rq_tenantId req) ''''"

text \<open>\<open>schema.safeParse(value)\<close> and the 400 of a failure.\<close>

definition parse_or_400 :: "zod_parser \<Rightarrow> zod_schema \<Rightarrow> json option \<Rightarrow> zod_data io" where
  "parse_or_400 zod schema v =
     (case zod schema v of
        Inl err \<Rightarrow> iothrow (BadRequestException (Custom (ze_flat err)))
      | Inr data \<Rightarrow> ioreturn data)"

definition page_of :: "zod_data \<Rightarrow> int" where
  "page_of data = nullish (get_int data ''page'') 0"

definition limit_of :: "zod_data \<Rightarrow> int" where
  "limit_of data = nullish (get_int data ''limit'') 0"

definition param_id :: "zod_data \<Rightarrow> string" where
  "param_id data = nullish (get_str data ''id'') ''''"

section \<open>Employees\<close>

definition EmployeesController_create :: "zod_parser \<Rightarrow> json option \<Rightarrow> request \<Rightarrow> employee_row reply io" where
  "EmployeesController_create zod body req =
     iobind (parse_or_400 zod createEmployeeSchema body)
       (\<lambda>data. iobind (ioresult (buildAuditContext req))
         (\<lambda>ctx. iobind (EmployeesService_create (tenant_of req) (create_employee_of data) ctx)
           (\<lambda>employee. ioreturn (reply_to req employee))))"

definition EmployeesController_findAll ::
  "(string \<Rightarrow> string \<Rightarrow> bool) \<Rightarrow> zod_parser \<Rightarrow> json option \<Rightarrow> request \<Rightarrow> employee_row page_reply io" where
  "EmployeesController_findAll fts zod query req =
     iobind (parse_or_400 zod searchSchema query)
       (\<lambda>data. iobind (EmployeesService_findAll fts (tenant_of req) (employee_search_of data))
         (\<lambda>(rows, total). ioreturn \<lparr>pg_data = rows, pg_total = total, pg_page = page_of data, pg_limit = limit_of data,
            pg_tenant_id = Some (tenant_of req), pg_requestId = rq_requestId req\<rparr>))"

definition EmployeesController_findOne :: "zod_parser \<Rightarrow> json option \<Rightarrow> request \<Rightarrow> employee_row reply io" where
  "EmployeesController_findOne zod params req =
     iobind (parse_or_400 zod idParamSchema params)
       (\<lambda>data. iobind (EmployeesService_findOne (tenant_of req) (param_id data))
         (\<lambda>employee. ioreturn (reply_to req employee)))"

definition EmployeesController_update ::
  "zod_parser \<Rightarrow> json option \<Rightarrow> json option \<Rightarrow> request \<Rightarrow> employee_row reply io" where
  "EmployeesController_update zod params body req =
     iobind (parse_or_400 zod idParamSchema params)
       (\<lambda>p. iobind (parse_or_400 zod updateEmployeeSchema body)
         (\<lambda>data. iobind (ioresult (buildAuditContext req))
           (\<lambda>ctx. iobind (EmployeesService_update (tenant_of req) (param_id p) (update_employee_of data) ctx)
             (\<lambda>employee. ioreturn (reply_to req employee)))))"

definition EmployeesController_archive :: "zod_parser \<Rightarrow> json option \<Rightarrow> request \<Rightarrow> (uuid \<times> string) reply io" where
  "EmployeesController_archive zod params req =
     iobind (parse_or_400 zod idParamSchema params)
       (\<lambda>p. iobind (ioresult (buildAuditContext req))
         (\<lambda>ctx. iobind (EmployeesService_archive (tenant_of req) (param_id p) ctx)
           (\<lambda>result. ioreturn (reply_to req result))))"

section \<open>Documents\<close>

definition DocumentsController_findAll :: "zod_parser \<Rightarrow> json option \<Rightarrow> request \<Rightarrow> document_row page_reply io" where
  "DocumentsController_findAll zod query req =
     iobind (parse_or_400 zod listSchema query)
       (\<lambda>data. iobind (DocumentsService_findAll (tenant_of req) (document_search_of data))
         (\<lambda>(rows, total). ioreturn \<lparr>pg_data = rows, pg_total = total, pg_page = page_of data, pg_limit = limit_of data,
            pg_tenant_id = None, pg_requestId = rq_requestId req\<rparr>))"

definition DocumentsController_update ::
  "zod_parser \<Rightarrow> json option \<Rightarrow> json option \<Rightarrow> request \<Rightarrow> document_row reply io" where
  "DocumentsController_update zod params body req =
     iobind (parse_or_400 zod idParamSchema params)
       (\<lambda>p. iobind (parse_or_400 zod updateDocumentSchema body)
         (\<lambda>data. iobind (ioresult (buildAuditContext req))
           (\<lambda>ctx. iobind (DocumentsService_update (tenant_of req) (param_id p) (update_document_of data) ctx)
             (\<lambda>document. ioreturn (reply_to req document)))))"

definition DocumentsController_archive :: "zod_parser \<Rightarrow> json option \<Rightarrow> request \<Rightarrow> (uuid \<times> string) reply io" where
  "DocumentsController_archive zod params req =
     iobind (parse_or_400 zod idParamSchema params)
       (\<lambda>p. iobind (ioresult (buildAuditContext req))
         (\<lambda>ctx. iobind (DocumentsService_archive (tenant_of req) (param_id p) ctx)
           (\<lambda>result. ioreturn (reply_to req result))))"

definition employee_id_param :: "zod_data \<Rightarrow> string" where
  "employee_id_param data = nullish (get_str data ''employeeId'') ''''"

definition EmployeeDocumentsController_create ::
  "zod_parser \<Rightarrow> json option \<Rightarrow> json option \<Rightarrow> request \<Rightarrow> document_row reply io" where
  "EmployeeDocumentsController_create zod params body req =
     iobind (parse_or_400 zod employeeIdParamSchema params)
       (\<lambda>p. iobind (parse_or_400 zod createDocumentSchema body)
         (\<lambda>data. iobind (ioresult (buildAuditContext req))
           (\<lambda>ctx. iobind (DocumentsService_create (tenant_of req) (employee_id_param p)
                (create_document_of (employee_id_param p) data) ctx)
             (\<lambda>document. ioreturn (reply_to req document)))))"

definition EmployeeDocumentsController_findAll :: "zod_parser \<Rightarrow> json option \<Rightarrow> request \<Rightarrow> document_row list reply io" where
  "EmployeeDocumentsController_findAll zod params req =
     iobind (parse_or_400 zod employeeIdParamSchema params)
       (\<lambda>p. iobind (DocumentsService_findAllForEmployee (tenant_of req) (employee_id_param p))
         (\<lambda>rows. ioreturn (reply_to req rows)))"

section \<open>Notifications\<close>

definition NotificationPoliciesController_get :: "request \<Rightarrow> policy_view reply io" where
  "NotificationPoliciesController_get req =
     iobind (NotificationPoliciesService_getOrDefault (tenant_of req)) (\<lambda>policy. ioreturn (reply_to req policy))"

definition update_policy_of :: "zod_data \<Rightarrow> update_policy_dto" where
  "update_policy_of data = \<lparr>up_reminderDaysBefore = get_ints data ''reminderDaysBefore'',
     up_emailFrom = get_str data ''emailFrom'', up_emailTemplateId = get_str data ''emailTemplateId'',
     up_enabled = get_bool data ''enabled''\<rparr>"

definition NotificationPoliciesController_update ::
  "zod_parser \<Rightarrow> json option \<Rightarrow> request \<Rightarrow> notification_policy_row reply io" where
  "NotificationPoliciesController_update zod body req =
     iobind (parse_or_400 zod updateNotificationPolicySchema body)
       (\<lambda>data. iobind (ioresult (buildAuditContext req))
         (\<lambda>ctx. iobind (NotificationPoliciesService_update (tenant_of req) (update_policy_of data) ctx)
           (\<lambda>policy. ioreturn (reply_to req policy))))"

definition NotificationLogController_stats :: "zod_parser \<Rightarrow> json option \<Rightarrow> request \<Rightarrow> log_stats reply io" where
  "NotificationLogController_stats zod query req =
     iobind (parse_or_400 zod statsQuerySchema query)
       (\<lambda>data. iobind (NotificationLogService_getStats (tenant_of req) (nullish (get_int data ''windowHours'') 0))
         (\<lambda>st. ioreturn (reply_to req st)))"

section \<open>Dashboard\<close>

definition DashboardController_summary :: "request \<Rightarrow> dashboard_summary reply io" where
  "DashboardController_summary req =
     iobind (DashboardService_getSummary (tenant_of req)) (\<lambda>data. ioreturn (reply_to req data))"

definition DashboardController_documentStats :: "request \<Rightarrow> document_stats_row list reply io" where
  "DashboardController_documentStats req =
     iobind (DashboardService_getDocumentStats (tenant_of req)) (\<lambda>data. ioreturn (reply_to req data))"

definition expiring_params_of :: "zod_data \<Rightarrow> expiring_params" where
  "expiring_params_of data = \<lparr>xp_withinDays = get_int data ''withinDays'',
     xp_docType = of_text document_type_text all_document_types (get_str data ''docType''),
     xp_page = get_int data ''page'', xp_limit = get_int data ''limit''\<rparr>"

definition DashboardController_expiring :: "zod_parser \<Rightarrow> json option \<Rightarrow> request \<Rightarrow> document_row page_reply io" where
  "DashboardController_expiring zod query req =
     iobind (parse_or_400 zod expiringSchema query)
       (\<lambda>data. iobind (DashboardService_getExpiringDocuments (tenant_of req) (expiring_params_of data))
         (\<lambda>(rows, total). ioreturn \<lparr>pg_data = rows, pg_total = total, pg_page = page_of data, pg_limit = limit_of data,
            pg_tenant_id = None, pg_requestId = rq_requestId req\<rparr>))"

section \<open>Import and export\<close>

record 'file upload =
  up_originalname :: string
  up_mimetype :: string
  up_buffer :: 'file

definition XLSX_MIME_TYPE :: string where
  "XLSX_MIME_TYPE = ''application/vnd.openxmlformats-officedocument.spreadsheetml.sheet''"

definition endsWith :: "string \<Rightarrow> string \<Rightarrow> bool" where
  "endsWith s p \<longleftrightarrow> length p \<le> length s \<and> drop (length s - length p) s = p"

record import_reply =
  imr_data :: import_batch_row
  imr_errors :: "import_row_error list"
  imr_requestId :: "string option"

text \<open>
  \<open>FileInterceptor('file', { limits: { fileSize } })\<close> in front of the handler: multer takes the file from the
  request or refuses it, and the interceptor turns a file over the limit into the 413, a request that is no
  proper form into a 400, and throws any other failure of the upload as it is.
\<close>

definition MAX_FILE_SIZE_BYTES :: nat where
  "MAX_FILE_SIZE_BYTES = 5 * 1024 * 1024"

datatype upload_error = FileTooLarge | BadMultipart string | UploadFailed string

fun upload_exception :: "upload_error \<Rightarrow> exn" where
  "upload_exception FileTooLarge = HttpEx 413 (Message ''File too large'')"
| "upload_exception (BadMultipart msg) = BadRequestException (Message msg)"
| "upload_exception (UploadFailed msg) = JsError msg"

type_synonym 'file multer = "nat \<Rightarrow> 'file upload option \<Rightarrow> upload_error option"

definition ImportExportController_importEmployees ::
  "'file multer \<Rightarrow> ('file \<Rightarrow> string) \<Rightarrow> ('file \<Rightarrow> worksheet list option) \<Rightarrow> zod_parser \<Rightarrow> (string \<Rightarrow> string)
    \<Rightarrow> 'file upload option \<Rightarrow> request \<Rightarrow> import_reply io" where
  "ImportExportController_importEmployees multer digest load zod dm upload req =
     (case multer MAX_FILE_SIZE_BYTES upload of
        Some err \<Rightarrow> iothrow (upload_exception err)
      | None \<Rightarrow>
     (case upload of
        None \<Rightarrow> iothrow (BadRequestException (Message ''No file uploaded (expected multipart field \"file\")''))
      | Some f \<Rightarrow>
          if \<not> endsWith (map ascii_lower (up_originalname f)) ''.xlsx'' \<or> up_mimetype f \<noteq> XLSX_MIME_TYPE
          then iothrow (BadRequestException (Message ''Only .xlsx files are accepted''))
          else iobind (ioresult (buildAuditContext req))
            (\<lambda>ctx. iobind (ImportService_importEmployees digest load zod dm (tenant_of req) (up_buffer f)
                (nullish (case rq_auth req of None \<Rightarrow> None | Some a \<Rightarrow> jp_sub a) '''') ctx)
              (\<lambda>(batch, errors). ioreturn \<lparr>imr_data = batch, imr_errors = errors, imr_requestId = rq_requestId req\<rparr>))))"

definition ImportExportController_getImportBatch :: "zod_parser \<Rightarrow> json option \<Rightarrow> request \<Rightarrow> import_batch_row reply io" where
  "ImportExportController_getImportBatch zod params req =
     iobind (parse_or_400 zod idParamSchema params)
       (\<lambda>data. iobind (ImportService_findBatch (tenant_of req) (param_id data))
         (\<lambda>batch. case batch of
            None \<Rightarrow> iothrow (NotFoundException (Message ''Import batch not found''))
          | Some b \<Rightarrow> ioreturn (reply_to req b)))"

definition ImportExportController_exportEmployees :: "(worksheet list \<Rightarrow> 'file) \<Rightarrow> request \<Rightarrow> 'file io" where
  "ImportExportController_exportEmployees write req = ExportService_exportEmployees write (tenant_of req)"

section \<open>Test and measurement endpoints\<close>

definition TestController_write :: bool where
  "TestController_write = True"

text \<open>
  \<open>PerfController.rawQuery\<close>: all employees of all tenants over a connection that bypasses the policies,
  only in a test environment.
\<close>

definition PerfController_rawQuery :: "string option \<Rightarrow> string option \<Rightarrow> (employee_row list \<times> int) io" where
  "PerfController_rawQuery nodeEnv migrationUrl E w =
     (if nodeEnv \<noteq> Some ''test'' then (Inl (ForbiddenException (Message ''perf endpoints are test-only'')), w)
      else if \<not> truthy migrationUrl then (Inl (JsError ''DATABASE_MIGRATION_URL is not set''), w)
      else case e_fault E (x_tick (w_ext w)) of
          Some c \<Rightarrow> (Inl (DbError c), w\<lparr>w_ext := tick (w_ext w)\<rparr>)
        | None \<Rightarrow> (Inr (employees (w_db w), int (length (employees (w_db w)))), w\<lparr>w_ext := tick (w_ext w)\<rparr>))"

section \<open>Routes\<close>

text \<open>The libraries the routes are built from, and the settings of the process.\<close>

record 'file libs =
  lb_jwtVerify :: jwt_verify
  lb_is_url :: "string \<Rightarrow> bool"
  lb_settings :: auth_settings
  lb_jwks :: "string option"
  lb_fts :: "string \<Rightarrow> string \<Rightarrow> bool"
  lb_zod :: zod_parser
  lb_multer :: "'file multer"
  lb_digest :: "'file \<Rightarrow> string"
  lb_load :: "'file \<Rightarrow> worksheet list option"
  lb_write :: "worksheet list \<Rightarrow> 'file"
  lb_message :: "string \<Rightarrow> string"

text \<open>The protected routes, with what a client sends to each.\<close>

datatype 'file api_call =
    CreateEmployee "json option"
  | SearchEmployees "json option"
  | GetEmployee "json option"
  | UpdateEmployee "json option" "json option"
  | ArchiveEmployee "json option"
  | CreateDocument "json option" "json option"
  | EmployeeDocuments "json option"
  | ListDocuments "json option"
  | UpdateDocument "json option" "json option"
  | ArchiveDocument "json option"
  | GetNotificationPolicy
  | UpdateNotificationPolicy "json option"
  | NotificationStats "json option"
  | DashboardSummary
  | DashboardDocumentStats
  | DashboardExpiring "json option"
  | ImportEmployees "'file upload option"
  | GetImportBatch "json option"
  | ExportEmployees
  | TestWrite
  | TestAdmin

text \<open>The \<open>@Roles\<close> of the handlers.\<close>

fun required_roles :: "'file api_call \<Rightarrow> role list" where
  "required_roles (CreateEmployee _) = [HrStaff]"
| "required_roles (SearchEmployees _) = [Viewer]"
| "required_roles (GetEmployee _) = [Viewer]"
| "required_roles (UpdateEmployee _ _) = [HrStaff]"
| "required_roles (ArchiveEmployee _) = [HrManager]"
| "required_roles (CreateDocument _ _) = [HrStaff]"
| "required_roles (EmployeeDocuments _) = [Viewer]"
| "required_roles (ListDocuments _) = [Viewer]"
| "required_roles (UpdateDocument _ _) = [HrStaff]"
| "required_roles (ArchiveDocument _) = [HrManager]"
| "required_roles GetNotificationPolicy = [TenantAdmin]"
| "required_roles (UpdateNotificationPolicy _) = [TenantAdmin]"
| "required_roles (NotificationStats _) = [TenantAdmin]"
| "required_roles DashboardSummary = [Viewer]"
| "required_roles DashboardDocumentStats = [Viewer]"
| "required_roles (DashboardExpiring _) = [Viewer]"
| "required_roles (ImportEmployees _) = [HrStaff]"
| "required_roles (GetImportBatch _) = [HrStaff]"
| "required_roles ExportEmployees = [HrManager]"
| "required_roles TestWrite = [HrStaff]"
| "required_roles TestAdmin = [TenantAdmin]"

definition done_with :: "'a io \<Rightarrow> unit io" where
  "done_with m = iobind m (\<lambda>_. ioreturn ())"

text \<open>The handler of a route, its answer dropped.\<close>

fun handle :: "'file libs \<Rightarrow> 'file api_call \<Rightarrow> request \<Rightarrow> unit io" where
  "handle L (CreateEmployee b) req = done_with (EmployeesController_create (lb_zod L) b req)"
| "handle L (SearchEmployees q) req = done_with (EmployeesController_findAll (lb_fts L) (lb_zod L) q req)"
| "handle L (GetEmployee p) req = done_with (EmployeesController_findOne (lb_zod L) p req)"
| "handle L (UpdateEmployee p b) req = done_with (EmployeesController_update (lb_zod L) p b req)"
| "handle L (ArchiveEmployee p) req = done_with (EmployeesController_archive (lb_zod L) p req)"
| "handle L (CreateDocument p b) req = done_with (EmployeeDocumentsController_create (lb_zod L) p b req)"
| "handle L (EmployeeDocuments p) req = done_with (EmployeeDocumentsController_findAll (lb_zod L) p req)"
| "handle L (ListDocuments q) req = done_with (DocumentsController_findAll (lb_zod L) q req)"
| "handle L (UpdateDocument p b) req = done_with (DocumentsController_update (lb_zod L) p b req)"
| "handle L (ArchiveDocument p) req = done_with (DocumentsController_archive (lb_zod L) p req)"
| "handle L GetNotificationPolicy req = done_with (NotificationPoliciesController_get req)"
| "handle L (UpdateNotificationPolicy b) req = done_with (NotificationPoliciesController_update (lb_zod L) b req)"
| "handle L (NotificationStats q) req = done_with (NotificationLogController_stats (lb_zod L) q req)"
| "handle L DashboardSummary req = done_with (DashboardController_summary req)"
| "handle L DashboardDocumentStats req = done_with (DashboardController_documentStats req)"
| "handle L (DashboardExpiring q) req = done_with (DashboardController_expiring (lb_zod L) q req)"
| "handle L (ImportEmployees f) req = done_with
     (ImportExportController_importEmployees (lb_multer L) (lb_digest L) (lb_load L) (lb_zod L) (lb_message L) f req)"
| "handle L (GetImportBatch p) req = done_with (ImportExportController_getImportBatch (lb_zod L) p req)"
| "handle L ExportEmployees req = done_with (ImportExportController_exportEmployees (lb_write L) req)"
| "handle L TestWrite req = ioreturn ()"
| "handle L TestAdmin req = ioreturn ()"

definition serve :: "'file libs \<Rightarrow> 'file api_call \<Rightarrow> request \<Rightarrow> unit io" where
  "serve L call req =
     iobind (guards (lb_jwtVerify L) (lb_is_url L) (lb_settings L) (lb_jwks L) (Some (required_roles call)) req) (handle L call)"

section \<open>What every route keeps\<close>

lemma unchanged_rel:
  assumes "io_rel (\<lambda>d d'. d' = d) m"
  shows "io_rel (same_for_others t) m" "io_rel history m"
  using assms iso.R_refl hist.R_refl unfolding io_rel_def by metis+

lemma parse_or_400_rel [io_intros]:
  "io_rel (same_for_others t) (parse_or_400 zod sch v)" "io_rel history (parse_or_400 zod sch v)"
  unfolding parse_or_400_def by (auto intro!: io_intros)

lemmas controller_defs = EmployeesController_create_def EmployeesController_findAll_def EmployeesController_findOne_def
  EmployeesController_update_def EmployeesController_archive_def EmployeeDocumentsController_create_def
  EmployeeDocumentsController_findAll_def DocumentsController_findAll_def DocumentsController_update_def
  DocumentsController_archive_def NotificationPoliciesController_get_def NotificationPoliciesController_update_def
  NotificationLogController_stats_def DashboardController_summary_def DashboardController_documentStats_def
  DashboardController_expiring_def ImportExportController_importEmployees_def
  ImportExportController_getImportBatch_def ImportExportController_exportEmployees_def done_with_def

lemmas reads_keep = policy_reads_only dashboard_reads_only export_reads_only find_batch_reads_only

lemma handle_iso: "io_rel (same_for_others (tenant_of req)) (handle L call req)"
  by (cases call)
    (auto simp: controller_defs intro!: io_intros policy_update_iso import_iso intro: reads_keep [THEN unchanged_rel(1)])

lemma handle_hist: "io_rel history (handle L call req)"
  by (cases call)
    (auto simp: controller_defs intro!: io_intros policy_update_hist import_hist intro: reads_keep [THEN unchanged_rel(2)])

text \<open>A request that the guards turn away changes no row.\<close>

lemma guards_read_only: "w_db (snd (guards jv iu cfg jwks required req E w)) = w_db w"
proof -
  have "io_rel (\<lambda>d d'. d' = d) (guards jv iu cfg jwks required req)"
    unfolding guards_def TenantMiddleware_canActivate_def resolveActiveTenantId_def Let_def
    by (auto split: prod.split intro!: unchanged.io_sum_rel unchanged.iobind_rel unchanged.io_query_tenants_rel
        unchanged.io_throw_rel unchanged.io_return_rel unchanged.io_if_rel)
  then show ?thesis by (simp add: io_rel_def)
qed

section \<open>Properties\<close>

lemma serve_parts:
  "serve L call req E w =
    (case guards (lb_jwtVerify L) (lb_is_url L) (lb_settings L) (lb_jwks L) (Some (required_roles call)) req E w of
       (Inl e, w1) \<Rightarrow> (Inl e, w1) | (Inr req2, w1) \<Rightarrow> handle L call req2 E w1)"
  by (simp add: serve_def iobind_def)

text \<open>
  C3. A request touches the rows of its own tenant only, whatever it asks for and whatever fails: it leaves
  the database as it was, or its header carried a token the verifier accepted, the token's claim is the
  slug of an active tenant, a role of the user opens the route, and the rows of all other tenants, of every
  table, are as they were; and in every case the request took nothing back that the system keeps for good.
\<close>

theorem request_touches_own_tenant:
  "let w' = snd (serve L call req E w)
   in history (w_db w) (w_db w')
    \<and> (w_db w' = w_db w
       \<or> (\<exists>header keys a t req2. rq_authorization req = Some (HStr header)
          \<and> lb_jwtVerify L (js_trim (drop 7 header)) keys (the (KEYCLOAK_ISSUER (lb_settings L)))
              [nullish (KEYCLOAK_CLIENT_ID (lb_settings L)) ''e0-api'', ''account''] = Inr a
          \<and> t \<in> set (tenants (w_db w)) \<and> tn_status t = TenantActive \<and> jp_org_slug a = Some (tn_slug t)
          \<and> rq_auth req2 = Some a \<and> RbacGuard_canActivate (Some (required_roles call)) req2 = Inr True
          \<and> same_for_others (tn_id t) (w_db w) (w_db w')))"
proof -
  let ?g = "guards (lb_jwtVerify L) (lb_is_url L) (lb_settings L) (lb_jwks L) (Some (required_roles call)) req E w"
  obtain r w1 where g: "?g = (r, w1)" by force
  have w1: "w_db w1 = w_db w" using guards_read_only [of "lb_jwtVerify L" "lb_is_url L"] g by (metis snd_conv)
  show ?thesis
  proof (cases r)
    case (Inl e)
    then show ?thesis using g w1 hist.R_refl by (simp add: serve_parts Let_def)
  next
    case (Inr req2)
    then have s: "serve L call req E w = handle L call req2 E w1" using g by (simp add: serve_parts)
    note G = guards_pass [OF g [unfolded Inr]]
    obtain header a keys t where t: "rq_authorization req = Some (HStr header)"
      "lb_jwtVerify L (js_trim (drop 7 header)) keys (the (KEYCLOAK_ISSUER (lb_settings L)))
         [nullish (KEYCLOAK_CLIENT_ID (lb_settings L)) ''e0-api'', ''account''] = Inr a"
      "t \<in> set (tenants (w_db w))" "tn_status t = TenantActive" "jp_org_slug a = Some (tn_slug t)"
      "rq_auth req2 = Some a" "rq_tenantId req2 = Some (tn_id t)"
      "RbacGuard_canActivate (Some (required_roles call)) req2 = Inr True"
      using G by blast
    have "same_for_others (tenant_of req2) (w_db w1) (w_db (snd (handle L call req2 E w1)))"
      using handle_iso [of req2 L call] by (simp add: io_rel_def)
    then have "same_for_others (tn_id t) (w_db w) (w_db (snd (handle L call req2 E w1)))"
      unfolding w1 using t(7) by (simp add: tenant_of_def)
    moreover have "history (w_db w1) (w_db (snd (handle L call req2 E w1)))"
      using handle_hist [of L call req2] by (simp add: io_rel_def)
    then have "history (w_db w) (w_db (snd (handle L call req2 E w1)))" unfolding w1 .
    ultimately show ?thesis using s t by (auto simp: Let_def)
  qed
qed

text \<open>
  What a paged route answers to a query, in any environment: the 400 of a refused query; otherwise a page of at
  most \<open>limit\<close> rows, or an error of the database, which there is none when the database \<open>works\<close> and the offset
  is one it can read.
\<close>

definition page_ok :: "'a page_reply \<Rightarrow> bool" where
  "page_ok r \<longleftrightarrow> int (length (pg_data r)) \<le> pg_limit r \<and> 1 \<le> pg_limit r \<and> pg_limit r \<le> 100 \<and> 1 \<le> pg_page r"

fun is_db_error :: "exn \<Rightarrow> bool" where
  "is_db_error (DbError c) = True"
| "is_db_error (HttpEx st b) = False"
| "is_db_error (JsError m) = False"

definition bounded_answer :: "bool \<Rightarrow> zod_error + zod_data \<Rightarrow> exn + 'a page_reply \<Rightarrow> bool" where
  "bounded_answer works parsed answer \<longleftrightarrow>
     (case parsed of
        Inl err \<Rightarrow> answer = Inl (BadRequestException (Custom (ze_flat err)))
      | Inr data \<Rightarrow> (let readable = int8 ((page_of data - 1) * limit_of data) in
          case answer of Inl e \<Rightarrow> is_db_error e \<and> \<not> (works \<and> readable) | Inr r \<Rightarrow> page_ok r \<and> readable))"

lemma page_fields_some:
  assumes "conforms T (s @ page_fields) data"
  obtains p l where "get_int data ''page'' = Some p" "get_int data ''limit'' = Some l" "1 \<le> p" "1 \<le> l" "l \<le> 100"
  using page_fields_bounds [OF assms] that
  by (cases "get_int data ''page''"; cases "get_int data ''limit''") auto

text \<open>The query of a page and its total, in any environment.\<close>

definition page_result :: "bool \<Rightarrow> int \<Rightarrow> int \<Rightarrow> exn + ('r list \<times> int) \<Rightarrow> bool" where
  "page_result works limit offset res \<longleftrightarrow>
     (case res of Inl e \<Rightarrow> is_db_error e \<and> \<not> (works \<and> int8 offset)
      | Inr (rows, n) \<Rightarrow> int (length rows) \<le> limit \<and> int8 offset)"

lemma page_query:
  assumes "0 \<le> limit" "limit \<le> 100" "0 \<le> offset"
  shows "page_result (quiet E \<and> b) limit offset (fst (transaction (tthen (setTenantContext t)
    (tbind (well_typed c b (select_page T p key limit offset))
      (\<lambda>rows. tbind (well_typed c b (select_count T p)) (\<lambda>total. treturn (rows, total))))) E w))"
  using assms
  by (auto simp: page_result_def transaction_def setTenantContext_def select_page_def select_count_def statement_def
      well_typed_def limit_offset_def int8_def quiet_def tx_simps Let_def split: option.split if_splits)

lemma findAll_pages:
  assumes "es_limit params = Some l" "es_page params = Some p" "0 \<le> l" "l \<le> 100" "1 \<le> p"
  shows "page_result (quiet E) l ((p - 1) * l) (fst (EmployeesService_findAll fts t params E w))"
  using assms page_query [of l "(p - 1) * l" E True t "''''" employees_t]
  by (simp add: EmployeesService_findAll_def Let_def)

lemma documents_findAll_pages:
  assumes "ds_limit params = Some l" "ds_page params = Some p" "0 \<le> l" "l \<le> 100" "1 \<le> p"
  shows "page_result (quiet E) l ((p - 1) * l) (fst (DocumentsService_findAll t params E w))"
  using assms page_query [of l "(p - 1) * l" E True t "''''" documents_t]
  by (simp add: DocumentsService_findAll_def Let_def)

lemma expiring_pages:
  fixes E :: env and w :: world
  defines "now \<equiv> e_clock E (x_tick (w_ext w))" and "later \<equiv> e_clock E (x_tick (w_ext w) + 1)"
  assumes "xp_limit params = Some l" "xp_page params = Some p" "xp_withinDays params = Some d" "0 \<le> l" "l \<le> 100" "1 \<le> p"
  shows "page_result (quiet E \<and> in_calendar now \<and> in_calendar (addDays later d)) l ((p - 1) * l)
    (fst (DashboardService_getExpiringDocuments t params E w))"
proof -
  let ?b = "pg_date (toUtcDateString now) \<and> pg_date (toUtcDateString (addDays later d))"
  have "page_result (quiet E \<and> ?b) l ((p - 1) * l) (fst (DashboardService_getExpiringDocuments t params E w))"
    using assms(3-) page_query [of l "(p - 1) * l" E ?b t "''22007''" documents_t
        "expiring_filter t (toUtcDateString now) (toUtcDateString (addDays later d)) (xp_docType params)" expiry_key
        "w\<lparr>w_ext := tick (w_ext w)\<rparr>"]
    by (simp add: DashboardService_getExpiringDocuments_def io_next_Date_def io_new_Date_def iobind_def Let_def now_def later_def)
  then show ?thesis
    using today_date(1) [of now] today_date(1) [of "addDays later d"] by (auto simp: page_result_def split: sum.splits)
qed

lemma parse_or_400_run:
  "iobind (parse_or_400 zod sch v) k E w =
    (case zod sch v of Inl err \<Rightarrow> (Inl (BadRequestException (Custom (ze_flat err))), w) | Inr data \<Rightarrow> k data E w)"
  by (simp add: parse_or_400_def iobind_def iothrow_def ioreturn_def split: sum.split)

lemma page_answer:
  assumes "page_result works l ((p - 1) * l) (fst (m E w))" "page_of data = p" "limit_of data = l" "1 \<le> l" "l \<le> 100" "1 \<le> p"
  shows "bounded_answer works (Inr data) (fst (iobind m (\<lambda>(rows, total). ioreturn \<lparr>pg_data = rows, pg_total = total,
      pg_page = p, pg_limit = l, pg_tenant_id = tid, pg_requestId = rid\<rparr>) E w))"
  using assms by (cases "m E w") (auto simp: iobind_def ioreturn_def page_ok_def page_result_def bounded_answer_def Let_def
      split: sum.split prod.split)

lemma bounded_employees:
  assumes "zod_sound T zod"
  shows "bounded_answer (quiet E) (zod searchSchema query) (fst (EmployeesController_findAll fts zod query req E w))"
proof (cases "zod searchSchema query")
  case (Inr data)
  then have "conforms T searchSchema data" using assms by (simp add: zod_sound_def)
  then obtain p l where pl: "get_int data ''page'' = Some p" "get_int data ''limit'' = Some l" "1 \<le> p" "1 \<le> l" "l \<le> 100"
    unfolding searchSchema_def by (rule page_fields_some)
  have "page_result (quiet E) l ((p - 1) * l) (fst (EmployeesService_findAll fts (tenant_of req) (employee_search_of data) E w))"
    using pl by (intro findAll_pages) (simp_all add: employee_search_of_def)
  from page_answer [where m = "EmployeesService_findAll fts (tenant_of req) (employee_search_of data)" and data = data, OF this _ _ pl(4,5,3)] show ?thesis
    using Inr pl by (simp add: EmployeesController_findAll_def parse_or_400_run page_of_def limit_of_def)
qed (simp add: EmployeesController_findAll_def parse_or_400_run bounded_answer_def)

lemma bounded_documents:
  assumes "zod_sound T zod"
  shows "bounded_answer (quiet E) (zod listSchema query) (fst (DocumentsController_findAll zod query req E w))"
proof (cases "zod listSchema query")
  case (Inr data)
  then have "conforms T listSchema data" using assms by (simp add: zod_sound_def)
  then obtain p l where pl: "get_int data ''page'' = Some p" "get_int data ''limit'' = Some l" "1 \<le> p" "1 \<le> l" "l \<le> 100"
    unfolding listSchema_def by (rule page_fields_some)
  have "page_result (quiet E) l ((p - 1) * l) (fst (DocumentsService_findAll (tenant_of req) (document_search_of data) E w))"
    using pl by (intro documents_findAll_pages) (simp_all add: document_search_of_def)
  from page_answer [where m = "DocumentsService_findAll (tenant_of req) (document_search_of data)" and data = data, OF this _ _ pl(4,5,3)] show ?thesis
    using Inr pl by (simp add: DocumentsController_findAll_def parse_or_400_run page_of_def limit_of_def)
qed (simp add: DocumentsController_findAll_def parse_or_400_run bounded_answer_def)

lemma bounded_expiring:
  fixes E :: env and w :: world
  assumes "zod_sound T zod"
  defines "works \<equiv> quiet E \<and> in_calendar (e_clock E (x_tick (w_ext w)))
    \<and> in_calendar (e_clock E (x_tick (w_ext w) + 1)) \<and> in_calendar (addDays (e_clock E (x_tick (w_ext w) + 1)) 365)"
  shows "bounded_answer works (zod expiringSchema query) (fst (DashboardController_expiring zod query req E w))"
proof (cases "zod expiringSchema query")
  case (Inr data)
  then have ok: "conforms T expiringSchema data" using assms by (simp add: zod_sound_def)
  then obtain p l where pl: "get_int data ''page'' = Some p" "get_int data ''limit'' = Some l" "1 \<le> p" "1 \<le> l" "l \<le> 100"
    unfolding expiringSchema_def by (rule page_fields_some)
  obtain d where d: "get_int data ''withinDays'' = Some d" "1 \<le> d" "d \<le> 365"
    using ok by (auto simp: conforms_def expiringSchema_def get_int_def split: option.splits json.splits)
  have "page_result works l ((p - 1) * l)
      (fst (DashboardService_getExpiringDocuments (tenant_of req) (expiring_params_of data) E w))"
    using expiring_pages [of "expiring_params_of data" l p d E w "tenant_of req"] pl d
      in_calendar_between [of "e_clock E (x_tick (w_ext w) + 1)" 365 d]
    by (auto simp: expiring_params_of_def page_result_def works_def split: sum.splits)
  from page_answer [where m = "DashboardService_getExpiringDocuments (tenant_of req) (expiring_params_of data)" and data = data, OF this _ _ pl(4,5,3)] show ?thesis
    using Inr pl by (simp add: DashboardController_expiring_def parse_or_400_run page_of_def limit_of_def)
qed (simp add: DashboardController_expiring_def parse_or_400_run bounded_answer_def)

text \<open>
  C35. The three paged routes are bounded, whatever query a client sends and whatever fails: the employee
  list, the document list and the list of expiring documents are answered with the 400 of the refused query,
  with an error of the database, or with a page of at most \<open>limit\<close> rows where \<open>limit\<close> is at most 100 and the
  page number at least 1. When no statement fails (and, for the expiring documents, the clock is in the years
  100 to 9999) there is no error but for an offset that is no \<open>bigint\<close>, because no upper bound of the page number
  is checked (\<open>huge_page_fails\<close>). The list of the documents of one employee is not paged and has no bound.
\<close>

theorem paged_routes_are_bounded:
  fixes E :: env and w :: world
  assumes "zod_sound T zod"
  defines "in_years \<equiv> in_calendar (e_clock E (x_tick (w_ext w))) \<and> in_calendar (e_clock E (x_tick (w_ext w) + 1))
    \<and> in_calendar (addDays (e_clock E (x_tick (w_ext w) + 1)) 365)"
  shows "bounded_answer (quiet E) (zod searchSchema query) (fst (EmployeesController_findAll fts zod query req E w))
    \<and> bounded_answer (quiet E) (zod listSchema query) (fst (DocumentsController_findAll zod query req E w))
    \<and> bounded_answer (quiet E \<and> in_years) (zod expiringSchema query) (fst (DashboardController_expiring zod query req E w))"
  unfolding in_years_def
  by (intro conjI bounded_employees [OF assms(1)] bounded_documents [OF assms(1)] bounded_expiring [OF assms(1)])

theorem paged_routes_are_bounded_witness:
  "bounded_answer True (strict_zod sample_tests listSchema (Some (JObj [(''page'', JNum 1), (''limit'', JNum 50)])))
     (fst (DocumentsController_findAll (strict_zod sample_tests) (Some (JObj [(''page'', JNum 1), (''limit'', JNum 50)]))
       (sample_request ''Bearer good'') sample_env sample_world))"
  using paged_routes_are_bounded [OF strict_zod_ok(1), where E = sample_env and w = sample_world
      and query = "Some (JObj [(''page'', JNum 1), (''limit'', JNum 50)])" and req = "sample_request ''Bearer good''"] quiet_sample
  by simp

text \<open>
  A page number whose offset is no \<open>bigint\<close> passes the schema and fails in the database, which the client sees
  as the 500.
\<close>

lemma huge_page_fails:
  "case fst (DocumentsController_findAll (strict_zod sample_tests)
     (Some (JObj [(''page'', JNum 1000000000000000000000), (''limit'', JNum 50)])) (sample_request ''Bearer good'') sample_env sample_world)
   of Inl e \<Rightarrow> is_db_error e | Inr r \<Rightarrow> False"
proof -
  let ?q = "Some (JObj [(''page'', JNum 1000000000000000000000), (''limit'', JNum 50)])"
  have "case strict_zod sample_tests listSchema ?q of Inl _ \<Rightarrow> False | Inr data \<Rightarrow> \<not> int8 ((page_of data - 1) * limit_of data)"
    by code_simp
  then show ?thesis
    using bounded_documents [OF strict_zod_ok(1), of sample_env sample_tests ?q "sample_request ''Bearer good''" sample_world]
    by (auto simp: bounded_answer_def Let_def split: sum.splits)
qed

end
