(* ===== verification/Integrity.thy ===== *)
theory Integrity
  imports Controllers
begin

text \<open>
  What every operation keeps of the whole database, beyond the constraints of the schema: the rows of a
  table stay apart in their keys; a document's employee is an employee of the document's own tenant (the
  foreign key alone admits one of any tenant); and a manual status carries what it must, an exception its
  reason and a renewal its start. Most operations follow from the rules of the tables; creating a document
  rests on the employee it looked up before, and updating one on the row it read.
\<close>

section \<open>Consistent databases\<close>

definition apart :: "('r \<Rightarrow> 'r \<Rightarrow> bool) \<Rightarrow> 'r list \<Rightarrow> bool" where
  "apart clash rs \<longleftrightarrow> sorted_wrt (\<lambda>r r'. \<not> clash r r') rs"

lemma apart_insert: "apart clash (rs @ [r]) \<longleftrightarrow> apart clash rs \<and> (\<forall>r'\<in>set rs. \<not> clash r' r)"
  by (auto simp: apart_def sorted_wrt_append)

lemma apart_map:
  assumes f: "\<And>r r'. clash (f r) r' = clash r r'" and sym: "\<And>r r'. clash r r' = clash r' r"
  shows "apart clash (map f rs) = apart clash rs"
proof -
  have "clash (f a) (f b) = clash a b" for a b
    using f [of a "f b"] sym [of a "f b"] f [of b a] sym [of b a] by simp
  then show ?thesis by (simp add: apart_def sorted_wrt_map)
qed

definition policy_clash :: "notification_policy_row \<Rightarrow> notification_policy_row \<Rightarrow> bool" where
  "policy_clash p p' \<longleftrightarrow> same_uuid (np_id p) (np_id p') \<or> np_tenantId p = np_tenantId p'"

definition belongs :: "db \<Rightarrow> document_row \<Rightarrow> bool" where
  "belongs d r \<longleftrightarrow> (case dc_employeeId r of None \<Rightarrow> True
     | Some i \<Rightarrow> \<exists>e\<in>set (employees d). same_uuid (em_id e) i \<and> em_tenantId e = dc_tenantId r)"

definition status_documented :: "document_row \<Rightarrow> bool" where
  "status_documented r \<longleftrightarrow> (dc_expiryStatus r = EXCEPTION \<longrightarrow> truthy (dc_exceptionReason r))
     \<and> (dc_expiryStatus r = RENEWAL_IN_PROGRESS \<longrightarrow> dc_renewalStartedAt r \<noteq> None)"

definition consistent :: "db \<Rightarrow> bool" where
  "consistent d \<longleftrightarrow>
     apart employee_clash (employees d)
     \<and> apart document_clash (documents d)
     \<and> apart (\<lambda>r r'. au_id r = au_id r') (auditEvents d)
     \<and> apart (\<lambda>r r'. ik_key r = ik_key r') (idempotencyKeys d)
     \<and> apart policy_clash (tenantNotificationPolicies d)
     \<and> apart (\<lambda>r r'. same_uuid (nl_id r) (nl_id r')) (notificationLog d)
     \<and> apart batch_clash (importBatches d)
     \<and> (\<forall>r\<in>set (documents d). belongs d r \<and> status_documented r)"

definition stays :: "db \<Rightarrow> db \<Rightarrow> bool" where
  "stays d d' \<longleftrightarrow> (consistent d \<longrightarrow> consistent d')"

interpretation stay: db_relation stays
  by unfold_locales (auto simp: stays_def)

lemma same_uuid_sym: "same_uuid a b = same_uuid b a"
  by (auto simp: same_uuid_def)

lemma belongs_later: "grows employee_later (employees d) rs \<Longrightarrow> belongs d r \<Longrightarrow> belongs (d\<lparr>employees := rs\<rparr>) r"
  unfolding belongs_def by (force simp: employee_later_def dest: grows_member split: option.splits)

lemma belongs_frame [simp]:
  "belongs (d\<lparr>documents := a\<rparr>) = belongs d" "belongs (d\<lparr>auditEvents := b\<rparr>) = belongs d"
  "belongs (d\<lparr>idempotencyKeys := c\<rparr>) = belongs d" "belongs (d\<lparr>tenantNotificationPolicies := e\<rparr>) = belongs d"
  "belongs (d\<lparr>notificationLog := f\<rparr>) = belongs d" "belongs (d\<lparr>importBatches := g\<rparr>) = belongs d"
  by (simp_all add: belongs_def fun_eq_iff split: option.split)

section \<open>Assertions that an earlier statement established\<close>

text \<open>\<open>leads J I m\<close>: from \<open>J\<close>, the state after \<open>m\<close> satisfies \<open>I\<close>, however \<open>m\<close> ends.\<close>

definition leads :: "(txs \<Rightarrow> bool) \<Rightarrow> (txs \<Rightarrow> bool) \<Rightarrow> 'a tx \<Rightarrow> bool" where
  "leads J I m \<longleftrightarrow> (\<forall>E s. J s \<longrightarrow> I (snd (m E s)))"

lemma leads_keeps: "keeps I m \<Longrightarrow> (\<And>s. J s \<Longrightarrow> I s) \<Longrightarrow> leads J I m"
  by (simp add: leads_def keeps_def)

lemma leads_bind:
  assumes "leads J I m" and "\<And>E s a s'. J s \<Longrightarrow> m E s = (Inr a, s') \<Longrightarrow> K a s'" and "\<And>a. leads (K a) I (k a)"
  shows "leads J I (tbind m k)"
  unfolding leads_def
proof (intro allI impI)
  fix E s assume J: "J s"
  obtain r s' where m: "m E s = (r, s')" by force
  show "I (snd (tbind m k E s))"
  proof (cases r)
    case (Inl e)
    have "I (snd (m E s))" using J assms(1) by (simp add: leads_def)
    then show ?thesis using m Inl by (simp add: tbind_def)
  next
    case (Inr a)
    then show ?thesis using m assms(2) [OF J] assms(3) by (simp add: tbind_def leads_def)
  qed
qed

lemma keeps_bind_value:
  assumes "keeps I m" and "\<And>E s a s'. I s \<Longrightarrow> m E s = (Inr a, s') \<Longrightarrow> V a" and "\<And>a. V a \<Longrightarrow> keeps I (k a)"
  shows "keeps I (tbind m k)"
proof -
  have "leads I I (tbind m k)"
  proof (rule leads_bind [where K = "\<lambda>a s. I s \<and> V a"])
    show "leads I I m" using assms(1) by (simp add: leads_def keeps_def)
    show "\<And>E s a s'. I s \<Longrightarrow> m E s = (Inr a, s') \<Longrightarrow> I s' \<and> V a" using assms(1,2) by (metis keepsD)
    show "leads (\<lambda>s. I s \<and> V a) I (k a)" for a using assms(3) by (auto simp: leads_def keeps_def)
  qed
  then show ?thesis by (simp add: leads_def keeps_def)
qed

context db_relation begin

lemma leads_statement:
  assumes "\<And>E n now g d a d'. \<lbrakk>g = None \<or> g = Some t; P d; f E n now g d = Inr (a, d')\<rbrakk> \<Longrightarrow> R d d'"
  shows "leads (\<lambda>s. txinv R t d0 s \<and> P (t_db s)) (txinv R t d0) (statement f)"
  unfolding leads_def
proof (intro allI impI)
  fix E s assume I: "txinv R t d0 s \<and> P (t_db s)"
  obtain r s' where m: "statement f E s = (r, s')" by force
  have "R d0 (t_db s')"
    using statement_db [OF m] I assms R_trans unfolding txinv_def by metis
  then show "txinv R t d0 (snd (statement f E s))"
    using statement_db [OF m] I m by (simp add: txinv_def)
qed

end

section \<open>The tables\<close>

locale consistent_table = historic_table T later
  for T :: "'r table" and later :: "'r \<Rightarrow> 'r \<Rightarrow> bool" +
  fixes clash :: "'r \<Rightarrow> 'r \<Rightarrow> bool" and ok :: "db \<Rightarrow> 'r \<Rightarrow> bool"
  assumes clash_sym: "clash r r' = clash r' r"
    and rows_apart: "consistent d \<Longrightarrow> apart clash (tb_rows T d)"
    and rows_ok: "consistent d \<Longrightarrow> r \<in> set (tb_rows T d) \<Longrightarrow> ok d r"
    and put_consistent: "\<lbrakk>consistent d; apart clash rs; \<And>r. r \<in> set rs \<Longrightarrow> ok d r; grows later (tb_rows T d) rs\<rbrakk>
      \<Longrightarrow> consistent (tb_put T rs d)"
begin

lemma insert_leads:
  assumes "\<And>u now d. \<lbrakk>consistent d; P d; fk d (mk u now)\<rbrakk> \<Longrightarrow> ok d (mk u now)"
  shows "leads (\<lambda>s. txinv stays t d0 s \<and> P (t_db s)) (txinv stays t d0) (insert_returning T typ clash fk mk)"
  unfolding insert_returning_def
proof (rule stay.leads_statement [where P = P])
  fix E n now g d a d'
  assume P: "P d" and f: "(let r = mk (e_uuid E n) now
      in if \<not> typ E r then Inl ''22P02'' else if \<not> rls_visible g (tb_tenant T r) then Inl ''42501''
         else if list_ex (clash r) (tb_rows T d) then Inl ''23505'' else if \<not> fk d r then Inl ''23503''
         else Inr ([r], tb_put T (tb_rows T d @ [r]) d)) = Inr (a, d')"
  let ?r = "mk (e_uuid E n) now"
  have new: "\<not> list_ex (clash ?r) (tb_rows T d)" "fk d ?r" "d' = tb_put T (tb_rows T d @ [?r]) d"
    using f by (auto simp: Let_def split: if_splits)
  show "stays d d'"
    unfolding stays_def
  proof
    assume c: "consistent d"
    have "apart clash (tb_rows T d @ [?r])"
      using new(1) rows_apart [OF c] clash_sym by (auto simp: apart_insert list_ex_iff)
    moreover have "ok d r" if "r \<in> set (tb_rows T d @ [?r])" for r
      using that rows_ok [OF c] assms [OF c P new(2)] by auto
    ultimately show "consistent d'"
      unfolding new(3) by (intro put_consistent [OF c] grows_append) (auto simp: later_self)
  qed
qed

lemma insert_consistent [keeps_intros]:
  assumes "\<And>u now d. \<lbrakk>consistent d; fk d (mk u now)\<rbrakk> \<Longrightarrow> ok d (mk u now)"
  shows "keeps (txinv stays t d0) (insert_returning T typ clash fk mk)"
  using insert_leads [where P = "\<lambda>_. True"] assms by (simp add: leads_def keeps_def)

lemma update_consistent [keeps_intros]:
  assumes "\<And>now r. p r \<Longrightarrow> later r (f now r)"
    and "\<And>now r r'. clash (f now r) r' = clash r r'"
    and "\<And>now r d. consistent d \<Longrightarrow> p r \<Longrightarrow> ok d r \<Longrightarrow> ok d (f now r)"
  shows "keeps (txinv stays t d0) (update_returning T p f)"
  unfolding update_returning_def
proof (rule stay.keeps_statement)
  have "stays d (tb_put T (map (\<lambda>r. if rls_visible g (tb_tenant T r) \<and> p r then f now r else r) (tb_rows T d)) d)"
    for g now d
    unfolding stays_def
  proof
    let ?g = "\<lambda>r. if rls_visible g (tb_tenant T r) \<and> p r then f now r else r"
    assume c: "consistent d"
    have "apart clash (map ?g (tb_rows T d))"
      using rows_apart [OF c] assms(2) clash_sym by (subst apart_map) auto
    moreover have "ok d r" if "r \<in> set (map ?g (tb_rows T d))" for r
      using that rows_ok [OF c] assms(3) [OF c] by auto
    ultimately show "consistent (tb_put T (map ?g (tb_rows T d)) d)"
      by (intro put_consistent [OF c] grows_map) (auto simp: later_self assms(1))
  qed
  then show "stmt_rel stays t (\<lambda>E n now g d. let hit = \<lambda>r. rls_visible g (tb_tenant T r) \<and> p r
      in Inr (map (f now) (filter hit (tb_rows T d)), tb_put T (map (\<lambda>r. if hit r then f now r else r) (tb_rows T d)) d))"
    by (auto simp: stmt_rel_def Let_def)
qed

end

lemmas clash_defs = employee_clash_def document_clash_def policy_clash_def batch_clash_def

interpretation employees_ok: consistent_table employees_t employee_later employee_clash "\<lambda>_ _. True"
  by unfold_locales (auto simp: consistent_def clash_defs same_uuid_sym intro: belongs_later)

interpretation documents_ok: consistent_table documents_t document_later document_clash "\<lambda>d r. belongs d r \<and> status_documented r"
  by unfold_locales (auto simp: consistent_def clash_defs same_uuid_sym)

interpretation audit_events_ok: consistent_table audit_events_t "(=)" "\<lambda>r r'. au_id r = au_id r'" "\<lambda>_ _. True"
  by unfold_locales (auto simp: consistent_def)

interpretation idempotency_keys_ok: consistent_table idempotency_keys_t "(=)" "\<lambda>r r'. ik_key r = ik_key r'" "\<lambda>_ _. True"
  by unfold_locales (auto simp: consistent_def)

interpretation notification_policies_ok: consistent_table notification_policies_t notification_policy_later policy_clash "\<lambda>_ _. True"
  by unfold_locales (auto simp: consistent_def clash_defs same_uuid_sym)

interpretation notification_log_ok: consistent_table notification_log_t "(=)" "\<lambda>r r'. same_uuid (nl_id r) (nl_id r')" "\<lambda>_ _. True"
  by unfold_locales (auto simp: consistent_def same_uuid_sym)

interpretation import_batches_ok: consistent_table import_batches_t import_batch_later batch_clash "\<lambda>_ _. True"
  by unfold_locales (auto simp: consistent_def clash_defs)

section \<open>Operations that the rules of the tables cover\<close>

lemma transaction_stays:
  assumes "\<And>d0. consistent d0 \<Longrightarrow> keeps (txinv stays t d0) body"
  shows "io_rel stays (transaction body)"
  unfolding io_rel_def
proof (intro allI)
  fix E w
  show "stays (w_db w) (w_db (snd (transaction body E w)))"
    using stay.transaction_from [OF assms] by (cases "consistent (w_db w)") (simp_all add: stays_def)
qed

lemma reads_stay: "io_rel (\<lambda>d d'. d' = d) m \<Longrightarrow> io_rel stays m"
  using stay.R_refl unfolding io_rel_def by metis

lemma clash_frame [simp]:
  "employee_clash (employee_set b dto r) = employee_clash r" "employee_clash (employee_archive_set now r) = employee_clash r"
  "document_clash (document_set x udto st now y) = document_clash y" "document_clash (document_archive_set now y) = document_clash y"
  "batch_clash (batch_done p e now z) = batch_clash z"
  by (simp_all add: fun_eq_iff clash_defs employee_set_def employee_archive_set_def document_archive_set_def Let_def)

lemma document_archive_ok [simp]:
  "belongs d (document_archive_set now r) = belongs d r"
  "status_documented (document_archive_set now r) = status_documented r"
  by (simp_all add: document_archive_set_def belongs_def status_documented_def split: option.split)

lemma audit_stays [keeps_intros]: "keeps (txinv stays t d0) (audit_log ctx act ty eid b a oc rs)"
  unfolding audit_log_def Let_def by (auto intro!: keeps_intros)

lemma employees_stay [io_intros]:
  "io_rel stays (EmployeesService_findAll fts t params)"
  "io_rel stays (EmployeesService_findOne t i)"
  "io_rel stays (EmployeesService_create t cdto ctx)"
  "io_rel stays (EmployeesService_update t i udto ctx)"
  "io_rel stays (EmployeesService_archive t i ctx)"
  unfolding employee_defs Let_def
  by (auto intro!: io_intros keeps_intros intro: employee_set_later employee_archive_later)

lemma documents_stay [io_intros]:
  "io_rel stays (DocumentsService_findAllForEmployee t i)"
  "io_rel stays (DocumentsService_findAll t params)"
  "io_rel stays (DocumentsService_archive t i ctx)"
  unfolding document_defs Let_def
  by (auto intro!: io_intros keeps_intros intro: document_archive_later)

lemma upsert_policy_stays [keeps_intros]:
  assumes "\<And>p. np_tenantId (setNext p) = np_tenantId p" "\<And>p. np_id (setNext p) = np_id p"
  shows "keeps (txinv stays t d0) (upsert_policy t setNext now)"
  unfolding upsert_policy_def
proof (rule stay.keeps_statement)
  let ?upd = "\<lambda>p. if np_tenantId p = t then (setNext p)\<lparr>np_updatedAt := now\<rparr> else p"
  have upd: "consistent (d\<lparr>tenantNotificationPolicies := map ?upd (tenantNotificationPolicies d)\<rparr>)" if "consistent d" for d
  proof -
    have "apart policy_clash (map ?upd (tenantNotificationPolicies d))"
      using notification_policies_ok.rows_apart [OF that]
      by (subst apart_map) (auto simp: policy_clash_def assms same_uuid_sym)
    then show ?thesis
      using notification_policies_ok.put_consistent [OF that] by (simp add: grows_map notification_policy_later_def assms)
  qed
  have ins: "consistent (d\<lparr>tenantNotificationPolicies := tenantNotificationPolicies d @ [r]\<rparr>)"
    if "consistent d" "np_tenantId r = t" "filter (\<lambda>p. np_tenantId p = t) (tenantNotificationPolicies d) = []"
      "\<not> list_ex (\<lambda>p. same_uuid (np_id p) (np_id r)) (tenantNotificationPolicies d)" for d r
  proof -
    have "apart policy_clash (tenantNotificationPolicies d @ [r])"
      using that notification_policies_ok.rows_apart [OF that(1)]
      by (auto simp: apart_insert policy_clash_def list_ex_iff filter_empty_conv)
    then show ?thesis
      using notification_policies_ok.put_consistent [OF that(1)] by (simp add: grows_append)
  qed
  show "stmt_rel stays t (\<lambda>E n now' g d.
     let r = setNext (blank_policy t (e_uuid E n) now');
         upd = (\<lambda>p. (setNext p)\<lparr>np_updatedAt := now\<rparr>);
         old = filter (\<lambda>p. np_tenantId p = t) (tenantNotificationPolicies d)
     in if \<not> pg_uuid t \<or> \<not> list_all int4 (np_reminderDaysBefore r) then Inl ''22P02''
        else if \<not> rls_visible g t then Inl ''42501''
        else if old \<noteq> [] then
          Inr (map upd old, d\<lparr>tenantNotificationPolicies :=
            map (\<lambda>p. if np_tenantId p = t then upd p else p) (tenantNotificationPolicies d)\<rparr>)
        else if list_ex (\<lambda>p. same_uuid (np_id p) (np_id r)) (tenantNotificationPolicies d) then Inl ''23505''
        else if t \<notin> tn_id ` set (tenants d) then Inl ''23503''
        else Inr ([r], d\<lparr>tenantNotificationPolicies := tenantNotificationPolicies d @ [r]\<rparr>))"
    unfolding stmt_rel_def stays_def Let_def
  proof (intro allI impI, goal_cases)
    case (1 E n now' g d a d')
    note f = 1(2) and c = 1(3)
    show ?case
    proof (cases "filter (\<lambda>p. np_tenantId p = t) (tenantNotificationPolicies d) = []")
      case True
      let ?r = "setNext (blank_policy t (e_uuid E n) now')"
      have "d' = d\<lparr>tenantNotificationPolicies := tenantNotificationPolicies d @ [?r]\<rparr>"
        and "\<not> list_ex (\<lambda>p. same_uuid (np_id p) (np_id ?r)) (tenantNotificationPolicies d)"
        using f True by (auto split: if_splits)
      then show ?thesis using ins [OF c _ True, of ?r] by (simp add: assms blank_policy_def)
    next
      case False
      then have "d' = d\<lparr>tenantNotificationPolicies := map ?upd (tenantNotificationPolicies d)\<rparr>"
        using f by (simp split: if_splits)
      then show ?thesis using upd [OF c] by simp
    qed
  qed
qed

lemma policy_update_stays: "io_rel stays (NotificationPoliciesService_update t dto ctx)"
  unfolding NotificationPoliciesService_update_def policy_rows_def Let_def
  by (auto intro!: io_intros keeps_intros)

section \<open>Creating and updating a document\<close>

lemma visible_own: "r \<in> set (visible_rows T g p d) \<Longrightarrow> g = None \<or> g = Some t \<Longrightarrow> tb_tenant T r = t \<and> p r \<and> r \<in> set (tb_rows T d)"
  by (auto simp: visible_rows_def rls_visible_def split: option.splits)

lemma select_where_result:
  assumes "select_where T p E s = (Inr rows, s')"
  shows "rows = visible_rows T (t_tenant s) p (t_db s)" "t_db s' = t_db s"
  using assms by (auto simp: select_where_def statement_def Let_def split: if_splits option.splits)

lemma well_typed_result: "well_typed c b m E s = (Inr a, s') \<Longrightarrow> m E s = (Inr a, s')"
  by (auto simp: well_typed_def statement_def Let_def split: if_splits option.splits)

definition employs :: "string \<Rightarrow> uuid \<Rightarrow> db \<Rightarrow> bool" where
  "employs i t d \<longleftrightarrow> (\<exists>e\<in>set (employees d). same_uuid (em_id e) i \<and> em_tenantId e = t)"

lemma employee_lookup_result:
  assumes "txinv R t d0 s" "employee_lookup i E s = (Inr e, s')"
  shows "employs i t (t_db s')"
proof -
  obtain rows s1 where 1: "well_typed ''22P02'' (pg_uuid i) (select_where employees_t (live_employee i)) E s = (Inr rows, s1)"
    and 2: "(case first_row (take 1 rows) of None \<Rightarrow> tthrow (NotFoundException (Message ''Employee not found''))
        | Some employee \<Rightarrow> treturn employee) E s1 = (Inr e, s')"
    using assms(2) unfolding employee_lookup_def by (rule tbind_result)
  note r = select_where_result [OF well_typed_result [OF 1]]
  have "e \<in> set rows" "s' = s1"
    using 2 by (cases rows; auto simp: tthrow_def treturn_def split: option.splits)+
  then show ?thesis
    using visible_own [of e employees_t "t_tenant s" "live_employee i" "t_db s" t] r assms(1)
    by (auto simp: employs_def live_employee_def txinv_def)
qed

lemma document_lookup_result:
  assumes "document_lookup i E s = (Inr x, s')"
  shows "x \<in> set (documents (t_db s))"
proof -
  obtain rows s1 where 1: "well_typed ''22P02'' (pg_uuid i) (select_where documents_t (live_document i)) E s = (Inr rows, s1)"
    and 2: "(case first_row (take 1 rows) of None \<Rightarrow> tthrow (NotFoundException (Message ''Document not found''))
        | Some doc \<Rightarrow> treturn doc) E s1 = (Inr x, s')"
    using assms unfolding document_lookup_def by (rule tbind_result)
  note r = select_where_result [OF well_typed_result [OF 1]]
  have "x \<in> set rows" using 2 by (cases rows; auto simp: tthrow_def treturn_def split: option.splits)
  then show ?thesis using r by (auto simp: visible_rows_def)
qed
text \<open>A document is created for an employee the same transaction found.\<close>

lemma loadPolicy_db: "t_db (snd (loadPolicy t ty E s)) = t_db s"
  by (auto simp: loadPolicy_def tbind_def treturn_def select_where_def statement_def Let_def
      split: if_splits option.splits sum.splits prod.splits)

lemma new_document_ok:
  assumes "employs i t d" "st \<noteq> EXCEPTION" "st \<noteq> RENEWAL_IN_PROGRESS"
  shows "belongs d (new_document t i dto st u now) \<and> status_documented (new_document t i dto st u now)"
  using assms by (simp add: belongs_def employs_def status_documented_def new_document_def)

lemma status_of_days_computed: "status_of_days n p \<noteq> EXCEPTION" "status_of_days n p \<noteq> RENEWAL_IN_PROGRESS"
  by (simp_all add: status_of_days_def)

lemma calculateStatus_sticky_only:
  "calculateStatus e p st now = EXCEPTION \<longleftrightarrow> st = EXCEPTION"
  "calculateStatus e p st now = RENEWAL_IN_PROGRESS \<longleftrightarrow> st = RENEWAL_IN_PROGRESS"
  by (cases st; simp add: calculateStatus_def status_of_days_computed split: option.split)+

lemma document_insert_leads:
  assumes "st \<noteq> EXCEPTION" "st \<noteq> RENEWAL_IN_PROGRESS"
  shows "leads (\<lambda>s. txinv stays t d0 s \<and> employs i t (t_db s)) (txinv stays t d0) (document_insert t i dto st)"
  unfolding document_insert_def
proof (rule leads_bind [where K = "\<lambda>_. txinv stays t d0"])
  have ins: "leads (\<lambda>s. txinv stays t d0 s \<and> employs i t (t_db s)) (txinv stays t d0)
      (insert_returning documents_t document_typed document_clash document_fk (new_document t i dto st))"
    using new_document_ok assms by (intro documents_ok.insert_leads) blast
  have bad: "leads (\<lambda>s. txinv stays t d0 s \<and> employs i t (t_db s)) (txinv stays t d0)
      (statement (\<lambda>E n now g d. Inl ''22008'') :: document_row list tx)"
    by (rule stay.leads_statement) simp
  show wt: "leads (\<lambda>s. txinv stays t d0 s \<and> employs i t (t_db s)) (txinv stays t d0)
      (well_typed ''22008'' (opt_date_ok (cd_issueDate dto) \<and> opt_date_ok (cd_expiryDate dto))
        (insert_returning documents_t document_typed document_clash document_fk (new_document t i dto st)))"
    using ins bad by (simp add: well_typed_def)
  show "txinv stays t d0 s'" if "txinv stays t d0 s \<and> employs i t (t_db s)"
    "well_typed ''22008'' (opt_date_ok (cd_issueDate dto) \<and> opt_date_ok (cd_expiryDate dto))
        (insert_returning documents_t document_typed document_clash document_fk (new_document t i dto st)) E s = (Inr a, s')"
    for E s a s'
    using wt that unfolding leads_def by (metis snd_conv)
  show "leads (txinv stays t d0) (txinv stays t d0)
      (case first_row a of None \<Rightarrow> tthrow (JsError ''Document insert did not return a row'') | Some created \<Rightarrow> treturn created)" for a
    by (rule leads_keeps) (auto intro!: keeps_intros)
qed

lemma document_create_stays [io_intros]: "io_rel stays (DocumentsService_create t i dto ctx)"
  unfolding DocumentsService_create_def
proof (rule stay.transaction_rel, rule keeps_bind [OF stay.keeps_setTenantContext])
  fix d0 and u :: unit
  let ?I = "txinv stays t d0" and ?J = "\<lambda>s. txinv stays t d0 s \<and> employs i t (t_db s)"
  let ?tail = "\<lambda>created. tthen (audit_log ctx DOCUMENT_CREATED ''document'' (Some (dc_id created)) None
      (Some (document_json created)) SUCCESS None) (treturn created)"
  let ?st = "\<lambda>policy now. calculateStatus (map_option DStr (nullish_opt (cd_expiryDate dto) None)) policy VALID now"
  have lk: "keeps ?I (employee_lookup i)" unfolding employee_lookup_def by (auto intro!: keeps_intros)
  have lp: "keeps ?I (loadPolicy t (cd_docType dto))" unfolding loadPolicy_def by (auto intro!: keeps_intros)
  have tail: "leads ?I ?I (?tail created)" for created by (rule leads_keeps) (auto intro!: keeps_intros)
  have ins: "leads ?J ?I (tbind (document_insert t i dto (?st policy now)) ?tail)" for policy now
  proof (rule leads_bind [where K = "\<lambda>_. ?I"])
    show l: "leads ?J ?I (document_insert t i dto (?st policy now))"
      by (rule document_insert_leads) (simp_all add: calculateStatus_sticky_only)
    show "?I s'" if "?J s" "document_insert t i dto (?st policy now) E s = (Inr a, s')" for E s a s'
      using l that unfolding leads_def by (metis snd_conv)
  qed (rule tail)
  have date: "leads ?J ?I (tbind new_Date (\<lambda>now. tbind (document_insert t i dto (?st policy now)) ?tail))" for policy
  proof (rule leads_bind [where K = "\<lambda>_. ?J"])
    show "leads ?J ?I new_Date" by (rule leads_keeps [OF keeps_new_Date]) simp
    show "?J s'" if "?J s" "new_Date E s = (Inr a, s')" for E s a s'
      using that by (simp add: new_Date_def)
  qed (rule ins)
  have load: "leads ?J ?I (tbind (loadPolicy t (cd_docType dto))
      (\<lambda>policy. tbind new_Date (\<lambda>now. tbind (document_insert t i dto (?st policy now)) ?tail)))"
  proof (rule leads_bind [where K = "\<lambda>_. ?J"])
    show "leads ?J ?I (loadPolicy t (cd_docType dto))" using lp by (rule leads_keeps) simp
    show "?J s'" if "?J s" "loadPolicy t (cd_docType dto) E s = (Inr a, s')" for E s a s'
      using that keepsD [OF lp] loadPolicy_db [of t "cd_docType dto" E s] by auto
  qed (rule date)
  have "leads ?I ?I (tthen (employee_lookup i) (tbind (loadPolicy t (cd_docType dto))
      (\<lambda>policy. tbind new_Date (\<lambda>now. tbind (document_insert t i dto (?st policy now)) ?tail))))"
  proof (rule leads_bind [where K = "\<lambda>_. ?J"])
    show "leads ?I ?I (employee_lookup i)" using lk by (rule leads_keeps) simp
    show "?J s'" if "?I s" "employee_lookup i E s = (Inr a, s')" for E s a s'
      using keepsD [OF lk that] employee_lookup_result [OF that] by simp
  qed (rule load)
  then show "keeps ?I (tthen (employee_lookup i) (tbind (loadPolicy t (cd_docType dto))
      (\<lambda>policy. tbind new_Date (\<lambda>now. tbind (document_insert t i dto (?st policy now)) ?tail))))"
    by (simp add: leads_def keeps_def)
qed

text \<open>An update reads the row first; the status it writes and the row it read decide the fields.\<close>

definition allowed_status :: "update_document_dto \<Rightarrow> document_row \<Rightarrow> expiry_status \<Rightarrow> bool" where
  "allowed_status dto before st \<longleftrightarrow> (case ud_expiryStatus dto of
     Some m \<Rightarrow> st = m
   | None \<Rightarrow> (st = EXCEPTION \<longleftrightarrow> dc_expiryStatus before = EXCEPTION)
       \<and> (st = RENEWAL_IN_PROGRESS \<longleftrightarrow> dc_expiryStatus before = RENEWAL_IN_PROGRESS))"

lemma document_next_status_result:
  assumes "document_next_status t dto before E s = (Inr st, s')"
  shows "allowed_status dto before st"
  using assms
  by (auto simp: document_next_status_def allowed_status_def treturn_def tbind_def new_Date_def calculateStatus_sticky_only
      split: option.splits sum.splits prod.splits)

lemma document_set_ok:
  assumes "status_documented before" "allowed_status dto before st"
    and "ud_expiryStatus dto = Some EXCEPTION \<Longrightarrow> truthy (ud_exceptionReason dto)"
  shows "status_documented (document_set before dto st now r)"
proof (cases "ud_expiryStatus dto")
  case None
  then show ?thesis using assms by (simp add: allowed_status_def status_documented_def document_set_def)
next
  case (Some m)
  then show ?thesis using assms by (cases "ud_exceptionReason dto")
      (auto simp: allowed_status_def status_documented_def document_set_def)
qed

lemma belongs_document_set [simp]: "belongs d (document_set before dto st now r) = belongs d r"
  by (simp add: belongs_def split: option.split)

lemma document_write_stays:
  assumes "status_documented before" "allowed_status dto before st"
    and "ud_expiryStatus dto = Some EXCEPTION \<Longrightarrow> truthy (ud_exceptionReason dto)"
  shows "keeps (txinv stays t d0) (document_write i dto ctx before st)"
  unfolding document_write_def
  by (auto intro!: keeps_intros intro: document_set_later simp: document_set_ok [OF assms])

lemma document_update_stays [io_intros]: "io_rel stays (DocumentsService_update t i dto ctx)"
  unfolding DocumentsService_update_def
proof (rule stay.io_if_rel [OF stay.io_throw_rel transaction_stays])
  fix d0
  assume reason: "\<not> (ud_expiryStatus dto = Some EXCEPTION \<and> \<not> truthy (ud_exceptionReason dto))" and c: "consistent d0"
  let ?I = "txinv stays t d0"
  have lk: "keeps ?I (document_lookup i)" unfolding document_lookup_def by (auto intro!: keeps_intros)
  have nx: "keeps ?I (document_next_status t dto before)" for before
    unfolding document_next_status_def loadPolicy_def by (auto intro!: keeps_intros)
  have "keeps ?I (tbind (document_lookup i) (\<lambda>before. tbind (document_next_status t dto before) (document_write i dto ctx before)))"
  proof (rule keeps_bind_value [OF lk, where V = status_documented])
    fix E s x s' assume I: "?I s" and "document_lookup i E s = (Inr x, s')"
    then have "x \<in> set (documents (t_db s))" by (intro document_lookup_result)
    moreover have "consistent (t_db s)" using I c by (simp add: txinv_def stays_def)
    ultimately show "status_documented x" by (simp add: consistent_def)
  next
    fix before assume b: "status_documented before"
    show "keeps ?I (tbind (document_next_status t dto before) (document_write i dto ctx before))"
    proof (rule keeps_bind_value [OF nx, where V = "allowed_status dto before"])
      show "keeps ?I (document_write i dto ctx before st)" if "allowed_status dto before st" for st
        using document_write_stays [OF b that] reason by blast
    qed (rule document_next_status_result)
  qed
  then show "keeps ?I (tthen (setTenantContext t) (tbind (document_lookup i)
      (\<lambda>before. tbind (document_next_status t dto before) (document_write i dto ctx before))))"
    by (rule keeps_bind [OF stay.keeps_setTenantContext])
qed

section \<open>Imports, jobs and requests\<close>

lemma upsert_stays [io_intros]: "io_rel stays (upsertEmployeeRow t dto ctx)"
  unfolding upsertEmployeeRow_def by (auto intro!: io_intros keeps_intros)

lemma import_rows_stays [io_intros]: "io_rel stays (import_rows zod dm t ctx rows p errs)"
  by (induction zod dm t ctx rows p errs rule: import_rows.induct) (auto simp: Let_def intro!: io_intros)

lemma import_stays: "io_rel stays (ImportService_importEmployees digest load zod dm t upload actor ctx)"
  unfolding import_defs Let_def by (auto intro!: io_intros keeps_intros batch_done_later)

lemma process_import_stays: "io_rel stays (process_import is_uuid_text job)"
  unfolding process_import_def claim_key_def by (auto intro!: io_intros keeps_intros)

lemma document_email_stays [keeps_intros]: "keeps (txinv stays t d0) (select_document_email p)"
  unfolding select_document_email_def by (rule stay.keeps_query)

context dispatcher begin

lemma process_stays: "io_rel stays (process_reminder uuid_ok dm send job)"
  unfolding process_reminder_def deliver_reminder_def send_and_record_def suppress_def log_notification_def
    claim_key_def Let_def
  by (auto intro!: io_intros keeps_intros)

end

lemma parse_or_400_stays [io_intros]: "io_rel stays (parse_or_400 zod sch v)"
  unfolding parse_or_400_def by (auto intro!: io_intros)

lemma handle_stays: "io_rel stays (handle L call req)"
  by (cases call)
    (auto simp: controller_defs intro!: io_intros policy_update_stays import_stays intro: reads_keep [THEN reads_stay])

text \<open>A relation that the handlers keep, whatever request the guards pass on, is kept by every request.\<close>

context db_relation begin

lemma serve_rel:
  assumes "\<And>req2. io_rel R (handle L call req2)"
  shows "R (w_db w) (w_db (snd (serve L call req E w)))"
proof -
  obtain r w1 where g: "guards (lb_jwtVerify L) (lb_is_url L) (lb_settings L) (lb_jwks L) (Some (required_roles call)) req E w = (r, w1)"
    by force
  have "w_db w1 = w_db w" using guards_read_only [of "lb_jwtVerify L" "lb_is_url L"] g by (metis snd_conv)
  moreover have "R (w_db w1) (w_db (snd (handle L call req2 E w1)))" for req2
    using assms [of req2] by (simp add: io_rel_def)
  ultimately show ?thesis using g by (cases r) (simp_all add: serve_parts R_refl)
qed

end

lemmas serve_stays = stay.serve_rel [OF handle_stays]
lemmas serve_hist = hist.serve_rel [OF handle_hist]

end
