(* ===== verification/Concurrency.thy ===== *)
theory Concurrency
  imports Documents
begin

text \<open>
  Requests that run at the same time. Every update and archive of the two services reads its row, then
  writes it, inside one transaction at PostgreSQL's default level, READ COMMITTED: each statement sees
  what is committed when it starts, and an \<open>UPDATE\<close> locks its row until the transaction ends, testing
  its condition on the row as last committed. So a transaction is two parts: up to its last read
  (\<open>tx_open\<close>), and its write with the commit (\<open>tx_close\<close>), between which other transactions commit.

  The relation \<open>traffic_step\<close> interleaves the parts of any number of requests with whatever else adds
  rows. Clients are honest when an update names a version that some answer showed. The locale
  \<open>versioned_service\<close> proves, for reachable states, that a write which succeeds finds the very row its
  request read, and that no two updates from one version both succeed. \<open>Races\<close> interprets it.
\<close>

section \<open>A transaction in two parts\<close>

definition tx_open :: "'b tx \<Rightarrow> env \<Rightarrow> world \<Rightarrow> (exn + 'b \<times> txs) \<times> world" where
  "tx_open m E w =
     (case e_fault E (x_tick (w_ext w)) of
        Some c \<Rightarrow> (Inl (DbError c), w\<lparr>w_ext := tick (w_ext w)\<rparr>)
      | None \<Rightarrow>
          (case m E (start E w) of
             (Inl e, s) \<Rightarrow> (Inl e, w\<lparr>w_ext := tick (t_ext s)\<rparr>)
           | (Inr b, s) \<Rightarrow> (Inr (b, s), w\<lparr>w_ext := t_ext s\<rparr>)))"

text \<open>The second part works on what is committed by then.\<close>

definition tx_close :: "'a tx \<Rightarrow> txs \<Rightarrow> env \<Rightarrow> world \<Rightarrow> (exn + 'a) \<times> world" where
  "tx_close m s E w =
     (case m E (s\<lparr>t_db := w_db w, t_ext := w_ext w\<rparr>) of
        (Inl e, s') \<Rightarrow> (Inl e, w\<lparr>w_ext := tick (t_ext s')\<rparr>)
      | (Inr a, s') \<Rightarrow>
          (case e_fault E (x_tick (t_ext s')) of
             Some c \<Rightarrow> (Inl (DbError c), w\<lparr>w_ext := tick (tick (t_ext s'))\<rparr>)
           | None \<Rightarrow> (Inr a, \<lparr>w_db = (if t_aborted s' then w_db w else t_db s'), w_ext = tick (t_ext s')\<rparr>)))"

lemma tbind_assoc: "tbind (tbind m k) l = tbind m (\<lambda>a. tbind (k a) l)"
  by (simp add: fun_eq_iff tbind_def split: prod.split sum.split)

lemma tbind_return [simp]: "tbind m treturn = m" "tbind (treturn a) k = k a"
  by (simp_all add: fun_eq_iff tbind_def treturn_def split: prod.split sum.split)

text \<open>Parts run one after the other are the transaction.\<close>

lemma transaction_parts:
  assumes "\<And>s b s'. m E s = (Inr b, s') \<Longrightarrow> t_db s' = t_db s"
  shows "transaction (tbind m k) E w =
    (case tx_open m E w of (Inl e, w') \<Rightarrow> (Inl e, w') | (Inr (b, s), w') \<Rightarrow> tx_close (k b) s E w')"
proof (cases "e_fault E (x_tick (w_ext w))")
  case None
  obtain r s where m: "m E (start E w) = (r, s)" by force
  show ?thesis
  proof (cases r)
    case (Inr b)
    then have "t_db s = w_db w" using assms [of "start E w" b s] m by simp
    then have "s\<lparr>t_db := w_db w, t_ext := t_ext s\<rparr> = s" by simp
    then show ?thesis
      using None m Inr by (simp add: transaction_def tx_open_def tx_close_def tbind_def Let_def start_def
          split: prod.split sum.split option.split)
  qed (use None m in \<open>simp add: transaction_def tx_open_def tbind_def Let_def start_def\<close>)
qed (simp add: transaction_def tx_open_def Let_def)

lemma tx_close_failed: "tx_close m s E w = (Inl e, w') \<Longrightarrow> w_db w' = w_db w"
  by (auto simp: tx_close_def split: prod.splits sum.splits option.splits)

lemma tx_open_db: "tx_open m E w = (r, w') \<Longrightarrow> w_db w' = w_db w"
  by (auto simp: tx_open_def split: prod.splits sum.splits option.splits)

text \<open>Parts that only read keep the database they see; the rules for \<open>keeps\<close> follow their control flow.\<close>

abbreviation sees :: "db \<Rightarrow> txs \<Rightarrow> bool" where
  "sees d s \<equiv> t_db s = d"

lemma keeps_sees [keeps_intros]:
  "keeps (sees d) (statement (\<lambda>E n now g d. Inr (F E n now g d, d)))"
  "keeps (sees d) (setTenantContext t)" "keeps (sees d) (select_where T p)" "keeps (sees d) (select_tenants q)"
  "keeps (sees d) (well_typed c b (select_where T p))"
  by (auto simp: keeps_def setTenantContext_def select_where_def select_tenants_def well_typed_def statement_def Let_def
      split: option.split sum.split prod.split)

lemma reads_only: "(\<And>d. keeps (sees d) m) \<Longrightarrow> m E s = (r, s') \<Longrightarrow> t_db s' = t_db s"
  unfolding keeps_def by (metis snd_conv)

section \<open>A service with versioned rows\<close>

text \<open>
  What the employee and the document service have in common: the row looked up, what is read beside it
  (the policy and with it the next status, of a document), the write under the version check, the archive.
\<close>

record ('r, 'q, 'b) service =
  sv_table :: "'r table"
  sv_key :: "'r \<Rightarrow> string"
  sv_version :: "'r \<Rightarrow> int"
  sv_named :: "'q \<Rightarrow> int"
  sv_accepts :: "'q \<Rightarrow> bool"
  sv_look :: "string \<Rightarrow> 'r tx"
  sv_plan :: "uuid \<Rightarrow> 'q \<Rightarrow> 'r \<Rightarrow> 'b tx"
  sv_write :: "string \<Rightarrow> 'q \<Rightarrow> audit_context \<Rightarrow> 'r \<Rightarrow> 'b \<Rightarrow> 'r tx"
  sv_archive :: "string \<Rightarrow> audit_context \<Rightarrow> 'r \<Rightarrow> (uuid \<times> string) tx"

definition employees_service :: "(employee_row, update_employee_dto, unit) service" where
  "employees_service = \<lparr>sv_table = employees_t, sv_key = (\<lambda>r. uuid_canon (em_id r)), sv_version = em_version,
     sv_named = ue_version, sv_accepts = (\<lambda>_. True), sv_look = employee_lookup,
     sv_plan = (\<lambda>_ _ _. treturn ()), sv_write = (\<lambda>i dto ctx before _. employee_write i dto ctx before),
     sv_archive = employee_archive_write\<rparr>"

definition documents_service :: "(document_row, update_document_dto, expiry_status) service" where
  "documents_service = \<lparr>sv_table = documents_t, sv_key = (\<lambda>r. uuid_canon (dc_id r)), sv_version = dc_version,
     sv_named = ud_version,
     sv_accepts = (\<lambda>dto. \<not> (ud_expiryStatus dto = Some EXCEPTION \<and> \<not> truthy (ud_exceptionReason dto))),
     sv_look = document_lookup, sv_plan = document_next_status, sv_write = document_write,
     sv_archive = document_archive_write\<rparr>"

text \<open>A request between its parts: what it read, and the request itself (no body for an archive).\<close>

datatype ('r, 'q, 'b) work = Updating 'q 'r 'b | Archiving 'r

fun work_row :: "('r, 'q, 'b) work \<Rightarrow> 'r" where
  "work_row (Updating q x b) = x"
| "work_row (Archiving x) = x"

fun service_read :: "('r, 'q, 'b) service \<Rightarrow> uuid \<Rightarrow> string \<Rightarrow> 'q option \<Rightarrow> ('r, 'q, 'b) work tx" where
  "service_read S t i (Some q) = tthen (setTenantContext t) (tbind (sv_look S i)
     (\<lambda>x. tbind (sv_plan S t q x) (\<lambda>b. treturn (Updating q x b))))"
| "service_read S t i None = tthen (setTenantContext t) (tbind (sv_look S i) (\<lambda>x. treturn (Archiving x)))"

fun service_write :: "('r, 'q, 'b) service \<Rightarrow> string \<Rightarrow> audit_context \<Rightarrow> ('r, 'q, 'b) work \<Rightarrow> unit tx" where
  "service_write S i ctx (Updating q x b) = tthen (sv_write S i q ctx x b) (treturn ())"
| "service_write S i ctx (Archiving x) = tthen (sv_archive S i ctx x) (treturn ())"

record ('r, 'q, 'b) flight =
  fl_tenant :: uuid
  fl_id :: string
  fl_ctx :: audit_context
  fl_work :: "('r, 'q, 'b) work"
  fl_txs :: txs

text \<open>
  The traffic on one service: the committed world, the requests between their parts, the ids and
  versions the clients were shown, and, of the updates that succeeded, the ids and versions they named.
\<close>

record ('r, 'q, 'b) traffic =
  tr_world :: world
  tr_flights :: "('r, 'q, 'b) flight list"
  tr_shown :: "(string \<times> int) set"
  tr_won :: "(string \<times> int) list"

fun won_by :: "('r, 'q, 'b) service \<Rightarrow> string \<Rightarrow> ('r, 'q, 'b) work \<Rightarrow> (string \<times> int) list" where
  "won_by S i (Updating q x b) = [(uuid_canon i, sv_named S q)]"
| "won_by S i (Archiving x) = []"

definition honest :: "('r, 'q, 'b) service \<Rightarrow> (string \<times> int) set \<Rightarrow> string \<Rightarrow> 'q option \<Rightarrow> bool" where
  "honest S shown i q \<longleftrightarrow>
     (case q of None \<Rightarrow> True | Some dto \<Rightarrow> sv_accepts S dto \<and> (uuid_canon i, sv_named S dto) \<in> shown)"

inductive traffic_step ::
  "('r, 'q, 'b) service \<Rightarrow> env \<Rightarrow> ('r, 'q, 'b) traffic \<Rightarrow> ('r, 'q, 'b) traffic \<Rightarrow> bool" for S E where
  show_row: "r \<in> set (tb_rows (sv_table S) (w_db (tr_world y))) \<Longrightarrow>
    traffic_step S E y (y\<lparr>tr_shown := insert (sv_key S r, sv_version S r) (tr_shown y)\<rparr>)"
| elsewhere: "tb_rows (sv_table S) (w_db w') = tb_rows (sv_table S) (w_db (tr_world y)) @ rs \<Longrightarrow>
    ids_distinct (sv_table S) (sv_key S) (w_db w') \<Longrightarrow> traffic_step S E y (y\<lparr>tr_world := w'\<rparr>)"
| arrive: "honest S (tr_shown y) i q \<Longrightarrow>
    tx_open (service_read S t i q) E (tr_world y) = (Inr (k, s), w') \<Longrightarrow>
    traffic_step S E y (y\<lparr>tr_world := w', tr_flights :=
      \<lparr>fl_tenant = t, fl_id = i, fl_ctx = ctx, fl_work = k, fl_txs = s\<rparr> # tr_flights y\<rparr>)"
| commit: "f \<in> set (tr_flights y) \<Longrightarrow>
    tx_close (service_write S (fl_id f) (fl_ctx f) (fl_work f)) (fl_txs f) E (tr_world y) = (Inr (), w') \<Longrightarrow>
    traffic_step S E y (y\<lparr>tr_world := w', tr_flights := remove1 f (tr_flights y),
      tr_won := won_by S (fl_id f) (fl_work f) @ tr_won y\<rparr>)"
| refused: "f \<in> set (tr_flights y) \<Longrightarrow>
    tx_close (service_write S (fl_id f) (fl_ctx f) (fl_work f)) (fl_txs f) E (tr_world y) = (Inl e, w') \<Longrightarrow>
    traffic_step S E y (y\<lparr>tr_world := w', tr_flights := remove1 f (tr_flights y)\<rparr>)"

inductive traffic_reaches ::
  "('r, 'q, 'b) service \<Rightarrow> env \<Rightarrow> world \<Rightarrow> ('r, 'q, 'b) traffic \<Rightarrow> bool" for S E w where
  quiet_start: "traffic_reaches S E w \<lparr>tr_world = w, tr_flights = [], tr_shown = {}, tr_won = []\<rparr>"
| further: "traffic_reaches S E w y \<Longrightarrow> traffic_step S E y y' \<Longrightarrow> traffic_reaches S E w y'"

section \<open>The lock\<close>

definition ready :: "env \<Rightarrow> uuid \<Rightarrow> txs \<Rightarrow> bool" where
  "ready E t s \<longleftrightarrow> quiet E \<and> \<not> t_aborted s \<and> t_tenant s = Some t"

text \<open>
  What becomes of a row: it keeps its key, its version does not go back, and with the same version it
  is the same row or no longer live.
\<close>

definition row_ahead :: "('r \<Rightarrow> string) \<Rightarrow> ('r \<Rightarrow> int) \<Rightarrow> ('r \<Rightarrow> bool) \<Rightarrow> 'r \<Rightarrow> 'r \<Rightarrow> bool" where
  "row_ahead key ver live r r' \<longleftrightarrow> key r' = key r \<and> ver r \<le> ver r' \<and> (ver r' = ver r \<and> live r' \<longrightarrow> r' = r)"

definition rows_ahead :: "('r \<Rightarrow> string) \<Rightarrow> ('r \<Rightarrow> int) \<Rightarrow> ('r \<Rightarrow> bool) \<Rightarrow> 'r list \<Rightarrow> 'r list \<Rightarrow> bool" where
  "rows_ahead key ver live rs rs' \<longleftrightarrow> (\<forall>r \<in> set rs. \<exists>r' \<in> set rs'. row_ahead key ver live r r')"

lemma row_ahead_trans: "row_ahead key ver live a b \<Longrightarrow> row_ahead key ver live b c \<Longrightarrow> row_ahead key ver live a c"
  unfolding row_ahead_def by force

lemma rows_ahead_append: "rows_ahead key ver live rs (rs @ rs')"
  by (force simp: rows_ahead_def row_ahead_def)

lemma rows_ahead_replace:
  assumes "key x' = key x" "ver x < ver x' \<or> ver x' = ver x \<and> \<not> live x'"
  shows "rows_ahead key ver live rs (map (\<lambda>r. if r = x then x' else r) rs)"
  unfolding rows_ahead_def
proof
  fix r assume "r \<in> set rs"
  then show "\<exists>r' \<in> set (map (\<lambda>r. if r = x then x' else r) rs). row_ahead key ver live r r'"
    using assms by (intro bexI [of _ "if r = x then x' else r"]) (auto simp: row_ahead_def)
qed

text \<open>
  The invariant, over the stored rows: a shown version is at most the stored one; a request between its
  parts holds a row that is or was the stored one, and names at most its version; the versions updates
  have succeeded from are distinct and below the stored ones.
\<close>

definition shown_ok where
  "shown_ok key ver rs shown \<longleftrightarrow> (\<forall>p \<in> shown. \<exists>r \<in> set rs. key r = fst p \<and> snd p \<le> ver r)"

definition won_ok where
  "won_ok key ver rs won \<longleftrightarrow> distinct won \<and> (\<forall>p \<in> set won. \<exists>r \<in> set rs. key r = fst p \<and> snd p < ver r)"

definition flight_ok where
  "flight_ok key ver live named rs f \<longleftrightarrow>
     \<not> t_aborted (fl_txs f) \<and> t_tenant (fl_txs f) = Some (fl_tenant f)
     \<and> key (work_row (fl_work f)) = uuid_canon (fl_id f)
     \<and> (\<exists>r \<in> set rs. row_ahead key ver live (work_row (fl_work f)) r)
     \<and> (case fl_work f of Updating q x b \<Rightarrow> named q \<le> ver x | Archiving x \<Rightarrow> True)"

lemma rows_ahead_ok:
  assumes "rows_ahead key ver live rs rs'"
  shows "shown_ok key ver rs shown \<Longrightarrow> shown_ok key ver rs' shown"
    and "won_ok key ver rs won \<Longrightarrow> won_ok key ver rs' won"
    and "flight_ok key ver live named rs f \<Longrightarrow> flight_ok key ver live named rs' f"
proof -
  have go: "\<exists>r' \<in> set rs'. row_ahead key ver live r r'" if "r \<in> set rs" for r
    using assms that unfolding rows_ahead_def by blast
  have up: "\<exists>r' \<in> set rs'. key r' = k \<and> v + d \<le> ver r'" if "\<exists>r \<in> set rs. key r = k \<and> v + d \<le> ver r" for k v d
    using that go unfolding row_ahead_def by (metis order_trans)
  show "shown_ok key ver rs shown \<Longrightarrow> shown_ok key ver rs' shown"
    using up [where d = 0] unfolding shown_ok_def by auto
  show "won_ok key ver rs won \<Longrightarrow> won_ok key ver rs' won"
    using up [where d = 1] unfolding won_ok_def by (auto simp: add1_zle_eq)
  show "flight_ok key ver live named rs f \<Longrightarrow> flight_ok key ver live named rs' f"
    using go row_ahead_trans unfolding flight_ok_def by (metis (no_types, lifting))
qed

definition traffic_ok :: "('r, 'q, 'b) service \<Rightarrow> ('r \<Rightarrow> bool) \<Rightarrow> ('r, 'q, 'b) traffic \<Rightarrow> bool" where
  "traffic_ok S live y \<longleftrightarrow>
     (let rs = tb_rows (sv_table S) (w_db (tr_world y))
      in ids_distinct (sv_table S) (sv_key S) (w_db (tr_world y))
        \<and> shown_ok (sv_key S) (sv_version S) rs (tr_shown y)
        \<and> won_ok (sv_key S) (sv_version S) rs (tr_won y)
        \<and> (\<forall>f \<in> set (tr_flights y). flight_ok (sv_key S) (sv_version S) live (sv_named S) rs f))"

text \<open>The laws of such a service: what its look-up finds, and what its two writes do, without outside failures.\<close>

locale versioned_service = keyed_table "sv_table S" "sv_key S" ask
  for S :: "('r, 'q, 'b) service" and ask :: "string \<Rightarrow> 'r \<Rightarrow> bool" +
  fixes live :: "'r \<Rightarrow> bool"
  assumes ask_live: "ask i r \<Longrightarrow> live r"
    and look: "ready E t s \<Longrightarrow> sv_look S i E s = (Inr x, s') \<Longrightarrow>
      found (sv_table S) t (ask i) (t_db s) = Some x \<and> ready E t s' \<and> t_db s' = t_db s"
    and plan: "ready E t s \<Longrightarrow> sv_plan S t q x E s = (Inr b, s') \<Longrightarrow> ready E t s' \<and> t_db s' = t_db s"
    and writes: "ready E t s \<Longrightarrow> ids_distinct (sv_table S) (sv_key S) (t_db s) \<Longrightarrow>
      sv_write S i q ctx x b E s = (Inr a, s') \<Longrightarrow>
      \<exists>e. found (sv_table S) t (ask i) (t_db s) = Some e \<and> sv_version S e = sv_named S q
        \<and> sv_key S a = sv_key S e \<and> sv_version S a = sv_version S x + 1 \<and> \<not> t_aborted s'
        \<and> tb_rows (sv_table S) (t_db s') = map (\<lambda>r. if r = e then a else r) (tb_rows (sv_table S) (t_db s))"
    and archives: "ready E t s \<Longrightarrow> ids_distinct (sv_table S) (sv_key S) (t_db s) \<Longrightarrow>
      sv_archive S i ctx x E s = (Inr u, s') \<Longrightarrow>
      \<exists>e a. found (sv_table S) t (ask i) (t_db s) = Some e
        \<and> sv_key S a = sv_key S e \<and> sv_version S a = sv_version S e \<and> \<not> live a \<and> \<not> t_aborted s'
        \<and> tb_rows (sv_table S) (t_db s') = map (\<lambda>r. if r = e then a else r) (tb_rows (sv_table S) (t_db s))"
begin

abbreviation rows :: "db \<Rightarrow> 'r list" where "rows \<equiv> tb_rows (sv_table S)"
abbreviation ahead :: "'r list \<Rightarrow> 'r list \<Rightarrow> bool" where "ahead \<equiv> rows_ahead (sv_key S) (sv_version S) live"
abbreviation unique :: "db \<Rightarrow> bool" where "unique \<equiv> ids_distinct (sv_table S) (sv_key S)"

lemma open_tenant:
  assumes "quiet E" "tthen (setTenantContext t) m E (start E w) = (Inr k, s)"
  obtains s0 where "ready E t s0" "t_db s0 = w_db w" "m E s0 = (Inr k, s)"
proof (rule that [of "(start E w)\<lparr>t_ext := tick (tick (w_ext w)), t_tenant := Some t\<rparr>"])
qed (use assms in \<open>auto simp: setTenantContext_quiet tbind_def ready_def\<close>)

lemma read_part:
  assumes E: "quiet E" and run: "tx_open (service_read S t i q) E w = (Inr (k, s), w')"
  shows "found (sv_table S) t (ask i) (w_db w) = Some (work_row k)" "ready E t s"
    "case k of Updating dto x b \<Rightarrow> q = Some dto | Archiving x \<Rightarrow> q = None"
proof -
  have m: "service_read S t i q E (start E w) = (Inr k, s)"
    using E run by (auto simp: tx_open_def quiet_def split: prod.splits sum.splits)
  have "found (sv_table S) t (ask i) (w_db w) = Some (work_row k) \<and> ready E t s
    \<and> (case k of Updating dto x b \<Rightarrow> q = Some dto | Archiving x \<Rightarrow> q = None)"
  proof (cases q)
    case None
    with m obtain s0 where s0: "ready E t s0" "t_db s0 = w_db w"
      "tbind (sv_look S i) (\<lambda>x. treturn (Archiving x)) E s0 = (Inr k, s)"
      by (auto elim: open_tenant [OF E])
    then obtain x where "sv_look S i E s0 = (Inr x, s)" "k = Archiving x"
      by (auto simp: tbind_def treturn_def split: prod.splits sum.splits)
    then show ?thesis using look [OF s0(1)] s0(2) None by auto
  next
    case (Some dto)
    with m obtain s0 where s0: "ready E t s0" "t_db s0 = w_db w"
      "tbind (sv_look S i) (\<lambda>x. tbind (sv_plan S t dto x) (\<lambda>b. treturn (Updating dto x b))) E s0 = (Inr k, s)"
      by (auto elim: open_tenant [OF E])
    then obtain x s1 b where 1: "sv_look S i E s0 = (Inr x, s1)" "sv_plan S t dto x E s1 = (Inr b, s)"
      "k = Updating dto x b"
      by (auto simp: tbind_def treturn_def split: prod.splits sum.splits)
    then show ?thesis using look [OF s0(1) 1(1)] plan [OF _ 1(2)] s0(2) Some by auto
  qed
  then show "found (sv_table S) t (ask i) (w_db w) = Some (work_row k)" "ready E t s"
    "case k of Updating dto x b \<Rightarrow> q = Some dto | Archiving x \<Rightarrow> q = None" by blast+
qed

lemma close_part:
  assumes E: "quiet E" and run: "tx_close m s E w = (Inr u, w')"
  obtains s' where "m E (s\<lparr>t_db := w_db w, t_ext := w_ext w\<rparr>) = (Inr u, s')"
    "\<not> t_aborted s' \<Longrightarrow> w_db w' = t_db s'"
  using E run by (auto simp: tx_close_def quiet_def split: prod.splits sum.splits if_splits)

lemma write_part:
  assumes E: "quiet E" and s: "\<not> t_aborted s" "t_tenant s = Some t" and d: "unique (w_db w)"
    and run: "tx_close (service_write S i ctx k) s E w = (Inr u, w')"
  shows "\<exists>e a. found (sv_table S) t (ask i) (w_db w) = Some e \<and> sv_key S a = sv_key S e
    \<and> rows (w_db w') = map (\<lambda>r. if r = e then a else r) (rows (w_db w))
    \<and> (case k of Updating q x b \<Rightarrow> sv_version S e = sv_named S q \<and> sv_version S a = sv_version S x + 1
       | Archiving x \<Rightarrow> sv_version S a = sv_version S e \<and> \<not> live a)"
proof -
  let ?s = "s\<lparr>t_db := w_db w, t_ext := w_ext w\<rparr>"
  obtain s' where m: "service_write S i ctx k E ?s = (Inr u, s')" and w': "\<not> t_aborted s' \<Longrightarrow> w_db w' = t_db s'"
    using close_part [OF E run] by blast
  have rd: "ready E t ?s" using E s by (simp add: ready_def)
  show ?thesis
  proof (cases k)
    case (Updating q x b)
    then obtain a where "sv_write S i q ctx x b E ?s = (Inr a, s')"
      using m by (auto simp: tbind_def treturn_def split: prod.splits sum.splits)
    from writes [OF rd _ this] show ?thesis using d w' Updating by auto
  next
    case (Archiving x)
    then obtain a where "sv_archive S i ctx x E ?s = (Inr a, s')"
      using m by (auto simp: tbind_def treturn_def split: prod.splits sum.splits)
    from archives [OF rd _ this] show ?thesis using d w' Archiving by auto
  qed
qed

text \<open>A successful update finds the row its request read.\<close>

lemma update_meets_its_read:
  assumes ok: "flight_ok (sv_key S) (sv_version S) live (sv_named S) (rows d) f" and d: "unique d"
    and e: "found (sv_table S) t (ask (fl_id f)) d = Some e"
    and k: "fl_work f = Updating q x b" "sv_version S e = sv_named S q"
  shows "x = e"
proof -
  obtain r where r: "r \<in> set (rows d)" "row_ahead (sv_key S) (sv_version S) live x r"
    and x: "sv_key S x = uuid_canon (fl_id f)" "sv_named S q \<le> sv_version S x"
    using ok k(1) by (auto simp: flight_ok_def)
  note e' = found_visible [OF e]
  then have "sv_key S e = sv_key S r" using r x ask_key [of "fl_id f" e] by (simp add: row_ahead_def)
  then have "r = e" using d e' r(1) unfolding ids_distinct_def distinct_map by (metis inj_onD)
  then show ?thesis using r(2) x(2) k(2) e' ask_live [of "fl_id f" e] by (auto simp: row_ahead_def)
qed

lemma committed:
  assumes E: "quiet E" and ok: "traffic_ok S live y" and f: "f \<in> set (tr_flights y)"
    and run: "tx_close (service_write S (fl_id f) (fl_ctx f) (fl_work f)) (fl_txs f) E (tr_world y) = (Inr u, w')"
  obtains e a where "found (sv_table S) (fl_tenant f) (ask (fl_id f)) (w_db (tr_world y)) = Some e"
    "sv_key S a = sv_key S e" "rows (w_db w') = map (\<lambda>r. if r = e then a else r) (rows (w_db (tr_world y)))"
    "case fl_work f of
       Updating q x b \<Rightarrow> x = e \<and> sv_version S e = sv_named S q \<and> sv_version S a = sv_version S e + 1
     | Archiving x \<Rightarrow> sv_version S a = sv_version S e \<and> \<not> live a"
proof -
  have d: "unique (w_db (tr_world y))"
    and fo: "flight_ok (sv_key S) (sv_version S) live (sv_named S) (rows (w_db (tr_world y))) f"
    using ok f by (auto simp: traffic_ok_def Let_def)
  then have s: "\<not> t_aborted (fl_txs f)" "t_tenant (fl_txs f) = Some (fl_tenant f)" by (auto simp: flight_ok_def)
  obtain e a where 1: "found (sv_table S) (fl_tenant f) (ask (fl_id f)) (w_db (tr_world y)) = Some e"
    "sv_key S a = sv_key S e" "rows (w_db w') = map (\<lambda>r. if r = e then a else r) (rows (w_db (tr_world y)))"
    and 2: "case fl_work f of Updating q x b \<Rightarrow> sv_version S e = sv_named S q \<and> sv_version S a = sv_version S x + 1
       | Archiving x \<Rightarrow> sv_version S a = sv_version S e \<and> \<not> live a"
    using write_part [OF E s d run] by blast
  have "case fl_work f of
       Updating q x b \<Rightarrow> x = e \<and> sv_version S e = sv_named S q \<and> sv_version S a = sv_version S e + 1
     | Archiving x \<Rightarrow> sv_version S a = sv_version S e \<and> \<not> live a"
    using 2 update_meets_its_read [OF fo d 1(1)] by (auto split: work.splits)
  then show ?thesis by (rule that [OF 1])
qed

lemma unique_replaced:
  assumes "unique d" "sv_key S a = sv_key S e" "rows d' = map (\<lambda>r. if r = e then a else r) (rows d)"
  shows "unique d'"
proof -
  have "map (sv_key S) (rows d') = map (sv_key S) (rows d)" using assms(2,3) by simp
  then show ?thesis using assms(1) by (simp add: ids_distinct_def)
qed

lemma ok_ahead:
  assumes "traffic_ok S live y" "ahead (rows (w_db (tr_world y))) (rows (w_db w'))" "unique (w_db w')"
    and "set fs \<subseteq> set (tr_flights y)"
  shows "traffic_ok S live (y\<lparr>tr_world := w', tr_flights := fs\<rparr>)"
proof -
  have "\<forall>f \<in> set fs. flight_ok (sv_key S) (sv_version S) live (sv_named S) (rows (w_db w')) f"
    using assms(1,4) rows_ahead_ok(3) [OF assms(2)] unfolding traffic_ok_def Let_def by blast
  then show ?thesis
    using assms(1,3) rows_ahead_ok(1,2) [OF assms(2)] by (simp add: traffic_ok_def Let_def)
qed

lemma ok_step:
  assumes E: "quiet E" and ok: "traffic_ok S live y" and step: "traffic_step S E y y'"
  shows "traffic_ok S live y'"
  using step
proof cases
  case (show_row r)
  then show ?thesis using ok by (auto simp: traffic_ok_def shown_ok_def Let_def)
next
  case (elsewhere w' rs)
  then show ?thesis using ok_ahead [OF ok, of w' "tr_flights y"] by (simp add: rows_ahead_append)
next
  case (arrive i q t k s w' ctx)
  note k = read_part [OF E arrive(3)]
  have w': "w_db w' = w_db (tr_world y)" by (rule tx_open_db [OF arrive(3)])
  note x = found_visible [OF k(1)]
  then have x': "sv_key S (work_row k) = uuid_canon i" using ask_key by blast
  have named: "case k of Updating dto x b \<Rightarrow> sv_named S dto \<le> sv_version S x | Archiving x \<Rightarrow> True"
  proof (cases k)
    case (Updating dto y' b)
    then have "(uuid_canon i, sv_named S dto) \<in> tr_shown y" using arrive(2) k(3) by (simp add: honest_def)
    then obtain r where r: "r \<in> set (rows (w_db (tr_world y)))" "sv_key S r = uuid_canon i"
      "sv_named S dto \<le> sv_version S r"
      using ok by (force simp: traffic_ok_def shown_ok_def Let_def)
    have "r = y'"
      using ok x x' r Updating unfolding traffic_ok_def Let_def ids_distinct_def distinct_map
      by (simp, metis inj_onD)
    then show ?thesis using r(3) Updating by simp
  qed simp
  have "flight_ok (sv_key S) (sv_version S) live (sv_named S) (rows (w_db (tr_world y)))
      \<lparr>fl_tenant = t, fl_id = i, fl_ctx = ctx, fl_work = k, fl_txs = s\<rparr>"
    using k(2) x x' named by (auto simp: flight_ok_def ready_def row_ahead_def)
  then show ?thesis using ok arrive(1) w' by (auto simp: traffic_ok_def Let_def)
next
  case (commit f w')
  obtain e a where e: "found (sv_table S) (fl_tenant f) (ask (fl_id f)) (w_db (tr_world y)) = Some e"
    and a: "sv_key S a = sv_key S e" "rows (w_db w') = map (\<lambda>r. if r = e then a else r) (rows (w_db (tr_world y)))"
    and v: "case fl_work f of
       Updating q x b \<Rightarrow> x = e \<and> sv_version S e = sv_named S q \<and> sv_version S a = sv_version S e + 1
     | Archiving x \<Rightarrow> sv_version S a = sv_version S e \<and> \<not> live a"
    using committed [OF E ok commit(2,3)] by blast
  have ah: "ahead (rows (w_db (tr_world y))) (rows (w_db w'))"
    unfolding a(2) using a(1) v by (intro rows_ahead_replace) (auto split: work.splits)
  have u: "unique (w_db w')" using unique_replaced [OF _ a] ok by (simp add: traffic_ok_def Let_def)
  have ok': "traffic_ok S live (y\<lparr>tr_world := w', tr_flights := remove1 f (tr_flights y)\<rparr>)"
    by (rule ok_ahead [OF ok ah u]) (rule set_remove1_subset)
  have e': "e \<in> set (rows (w_db (tr_world y)))" "sv_key S e = uuid_canon (fl_id f)"
    using found_visible [OF e] ask_key by blast+
  show ?thesis
  proof (cases "fl_work f")
    case (Archiving x)
    then show ?thesis using ok' commit(1) by (simp add: traffic_ok_def Let_def)
  next
    case (Updating q x b)
    have "(uuid_canon (fl_id f), sv_named S q) \<notin> set (tr_won y)"
    proof
      assume "(uuid_canon (fl_id f), sv_named S q) \<in> set (tr_won y)"
      then obtain r where r: "r \<in> set (rows (w_db (tr_world y)))" "sv_key S r = uuid_canon (fl_id f)"
        "sv_named S q < sv_version S r"
        using ok by (force simp: traffic_ok_def won_ok_def Let_def)
      have "r = e"
        using ok e' r unfolding traffic_ok_def Let_def ids_distinct_def distinct_map by (metis inj_onD)
      then show False using r(3) v Updating by simp
    qed
    moreover have "a \<in> set (rows (w_db w'))" using a(2) e'(1) by force
    ultimately show ?thesis
      using ok' commit(1) Updating v a(1) e'(2)
      by (auto simp: traffic_ok_def won_ok_def Let_def intro!: bexI [of _ a])
  qed
next
  case (refused f e w')
  then have w': "w_db w' = w_db (tr_world y)" by (simp add: tx_close_failed)
  have "ahead (rows (w_db (tr_world y))) (rows (w_db w'))"
    unfolding w' using rows_ahead_append [of _ _ _ _ "[]"] by simp
  then show ?thesis
    using ok_ahead [OF ok, of w' "remove1 f (tr_flights y)"] refused(1) ok w' set_remove1_subset [of f]
    by (simp add: traffic_ok_def Let_def)
qed

lemma ok_reached:
  assumes "traffic_reaches S E w y" "quiet E" "unique (w_db w)"
  shows "traffic_ok S live y"
  using assms
proof (induction rule: traffic_reaches.induct)
  case quiet_start
  then show ?case by (simp add: traffic_ok_def shown_ok_def won_ok_def)
next
  case (further y y')
  then show ?case by (blast intro: ok_step)
qed

lemma won_apart:
  assumes "quiet E" "unique (w_db w)" "traffic_reaches S E w y"
  shows "distinct (tr_won y) \<and> (\<forall>(k, v) \<in> set (tr_won y).
    \<exists>r \<in> set (rows (w_db (tr_world y))). sv_key S r = k \<and> v < sv_version S r)"
  using ok_reached [OF assms(3,1,2)] by (simp add: traffic_ok_def won_ok_def Let_def case_prod_beta)

end

end
