(* ===== verification/Races.thy ===== *)
theory Races
  imports Concurrency
begin

text \<open>
  The employee and the document service as instances of \<open>versioned_service\<close>: that the parts of a request,
  run one after the other, are the service's method (\<open>employee_parts\<close>, \<open>document_parts\<close>), that the other
  methods are steps of the traffic, and that requests which overlap are serial.
\<close>

section \<open>The two services\<close>

context keyed_table begin

lemma update_none_quiet:
  assumes "quiet E" "\<not> t_aborted s" "t_tenant s = Some t" "found T t (ask i) (t_db s) = None"
  shows "fst (update_returning T (\<lambda>r. ask i r \<and> Q r) f E s) = Inr []"
  using assms by (auto simp: update_returning_quiet found_def visible_rows_def filter_empty_conv)

end

lemma employee_write_meets:
  assumes "ready E t s" and "employee_ids_distinct (t_db s)"
    and run: "employee_write i dto ctx before E s = (Inr a, s')"
  shows "\<exists>e. live_of t i (t_db s) = Some e \<and> em_version e = ue_version dto \<and> a = employee_set before dto e
    \<and> \<not> t_aborted s' \<and> employees (t_db s') = map (\<lambda>r. if r = e then a else r) (employees (t_db s))"
proof -
  have q: "quiet E" "\<not> t_aborted s" "t_tenant s = Some t" using assms(1) by (simp_all add: ready_def)
  have int: "int4 (em_version before + 1)" "int4 (ue_version dto)"
    using run employee_write_bad [OF q(1,2), of before dto i ctx] by auto
  obtain e where e: "live_of t i (t_db s) = Some e"
  proof (cases "live_of t i (t_db s)")
    case None
    obtain s1 where "update_returning employees_t (\<lambda>r. live_employee i r \<and> em_version r = ue_version dto)
        (\<lambda>now. employee_set before dto) E s = (Inr [], s1)"
      using employee_ids.update_none_quiet [OF q None] by (metis prod.collapse)
    then show ?thesis using run int by (simp add: employee_write_def tx_simps)
  qed
  show ?thesis
    using employee_write_quiet [OF q assms(2) e int, of ctx] run e q(2)
    by (auto simp: replace_row_def split: if_splits)
qed

lemma employee_archive_meets:
  assumes "ready E t s" and "employee_ids_distinct (t_db s)"
    and run: "employee_archive_write i ctx before E s = (Inr u, s')"
  shows "\<exists>e. live_of t i (t_db s) = Some e \<and> u = (em_id e, toISOString (t_now s)) \<and> \<not> t_aborted s'
    \<and> employees (t_db s') = map (\<lambda>r. if r = e then employee_archive_set (t_now s) e else r) (employees (t_db s))"
proof -
  have q: "quiet E" "\<not> t_aborted s" "t_tenant s = Some t" using assms(1) by (simp_all add: ready_def)
  obtain e where e: "live_of t i (t_db s) = Some e"
  proof (cases "live_of t i (t_db s)")
    case None
    obtain s1 where "update_returning employees_t (live_employee i) employee_archive_set E s = (Inr [], s1)"
      using employee_ids.update_none_quiet [OF q None, of "\<lambda>_. True" employee_archive_set, simplified]
      by (metis prod.collapse)
    then show ?thesis using run by (simp add: employee_archive_write_def tx_simps)
  qed
  show ?thesis
    using run q e assms(2)
    by (auto simp: employee_archive_write_def tx_simps employee_ids.update_all_quiet audit_log_quiet replace_row_def
        employee_archive_set_def [of _ e])
qed

lemma employee_look_finds:
  assumes "ready E t s" and "employee_lookup i E s = (Inr x, s')"
  shows "live_of t i (t_db s) = Some x \<and> ready E t s' \<and> t_db s' = t_db s"
proof -
  have q: "quiet E" "\<not> t_aborted s" "t_tenant s = Some t" using assms(1) by (simp_all add: ready_def)
  then have "pg_uuid i" using employee_lookup_bad [of E s i] assms(2) by fastforce
  then show ?thesis
    using employee_lookup_quiet [of E s i t] q assms by (auto simp: ready_def split: option.splits)
qed

interpretation employee_lock: versioned_service employees_service live_employee "\<lambda>r. em_deletedAt r = None"
proof (unfold_locales, goal_cases)
  case (5 E t s i x s')
  then show ?case using employee_look_finds [of E t s i x s'] by (simp add: employees_service_def)
next
  case (6 E t s q x b s')
  then show ?case by (simp add: employees_service_def treturn_def)
next
  case (7 E t s i q ctx x b a s')
  then show ?case using employee_write_meets [of E t s i q ctx x a s'] by (auto simp: employees_service_def)
next
  case (8 E t s i ctx x u s')
  then obtain e where e: "live_of t i (t_db s) = Some e" "\<not> t_aborted s'"
    "employees (t_db s') = map (\<lambda>r. if r = e then employee_archive_set (t_now s) e else r) (employees (t_db s))"
    using employee_archive_meets [of E t s i ctx x u s'] by (auto simp: employees_service_def)
  show ?case
    by (rule exI [of _ e], rule exI [of _ "employee_archive_set (t_now s) e"])
      (use e in \<open>simp add: employees_service_def employee_archive_set_def\<close>)
qed (auto simp: employees_service_def live_employee_def same_uuid_def)

lemma document_write_meets:
  assumes "ready E t s" and "document_ids_distinct (t_db s)"
    and run: "document_write i dto ctx before st E s = (Inr a, s')"
  shows "\<exists>e. live_doc_of t i (t_db s) = Some e \<and> dc_version e = ud_version dto
    \<and> a = document_set before dto st (t_now s) e \<and> \<not> t_aborted s'
    \<and> documents (t_db s') = map (\<lambda>r. if r = e then a else r) (documents (t_db s))"
proof -
  have q: "quiet E" "\<not> t_aborted s" "t_tenant s = Some t" using assms(1) by (simp_all add: ready_def)
  have ok: "document_params_ok dto before"
    using run document_write_bad [OF q(1,2), of dto before i ctx st] by auto
  obtain e where e: "live_doc_of t i (t_db s) = Some e"
  proof (cases "live_doc_of t i (t_db s)")
    case None
    obtain s1 where "update_returning documents_t (\<lambda>r. live_document i r \<and> dc_version r = ud_version dto)
        (document_set before dto st) E s = (Inr [], s1)"
      using document_ids.update_none_quiet [OF q None] by (metis prod.collapse)
    then show ?thesis using run ok by (simp add: document_write_def document_params_ok_def tx_simps)
  qed
  show ?thesis
    using document_write_quiet [OF q assms(2) e ok, of ctx st] run e q(2)
    by (auto simp: replace_row_def Let_def split: if_splits)
qed

lemma document_archive_meets:
  assumes "ready E t s" and "document_ids_distinct (t_db s)"
    and run: "document_archive_write i ctx before E s = (Inr u, s')"
  shows "\<exists>e. live_doc_of t i (t_db s) = Some e \<and> u = (dc_id e, toISOString (t_now s)) \<and> \<not> t_aborted s'
    \<and> documents (t_db s') = map (\<lambda>r. if r = e then document_archive_set (t_now s) e else r) (documents (t_db s))"
proof -
  have q: "quiet E" "\<not> t_aborted s" "t_tenant s = Some t" using assms(1) by (simp_all add: ready_def)
  obtain e where e: "live_doc_of t i (t_db s) = Some e"
  proof (cases "live_doc_of t i (t_db s)")
    case None
    obtain s1 where "update_returning documents_t (live_document i) document_archive_set E s = (Inr [], s1)"
      using document_ids.update_none_quiet [OF q None, of "\<lambda>_. True" document_archive_set, simplified]
      by (metis prod.collapse)
    then show ?thesis using run by (simp add: document_archive_write_def tx_simps)
  qed
  show ?thesis
    using run q e assms(2)
    by (auto simp: document_archive_write_def tx_simps document_ids.update_all_quiet audit_log_quiet replace_row_def
        document_archive_set_def [of _ e])
qed

lemma document_look_finds:
  assumes "ready E t s" and "document_lookup i E s = (Inr x, s')"
  shows "live_doc_of t i (t_db s) = Some x \<and> ready E t s' \<and> t_db s' = t_db s"
proof -
  have q: "quiet E" "\<not> t_aborted s" "t_tenant s = Some t" using assms(1) by (simp_all add: ready_def)
  then have "pg_uuid i" using document_lookup_bad [of E s i] assms(2) by fastforce
  then show ?thesis
    using document_lookup_quiet [of E s i t] q assms by (auto simp: ready_def split: option.splits)
qed

interpretation document_lock: versioned_service documents_service live_document "\<lambda>r. dc_deletedAt r = None"
proof (unfold_locales, goal_cases)
  case (5 E t s i x s')
  then show ?case using document_look_finds [of E t s i x s'] by (simp add: documents_service_def)
next
  case (6 E t s q x b s')
  then show ?case
    by (auto simp: documents_service_def ready_def next_status_quiet split: if_splits)
next
  case (7 E t s i q ctx x b a s')
  then show ?case using document_write_meets [of E t s i q ctx x b a s'] by (auto simp: documents_service_def)
next
  case (8 E t s i ctx x u s')
  then obtain e where e: "live_doc_of t i (t_db s) = Some e" "\<not> t_aborted s'"
    "documents (t_db s') = map (\<lambda>r. if r = e then document_archive_set (t_now s) e else r) (documents (t_db s))"
    using document_archive_meets [of E t s i ctx x u s'] by (auto simp: documents_service_def)
  show ?case
    by (rule exI [of _ e], rule exI [of _ "document_archive_set (t_now s) e"])
      (use e in \<open>simp add: documents_service_def document_archive_set_def\<close>)
qed (auto simp: documents_service_def live_document_def same_uuid_def)

section \<open>The parts and the methods\<close>

text \<open>A tail that throws the answer away changes nothing else.\<close>

lemma transaction_forget:
  assumes "tthen m (treturn ()) = m'"
  shows "snd (transaction m' E w) = snd (transaction m E w)"
proof (cases "e_fault E (x_tick (w_ext w))")
  case None
  obtain r s where m: "m E (start E w) = (r, s)" by force
  have m': "m' E (start E w) = (case r of Inl e \<Rightarrow> (Inl e, s) | Inr a \<Rightarrow> (Inr (), s))"
    using m by (simp add: assms [symmetric] tbind_def treturn_def split: sum.split)
  show ?thesis
    using None m m' unfolding transaction_def Let_def start_def by (cases r) (simp_all split: option.split)
qed (simp add: transaction_def)

lemma lookups_read [keeps_intros]:
  "keeps (sees d) (employee_lookup i)" "keeps (sees d) (document_lookup i)"
  "keeps (sees d) (document_next_status t dto y)"
  unfolding employee_lookup_def document_lookup_def document_next_status_def loadPolicy_def
  by (auto intro!: keeps_intros)

definition parts_run ::
  "('r, 'q, 'b) service \<Rightarrow> uuid \<Rightarrow> string \<Rightarrow> 'q option \<Rightarrow> audit_context \<Rightarrow> env \<Rightarrow> world \<Rightarrow> world" where
  "parts_run S t i q ctx E w =
     (case tx_open (service_read S t i q) E w of
        (Inl e, w') \<Rightarrow> w'
      | (Inr (k, s), w') \<Rightarrow> snd (tx_close (service_write S i ctx k) s E w'))"

lemma parts_run_transaction:
  assumes "\<And>d. keeps (sees d) (sv_look S i)" "\<And>d q x. keeps (sees d) (sv_plan S t q x)"
  shows "parts_run S t i q ctx E w = snd (transaction (tbind (service_read S t i q) (service_write S i ctx)) E w)"
proof -
  have "keeps (sees d) (service_read S t i q)" for d
    by (cases q) (auto intro!: keeps_intros assms)
  from reads_only [OF this] show ?thesis
    unfolding parts_run_def by (subst transaction_parts) (auto split: sum.split prod.split)
qed

lemma service_simps [simp]:
  "sv_table employees_service = employees_t" "sv_key employees_service = (\<lambda>r. uuid_canon (em_id r))"
  "sv_version employees_service = em_version" "sv_named employees_service = ue_version"
  "sv_look employees_service = employee_lookup" "sv_plan employees_service = (\<lambda>_ _ _. treturn ())"
  "sv_write employees_service = (\<lambda>i dto ctx before _. employee_write i dto ctx before)"
  "sv_archive employees_service = employee_archive_write"
  "sv_table documents_service = documents_t" "sv_key documents_service = (\<lambda>r. uuid_canon (dc_id r))"
  "sv_version documents_service = dc_version" "sv_named documents_service = ud_version"
  "sv_look documents_service = document_lookup" "sv_plan documents_service = document_next_status"
  "sv_write documents_service = document_write" "sv_archive documents_service = document_archive_write"
  by (simp_all add: employees_service_def documents_service_def)

lemma accepts_document:
  "sv_accepts documents_service dto \<longleftrightarrow> \<not> (ud_expiryStatus dto = Some EXCEPTION \<and> \<not> truthy (ud_exceptionReason dto))"
  by (simp add: documents_service_def)

lemma employee_parts:
  "parts_run employees_service t i (Some dto) ctx E w = snd (EmployeesService_update t i dto ctx E w)"
  "parts_run employees_service t i None ctx E w = snd (EmployeesService_archive t i ctx E w)"
proof -
  have "parts_run employees_service t i q ctx E w =
      snd (transaction (tbind (service_read employees_service t i q) (service_write employees_service i ctx)) E w)" for q
    by (rule parts_run_transaction) (auto intro!: keeps_intros)
  then show "parts_run employees_service t i (Some dto) ctx E w = snd (EmployeesService_update t i dto ctx E w)"
    "parts_run employees_service t i None ctx E w = snd (EmployeesService_archive t i ctx E w)"
    unfolding EmployeesService_update_def EmployeesService_archive_def
    by (simp_all add: transaction_forget tbind_assoc)
qed

lemma document_parts:
  "sv_accepts documents_service dto \<Longrightarrow>
    parts_run documents_service t i (Some dto) ctx E w = snd (DocumentsService_update t i dto ctx E w)"
  "parts_run documents_service t i None ctx E w = snd (DocumentsService_archive t i ctx E w)"
proof -
  have "parts_run documents_service t i q ctx E w =
      snd (transaction (tbind (service_read documents_service t i q) (service_write documents_service i ctx)) E w)" for q
    by (rule parts_run_transaction) (auto intro!: keeps_intros)
  then show "parts_run documents_service t i None ctx E w = snd (DocumentsService_archive t i ctx E w)"
    "sv_accepts documents_service dto \<Longrightarrow>
      parts_run documents_service t i (Some dto) ctx E w = snd (DocumentsService_update t i dto ctx E w)"
    unfolding DocumentsService_update_def DocumentsService_archive_def
    by (auto simp: transaction_forget tbind_assoc accepts_document)
qed

section \<open>What runs elsewhere\<close>

text \<open>
  The rule \<open>elsewhere\<close> of the traffic covers every other method of the two services, in one piece: on the
  table in question they add rows at most, and ids stay distinct.
\<close>

definition appends :: "'r table \<Rightarrow> ('r \<Rightarrow> string) \<Rightarrow> db \<Rightarrow> db \<Rightarrow> bool" where
  "appends T key d d' \<longleftrightarrow>
     (\<exists>rs. tb_rows T d' = tb_rows T d @ rs) \<and> (ids_distinct T key d \<longrightarrow> ids_distinct T key d')"

interpretation appends: db_relation "appends T key" for T :: "'r table" and key
  by unfold_locales (fastforce simp: appends_def)+

lemma insert_elsewhere:
  assumes "\<And>rs d. tb_rows T (tb_put U rs d) = tb_rows T d"
  shows "keeps (txinv (appends T key) t d0) (insert_returning U typ clash fk mk)"
  unfolding insert_returning_def
  by (rule appends.keeps_statement)
    (auto simp: stmt_rel_def appends_def ids_distinct_def assms Let_def split: if_splits)

lemma update_elsewhere:
  assumes "\<And>rs d. tb_rows T (tb_put U rs d) = tb_rows T d"
  shows "keeps (txinv (appends T key) t d0) (update_returning U p f)"
  unfolding update_returning_def
  by (rule appends.keeps_statement) (auto simp: stmt_rel_def appends_def ids_distinct_def assms Let_def)

lemma insert_here:
  assumes "\<And>rs d. tb_rows T (tb_put T rs d) = rs" "\<And>r r'. key r = key r' \<Longrightarrow> clash r r'"
  shows "keeps (txinv (appends T key) t d0) (insert_returning T typ clash fk mk)"
  unfolding insert_returning_def
  by (rule appends.keeps_statement, auto simp: stmt_rel_def appends_def ids_distinct_def assms(1) Let_def list_ex_iff split: if_splits)
    (metis assms(2))+

lemma audit_elsewhere:
  assumes "\<And>rs d. tb_rows T (d\<lparr>auditEvents := rs\<rparr>) = tb_rows T d"
  shows "keeps (txinv (appends T key) t d0) (audit_log ctx act ty eid b a oc rs)"
  unfolding audit_log_def Let_def by (intro keeps_intros insert_elsewhere) (simp add: assms)

abbreviation adds_employees :: "db \<Rightarrow> db \<Rightarrow> bool" where
  "adds_employees \<equiv> appends employees_t (\<lambda>r. uuid_canon (em_id r))"

abbreviation adds_documents :: "db \<Rightarrow> db \<Rightarrow> bool" where
  "adds_documents \<equiv> appends documents_t (\<lambda>r. uuid_canon (dc_id r))"

lemma writes_elsewhere:
  "keeps (txinv adds_employees t d0) (insert_returning employees_t typ employee_clash fk mk)"
  "keeps (txinv adds_employees t d0) (insert_returning documents_t dtyp dclash dfk dmk)"
  "keeps (txinv adds_employees t d0) (update_returning documents_t dp df)"
  "keeps (txinv adds_documents t d0) (insert_returning documents_t dtyp document_clash dfk dmk)"
  "keeps (txinv adds_documents t d0) (insert_returning employees_t typ clash fk mk)"
  "keeps (txinv adds_documents t d0) (update_returning employees_t p f)"
  by (rule insert_here insert_elsewhere update_elsewhere; simp add: employee_clash_def document_clash_def same_uuid_def)+

lemmas elsewhere_intros = io_intros keeps_intros writes_elsewhere audit_elsewhere

lemma employees_elsewhere:
  defines "R \<equiv> adds_employees"
  shows "io_rel R (EmployeesService_findAll fts t params)" "io_rel R (EmployeesService_findOne t i)"
    "io_rel R (EmployeesService_create t cdto ctx)" "io_rel R (DocumentsService_create t i ddto ctx)"
    "io_rel R (DocumentsService_findAll t ds)" "io_rel R (DocumentsService_update t i udto ctx)"
    "io_rel R (DocumentsService_archive t i ctx)"
  unfolding R_def employee_defs document_defs Let_def
  by (auto intro!: elsewhere_intros)

lemma documents_elsewhere:
  defines "R \<equiv> adds_documents"
  shows "io_rel R (DocumentsService_findAll t ds)" "io_rel R (DocumentsService_findAllForEmployee t i)"
    "io_rel R (DocumentsService_create t i ddto ctx)" "io_rel R (EmployeesService_create t cdto ctx)"
    "io_rel R (EmployeesService_findAll fts t params)" "io_rel R (EmployeesService_update t i edto ctx)"
    "io_rel R (EmployeesService_archive t i ctx)"
  unfolding R_def employee_defs document_defs Let_def
  by (auto intro!: elsewhere_intros)

lemma elsewhere_step:
  assumes "io_rel (appends (sv_table S) (sv_key S)) m" "ids_distinct (sv_table S) (sv_key S) (w_db (tr_world y))"
  shows "traffic_step S E y (y\<lparr>tr_world := snd (m E (tr_world y))\<rparr>)"
  using assms traffic_step.elsewhere [of S "snd (m E (tr_world y))" y] by (auto simp: io_rel_def appends_def)

section \<open>Properties\<close>

lemma flight_origin:
  "traffic_reaches S E w y \<Longrightarrow> f \<in> set (tr_flights y) \<Longrightarrow>
    \<exists>w0 q w1. tx_open (service_read S (fl_tenant f) (fl_id f) q) E w0 = (Inr (fl_work f, fl_txs f), w1)"
proof (induction rule: traffic_reaches.induct)
  case (further y y')
  from further.hyps(2) show ?case
  proof cases
    case (arrive i q t k s w' ctx)
    show ?thesis
    proof (cases "f \<in> set (tr_flights y)")
      case False
      then have "f = \<lparr>fl_tenant = t, fl_id = i, fl_ctx = ctx, fl_work = k, fl_txs = s\<rparr>"
        using further.prems arrive(1) by simp
      then show ?thesis
        using arrive(3) by (intro exI [of _ "tr_world y"] exI [of _ q] exI [of _ w']) simp
    qed (rule further.IH)
  next
    case (commit g w')
    then show ?thesis using further notin_set_remove1 [of f "tr_flights y" g] by auto
  next
    case (refused g e w')
    then show ?thesis using further notin_set_remove1 [of f "tr_flights y" g] by auto
  qed (use further in auto)
qed simp

lemma employee_flight_uuid:
  assumes "quiet E" "traffic_reaches employees_service E w y" "f \<in> set (tr_flights y)"
  shows "pg_uuid (fl_id f)"
proof (rule ccontr)
  assume bad: "\<not> pg_uuid (fl_id f)"
  obtain w0 q w1 where "tx_open (service_read employees_service (fl_tenant f) (fl_id f) q) E w0
      = (Inr (fl_work f, fl_txs f), w1)"
    using flight_origin [OF assms(2,3)] by blast
  then show False
    using bad assms(1) by (cases q) (auto simp: tx_open_def quiet_def [of E] setTenantContext_quiet tbind_def
        employee_lookup_bad split: option.splits prod.splits)
qed

text \<open>Everything but the audit table.\<close>

definition business :: "db \<Rightarrow> db" where
  "business d = d\<lparr>auditEvents := []\<rparr>"

lemma business_simps [simp]:
  "business (audit_outcome_db E r n g d) = business d"
  "business (d\<lparr>employees := rs\<rparr>) = (business d)\<lparr>employees := rs\<rparr>"
  "business (d\<lparr>documents := ds\<rparr>) = (business d)\<lparr>documents := ds\<rparr>"
  by (simp_all add: business_def audit_outcome_db_def)

lemma quiet_clock [simp]: "quiet (E\<lparr>e_clock := c\<rparr>) = quiet E"
  by (simp add: quiet_def)

lemma employee_write_business:
  assumes "ready E t s" "employee_ids_distinct (t_db s)" "live_of t i (t_db s) = Some x"
    and run: "employee_write i dto ctx x E s = (Inr a, s')"
  shows "a = employee_set x dto x" "em_version x = ue_version dto" "int4 (em_version x + 1)" "int4 (ue_version dto)"
    "\<not> t_aborted s'" "business (t_db s') = business (replace_row employees_t x a (t_db s))"
proof -
  have q: "quiet E" "\<not> t_aborted s" "t_tenant s = Some t" using assms(1) by (simp_all add: ready_def)
  show int: "int4 (em_version x + 1)" "int4 (ue_version dto)"
    using run employee_write_bad [OF q(1,2), of x dto i ctx] by auto
  show "a = employee_set x dto x" "em_version x = ue_version dto"
    "\<not> t_aborted s'" "business (t_db s') = business (replace_row employees_t x a (t_db s))"
    using employee_write_quiet [OF q assms(2,3) int, of ctx] run q(2)
    by (auto split: if_splits)
qed

lemma employee_archive_business:
  assumes "ready E t s" "employee_ids_distinct (t_db s)"
    and run: "employee_archive_write i ctx before E s = (Inr u, s')"
  shows "\<exists>e. live_of t i (t_db s) = Some e \<and> u = (em_id e, toISOString (t_now s)) \<and> \<not> t_aborted s'
    \<and> business (t_db s') = business (replace_row employees_t e (employee_archive_set (t_now s) e) (t_db s))"
proof -
  have q: "quiet E" "\<not> t_aborted s" "t_tenant s = Some t" using assms(1) by (simp_all add: ready_def)
  obtain e where e: "live_of t i (t_db s) = Some e"
    using employee_archive_meets [OF assms] by blast
  show ?thesis
    using run q e assms(2)
    by (auto simp: employee_archive_write_def tx_simps employee_ids.update_all_quiet audit_log_quiet
        employee_archive_set_def [of _ e])
qed

lemma employee_open:
  assumes "quiet E" "pg_uuid i" "live_of t i (w_db w) = Some x"
  shows "\<exists>s x2. tx_open (service_read employees_service t i (Some dto)) E w =
    (Inr (Updating dto x (), s), w\<lparr>w_ext := x2\<rparr>) \<and> \<not> t_aborted s \<and> t_tenant s = Some t"
  using assms by (simp add: tx_open_def quiet_def [of E] setTenantContext_quiet tbind_def treturn_def
      employee_lookup_quiet [where t = t]) (rule exI, rule refl)

lemma employee_close:
  assumes "quiet E" "\<not> t_aborted s" "t_tenant s = Some t" "employee_ids_distinct (w_db w)"
    and "live_of t i (w_db w) = Some x" "em_version x = ue_version dto" "int4 (em_version x + 1)" "int4 (ue_version dto)"
  shows "\<exists>w'. tx_close (service_write employees_service i ctx (Updating dto x ())) s E w = (Inr (), w')"
  using assms employee_write_quiet [of E "s\<lparr>t_db := w_db w, t_ext := w_ext w\<rparr>" t i x x dto ctx]
  by (simp add: tx_close_def tbind_def treturn_def quiet_def [of E])

text \<open>Two clients have read version 1 of the sample employee, both updates are between their parts, one commits.\<close>

lemma sample_race:
  "\<exists>y f w'. traffic_reaches employees_service sample_env sample_world y \<and> f \<in> set (tr_flights y)
    \<and> length (tr_flights y) = 2 \<and> tr_won y = [] \<and> w_db (tr_world y) = sample_db
    \<and> fl_tenant f = acme \<and> fl_id f = sample_uuid 11 \<and> fl_ctx f = sample_context
    \<and> fl_work f = Updating (sample_update 1) sample_employee ()
    \<and> tx_close (service_write employees_service (fl_id f) (fl_ctx f) (fl_work f)) (fl_txs f) sample_env (tr_world y) = (Inr (), w')"
proof -
  let ?i = "sample_uuid 11" and ?S = employees_service and ?E = sample_env
  define y0 :: "(employee_row, update_employee_dto, unit) traffic"
    where "y0 = \<lparr>tr_world = sample_world, tr_flights = [], tr_shown = {}, tr_won = []\<rparr>"
  define y1 where "y1 = y0\<lparr>tr_shown := {(uuid_canon ?i, 1)}\<rparr>"
  have key: "uuid_canon (em_id sample_employee) = uuid_canon ?i" by (simp add: sample_employee_def)
  have "traffic_step ?S ?E y0 (y0\<lparr>tr_shown := insert (sv_key ?S sample_employee, sv_version ?S sample_employee) (tr_shown y0)\<rparr>)"
    by (rule traffic_step.show_row) (simp add: y0_def)
  then have s1: "traffic_step ?S ?E y0 y1" by (simp add: y1_def y0_def key)
  have h: "honest ?S {(uuid_canon ?i, 1)} ?i (Some (sample_update 1))"
    by (simp add: honest_def employees_service_def)
  obtain s x2 where o1: "tx_open (service_read ?S acme ?i (Some (sample_update 1))) ?E sample_world =
      (Inr (Updating (sample_update 1) sample_employee (), s), sample_world\<lparr>w_ext := x2\<rparr>)"
    "\<not> t_aborted s" "t_tenant s = Some acme"
    using employee_open [of ?E ?i acme sample_world sample_employee "sample_update 1"] by auto
  obtain s' x3 where o2: "tx_open (service_read ?S acme ?i (Some (sample_update 1))) ?E (sample_world\<lparr>w_ext := x2\<rparr>) =
      (Inr (Updating (sample_update 1) sample_employee (), s'), sample_world\<lparr>w_ext := x3\<rparr>)"
    using employee_open [of ?E ?i acme "sample_world\<lparr>w_ext := x2\<rparr>" sample_employee "sample_update 1"] by auto
  define f where "f = \<lparr>fl_tenant = acme, fl_id = ?i, fl_ctx = sample_context,
    fl_work = Updating (sample_update 1) sample_employee (), fl_txs = s\<rparr>"
  define g where "g = f\<lparr>fl_txs := s'\<rparr>"
  define y2 where "y2 = y1\<lparr>tr_world := sample_world\<lparr>w_ext := x2\<rparr>, tr_flights := [f]\<rparr>"
  define y3 where "y3 = y2\<lparr>tr_world := sample_world\<lparr>w_ext := x3\<rparr>, tr_flights := [g, f]\<rparr>"
  have s2: "traffic_step ?S ?E y1 y2"
    using traffic_step.arrive [of ?S y1 ?i "Some (sample_update 1)" acme ?E, OF _ , of _ s _ sample_context] h o1(1)
    by (simp add: y2_def f_def y1_def y0_def)
  have s3: "traffic_step ?S ?E y2 y3"
    using traffic_step.arrive [of ?S y2 ?i "Some (sample_update 1)" acme ?E, OF _ , of _ s' _ sample_context] h o2(1)
    by (simp add: y3_def y2_def g_def f_def y1_def y0_def)
  have r: "traffic_reaches ?S ?E sample_world y3"
    using traffic_reaches.quiet_start [of ?S ?E sample_world] s1 s2 s3
    unfolding y0_def [symmetric] by (blast intro: traffic_reaches.further)
  obtain w' where "tx_close (service_write ?S ?i sample_context (Updating (sample_update 1) sample_employee ())) s ?E
      (sample_world\<lparr>w_ext := x3\<rparr>) = (Inr (), w')"
    using employee_close [of ?E s acme "sample_world\<lparr>w_ext := x3\<rparr>" ?i sample_employee "sample_update 1" sample_context] o1
    by auto
  then show ?thesis
    using r by (intro exI [of _ y3] exI [of _ f] exI [of _ w']) (simp add: y3_def y2_def y1_def y0_def f_def)
qed

text \<open>
  C4. Two updates of one employee or of one document that name the same version never both succeed, in
  whatever way the reads, writes and commits of any number of updates and archives of the service are
  interleaved with each other and with other transactions: as long as clients name versions that an
  answer showed them, the versions that successful updates started from are all different, and each is
  below the version now stored.
\<close>

theorem no_version_wins_twice:
  assumes "quiet E"
  shows "(employee_ids_distinct (w_db w) \<longrightarrow> traffic_reaches employees_service E w y \<longrightarrow>
      distinct (tr_won y)
      \<and> (\<forall>(k, v) \<in> set (tr_won y). \<exists>r \<in> set (employees (w_db (tr_world y))). uuid_canon (em_id r) = k \<and> v < em_version r))
    \<and> (document_ids_distinct (w_db w) \<longrightarrow> traffic_reaches documents_service E w z \<longrightarrow>
      distinct (tr_won z)
      \<and> (\<forall>(k, v) \<in> set (tr_won z). \<exists>r \<in> set (documents (w_db (tr_world z))). uuid_canon (dc_id r) = k \<and> v < dc_version r))"
  using employee_lock.won_apart [OF assms, of w y] document_lock.won_apart [OF assms, of w z] by simp

theorem no_version_wins_twice_witness:
  "\<exists>y. traffic_reaches employees_service sample_env sample_world y \<and> length (tr_flights y) = 1
     \<and> tr_won y = [(uuid_canon (sample_uuid 11), 1)] \<and> distinct (tr_won y)"
proof -
  obtain y f w' where 1: "traffic_reaches employees_service sample_env sample_world y" "f \<in> set (tr_flights y)"
    "length (tr_flights y) = 2" "tr_won y = []" "fl_id f = sample_uuid 11"
    "fl_work f = Updating (sample_update 1) sample_employee ()"
    "tx_close (service_write employees_service (fl_id f) (fl_ctx f) (fl_work f)) (fl_txs f) sample_env (tr_world y) = (Inr (), w')"
    using sample_race by blast
  define y' where "y' = y\<lparr>tr_world := w', tr_flights := remove1 f (tr_flights y),
    tr_won := won_by employees_service (fl_id f) (fl_work f) @ tr_won y\<rparr>"
  have "traffic_reaches employees_service sample_env sample_world y'"
    unfolding y'_def using traffic_step.commit [OF 1(2,7)] 1(1) by (rule traffic_reaches.further [rotated])
  then show ?thesis
    using no_version_wins_twice [of sample_env sample_world y'] 1
    by (intro exI [of _ y']) (simp add: y'_def length_remove1)
qed

text \<open>
  C5. Interleaved requests on employees are serial: whenever, in reachable traffic, a request's second
  part succeeds, running the whole method at that moment, in one piece and with the clock the request
  started with, succeeds too and leaves the same database, the audit table apart. For an update the row
  the request read is still the stored one, so nothing written in between is lost.
\<close>

theorem interleaved_requests_serialize:
  assumes "quiet E" and "employee_ids_distinct (w_db w)" and "traffic_reaches employees_service E w y"
    and "f \<in> set (tr_flights y)"
    and "tx_close (service_write employees_service (fl_id f) (fl_ctx f) (fl_work f)) (fl_txs f) E (tr_world y) = (Inr (), w')"
  shows "let t = fl_tenant f; i = fl_id f; E' = E\<lparr>e_clock := \<lambda>_. t_now (fl_txs f)\<rparr>
    in case fl_work f of
      Updating dto x b \<Rightarrow>
        (let (r, w2) = EmployeesService_update t i dto (fl_ctx f) E' (tr_world y)
         in live_of t i (w_db (tr_world y)) = Some x \<and> r = Inr (employee_set x dto x)
          \<and> business (w_db w2) = business (w_db w'))
    | Archiving x \<Rightarrow>
        (let (r, w2) = EmployeesService_archive t i (fl_ctx f) E' (tr_world y)
         in (\<exists>a. r = Inr a) \<and> business (w_db w2) = business (w_db w'))"
proof -
  let ?d = "w_db (tr_world y)" and ?E = "E\<lparr>e_clock := \<lambda>_. t_now (fl_txs f)\<rparr>"
  let ?s = "(fl_txs f)\<lparr>t_db := ?d, t_ext := w_ext (tr_world y)\<rparr>"
  have ok: "traffic_ok employees_service (\<lambda>r. em_deletedAt r = None) y"
    using employee_lock.ok_reached assms(1-3) by simp
  then have d: "employee_ids_distinct ?d" and fo: "\<not> t_aborted (fl_txs f)" "t_tenant (fl_txs f) = Some (fl_tenant f)"
    using assms(4) by (auto simp: traffic_ok_def flight_ok_def Let_def)
  have u: "pg_uuid (fl_id f)" by (rule employee_flight_uuid [OF assms(1,3,4)])
  have rd: "ready E (fl_tenant f) ?s" using assms(1) fo by (simp add: ready_def)
  obtain s' where m: "service_write employees_service (fl_id f) (fl_ctx f) (fl_work f) E ?s = (Inr (), s')"
    and w': "\<not> t_aborted s' \<Longrightarrow> w_db w' = t_db s'"
    using employee_lock.close_part [OF assms(1,5)] by blast
  show ?thesis
  proof (cases "fl_work f")
    case (Updating dto x b)
    then obtain a where run: "employee_write (fl_id f) dto (fl_ctx f) x E ?s = (Inr a, s')"
      using m by (auto simp: tbind_def treturn_def split: prod.splits sum.splits)
    have x: "live_of (fl_tenant f) (fl_id f) ?d = Some x"
      using employee_lock.committed [OF assms(1) ok assms(4,5)] Updating by auto
    then have x': "live_of (fl_tenant f) (fl_id f) (t_db ?s) = Some x" by simp
    have d': "employee_ids_distinct (t_db ?s)" using d by simp
    note W = employee_write_business [OF rd d' x' run]
    show ?thesis
      using update_run [OF _ d, of ?E "fl_tenant f" "fl_id f" dto "fl_ctx f"] assms(1) u x W w' Updating
      by (auto simp: update_outcome_def Let_def replace_row_def split: prod.splits)
  next
    case (Archiving x)
    then obtain a where run: "employee_archive_write (fl_id f) (fl_ctx f) x E ?s = (Inr a, s')"
      using m by (auto simp: tbind_def treturn_def split: prod.splits sum.splits)
    have d': "employee_ids_distinct (t_db ?s)" using d by simp
    obtain e where e: "live_of (fl_tenant f) (fl_id f) ?d = Some e" "\<not> t_aborted s'"
      "business (t_db s') = business (replace_row employees_t e (employee_archive_set (t_now (fl_txs f)) e) ?d)"
      using employee_archive_business [OF rd d' run] by auto
    show ?thesis
      using archive_run [OF _ d u, of ?E "fl_tenant f" "fl_ctx f"] assms(1) e w' Archiving
      by (auto simp: Let_def replace_row_def split: prod.splits)
  qed
qed

theorem interleaved_requests_serialize_witness:
  "\<exists>y f. traffic_reaches employees_service sample_env sample_world y \<and> f \<in> set (tr_flights y)
     \<and> length (tr_flights y) = 2
     \<and> fst (EmployeesService_update acme (sample_uuid 11) (sample_update 1) sample_context
         (sample_env\<lparr>e_clock := \<lambda>_. t_now (fl_txs f)\<rparr>) (tr_world y))
       = Inr (employee_set sample_employee (sample_update 1) sample_employee)"
proof -
  obtain y f w' where 1: "traffic_reaches employees_service sample_env sample_world y" "f \<in> set (tr_flights y)"
    "length (tr_flights y) = 2" "fl_tenant f = acme" "fl_id f = sample_uuid 11" "fl_ctx f = sample_context"
    "fl_work f = Updating (sample_update 1) sample_employee ()"
    "tx_close (service_write employees_service (fl_id f) (fl_ctx f) (fl_work f)) (fl_txs f) sample_env (tr_world y) = (Inr (), w')"
    using sample_race by blast
  show ?thesis
    using interleaved_requests_serialize [OF _ _ 1(1,2,8)] 1
    by (intro exI [of _ y] exI [of _ f]) (auto simp: Let_def split: prod.splits)
qed

end
