(* ===== verification/Reruns.thy ===== *)
theory Reruns
  imports Concurrency Reminders
begin

text \<open>
  Two runs of one reminder job that overlap, as when BullMQ takes a job for stalled and hands it to another
  worker: \<open>process_reminder\<close> in two parts, all it reads and then the mail with what is recorded of it, each
  run looking for the key of the job before the other has claimed it.
\<close>

section \<open>The delivery in two parts\<close>

datatype reminder_turn = AlreadyProcessed | Suppressed "uuid option" string | Sending reminder_email

definition reminder_read :: "reminder_job \<Rightarrow> reminder_turn tx" where
  "reminder_read job =
     tthen (setTenantContext (rj_tenantId job))
       (tbind (select_tenants (active_tenant (rj_tenantId job)))
         (\<lambda>tenantRows. if tenantRows = [] then tthrow (JsError ''Tenant not active or not found'')
            else tbind (select_where idempotency_keys_t (\<lambda>k. ik_key k = rj_idempotencyKey job))
              (\<lambda>existing. if existing \<noteq> [] then treturn AlreadyProcessed
                 else tbind (select_document_email (reminder_document job))
                   (\<lambda>docRows. case first_row (take 1 docRows) of
                      None \<Rightarrow> treturn (Suppressed None ''document_not_found'')
                    | Some (doc, employeeEmail) \<Rightarrow>
                        if \<not> truthy employeeEmail
                        then treturn (Suppressed (Some (rj_documentId job)) ''no_email_on_file'')
                        else tbind (select_where notification_policies_t (\<lambda>p. np_tenantId p = rj_tenantId job))
                          (\<lambda>policyRows. let policy = first_row (take 1 policyRows)
                             in treturn (Sending \<lparr>re_to = nullish employeeEmail '''', re_documentId = rj_documentId job,
                                  re_docType = dc_docType doc, re_daysBeforeExpiry = rj_daysBeforeExpiry job,
                                  re_emailFrom = (case policy of None \<Rightarrow> None | Some p \<Rightarrow> np_emailFrom p),
                                  re_emailTemplateId = (case policy of None \<Rightarrow> None | Some p \<Rightarrow> np_emailTemplateId p)\<rparr>))))))"

fun reminder_write ::
  "(string \<Rightarrow> string) \<Rightarrow> (reminder_email \<Rightarrow> unit tx) \<Rightarrow> reminder_job \<Rightarrow> reminder_turn \<Rightarrow> unit tx" where
  "reminder_write dm send job AlreadyProcessed = treturn ()"
| "reminder_write dm send job (Suppressed d message) = suppress job d message"
| "reminder_write dm send job (Sending email) = send_and_record dm send job email"

lemma tbind_split:
  "tbind (if b then m else n) k = (if b then tbind m k else tbind n k)"
  "tbind (case x of None \<Rightarrow> m | Some y \<Rightarrow> f y) k = (case x of None \<Rightarrow> tbind m k | Some y \<Rightarrow> tbind (f y) k)"
  "tbind (case p of (a, b) \<Rightarrow> g a b) k = (case p of (a, b) \<Rightarrow> tbind (g a b) k)"
  "tbind (tthrow e) k = tthrow e"
  by (simp_all add: fun_eq_iff tbind_def tthrow_def split: option.split prod.split)

lemma process_reminder_parts:
  "process_reminder is_uuid dm send job =
    (if \<not> reminder_job_valid is_uuid job then iothrow (JsError ''Job rejected: missing or invalid tenantId'')
     else transaction (tbind (reminder_read job) (reminder_write dm send job)))"
  unfolding process_reminder_def deliver_reminder_def reminder_read_def
  by (simp add: tbind_assoc tbind_split Let_def cong: option.case_cong if_cong)

lemma reminder_read_reads [keeps_intros]: "keeps (sees d) (reminder_read job)"
  unfolding reminder_read_def select_document_email_def by (auto intro!: keeps_intros split: prod.split)

text \<open>So the parts without anything between them are the run of the job.\<close>

lemma process_reminder_in_parts:
  assumes "reminder_job_valid is_uuid job"
  shows "process_reminder is_uuid dm send job E w =
    (case tx_open (reminder_read job) E w of
       (Inl e, w') \<Rightarrow> (Inl e, w') | (Inr (turn, s), w') \<Rightarrow> tx_close (reminder_write dm send job turn) s E w')"
  using assms transaction_parts [of "reminder_read job", OF reads_only [OF reminder_read_reads]]
  by (simp add: process_reminder_parts)

section \<open>Two runs\<close>

lemma reminder_open:
  assumes "quiet E" "deliverable is_uuid job doc email (w_db w)"
    and "\<forall>k \<in> set (idempotencyKeys (w_db w)). ik_key k \<noteq> rj_idempotencyKey job"
  shows "\<exists>s x. tx_open (reminder_read job) E w = (Inr (Sending (email_input job doc email (w_db w)), s), w\<lparr>w_ext := x\<rparr>)
    \<and> \<not> t_aborted s \<and> t_tenant s = Some (rj_tenantId job) \<and> x_mails x = x_mails (w_ext w)"
proof -
  note D = deliverable_facts [OF assms(2)]
  have free: "filter (\<lambda>r. rls_visible (Some (rj_tenantId job)) (ik_tenantId r) \<and> ik_key r = rj_idempotencyKey job)
      (idempotencyKeys (w_db w)) = []"
    using assms(3) by (auto simp: filter_empty_conv)
  have doc: "first_row (visible_rows documents_t (Some (rj_tenantId job)) (reminder_document job) (w_db w)) = Some doc"
    and mail: "employee_email (Some (rj_tenantId job)) (w_db w) doc = Some email" "email \<noteq> []"
    using assms(2) by (auto simp: deliverable_def found_def)
  have "e_fault E n = None" for n using assms(1) by (simp add: quiet_def)
  then show ?thesis
    using assms(1) D free doc mail
    by (simp add: tx_open_def reminder_read_def frame_simps select_tenants_quiet select_where_quiet
        visible_rows_def [of idempotency_keys_t] select_document_email_def statement_quiet first_row_map Let_def
        email_input_def found_def cong: option.case_cong)
      (rule exI, rule conjI [OF refl], simp)
qed

lemma first_close:
  assumes "quiet E" "deliverable is_uuid job doc email (w_db w)" "\<not> t_aborted s" "t_tenant s = Some (rj_tenantId job)"
    and "\<forall>k \<in> set (idempotencyKeys (w_db w)). ik_key k \<noteq> rj_idempotencyKey job" "\<And>n. e_smtp E n = None"
    and "\<forall>l \<in> set (notificationLog (w_db w)). \<not> same_uuid (nl_id l) (e_uuid E (Suc (x_tick (w_ext w))))"
  shows "\<exists>x. tx_close (reminder_write dm (SmtpEmailDispatcher_send from) job (Sending m)) s E w =
      (Inr (), \<lparr>w_db = (w_db w)\<lparr>
          notificationLog := notificationLog (w_db w) @ [sent_entry (e_uuid E (Suc (x_tick (w_ext w)))) (t_now s) job],
          idempotencyKeys := idempotencyKeys (w_db w) @ [claimed_key (t_now s) job]\<rparr>, w_ext = x\<rparr>)
    \<and> x_mails x = x_mails (w_ext w) @ [reminder_mail from m]"
proof -
  note D = deliverable_facts [OF assms(2)]
  have free: "\<not> list_ex (\<lambda>k. rj_idempotencyKey job = ik_key k) (idempotencyKeys (w_db w))"
    using assms(5) by (auto simp: list_ex_iff)
  have new: "\<not> list_ex (\<lambda>l. same_uuid (e_uuid E (Suc (x_tick (w_ext w)))) (nl_id l)) (notificationLog (w_db w))"
    using assms(7) by (auto simp: list_ex_iff same_uuid_def)
  have v: "pg_uuid (rj_tenantId job)" using assms(2) by (simp add: deliverable_def)
  have "e_fault E n = None" for n using assms(1) by (simp add: quiet_def)
  then show ?thesis
    using assms(1,3,4,6) D free new v
    by (simp add: tx_close_def send_and_record_def SmtpEmailDispatcher_send_def external_def log_notification_def
        claim_key_def insert_returning_quiet tx_simps rls_visible_def sent_entry_def claimed_key_def Let_def)
qed

text \<open>Once the key is claimed, the mail goes out again and nothing of it can be recorded.\<close>

lemma only_ext: "(\<exists>x. w\<lparr>w_ext := y\<rparr> = w\<lparr>w_ext := x\<rparr> \<and> P x) \<longleftrightarrow> P y"
  by (cases w) auto

lemma insert_aborted:
  "t_aborted s \<Longrightarrow> insert_returning T typ clash fk mk E s = (Inl (DbError ''25P02''), s\<lparr>t_ext := tick (t_ext s)\<rparr>)"
  by (simp add: insert_returning_def statement_def Let_def)

lemma later_close:
  assumes "quiet E" "\<not> t_aborted s" "t_tenant s = Some (rj_tenantId job)" "\<And>n. e_smtp E n = None"
    and "\<exists>k \<in> set (idempotencyKeys (w_db w)). ik_key k = rj_idempotencyKey job"
  shows "\<exists>x. tx_close (reminder_write dm (SmtpEmailDispatcher_send from) job (Sending m)) s E w =
      (Inl (DbError ''25P02''), w\<lparr>w_ext := x\<rparr>) \<and> x_mails x = x_mails (w_ext w) @ [reminder_mail from m]"
proof -
  have "list_ex (\<lambda>k. rj_idempotencyKey job = ik_key k) (idempotencyKeys (w_db w))"
    using assms(5) unfolding list_ex_iff by metis
  then show ?thesis
    using assms(1-4)
    by (simp add: tx_close_def send_and_record_def SmtpEmailDispatcher_send_def external_def log_notification_def
        claim_key_def insert_returning_quiet insert_aborted tx_simps only_ext Let_def)
qed

section \<open>Properties\<close>

text \<open>
  C31. Overlapping runs of one reminder job mail the reminder twice: both look for the key before either has
  claimed it, both send, the first to finish is recorded; the other finds the key taken, its transaction is
  aborted, the entry about the failure is refused as well, and it throws, though the handler means never to
  let a failed delivery throw. One delivery is on record, two mails are out.
\<close>

theorem overlapping_runs_mail_twice:
  assumes "quiet E" and "deliverable is_uuid job doc email (w_db w)" and "\<And>n. e_smtp E n = None"
    and "\<forall>k \<in> set (idempotencyKeys (w_db w)). ik_key k \<noteq> rj_idempotencyKey job"
    and "\<And>n. \<forall>l \<in> set (notificationLog (w_db w)). \<not> same_uuid (nl_id l) (e_uuid E n)"
  shows "let mail = reminder_mail from (email_input job doc email (w_db w));
             (r1, w1) = tx_open (reminder_read job) E w; (r2, w2) = tx_open (reminder_read job) E w1
    in case (r1, r2) of
      (Inr (k1, s1), Inr (k2, s2)) \<Rightarrow>
        (let (a1, w3) = tx_close (reminder_write dm (SmtpEmailDispatcher_send from) job k1) s1 E w2;
             (a2, w4) = tx_close (reminder_write dm (SmtpEmailDispatcher_send from) job k2) s2 E w3
         in a1 = Inr () \<and> a2 = Inl (DbError ''25P02'') \<and> x_mails (w_ext w4) = x_mails (w_ext w) @ [mail, mail]
          \<and> length (notificationLog (w_db w4)) = Suc (length (notificationLog (w_db w))))
    | _ \<Rightarrow> False"
proof -
  let ?m = "email_input job doc email (w_db w)" and ?send = "SmtpEmailDispatcher_send from"
  obtain s1 x1 where 1: "tx_open (reminder_read job) E w = (Inr (Sending ?m, s1), w\<lparr>w_ext := x1\<rparr>)"
    "\<not> t_aborted s1" "t_tenant s1 = Some (rj_tenantId job)" "x_mails x1 = x_mails (w_ext w)"
    using reminder_open [OF assms(1,2,4)] by blast
  obtain s2 x2 where 2: "tx_open (reminder_read job) E (w\<lparr>w_ext := x1\<rparr>) = (Inr (Sending ?m, s2), w\<lparr>w_ext := x2\<rparr>)"
    "\<not> t_aborted s2" "t_tenant s2 = Some (rj_tenantId job)" "x_mails x2 = x_mails (w_ext w)"
    using reminder_open [OF assms(1), of is_uuid job doc email "w\<lparr>w_ext := x1\<rparr>"] assms(2,4) 1(4) by auto
  let ?w2 = "w\<lparr>w_ext := x2\<rparr>"
  have "\<exists>x. tx_close (reminder_write dm ?send job (Sending ?m)) s1 E ?w2 =
      (Inr (), \<lparr>w_db = (w_db ?w2)\<lparr>
          notificationLog := notificationLog (w_db ?w2) @ [sent_entry (e_uuid E (Suc (x_tick (w_ext ?w2)))) (t_now s1) job],
          idempotencyKeys := idempotencyKeys (w_db ?w2) @ [claimed_key (t_now s1) job]\<rparr>, w_ext = x\<rparr>)
    \<and> x_mails x = x_mails (w_ext ?w2) @ [reminder_mail from ?m]"
    by (rule first_close [where is_uuid = is_uuid and doc = doc and email = email]) (use assms 1 in simp_all)
  then obtain w3 where 3: "tx_close (reminder_write dm ?send job (Sending ?m)) s1 E ?w2 = (Inr (), w3)"
    "\<exists>k \<in> set (idempotencyKeys (w_db w3)). ik_key k = rj_idempotencyKey job"
    "x_mails (w_ext w3) = x_mails (w_ext w) @ [reminder_mail from ?m]"
    "length (notificationLog (w_db w3)) = Suc (length (notificationLog (w_db w)))"
    using 2(4) by (force simp: claimed_key_def)
  obtain x where 4: "tx_close (reminder_write dm ?send job (Sending ?m)) s2 E w3 = (Inl (DbError ''25P02''), w3\<lparr>w_ext := x\<rparr>)"
    "x_mails x = x_mails (w_ext w3) @ [reminder_mail from ?m]"
    using later_close [OF assms(1) 2(2,3) assms(3) 3(2)] by blast
  show ?thesis using 1(1) 2(1) 3 4 by (simp add: Let_def)
qed

theorem overlapping_runs_mail_twice_witness:
  "let w = sample_world\<lparr>w_db := expiring_db\<rparr>; job = reminder_job_for acme (sample_uuid 21) 14;
       (r1, w1) = tx_open (reminder_read job) sample_env w; (r2, w2) = tx_open (reminder_read job) sample_env w1
   in \<exists>k1 s1 k2 s2. r1 = Inr (k1, s1) \<and> r2 = Inr (k2, s2)
     \<and> length (x_mails (w_ext (snd (tx_close (reminder_write id (SmtpEmailDispatcher_send ''hr@acme.test'') job k2) s2 sample_env
          (snd (tx_close (reminder_write id (SmtpEmailDispatcher_send ''hr@acme.test'') job k1) s1 sample_env w2)))))) = 2"
proof -
  let ?w = "sample_world\<lparr>w_db := expiring_db\<rparr>" and ?j = "reminder_job_for acme (sample_uuid 21) 14"
  have e: "idempotencyKeys (w_db ?w) = []" "notificationLog (w_db ?w) = []" "x_mails (w_ext ?w) = []"
    "e_smtp sample_env k = None" for k
    by (simp_all add: expiring_db_def sample_db_def sample_world_def sample_ext_def sample_env_def)
  have "deliverable (\<lambda>_. True) ?j (sample_document\<lparr>dc_expiryStatus := EXPIRING_SOON, dc_expiryDate := Some ''2026-01-15''\<rparr>)
      ''ada@acme.test'' (w_db ?w)"
    using deliverable_sample by simp
  from overlapping_runs_mail_twice [OF quiet_sample this, of "''hr@acme.test''" id] show ?thesis
    using e by (auto simp: Let_def split: prod.splits sum.splits)
qed

end
