(* ===== verification/Pipeline.thy ===== *)
theory Pipeline
  imports Controllers
begin

text \<open>
  From a request to its answer: the request-id middleware in front of every route (\<open>app.module.ts\<close>), the
  guards and the handler, and the global exception filter (\<open>main.ts\<close>) behind them. The judgement \<open>refuses\<close>
  follows the control flow of a handler and says that it fails with a documented HTTP status or an
  internal error, and that the database is unchanged when the status is one of the documented.
\<close>

section \<open>Answers\<close>

text \<open>The status of a success: \<open>@Post\<close> is 201, the others 200 (\<open>@HttpCode(200)\<close> on the deletes).\<close>

fun success_status :: "'file api_call \<Rightarrow> nat" where
  "success_status (CreateEmployee _) = 201"
| "success_status (CreateDocument _ _) = 201"
| "success_status (ImportEmployees _) = 201"
| "success_status TestWrite = 201"
| "success_status _ = 200"

text \<open>The status, the \<open>X-Request-ID\<close> header, and the body of an error.\<close>

record http_answer =
  an_status :: nat
  an_requestId :: uuid
  an_error :: "(string \<times> json) list option"

definition answer ::
  "'file libs \<Rightarrow> (nat \<Rightarrow> string \<Rightarrow> (string \<times> json) list) \<Rightarrow> uuid \<Rightarrow> uuid \<Rightarrow> 'file api_call \<Rightarrow> request
    \<Rightarrow> env \<Rightarrow> world \<Rightarrow> http_answer \<times> world" where
  "answer L nest_body u1 u2 call req E w =
     (let req1 = RequestIdMiddleware_use u1 u2 req
      in case serve L call req1 E w of
           (Inr _, w') \<Rightarrow> (\<lparr>an_status = success_status call, an_requestId = u1, an_error = None\<rparr>, w')
         | (Inl e, w') \<Rightarrow>
             (case HttpExceptionFilter_catch nest_body e (rq_requestId req1) (e_clock E (x_tick (w_ext w'))) of
                (status, body) \<Rightarrow> (\<lparr>an_status = status, an_requestId = u1, an_error = Some body\<rparr>, w')))"

section \<open>What may be thrown\<close>

text \<open>The documented client errors but the 413 of an upload, and the errors that are no HTTP exception.\<close>

fun polite :: "exn \<Rightarrow> bool" where
  "polite (HttpEx st b) = (st \<in> {400, 401, 403, 404}
     \<or> HttpEx st b \<in> {duplicate_code, employee_conflict, document_conflict})"
| "polite (DbError c) = True"
| "polite (JsError m) = True"

fun internal :: "exn \<Rightarrow> bool" where
  "internal (HttpEx st b) = False"
| "internal _ = True"

definition raises :: "(exn \<Rightarrow> bool) \<Rightarrow> 'a tx \<Rightarrow> bool" where
  "raises P m \<longleftrightarrow> (\<forall>E s e s'. m E s = (Inl e, s') \<longrightarrow> P e)"

definition io_raises :: "(exn \<Rightarrow> bool) \<Rightarrow> 'a io \<Rightarrow> bool" where
  "io_raises P m \<longleftrightarrow> (\<forall>E w e w'. m E w = (Inl e, w') \<longrightarrow> P e)"

named_theorems raises_intros "rules that follow what a transaction or operation may throw"

lemma raises_bind [raises_intros]: "raises P m \<Longrightarrow> (\<And>a. raises P (k a)) \<Longrightarrow> raises P (tbind m k)"
  by (fastforce simp: raises_def tbind_def split: prod.splits sum.splits)

lemma raises_catch [raises_intros]: "raises P m \<Longrightarrow> (\<And>e. P e \<Longrightarrow> raises P (h e)) \<Longrightarrow> raises P (tcatch m h)"
  by (fastforce simp: raises_def tcatch_def split: prod.splits sum.splits)

lemma raises_plain [raises_intros]: "raises P (treturn a)" "raises P new_Date" "P e \<Longrightarrow> raises P (tthrow e)"
  by (simp_all add: raises_def treturn_def new_Date_def tthrow_def)

lemma raises_if [raises_intros]: "(b \<Longrightarrow> raises P m) \<Longrightarrow> (\<not> b \<Longrightarrow> raises P m') \<Longrightarrow> raises P (if b then m else m')"
  by simp

lemma raises_option [raises_intros]:
  "(x = None \<Longrightarrow> raises P m) \<Longrightarrow> (\<And>y. x = Some y \<Longrightarrow> raises P (k y)) \<Longrightarrow> raises P (case x of None \<Rightarrow> m | Some y \<Rightarrow> k y)"
  by (cases x) auto

lemma io_raises_bind [raises_intros]: "io_raises P m \<Longrightarrow> (\<And>a. io_raises P (k a)) \<Longrightarrow> io_raises P (iobind m k)"
  by (fastforce simp: io_raises_def iobind_def split: prod.splits sum.splits)

lemma io_raises_plain [raises_intros]:
  "io_raises P (ioreturn a)" "P e \<Longrightarrow> io_raises P (iothrow e)" "io_raises P (ioattempt m)"
  by (auto simp: io_raises_def ioreturn_def iothrow_def ioattempt_def split: prod.splits)

lemma io_raises_option [raises_intros]:
  "(x = None \<Longrightarrow> io_raises P m) \<Longrightarrow> (\<And>y. x = Some y \<Longrightarrow> io_raises P (k y)) \<Longrightarrow> io_raises P (case x of None \<Rightarrow> m | Some y \<Rightarrow> k y)"
  by (cases x) auto

lemma io_raises_sum [raises_intros]:
  "(\<And>y. x = Inl y \<Longrightarrow> io_raises P (h y)) \<Longrightarrow> (\<And>y. x = Inr y \<Longrightarrow> io_raises P (k y)) \<Longrightarrow>
    io_raises P (case x of Inl y \<Rightarrow> h y | Inr y \<Rightarrow> k y)"
  by (cases x) auto

text \<open>A class of errors that contains those of the database and the runtime.\<close>

locale error_class =
  fixes P :: "exn \<Rightarrow> bool"
  assumes db: "P (DbError c)" and js: "P (JsError m)"
begin

lemma raises_statement [raises_intros]: "raises P (statement f)"
  by (auto simp: raises_def statement_def Let_def db split: if_splits option.splits sum.splits prod.splits)

lemma raises_statements [raises_intros]:
  "raises P (setTenantContext t)" "raises P (savepoint nm)" "raises P (release_savepoint nm)"
  "raises P (rollback_to_savepoint nm)" "raises P (select_where T p)" "raises P (select_page T p key lim off)"
  "raises P (select_count T p)" "raises P (select_tenants q)" "raises P (insert_returning T typ clash fk mk)"
  "raises P (update_returning T p f)"
  unfolding select_where_def select_page_def select_count_def select_tenants_def insert_returning_def
    update_returning_def
  by (auto intro: raises_statement)
    (auto simp: raises_def setTenantContext_def savepoint_def release_savepoint_def rollback_to_savepoint_def Let_def db
      dest: raises_statement [unfolded raises_def, rule_format] split: prod.splits sum.splits option.splits list.splits)

lemma raises_well_typed [raises_intros]: "raises P m \<Longrightarrow> raises P (well_typed c b m)"
  by (simp add: well_typed_def raises_statement)

lemma raises_audit [raises_intros]: "raises P (audit_log ctx act ty eid b a oc rs)"
  unfolding raises_def using audit_log_returns by (metis fst_conv sum.distinct(1))

lemma io_raises_transaction [raises_intros]:
  assumes "raises P m"
  shows "io_raises P (transaction m)"
  unfolding io_raises_def
proof (intro allI impI)
  fix E w e w' assume "transaction m E w = (Inl e, w')"
  then show "P e"
    using assms db by (auto simp: transaction_def raises_def Let_def split: option.splits prod.splits sum.splits)
qed

lemma io_raises_outside [raises_intros]: "io_raises P (io_external fails f)" "io_raises P (query_tenants q)"
  by (auto simp: io_raises_def io_external_def query_tenants_def Let_def js db split: option.splits)

end

interpretation polite: error_class polite by unfold_locales simp_all
interpretation internal: error_class internal by unfold_locales simp_all

section \<open>Refusals change nothing\<close>

definition refuses :: "'a io \<Rightarrow> bool" where
  "refuses m \<longleftrightarrow> (\<forall>E w e w'. m E w = (Inl e, w') \<longrightarrow> polite e \<and> (internal e \<or> w_db w' = w_db w))"

named_theorems refuses_intros "rules that follow the control flow of a handler"

lemma refuses_internal: "io_raises internal m \<Longrightarrow> refuses m"
  unfolding io_raises_def refuses_def by (metis internal.simps polite.elims(3))

lemma transaction_failed: "transaction m E w = (Inl e, w') \<Longrightarrow> w_db w' = w_db w"
  by (auto simp: transaction_def Let_def split: option.splits prod.splits sum.splits)

lemma refuses_transaction [refuses_intros]: "raises polite m \<Longrightarrow> refuses (transaction m)"
  using polite.io_raises_transaction [of m] transaction_failed unfolding refuses_def io_raises_def by blast

text \<open>After a step that only reads, and before steps that fail internally only.\<close>

lemma refuses_after_read:
  assumes "io_rel (\<lambda>d d'. d' = d) m" "refuses m" "\<And>a. refuses (k a)"
  shows "refuses (iobind m k)"
  unfolding refuses_def
proof (intro allI impI)
  fix E w e w' assume run: "iobind m k E w = (Inl e, w')"
  obtain r w1 where m: "m E w = (r, w1)" by force
  have w1: "w_db w1 = w_db w" using assms(1) m unfolding io_rel_def by (metis snd_conv)
  show "polite e \<and> (internal e \<or> w_db w' = w_db w)"
  proof (cases r)
    case (Inl e')
    then show ?thesis using run m assms(2) unfolding refuses_def iobind_def by auto
  next
    case (Inr a)
    then have "k a E w1 = (Inl e, w')" using run m by (simp add: iobind_def)
    then show ?thesis using assms(3) w1 unfolding refuses_def by metis
  qed
qed

lemma refuses_before_internal:
  assumes "refuses m" "\<And>a. io_raises internal (k a)"
  shows "refuses (iobind m k)"
  unfolding refuses_def
proof (intro allI impI)
  fix E w e w' assume run: "iobind m k E w = (Inl e, w')"
  obtain r w1 where m: "m E w = (r, w1)" by force
  show "polite e \<and> (internal e \<or> w_db w' = w_db w)"
  proof (cases r)
    case (Inl e')
    then show ?thesis using run m assms(1) unfolding refuses_def iobind_def by auto
  next
    case (Inr a)
    then have "k a E w1 = (Inl e, w')" using run m by (simp add: iobind_def)
    then have "internal e" using assms(2) unfolding io_raises_def by blast
    then show ?thesis by (cases e) auto
  qed
qed

lemma refuses_return [refuses_intros]: "refuses (ioreturn a)"
  by (simp add: refuses_def ioreturn_def)

lemma refuses_throw [refuses_intros]: "polite e \<Longrightarrow> refuses (iothrow e)"
  by (simp add: refuses_def iothrow_def)

lemma refuses_if [refuses_intros]: "(b \<Longrightarrow> refuses m) \<Longrightarrow> (\<not> b \<Longrightarrow> refuses m') \<Longrightarrow> refuses (if b then m else m')"
  by simp

lemma refuses_option [refuses_intros]:
  "(x = None \<Longrightarrow> refuses m) \<Longrightarrow> (\<And>y. x = Some y \<Longrightarrow> refuses (k y)) \<Longrightarrow> refuses (case x of None \<Rightarrow> m | Some y \<Rightarrow> k y)"
  by (cases x) auto

lemma refuses_done [refuses_intros]:
  "refuses m \<Longrightarrow> refuses (iobind m (\<lambda>a. ioreturn (f a)))"
  "refuses n \<Longrightarrow> refuses (iobind n (\<lambda>(a, b). ioreturn (g a b)))"
  by (auto intro!: refuses_before_internal raises_intros split: prod.split)

lemma refuses_parse [refuses_intros]:
  "(\<And>data. refuses (k data)) \<Longrightarrow> refuses (iobind (parse_or_400 zod sch v) k)"
  by (rule refuses_after_read)
    (auto simp: parse_or_400_def io_rel_def ioreturn_def iothrow_def refuses_def split: sum.splits)

lemma refuses_result [refuses_intros]:
  "(\<And>e. r = Inl e \<Longrightarrow> polite e) \<Longrightarrow> (\<And>a. refuses (k a)) \<Longrightarrow> refuses (iobind (ioresult r) k)"
  by (rule refuses_after_read)
    (cases r; auto simp: io_rel_def ioreturn_def iothrow_def refuses_def)+

section \<open>The services\<close>

lemma polite_exns [simp]:
  "polite duplicate_code" "polite employee_conflict" "polite document_conflict" "polite reason_required"
  by (simp_all add: duplicate_code_def employee_conflict_def document_conflict_def reason_required_def)

lemma employees_refuse [refuses_intros]:
  "refuses (EmployeesService_findAll fts t params)" "refuses (EmployeesService_findOne t i)"
  "refuses (EmployeesService_create t cdto ctx)" "refuses (EmployeesService_update t i udto ctx)"
  "refuses (EmployeesService_archive t i ctx)"
  unfolding employee_defs Let_def by (auto intro!: refuses_intros raises_intros)

lemma documents_refuse [refuses_intros]:
  "refuses (DocumentsService_create t i cdto ctx)" "refuses (DocumentsService_findAllForEmployee t i)"
  "refuses (DocumentsService_findAll t params)" "refuses (DocumentsService_update t i udto ctx)"
  "refuses (DocumentsService_archive t i ctx)"
  unfolding document_defs employee_lookup_def Let_def by (auto intro!: refuses_intros raises_intros)

lemma refuses_date:
  "(\<And>d. refuses (k d)) \<Longrightarrow> refuses (iobind io_new_Date k)" "(\<And>d. refuses (k d)) \<Longrightarrow> refuses (iobind io_next_Date k)"
  by (fastforce simp: refuses_def iobind_def io_new_Date_def io_next_Date_def)+

lemma notifications_refuse [refuses_intros]:
  "refuses (NotificationPoliciesService_getOrDefault t)" "refuses (NotificationPoliciesService_update t pdto ctx)"
  "refuses (NotificationLogService_getStats t h)"
  unfolding NotificationPoliciesService_getOrDefault_def NotificationPoliciesService_update_def policy_rows_def
    upsert_policy_def NotificationLogService_getStats_def window_counts_def Let_def
  by (auto intro!: refuses_date refuses_intros raises_intros)

lemma dashboard_refuses [refuses_intros]:
  "refuses (DashboardService_getSummary t)" "refuses (DashboardService_getDocumentStats t)"
  "refuses (DashboardService_getExpiringDocuments t params)"
  unfolding DashboardService_getSummary_def DashboardService_getDocumentStats_def document_counts_def
    DashboardService_getExpiringDocuments_def Let_def
  by (auto intro!: refuses_date refuses_intros raises_intros)

lemma import_rows_internal: "io_raises internal (import_rows zod dm t ctx rs n errs)"
proof (induction zod dm t ctx rs n errs rule: import_rows.induct)
qed (auto intro!: raises_intros simp: Let_def split: sum.split)

lemma import_batch_internal: "io_raises internal (import_batch zod dm t h a ctx rs)"
  unfolding import_batch_def start_batch_def finish_batch_def enqueueCompletion_def Let_def
  by (auto intro!: raises_intros import_rows_internal split: prod.split)

lemma import_refuses [refuses_intros]: "refuses (ImportService_importEmployees digest load zod dm t f a ctx)"
proof -
  have p: "polite e" if "parseWorkbook load f = Inl e" for e
    using that by (auto simp: parseWorkbook_def Let_def split: option.splits if_splits)
  have b: "refuses (import_batch zod dm t h a ctx rs)" for h rs
    by (rule refuses_internal) (rule import_batch_internal)
  have r: "io_rel (\<lambda>d d'. d' = d) (findExistingBatch t h)" for h
    unfolding findExistingBatch_def by (auto intro!: unchanged.transaction_rel keeps_intros)
  have fr: "refuses (findExistingBatch t h)" for h
    unfolding findExistingBatch_def by (auto intro!: refuses_intros raises_intros)
  show ?thesis
    unfolding ImportService_importEmployees_def Let_def
    by (rule refuses_after_read [OF r fr]) (auto intro!: refuses_intros b p)
qed

lemma batch_lookup_refuses [refuses_intros]: "refuses (ImportService_findBatch t i)"
  unfolding ImportService_findBatch_def by (auto intro!: refuses_intros raises_intros)

lemma export_refuses [refuses_intros]: "refuses (ExportService_exportEmployees wr t)"
  unfolding ExportService_exportEmployees_def by (auto intro!: refuses_intros raises_intros)

section \<open>The routes\<close>

lemma refuses_context [refuses_intros]:
  "(\<And>ctx. refuses (k ctx)) \<Longrightarrow> refuses (iobind (ioresult (buildAuditContext req)) k)"
  by (rule refuses_result) (auto simp: buildAuditContext_def Let_def split: if_splits)

lemma refuses_found [refuses_intros]:
  "polite e \<Longrightarrow> refuses (iobind (ImportService_findBatch t i) (case_option (iothrow e) (\<lambda>b. ioreturn (f b))))"
  by (rule refuses_after_read [OF find_batch_reads_only]) (auto intro!: refuses_intros split: option.split)

text \<open>An upload the interceptor refuses for its size.\<close>

fun too_large :: "'file libs \<Rightarrow> 'file api_call \<Rightarrow> bool" where
  "too_large L (ImportEmployees f) = (lb_multer L MAX_FILE_SIZE_BYTES f = Some FileTooLarge)"
| "too_large L call = False"

abbreviation large_file :: exn where
  "large_file \<equiv> HttpEx 413 (Message ''File too large'')"

lemma polite_upload: "err \<noteq> FileTooLarge \<Longrightarrow> polite (upload_exception err)"
  by (cases err) auto

lemma handle_refuses: "\<not> too_large L call \<Longrightarrow> refuses (handle L call req)"
  by (cases call) (auto simp: controller_defs intro!: refuses_intros polite_upload)

lemma handle_large: "too_large L call \<Longrightarrow> handle L call req E w = (Inl large_file, w)"
  by (cases call) (simp_all add: controller_defs iothrow_def iobind_def)

lemma tenant_refuses: "refuses (TenantMiddleware_canActivate req)"
proof -
  have r: "io_rel (\<lambda>d d'. d' = d) (resolveActiveTenantId s)" for s
    unfolding resolveActiveTenantId_def
    by (intro unchanged.iobind_rel unchanged.io_query_tenants_rel unchanged.io_return_rel)
  have fr: "refuses (resolveActiveTenantId s)" for s
    unfolding resolveActiveTenantId_def by (rule refuses_internal) (auto intro!: raises_intros)
  show ?thesis
    unfolding TenantMiddleware_canActivate_def Let_def
    by (auto intro!: refuses_intros refuses_after_read [OF r fr])
qed

lemma guards_refuse: "refuses (guards jv iu cfg jwks required req)"
proof -
  have a: "polite e" if "AuthGuard_canActivate jv iu cfg jwks req = (Inl e, j)" for e j
    using that by (auto simp: AuthGuard_canActivate_def split: option.splits header_value.splits if_splits sum.splits prod.splits)
  have b: "polite e" if "RbacGuard_canActivate required r = Inl e" for e r
    using that by (auto simp: RbacGuard_canActivate_def Let_def split: option.splits if_splits)
  have "io_rel (\<lambda>d d'. d' = d) (TenantMiddleware_canActivate r)" for r
    unfolding TenantMiddleware_canActivate_def resolveActiveTenantId_def Let_def
    by (auto intro!: unchanged.iobind_rel unchanged.io_query_tenants_rel unchanged.io_throw_rel unchanged.io_return_rel)
  then have "refuses (iobind (TenantMiddleware_canActivate r)
      (\<lambda>req2. case RbacGuard_canActivate required req2 of Inl e \<Rightarrow> iothrow e | Inr _ \<Rightarrow> ioreturn req2))" for r
    by (rule refuses_after_read) (auto intro: tenant_refuses refuses_intros dest: b split: sum.split)
  then show ?thesis
    unfolding guards_def by (auto split: prod.split sum.split intro: refuses_throw a)
qed

text \<open>How a request to a route may fail.\<close>

lemma serve_fails:
  assumes "serve L call req E w = (Inl e, w')"
  shows "polite e \<and> (internal e \<or> w_db w' = w_db w) \<or> e = large_file \<and> too_large L call \<and> w_db w' = w_db w"
proof (cases "too_large L call")
  case False
  have "refuses (serve L call req)"
    unfolding serve_def
  proof (rule refuses_after_read)
    show "io_rel (\<lambda>d d'. d' = d) (guards (lb_jwtVerify L) (lb_is_url L) (lb_settings L) (lb_jwks L) (Some (required_roles call)) req)"
      by (simp add: io_rel_def guards_read_only)
  qed (rule guards_refuse handle_refuses [OF False])+
  then show ?thesis using assms unfolding refuses_def by blast
next
  case True
  let ?g = "guards (lb_jwtVerify L) (lb_is_url L) (lb_settings L) (lb_jwks L) (Some (required_roles call)) req"
  have r: "w_db (snd (?g E w)) = w_db w" by (rule guards_read_only)
  have g: "polite e' \<and> (internal e' \<or> w_db w'' = w_db w)" if "?g E w = (Inl e', w'')" for e' w''
    using guards_refuse that unfolding refuses_def by blast
  show ?thesis
    using assms True r g by (auto simp: serve_parts handle_large split: prod.splits sum.splits)
qed

section \<open>Properties\<close>

text \<open>
  C6. Every request that reaches a protected route is answered, whatever it asks for and whatever fails: the
  answer carries the id the middleware drew; a success is a 200 or 201; an error is one of 400, 401, 403, 404,
  409 and 500, or the 413 of an import whose file multer found over the limit of 5 MiB; its body names the
  request id and the status; and unless it is the 500 the request has changed nothing in the database.
  (A body that the JSON parser of the server refuses does not get so far.)
\<close>

theorem answers_are_documented:
  "let (a, w') = answer L nest_body u1 u2 call req E w
   in an_requestId a = u1
    \<and> (case an_error a of
         None \<Rightarrow> an_status a \<in> {200, 201}
       | Some body \<Rightarrow> (an_status a \<in> {400, 401, 403, 404, 409, 500}
             \<or> (\<exists>f. call = ImportEmployees f \<and> lb_multer L (5 * 1024 * 1024) f = Some FileTooLarge \<and> an_status a = 413))
           \<and> map_of body ''requestId'' = Some (JStr u1) \<and> map_of body ''code'' = Some (JStr (''E'' @ dec (an_status a)))
           \<and> (an_status a = 500 \<or> w_db w' = w_db w))"
proof -
  obtain r w' where run: "serve L call (RequestIdMiddleware_use u1 u2 req) E w = (r, w')" by force
  show ?thesis
  proof (cases r)
    case (Inr u)
    have "success_status call \<in> {200, 201}" by (cases call) auto
    then show ?thesis using run Inr by (simp add: answer_def Let_def)
  next
    case (Inl e)
    have large: "\<exists>f. call = ImportEmployees f \<and> lb_multer L (5 * 1024 * 1024) f = Some FileTooLarge" if "too_large L call"
      using that by (cases call) (auto simp: MAX_FILE_SIZE_BYTES_def)
    have st: "error_status e \<in> {400, 401, 403, 404, 409, 500}" if "polite e"
      using that by (cases e) (auto simp: duplicate_code_def employee_conflict_def document_conflict_def)
    have "error_status e = 500 \<or> w_db w' = w_db w"
      using serve_fails [OF run [unfolded Inl]] by (cases e) auto
    then show ?thesis
      using run Inl serve_fails [OF run [unfolded Inl]] large st
      by (auto simp: answer_def filter_shape RequestIdMiddleware_use_def Let_def)
  qed
qed

definition pipeline_libs :: "string libs" where
  "pipeline_libs = \<lparr>lb_jwtVerify = sample_verify, lb_is_url = (\<lambda>_. True), lb_settings = sample_settings, lb_jwks = None,
     lb_fts = (\<lambda>_ _. True), lb_zod = (\<lambda>_ _. Inr (\<lambda>_. None)), lb_multer = (\<lambda>_ _. None), lb_digest = (\<lambda>f. f), lb_load = (\<lambda>_. None),
     lb_write = (\<lambda>_. []), lb_message = (\<lambda>c. c)\<rparr>"

theorem answers_are_documented_witness:
  "let (a, w') = answer pipeline_libs (\<lambda>_ _. []) (sample_uuid 3) (sample_uuid 4) TestAdmin (sample_request ''Basic x'') sample_env sample_world
   in an_status a = 401 \<and> map_of (the (an_error a)) ''requestId'' = Some (JStr (sample_uuid 3)) \<and> w_db w' = sample_db"
proof -
  have "\<not> startsWith ''Basic x'' ''Bearer ''" by code_simp
  then have "an_status (fst (answer pipeline_libs (\<lambda>_ _. []) (sample_uuid 3) (sample_uuid 4) TestAdmin
      (sample_request ''Basic x'') sample_env sample_world)) = 401"
    by (simp add: answer_def serve_def guards_def AuthGuard_canActivate_def RequestIdMiddleware_use_def
        sample_request_def iobind_def iothrow_def HttpExceptionFilter_catch_def Let_def)
  then show ?thesis
    using answers_are_documented [of pipeline_libs "\<lambda>_ _. []" "sample_uuid 3" "sample_uuid 4" TestAdmin
      "sample_request ''Basic x''" sample_env sample_world]
    by (auto simp: Let_def split: prod.splits option.splits)
qed

text \<open>The words of the error answers, by status.\<close>

definition status_word :: "nat \<Rightarrow> string" where
  "status_word st = nullish (map_of [(400, ''VALIDATION_ERROR''), (401, ''UNAUTHORIZED''), (403, ''FORBIDDEN''),
     (404, ''NOT_FOUND''), (409, ''CONFLICT''), (413, ''ERROR''), (500, ''INTERNAL_ERROR'')] st) ''''"

lemma polite_body:
  assumes "polite e \<or> e = large_file"
  shows "\<exists>more. HttpExceptionFilter_catch nest_body e (Some rid) now = (error_status e,
      [(''error'', JStr (status_word (error_status e))), (''code'', JStr (''E'' @ dec (error_status e))),
       (''requestId'', JStr rid), (''timestamp'', JStr (toISOString now))] @ more)
    \<and> (if error_status e = 400 then \<exists>v. more = [(''details'', v)]
       else if error_status e = 409 then more \<in> {[(''detail'', JStr ''version_mismatch'')], [(''detail'', JStr ''duplicate_code'')]}
       else more = [])"
proof (cases e)
  case (HttpEx st b)
  then have "st \<in> {400, 401, 403, 404, 413} \<or> e \<in> {duplicate_code, employee_conflict, document_conflict}"
    using assms by auto
  then show ?thesis
    unfolding filter_shape using HttpEx
    by (auto simp: status_word_def duplicate_code_def employee_conflict_def document_conflict_def)
qed (simp_all add: filter_shape status_word_def)

text \<open>
  C30. No error answer tells more than it should: for every request that reaches a protected route and whatever
  fails, the body of an error is the word for its status, the code, the request id of the response's own header
  and the time; only a 400 adds details, and only a 409 a detail, which is \<open>version_mismatch\<close> or
  \<open>duplicate_code\<close>. So a 500 is the same whatever failed inside (a statement, its SQLSTATE, a message of the
  runtime), and a 401, 403, 404 or 413 says nothing of the exception it was made from.
\<close>

theorem error_answers_have_shape:
  "let (a, w') = answer L nest_body u1 u2 call req E w; st = an_status a
   in case an_error a of
        None \<Rightarrow> st = success_status call
      | Some body \<Rightarrow> (\<exists>more. body =
            [(''error'', JStr (status_word st)), (''code'', JStr (''E'' @ dec st)), (''requestId'', JStr (an_requestId a)),
             (''timestamp'', JStr (toISOString (e_clock E (x_tick (w_ext w')))))] @ more
          \<and> (if st = 400 then \<exists>v. more = [(''details'', v)]
             else if st = 409 then more \<in> {[(''detail'', JStr ''version_mismatch'')], [(''detail'', JStr ''duplicate_code'')]}
             else more = []))"
proof -
  obtain r w' where run: "serve L call (RequestIdMiddleware_use u1 u2 req) E w = (r, w')" by force
  show ?thesis
  proof (cases r)
    case (Inr u)
    then show ?thesis using run by (simp add: answer_def Let_def)
  next
    case (Inl e)
    have p: "polite e \<or> e = large_file" using serve_fails [OF run [unfolded Inl]] by blast
    have rid: "rq_requestId (RequestIdMiddleware_use u1 u2 req) = Some u1" by (simp add: RequestIdMiddleware_use_def Let_def)
    obtain more where body: "HttpExceptionFilter_catch nest_body e (Some u1) (e_clock E (x_tick (w_ext w'))) = (error_status e,
        [(''error'', JStr (status_word (error_status e))), (''code'', JStr (''E'' @ dec (error_status e))),
         (''requestId'', JStr u1), (''timestamp'', JStr (toISOString (e_clock E (x_tick (w_ext w')))))] @ more)"
      and more: "if error_status e = 400 then \<exists>v. more = [(''details'', v)]
       else if error_status e = 409 then more \<in> {[(''detail'', JStr ''version_mismatch'')], [(''detail'', JStr ''duplicate_code'')]}
       else more = []"
      using polite_body [OF p, of nest_body u1 "e_clock E (x_tick (w_ext w'))"] by blast
    have "answer L nest_body u1 u2 call req E w = (\<lparr>an_status = error_status e, an_requestId = u1, an_error = Some
        ([(''error'', JStr (status_word (error_status e))), (''code'', JStr (''E'' @ dec (error_status e))),
          (''requestId'', JStr u1), (''timestamp'', JStr (toISOString (e_clock E (x_tick (w_ext w')))))] @ more)\<rparr>, w')"
      unfolding answer_def Let_def run Inl rid prod.case sum.case body by (rule refl)
    then show ?thesis using more by (auto simp: Let_def split: if_splits)
  qed
qed

end
