(* ===== verification/Health.thy ===== *)
theory Health
  imports Tx
begin

text \<open>
  The probes, \<open>apps/api/src/health\<close>, and the secret loaders of \<open>packages/shared/src/secrets\<close>. A call
  under way is when and how its promise settles, in milliseconds since the call, or \<open>None\<close> for one that never
  does. \<open>withTimeout\<close> sets a timer of its own, and the event loop of the host runs what is due: a timer fires
  at its time, before the answer of a call that arrives in the same millisecond.
\<close>

section \<open>withTimeout\<close>

datatype 'a settlement = Resolves 'a | Rejects string

type_synonym 'a promise = "(nat \<times> 'a settlement) option"

definition CHECK_TIMEOUT_MS :: nat where
  "CHECK_TIMEOUT_MS = 2000"

text \<open>The pending timer, and when and how the promise that \<open>withTimeout\<close> returns was settled.\<close>

record 'a timeout =
  to_timer :: "nat option"
  to_result :: "(nat \<times> (string + 'a)) option"

text \<open>\<open>resolve\<close> and \<open>reject\<close>: only the first call counts.\<close>

definition settle :: "nat \<Rightarrow> string + 'a \<Rightarrow> 'a timeout \<Rightarrow> 'a timeout" where
  "settle t r s = (case to_result s of None \<Rightarrow> s\<lparr>to_result := Some (t, r)\<rparr> | Some _ \<Rightarrow> s)"

definition timer_fires :: "'a timeout \<Rightarrow> 'a timeout" where
  "timer_fires s = (case to_timer s of None \<Rightarrow> s
     | Some t \<Rightarrow> settle t (Inl ''health check timed out'') (s\<lparr>to_timer := None\<rparr>))"

definition timers_until :: "nat \<Rightarrow> 'a timeout \<Rightarrow> 'a timeout" where
  "timers_until t s = (case to_timer s of None \<Rightarrow> s | Some due \<Rightarrow> if due \<le> t then timer_fires s else s)"

text \<open>The two callbacks of \<open>promise.then\<close>: \<open>clearTimeout\<close>, then \<open>resolve\<close> or \<open>reject\<close>.\<close>

fun promise_then :: "nat \<Rightarrow> 'a settlement \<Rightarrow> 'a timeout \<Rightarrow> 'a timeout" where
  "promise_then t (Resolves v) s = settle t (Inr v) (s\<lparr>to_timer := None\<rparr>)"
| "promise_then t (Rejects msg) s = settle t (Inl msg) (s\<lparr>to_timer := None\<rparr>)"

definition withTimeout :: "'a promise \<Rightarrow> nat \<Rightarrow> (nat \<times> (string + 'a)) option" where
  "withTimeout promise ms =
     (let s = \<lparr>to_timer = Some ms, to_result = None\<rparr>
      in to_result (timer_fires
           (case promise of None \<Rightarrow> s | Some (t, v) \<Rightarrow> promise_then t v (timers_until t s))))"

section \<open>HealthService\<close>

datatype check_status = CheckOk | CheckFail

definition HealthService_checkDb :: "'a promise \<Rightarrow> (nat \<times> check_status) option" where
  "HealthService_checkDb db =
     (case withTimeout db CHECK_TIMEOUT_MS of
        None \<Rightarrow> None | Some (t, Inr _) \<Rightarrow> Some (t, CheckOk) | Some (t, Inl _) \<Rightarrow> Some (t, CheckFail))"

definition HealthService_checkRedis :: "string promise \<Rightarrow> (nat \<times> check_status) option" where
  "HealthService_checkRedis redis =
     (case withTimeout redis CHECK_TIMEOUT_MS of
        None \<Rightarrow> None
      | Some (t, Inr result) \<Rightarrow> Some (t, if result = ''PONG'' then CheckOk else CheckFail)
      | Some (t, Inl _) \<Rightarrow> Some (t, CheckFail))"

record readiness_checks =
  rc_db :: check_status
  rc_redis :: check_status

text \<open>\<open>Promise.all\<close> of two checks that never reject: settled when the later of them is.\<close>

definition HealthService_checkReadiness :: "'a promise \<Rightarrow> string promise \<Rightarrow> (nat \<times> readiness_checks) option" where
  "HealthService_checkReadiness db redis =
     (case (HealthService_checkDb db, HealthService_checkRedis redis) of
        (Some (t1, a), Some (t2, b)) \<Rightarrow> Some (max t1 t2, \<lparr>rc_db = a, rc_redis = b\<rparr>)
      | _ \<Rightarrow> None)"

text \<open>The constructor: the service does not start without the address of the queue server.\<close>

definition HealthService_new :: "(string \<Rightarrow> string option) \<Rightarrow> exn + string" where
  "HealthService_new process_env =
     (let redisUrl = process_env ''REDIS_URL''
      in if \<not> truthy redisUrl then Inl (JsError ''REDIS_URL is not set'') else Inr (the redisUrl))"

section \<open>readiness.util.ts and the controller\<close>

record readiness_result =
  rr_httpStatus :: nat
  rr_status :: string
  rr_checks :: readiness_checks

definition computeReadiness :: "readiness_checks \<Rightarrow> readiness_result" where
  "computeReadiness checks =
     (let ready = (rc_db checks = CheckOk \<and> rc_redis checks = CheckOk)
      in \<lparr>rr_httpStatus = (if ready then 200 else 503),
          rr_status = (if ready then ''ready'' else ''not_ready''), rr_checks = checks\<rparr>)"

definition HealthController_readiness :: "'a promise \<Rightarrow> string promise \<Rightarrow> (nat \<times> readiness_result) option" where
  "HealthController_readiness db redis =
     map_option (\<lambda>(t, checks). (t, computeReadiness checks)) (HealthService_checkReadiness db redis)"

definition HealthController_liveness :: "instant \<Rightarrow> (string \<times> json) list" where
  "HealthController_liveness now = [(''status'', JStr ''ok''), (''timestamp'', JStr (toISOString now))]"

section \<open>Secret loaders\<close>

definition EnvSecretLoader_get :: "(string \<Rightarrow> string option) \<Rightarrow> string \<Rightarrow> exn + string" where
  "EnvSecretLoader_get process_env key =
     (case process_env key of
        None \<Rightarrow> Inl (JsError (''Secret \"'' @ key @ ''\" is not set''))
      | Some value \<Rightarrow> Inr value)"

definition AwsSecretsManagerLoader_get :: "string \<Rightarrow> exn + string" where
  "AwsSecretsManagerLoader_get key = Inl (JsError
     (''AwsSecretsManagerLoader is not implemented (requested secret \"'' @ key @ ''\") -- production secret-loading contract prepared in E5, AWS runtime integration deferred to E6.''))"

section \<open>Settling\<close>

lemma withTimeout_runs:
  "withTimeout promise ms = Some
    (case promise of None \<Rightarrow> (ms, Inl ''health check timed out'')
     | Some (t, v) \<Rightarrow> if t < ms then (t, case v of Resolves a \<Rightarrow> Inr a | Rejects msg \<Rightarrow> Inl msg)
         else (ms, Inl ''health check timed out''))"
  by (auto simp: withTimeout_def timer_fires_def timers_until_def settle_def Let_def split: option.split settlement.split)

text \<open>The answer of a call that came in time, and how long the check of the call takes.\<close>

definition in_time :: "('a \<Rightarrow> bool) \<Rightarrow> 'a promise \<Rightarrow> bool" where
  "in_time good promise \<longleftrightarrow> (case promise of Some (t, Resolves v) \<Rightarrow> t < 2000 \<and> good v | _ \<Rightarrow> False)"

definition check_ends :: "'a promise \<Rightarrow> nat" where
  "check_ends promise = (case promise of None \<Rightarrow> 2000 | Some (t, _) \<Rightarrow> min t 2000)"

lemma checkDb_runs:
  "HealthService_checkDb db = Some (check_ends db, if in_time (\<lambda>_. True) db then CheckOk else CheckFail)"
  by (auto simp: HealthService_checkDb_def withTimeout_runs check_ends_def in_time_def CHECK_TIMEOUT_MS_def
      split: option.split settlement.split)

lemma checkRedis_runs:
  "HealthService_checkRedis redis = Some (check_ends redis, if in_time (\<lambda>v. v = ''PONG'') redis then CheckOk else CheckFail)"
  by (auto simp: HealthService_checkRedis_def withTimeout_runs check_ends_def in_time_def CHECK_TIMEOUT_MS_def
      split: option.split settlement.split)

section \<open>Properties\<close>

text \<open>
  C33. The readiness probe always answers, within its two seconds: whatever the database and the queue
  server do, also never answer at all, the timers of the checks see to it that the handler returns when both
  calls are over or cut off, no later than 2000 milliseconds after the request, with 200 and ready when the
  database answered and the queue server answered PONG before that, and with 503 and not ready in every
  other case, and it says of each of the two whether it answered.
\<close>

theorem readiness_always_answers:
  "\<exists>t res. HealthController_readiness db redis = Some (t, res)
    \<and> t = max (check_ends db) (check_ends redis) \<and> t \<le> 2000
    \<and> rr_checks res = \<lparr>rc_db = (if in_time (\<lambda>_. True) db then CheckOk else CheckFail),
                       rc_redis = (if in_time (\<lambda>v. v = ''PONG'') redis then CheckOk else CheckFail)\<rparr>
    \<and> (rr_httpStatus res, rr_status res) =
        (if in_time (\<lambda>_. True) db \<and> in_time (\<lambda>v. v = ''PONG'') redis then (200, ''ready'') else (503, ''not_ready''))"
proof -
  have "check_ends db \<le> 2000" "check_ends redis \<le> 2000"
    by (simp_all add: check_ends_def split: option.split)
  then show ?thesis
    by (simp add: HealthController_readiness_def HealthService_checkReadiness_def checkDb_runs checkRedis_runs
        computeReadiness_def Let_def)
qed

theorem readiness_always_answers_witness:
  "\<exists>t res. HealthController_readiness (Some (3, Resolves ())) None = Some (t, res) \<and> t = 2000 \<and> rr_httpStatus res = 503"
  using readiness_always_answers [of "Some (3, Resolves ())" None]
  by (auto simp: check_ends_def in_time_def)

end
