(* ===== verification/Processes.thy ===== *)
theory Processes
  imports Health
begin

text \<open>
  The two processes, \<open>apps/worker/src/main.ts\<close> and \<open>apps/api/src/main.ts\<close>: the settings they need to
  start, and how they go down on a signal. A running process is a state and its steps are an inductive
  relation; a step is a signal, the completion of one \<open>await\<close> of the shutdown, or the start or end of a
  job (a request in flight, for the API). BullMQ's \<open>Worker.close()\<close> waits for the jobs of the worker and
  lets it take no new one; Node's \<open>server.close()\<close> waits for the connections it has, on which requests may
  still arrive.
\<close>

section \<open>Start of the worker process\<close>

record smtp_transport =
  sm_host :: string
  sm_port :: string
  sm_secure :: bool
  sm_auth :: "(string \<times> string option) option"
  sm_timeouts :: "int list"

record worker_config =
  wc_connectionString :: string
  wc_redisUrl :: string
  wc_transport :: smtp_transport
  wc_smtpFromDefault :: string

definition required_env :: "(string \<Rightarrow> string option) \<Rightarrow> string \<Rightarrow> exn + string" where
  "required_env process_env key =
     (case process_env key of
        Some v \<Rightarrow> if v = [] then Inl (JsError (key @ '' is not set'')) else Inr v
      | None \<Rightarrow> Inl (JsError (key @ '' is not set'')))"

text \<open>The port is kept as the text \<open>Number\<close> is applied to.\<close>

definition worker_bootstrap :: "(string \<Rightarrow> string option) \<Rightarrow> exn + worker_config" where
  "worker_bootstrap process_env =
     (case required_env process_env ''DATABASE_URL'' of Inl e \<Rightarrow> Inl e | Inr connectionString \<Rightarrow>
      (case required_env process_env ''REDIS_URL'' of Inl e \<Rightarrow> Inl e | Inr redisUrl \<Rightarrow>
      (case required_env process_env ''SMTP_HOST'' of Inl e \<Rightarrow> Inl e | Inr smtpHost \<Rightarrow>
      (case required_env process_env ''SMTP_FROM_DEFAULT'' of Inl e \<Rightarrow> Inl e | Inr smtpFromDefault \<Rightarrow>
        Inr \<lparr>wc_connectionString = connectionString, wc_redisUrl = redisUrl,
             wc_transport = \<lparr>sm_host = smtpHost, sm_port = nullish (process_env ''SMTP_PORT'') ''587'',
               sm_secure = (process_env ''SMTP_SECURE'' = Some ''true''),
               sm_auth = (if truthy (process_env ''SMTP_USER'')
                 then Some (nullish (process_env ''SMTP_USER'') '''', process_env ''SMTP_PASS'') else None),
               sm_timeouts = [10000, 10000, 10000]\<rparr>,
             wc_smtpFromDefault = smtpFromDefault\<rparr>))))"

section \<open>Shutdown of the worker process\<close>

datatype resource =
    ReminderWorker | ImportWorker | ReminderScanner | SendReminderQueue | ReminderScanQueue
  | FailureAlertScanner | FailureAlertScanQueue | RedisConnection | DbPool | SmtpTransporter

text \<open>The awaits of \<open>shutdown\<close>, in their order.\<close>

definition shutdown_order :: "resource list" where
  "shutdown_order = [ReminderWorker, ImportWorker, ReminderScanner, SendReminderQueue, ReminderScanQueue,
     FailureAlertScanner, FailureAlertScanQueue, RedisConnection, DbPool, SmtpTransporter]"

definition job_workers :: "resource set" where
  "job_workers = {ReminderWorker, ImportWorker, ReminderScanner, FailureAlertScanner}"

text \<open>What a job of each worker uses while it runs.\<close>

fun needs :: "resource \<Rightarrow> resource set" where
  "needs ReminderWorker = {RedisConnection, DbPool, SmtpTransporter}"
| "needs ImportWorker = {RedisConnection, DbPool}"
| "needs ReminderScanner = {RedisConnection, DbPool, SendReminderQueue}"
| "needs FailureAlertScanner = {RedisConnection, DbPool}"
| "needs _ = {}"

record worker_state =
  shuttingDown :: bool
  pending :: "resource list"
  closed :: "resource set"
  jobs :: "resource \<Rightarrow> nat"
  exited :: bool

definition worker_started :: worker_state where
  "worker_started = \<lparr>shuttingDown = False, pending = [], closed = {}, jobs = (\<lambda>_. 0), exited = False\<rparr>"

datatype worker_event = WSignal | WJobStart resource | WJobEnd resource | WClosed resource | WExit

text \<open>The head of \<open>pending\<close> is the resource whose \<open>close()\<close> is under way.\<close>

inductive worker_step :: "worker_state \<Rightarrow> worker_event \<Rightarrow> worker_state \<Rightarrow> bool" where
  first_signal: "\<lbrakk>\<not> exited s; \<not> shuttingDown s\<rbrakk> \<Longrightarrow>
    worker_step s WSignal (s\<lparr>shuttingDown := True, pending := shutdown_order\<rparr>)"
| later_signal: "\<lbrakk>\<not> exited s; shuttingDown s\<rbrakk> \<Longrightarrow> worker_step s WSignal s"
| job_start: "\<lbrakk>\<not> exited s; r \<in> job_workers; r \<notin> closed s; pending s = [] \<or> hd (pending s) \<noteq> r\<rbrakk> \<Longrightarrow>
    worker_step s (WJobStart r) (s\<lparr>jobs := (jobs s)(r := Suc (jobs s r))\<rparr>)"
| job_end: "\<lbrakk>\<not> exited s; 0 < jobs s r\<rbrakk> \<Longrightarrow>
    worker_step s (WJobEnd r) (s\<lparr>jobs := (jobs s)(r := jobs s r - 1)\<rparr>)"
| closes: "\<lbrakk>\<not> exited s; pending s = r # rest; jobs s r = 0\<rbrakk> \<Longrightarrow>
    worker_step s (WClosed r) (s\<lparr>pending := rest, closed := insert r (closed s)\<rparr>)"
| process_exit: "\<lbrakk>\<not> exited s; shuttingDown s; pending s = []\<rbrakk> \<Longrightarrow>
    worker_step s WExit (s\<lparr>exited := True\<rparr>)"

inductive_cases worker_stepE: "worker_step s e s'"

inductive_simps worker_closed_simps: "worker_step s (WClosed r) s'"
inductive_simps worker_signal_simps: "worker_step s WSignal s'"
inductive_simps worker_exit_simps: "worker_step s WExit s'"
inductive_simps worker_end_simps: "worker_step s (WJobEnd r) s'"

inductive worker_reachable :: "worker_state \<Rightarrow> bool" where
  start: "worker_reachable worker_started"
| step: "worker_reachable s \<Longrightarrow> worker_step s e s' \<Longrightarrow> worker_reachable s'"

text \<open>
  The invariant: what is closed is the part of the order before what is pending, a job runs on a worker
  that is not closed, and a process that exited had nothing left to close.
\<close>

definition worker_inv :: "worker_state \<Rightarrow> bool" where
  "worker_inv s \<longleftrightarrow>
     (\<exists>front. shutdown_order = front @ pending s \<and> closed s = set front \<and> shuttingDown s
        \<or> \<not> shuttingDown s \<and> pending s = [] \<and> closed s = {})
     \<and> (\<forall>r. 0 < jobs s r \<longrightarrow> r \<in> job_workers \<and> r \<notin> closed s)
     \<and> (exited s \<longrightarrow> shuttingDown s \<and> pending s = [])"

lemma shutdown_order_distinct: "distinct shutdown_order"
  by (simp add: shutdown_order_def)

text \<open>The order closes a worker before what its jobs use: a front that spares the worker spares these.\<close>

fun closes_users_first :: "resource list \<Rightarrow> bool" where
  "closes_users_first [] = True"
| "closes_users_first (q # qs) \<longleftrightarrow> (\<forall>r\<in>set qs. q \<notin> needs r) \<and> closes_users_first qs"

lemma front_spares_needs:
  "\<lbrakk>closes_users_first (front @ rest); r \<in> set rest\<rbrakk> \<Longrightarrow> needs r \<inter> set front = {}"
  by (induction front) auto

lemma shutdown_order_closes_users_first: "closes_users_first shutdown_order"
  by (simp add: shutdown_order_def)

lemma job_workers_in_order: "job_workers \<subseteq> set shutdown_order"
  by (simp add: job_workers_def shutdown_order_def)

lemma worker_inv_step:
  assumes "worker_inv s" "worker_step s e s'"
  shows "worker_inv s'"
  using assms(2)
proof cases
  case (closes r rest)
  then obtain front where f: "shutdown_order = front @ r # rest" "closed s = set front" "shuttingDown s"
    using assms(1) by (auto simp: worker_inv_def)
  then have "\<exists>front'. shutdown_order = front' @ rest \<and> insert r (closed s) = set front'"
    by (intro exI [of _ "front @ [r]"]) auto
  moreover have "q \<in> job_workers \<and> q \<notin> insert r (closed s)" if "0 < jobs s q" for q
    using assms(1) closes that by (auto simp: worker_inv_def)
  ultimately show ?thesis using closes f(3) unfolding worker_inv_def by simp
qed (use assms(1) in \<open>auto simp: worker_inv_def\<close>)

lemma worker_inv_reachable: "worker_reachable s \<Longrightarrow> worker_inv s"
proof (induction rule: worker_reachable.induct)
  case start
  show ?case by (simp add: worker_inv_def worker_started_def)
qed (rule worker_inv_step)

section \<open>Start of the API process\<close>

record pool_config =
  pc_connectionString :: string
  pc_min :: nat
  pc_max :: nat

text \<open>
  \<open>createDb\<close> of \<open>packages/database\<close>: a pool emits the error of a client whose backend ended while it was
  idle; without a listener Node throws and the process ends (\<open>None\<close>), with listeners the client is dropped
  and each of them runs. A listener is what it writes to the log.
\<close>

record pg_pool =
  pp_config :: pool_config
  pp_idle :: nat
  pp_listeners :: "(string \<Rightarrow> (string \<times> json) list) list"

definition createDb :: "pool_config \<Rightarrow> pg_pool" where
  "createDb config = \<lparr>pp_config = config, pp_idle = 0,
     pp_listeners = [\<lambda>message. [(''action'', JStr ''db_pool_error''), (''message'', JStr message)]]\<rparr>"

definition pool_error :: "string \<Rightarrow> pg_pool \<Rightarrow> ((string \<times> json) list list \<times> pg_pool) option" where
  "pool_error message pool =
     (if pp_listeners pool = [] then None
      else Some (map (\<lambda>f. f message) (pp_listeners pool), pool\<lparr>pp_idle := pp_idle pool - 1\<rparr>))"

fun pool_errors :: "string list \<Rightarrow> pg_pool \<Rightarrow> ((string \<times> json) list list \<times> pg_pool) option" where
  "pool_errors [] pool = Some ([], pool)"
| "pool_errors (m # ms) pool =
     (case pool_error m pool of None \<Rightarrow> None
      | Some (out, pool') \<Rightarrow> map_option (\<lambda>(out', q). (out @ out', q)) (pool_errors ms pool'))"

text \<open>Any number of lost clients leaves the process up, with one line for each in the log.\<close>

lemma pool_survives:
  "\<exists>n. pool_errors ms (createDb config\<lparr>pp_idle := k\<rparr>) =
    Some (map (\<lambda>m. [(''action'', JStr ''db_pool_error''), (''message'', JStr m)]) ms, createDb config\<lparr>pp_idle := n\<rparr>)"
proof (induction ms arbitrary: k)
  case (Cons m ms)
  obtain n where "pool_errors ms (createDb config\<lparr>pp_idle := k - 1\<rparr>) =
      Some (map (\<lambda>m. [(''action'', JStr ''db_pool_error''), (''message'', JStr m)]) ms, createDb config\<lparr>pp_idle := n\<rparr>)"
    using Cons.IH by blast
  then show ?case by (intro exI [of _ n]) (simp add: pool_error_def createDb_def)
qed auto

record import_queue =
  iq_redisUrl :: string
  iq_name :: string
  iq_maxRetriesPerRequest :: "nat option"

record api_config =
  ax_pool :: pg_pool
  ax_queue :: import_queue
  ax_trustProxy :: nat
  ax_port :: string

text \<open>The constructors of the providers that read the environment; no query is made before the first request.\<close>

definition DrizzleService_new :: "(string \<Rightarrow> string option) \<Rightarrow> exn + pg_pool" where
  "DrizzleService_new process_env =
     (case process_env ''DATABASE_URL'' of
        Some u \<Rightarrow> if u = [] then Inl (JsError ''DATABASE_URL is not set'')
                  else Inr (createDb \<lparr>pc_connectionString = u, pc_min = 2, pc_max = 10\<rparr>)
      | None \<Rightarrow> Inl (JsError ''DATABASE_URL is not set''))"

definition ImportQueueService_new :: "(string \<Rightarrow> string option) \<Rightarrow> exn + import_queue" where
  "ImportQueueService_new process_env =
     (case process_env ''REDIS_URL'' of
        Some u \<Rightarrow> if u = [] then Inl (JsError ''REDIS_URL is not set'')
                  else Inr \<lparr>iq_redisUrl = u, iq_name = ''imports'', iq_maxRetriesPerRequest = None\<rparr>
      | None \<Rightarrow> Inl (JsError ''REDIS_URL is not set''))"

text \<open>
  \<open>bootstrap\<close>: the container builds every provider, the pool before those that are given it, and a constructor
  that throws ends the start. The port is kept as the text \<open>Number\<close> is applied to.
\<close>

definition api_bootstrap :: "(string \<Rightarrow> string option) \<Rightarrow> exn + api_config" where
  "api_bootstrap process_env =
     (case DrizzleService_new process_env of Inl e \<Rightarrow> Inl e | Inr pool \<Rightarrow>
      (case HealthService_new process_env of Inl e \<Rightarrow> Inl e | Inr _ \<Rightarrow>
      (case ImportQueueService_new process_env of Inl e \<Rightarrow> Inl e | Inr queue \<Rightarrow>
        Inr \<lparr>ax_pool = pool, ax_queue = queue, ax_trustProxy = 1, ax_port = nullish (process_env ''PORT'') ''3000''\<rparr>)))"

text \<open>Both processes start on one configuration, with the same database and the same queue server.\<close>

lemma processes_share_services:
  assumes "api_bootstrap process_env = Inr a" "worker_bootstrap process_env = Inr w"
  shows "pc_connectionString (pp_config (ax_pool a)) = wc_connectionString w \<and> iq_redisUrl (ax_queue a) = wc_redisUrl w"
  using assms
  by (auto simp: api_bootstrap_def worker_bootstrap_def DrizzleService_new_def ImportQueueService_new_def required_env_def createDb_def
      split: option.splits if_splits sum.splits)

lemma worker_settings_start_api:
  "worker_bootstrap process_env = Inr w \<Longrightarrow> \<exists>a. api_bootstrap process_env = Inr a"
  by (auto simp: api_bootstrap_def worker_bootstrap_def DrizzleService_new_def HealthService_new_def ImportQueueService_new_def
      required_env_def split: option.splits if_splits sum.splits)

section \<open>Shutdown of the API process\<close>

definition SHUTDOWN_TIMEOUT_MS :: nat where
  "SHUTDOWN_TIMEOUT_MS = 30000"

datatype api_phase = Serving | Draining nat | ClosingApp | ApiExited

record api_state =
  ap_phase :: api_phase
  ap_now :: nat
  ap_inflight :: nat
  ap_poolOpen :: bool

definition api_started :: api_state where
  "api_started = \<lparr>ap_phase = Serving, ap_now = 0, ap_inflight = 0, ap_poolOpen = True\<rparr>"

datatype api_event = ASignal | ARequest | AAnswer | ATick | ADrained | ATimeout | AClosed

text \<open>
  \<open>Draining t\<close>: the server closes since the time \<open>t\<close>, and \<open>Promise.race\<close> waits for the last answer or for
  the timer, whichever comes first; then \<open>app.close()\<close> ends the pool. Time does not pass the timer.
\<close>

inductive api_step :: "api_state \<Rightarrow> api_event \<Rightarrow> api_state \<Rightarrow> bool" where
  api_signal: "ap_phase s = Serving \<Longrightarrow> api_step s ASignal (s\<lparr>ap_phase := Draining (ap_now s)\<rparr>)"
| api_again: "ap_phase s \<noteq> Serving \<Longrightarrow> ap_phase s \<noteq> ApiExited \<Longrightarrow> api_step s ASignal s"
| api_request: "ap_phase s \<in> {Serving} \<union> range Draining \<Longrightarrow> api_step s ARequest (s\<lparr>ap_inflight := Suc (ap_inflight s)\<rparr>)"
| api_answer: "0 < ap_inflight s \<Longrightarrow> ap_phase s \<noteq> ApiExited \<Longrightarrow> api_step s AAnswer (s\<lparr>ap_inflight := ap_inflight s - 1\<rparr>)"
| api_tick: "(\<And>t. ap_phase s = Draining t \<Longrightarrow> ap_now s < t + SHUTDOWN_TIMEOUT_MS) \<Longrightarrow> ap_phase s \<in> {Serving} \<union> range Draining \<Longrightarrow>
    api_step s ATick (s\<lparr>ap_now := Suc (ap_now s)\<rparr>)"
| api_drained: "ap_phase s = Draining t \<Longrightarrow> ap_inflight s = 0 \<Longrightarrow> api_step s ADrained (s\<lparr>ap_phase := ClosingApp\<rparr>)"
| api_timeout: "ap_phase s = Draining t \<Longrightarrow> ap_now s = t + SHUTDOWN_TIMEOUT_MS \<Longrightarrow> api_step s ATimeout (s\<lparr>ap_phase := ClosingApp\<rparr>)"
| api_closed: "ap_phase s = ClosingApp \<Longrightarrow> api_step s AClosed (s\<lparr>ap_phase := ApiExited, ap_poolOpen := False\<rparr>)"

inductive_cases api_stepE: "api_step s e s'"

inductive api_reachable :: "api_state \<Rightarrow> bool" where
  api_start: "api_reachable api_started"
| api_next: "api_reachable s \<Longrightarrow> api_step s e s' \<Longrightarrow> api_reachable s'"


definition api_inv :: "api_state \<Rightarrow> bool" where
  "api_inv s \<longleftrightarrow> (ap_poolOpen s \<longleftrightarrow> ap_phase s \<noteq> ApiExited)
     \<and> (\<forall>t. ap_phase s = Draining t \<longrightarrow> t \<le> ap_now s \<and> ap_now s \<le> t + SHUTDOWN_TIMEOUT_MS)"

lemma api_inv_reachable: "api_reachable s \<Longrightarrow> api_inv s"
proof (induction rule: api_reachable.induct)
  case api_start
  show ?case by (simp add: api_inv_def api_started_def)
next
  case (api_next s e s')
  from api_next.hyps(2) api_next.IH show ?case
    by cases (auto simp: api_inv_def Suc_le_eq)
qed

section \<open>Runs\<close>

abbreviation worker_run :: "worker_state \<Rightarrow> worker_state \<Rightarrow> bool" where
  "worker_run \<equiv> (\<lambda>s s'. \<exists>e. worker_step s e s')\<^sup>*\<^sup>*"

abbreviation api_run :: "api_state \<Rightarrow> api_state \<Rightarrow> bool" where
  "api_run \<equiv> (\<lambda>s s'. \<exists>e. api_step s e s')\<^sup>*\<^sup>*"

text \<open>The awaits and the exit that are left of a shutdown.\<close>

definition remaining :: "worker_state \<Rightarrow> nat" where
  "remaining s = (if exited s then 0 else Suc (length (pending s)))"

fun shutdown_event :: "worker_event \<Rightarrow> bool" where
  "shutdown_event (WClosed r) = True"
| "shutdown_event WExit = True"
| "shutdown_event _ = False"

lemma remaining_step:
  "worker_step s e s' \<Longrightarrow> shuttingDown s \<Longrightarrow>
     shuttingDown s' \<and> (if shutdown_event e then remaining s' < remaining s else remaining s' = remaining s)"
  by (cases rule: worker_step.cases) (auto simp: remaining_def)

lemma drain_head:
  "\<not> exited s \<Longrightarrow> worker_run s (s\<lparr>jobs := (jobs s)(r := 0)\<rparr>)"
proof (induction "jobs s r" arbitrary: s)
  case 0
  then have "(jobs s)(r := 0) = jobs s" by (metis fun_upd_triv)
  then have "s\<lparr>jobs := (jobs s)(r := 0)\<rparr> = s" by simp
  then show ?case by (metis rtranclp.rtrancl_refl)
next
  case (Suc n)
  let ?s = "s\<lparr>jobs := (jobs s)(r := n)\<rparr>"
  have "worker_step s (WJobEnd r) ?s"
    using worker_step.job_end [of s r] Suc.hyps(2) Suc.prems by (metis diff_Suc_1 zero_less_Suc)
  then have 1: "\<exists>e. worker_step s e ?s" by blast
  have "n = jobs ?s r" and "\<not> exited ?s" using Suc.prems by simp_all
  then have "worker_run ?s (?s\<lparr>jobs := (jobs ?s)(r := 0)\<rparr>)" by (rule Suc.hyps(1))
  moreover have "?s\<lparr>jobs := (jobs ?s)(r := 0)\<rparr> = s\<lparr>jobs := (jobs s)(r := 0)\<rparr>" by simp
  ultimately have "worker_run ?s (s\<lparr>jobs := (jobs s)(r := 0)\<rparr>)" by (simp only:)
  with 1 show ?case by (rule converse_rtranclp_into_rtranclp)
qed

lemma shutdown_run:
  "shuttingDown s \<Longrightarrow> \<not> exited s \<Longrightarrow> \<exists>s'. worker_run s s' \<and> exited s'"
proof (induction "pending s" arbitrary: s)
  case Nil
  then have "worker_step s WExit (s\<lparr>exited := True\<rparr>)" by (simp add: worker_step.process_exit)
  then have "worker_run s (s\<lparr>exited := True\<rparr>)" by blast
  then show ?case by force
next
  case (Cons r rest)
  let ?s1 = "s\<lparr>jobs := (jobs s)(r := 0)\<rparr>"
  let ?s2 = "?s1\<lparr>pending := rest, closed := insert r (closed s)\<rparr>"
  have 1: "worker_run s ?s1" by (rule drain_head [OF Cons.prems(2)])
  have "worker_step ?s1 (WClosed r) (?s1\<lparr>pending := rest, closed := insert r (closed ?s1)\<rparr>)"
    using Cons.hyps(2) Cons.prems(2) by (intro worker_step.closes) simp_all
  then have 2: "worker_run ?s1 ?s2" by auto
  obtain s' where "worker_run ?s2 s'" "exited s'" using Cons.hyps(1) [of ?s2] Cons.prems by auto
  then show ?case using 1 2 by (meson rtranclp_trans)
qed

section \<open>Properties\<close>

text \<open>
  C20. A running job keeps what it runs on: in every state the worker process can reach, during a shutdown
  as before it, nothing that a job in progress uses has been closed, not the pool, not the queue server, not
  the mail transport and not the queue a scan adds to.
\<close>

theorem running_jobs_keep_resources:
  assumes "worker_reachable s" and "0 < jobs s r"
  shows "r \<in> job_workers \<and> needs r \<inter> closed s = {} \<and> \<not> exited s"
proof -
  have inv: "worker_inv s" by (rule worker_inv_reachable [OF assms(1)])
  then have r: "r \<in> job_workers" "r \<notin> closed s" using assms(2) by (auto simp: worker_inv_def)
  show ?thesis
  proof (cases "shuttingDown s")
    case False
    then show ?thesis using inv r by (auto simp: worker_inv_def)
  next
    case True
    then obtain front where f: "shutdown_order = front @ pending s" "closed s = set front"
      using inv by (auto simp: worker_inv_def)
    have "r \<in> set (front @ pending s)" using r job_workers_in_order by (metis f(1) subsetD)
    then have p: "r \<in> set (pending s)" using r(2) f(2) by simp
    then have c: "needs r \<inter> closed s = {}"
      using front_spares_needs [of front "pending s" r] shutdown_order_closes_users_first f by simp
    from p have "pending s \<noteq> []" by auto
    then have "\<not> exited s" using inv by (auto simp: worker_inv_def)
    then show ?thesis using r c by blast
  qed
qed

text \<open>A scan is under way when the signal comes, and two workers are closed.\<close>

definition closing_state :: worker_state where
  "closing_state = \<lparr>shuttingDown = True, pending = drop 2 shutdown_order, closed = {ReminderWorker, ImportWorker},
     jobs = (\<lambda>_. 0)(ReminderScanner := 1), exited = False\<rparr>"

lemma closing_reachable: "worker_reachable closing_state"
proof -
  let ?s1 = "worker_started\<lparr>jobs := (jobs worker_started)(ReminderScanner := Suc (jobs worker_started ReminderScanner))\<rparr>"
  let ?s2 = "?s1\<lparr>shuttingDown := True, pending := shutdown_order\<rparr>"
  let ?s3 = "?s2\<lparr>pending := drop 1 shutdown_order, closed := insert ReminderWorker (closed ?s2)\<rparr>"
  have "worker_step worker_started (WJobStart ReminderScanner) ?s1"
    by (rule worker_step.job_start) (simp_all add: worker_started_def job_workers_def)
  then have 1: "worker_reachable ?s1" by (rule worker_reachable.step [OF worker_reachable.start])
  have "worker_step ?s1 WSignal ?s2" by (rule worker_step.first_signal) (simp_all add: worker_started_def)
  then have 2: "worker_reachable ?s2" by (rule worker_reachable.step [OF 1])
  have "worker_step ?s2 (WClosed ReminderWorker) ?s3"
    by (rule worker_step.closes) (simp_all add: worker_started_def shutdown_order_def)
  then have 3: "worker_reachable ?s3" by (rule worker_reachable.step [OF 2])
  have "worker_step ?s3 (WClosed ImportWorker) (?s3\<lparr>pending := drop 2 shutdown_order, closed := insert ImportWorker (closed ?s3)\<rparr>)"
    by (rule worker_step.closes) (simp_all add: worker_started_def shutdown_order_def)
  then have "worker_reachable (?s3\<lparr>pending := drop 2 shutdown_order, closed := insert ImportWorker (closed ?s3)\<rparr>)"
    by (rule worker_reachable.step [OF 3])
  moreover have "?s3\<lparr>pending := drop 2 shutdown_order, closed := insert ImportWorker (closed ?s3)\<rparr> = closing_state"
    by (simp add: worker_started_def closing_state_def insert_commute)
  ultimately show ?thesis by simp
qed

theorem running_jobs_keep_resources_witness:
  "needs ReminderScanner \<inter> closed closing_state = {} \<and> closed closing_state \<noteq> {}"
  using running_jobs_keep_resources [OF closing_reachable, of ReminderScanner]
  by (simp add: closing_state_def)

text \<open>
  C21. A shutdown ends: once the signal was handled, the awaits left never get more, each await that returns
  and the exit make them fewer, some step is always possible that ends a job the current await waits for or
  returns from it, and from every such state the process can run to its exit.
\<close>

theorem worker_shutdown_terminates:
  assumes "worker_reachable s" and "shuttingDown s"
  shows "(\<forall>e s'. worker_step s e s' \<longrightarrow> shuttingDown s'
      \<and> (if shutdown_event e then remaining s' < remaining s else remaining s' = remaining s))
    \<and> remaining s \<le> 11
    \<and> (exited s \<or> (\<exists>e s'. worker_step s e s' \<and> (shutdown_event e \<or> e = WJobEnd (hd (pending s)))))
    \<and> (\<exists>s'. worker_run s s' \<and> exited s')"
proof (intro conjI)
  show "\<forall>e s'. worker_step s e s' \<longrightarrow> shuttingDown s'
      \<and> (if shutdown_event e then remaining s' < remaining s else remaining s' = remaining s)"
    using remaining_step assms(2) by blast
  have inv: "worker_inv s" by (rule worker_inv_reachable [OF assms(1)])
  then obtain front where "shutdown_order = front @ pending s" using assms(2) by (auto simp: worker_inv_def)
  from arg_cong [OF this, of length] show "remaining s \<le> 11" by (simp add: remaining_def shutdown_order_def)
  show "exited s \<or> (\<exists>e s'. worker_step s e s' \<and> (shutdown_event e \<or> e = WJobEnd (hd (pending s))))"
  proof (cases "pending s")
    case Nil
    then show ?thesis using worker_step.process_exit [of s] assms(2) shutdown_event.simps(2) by blast
  next
    case (Cons r rest)
    show ?thesis
    proof (cases "jobs s r = 0")
      case True
      then show ?thesis using worker_step.closes [of s r rest] Cons shutdown_event.simps(1) by blast
    next
      case False
      then show ?thesis using worker_step.job_end [of s r] Cons by (metis list.sel(1) not_gr_zero)
    qed
  qed
  show "\<exists>s'. worker_run s s' \<and> exited s'" using shutdown_run [OF assms(2)] by blast
qed

theorem worker_shutdown_terminates_witness:
  "remaining closing_state = 9 \<and> (\<exists>s'. worker_run closing_state s' \<and> exited s')"
  using worker_shutdown_terminates [OF closing_reachable]
  by (simp add: closing_state_def remaining_def shutdown_order_def)

end
