(* ===== verification/Migrations.thy ===== *)
theory Migrations
  imports Tx "HOL-Library.List_Lexorder" "HOL-Library.Char_ord"
begin

text \<open>
  The migration runner, \<open>infra/postgres/migrate.js\<close>: it plans from the files on disk, the files recorded in
  \<open>schema_migrations\<close> and the presence of a marker table which files to record without running them and
  which to run, and executes the plan on one connection. A database is what it has recorded and the files
  whose SQL was executed on it, in order; what the SQL of a file does on such a database is a parameter,
  as is which file creates the marker table. Every query may fail, also for good when the process dies.
\<close>

section \<open>The plan\<close>

definition planMigrations :: "string list \<Rightarrow> string list \<Rightarrow> bool \<Rightarrow> string list \<times> string list" where
  "planMigrations filesOnDisk alreadyApplied markerTableExists =
     (let backfill = (if alreadyApplied = [] \<and> markerTableExists then filesOnDisk else []);
          applied = set alreadyApplied \<union> set backfill
      in (backfill, filter (\<lambda>file. file \<notin> applied) filesOnDisk))"

section \<open>The connection\<close>

text \<open>\<open>md_tracked\<close> is the table \<open>schema_migrations\<close> with its column \<open>backfilled\<close>, if it exists.\<close>

record migration_db =
  md_tracked :: "(string \<times> bool) list option"
  md_executed :: "string list"

record migration_state =
  ms_db :: migration_db
  ms_tick :: nat

type_synonym faults = "nat \<Rightarrow> string option"
type_synonym 'a mig = "faults \<Rightarrow> migration_state \<Rightarrow> (exn + 'a) \<times> migration_state"

text \<open>One round trip to the server.\<close>

definition query :: "(migration_db \<Rightarrow> string + ('a \<times> migration_db)) \<Rightarrow> 'a mig" where
  "query f F s =
     (let s' = s\<lparr>ms_tick := Suc (ms_tick s)\<rparr>
      in case F (ms_tick s) of
           Some c \<Rightarrow> (Inl (DbError c), s')
         | None \<Rightarrow> (case f (ms_db s) of
             Inl c \<Rightarrow> (Inl (DbError c), s')
           | Inr (a, d) \<Rightarrow> (Inr a, s'\<lparr>ms_db := d\<rparr>)))"

definition mbind :: "'a mig \<Rightarrow> ('a \<Rightarrow> 'b mig) \<Rightarrow> 'b mig" where
  "mbind m k F s = (case m F s of (Inl e, s') \<Rightarrow> (Inl e, s') | (Inr a, s') \<Rightarrow> k a F s')"

definition mreturn :: "'a \<Rightarrow> 'a mig" where
  "mreturn a F s = (Inr a, s)"

definition ok_query :: "unit mig" where
  "ok_query = query (\<lambda>d. Inr ((), d))"

section \<open>The statements\<close>

definition create_tracking :: "unit mig" where
  "create_tracking = query (\<lambda>d. Inr ((), if md_tracked d = None then d\<lparr>md_tracked := Some []\<rparr> else d))"

definition tracked_rows :: "migration_db \<Rightarrow> (string \<times> bool) list" where
  "tracked_rows d = (case md_tracked d of None \<Rightarrow> [] | Some rows \<Rightarrow> rows)"

definition select_tracked :: "string list mig" where
  "select_tracked = query (\<lambda>d. case md_tracked d of None \<Rightarrow> Inl ''42P01'' | Some rows \<Rightarrow> Inr (map fst rows, d))"

definition tableExists :: "(string \<Rightarrow> bool) \<Rightarrow> bool mig" where
  "tableExists creates = query (\<lambda>d. Inr (list_ex creates (md_executed d), d))"

text \<open>\<open>INSERT ... VALUES ($1, true) ON CONFLICT (filename) DO NOTHING\<close>, and the plain insert.\<close>

definition record_backfilled :: "string \<Rightarrow> unit mig" where
  "record_backfilled file = query (\<lambda>d. Inr ((),
     if file \<in> fst ` set (tracked_rows d) then d else d\<lparr>md_tracked := Some (tracked_rows d @ [(file, True)])\<rparr>))"

definition record_applied :: "string \<Rightarrow> unit mig" where
  "record_applied file = query (\<lambda>d.
     if file \<in> fst ` set (tracked_rows d) then Inl ''23505''
     else Inr ((), d\<lparr>md_tracked := Some (tracked_rows d @ [(file, False)])\<rparr>))"

text \<open>The SQL of a file: the code of the error it ends in on this database, if any.\<close>

definition execute_file :: "(string \<Rightarrow> string list \<Rightarrow> string option) \<Rightarrow> string \<Rightarrow> unit mig" where
  "execute_file sql file = query (\<lambda>d. case sql file (md_executed d) of
     Some c \<Rightarrow> Inl c | None \<Rightarrow> Inr ((), d\<lparr>md_executed := md_executed d @ [file]\<rparr>))"

section \<open>The loops\<close>

fun backfill_files :: "string list \<Rightarrow> unit mig" where
  "backfill_files [] = mreturn ()"
| "backfill_files (file # rest) = mbind (record_backfilled file) (\<lambda>_. backfill_files rest)"

text \<open>
  \<open>BEGIN\<close>, the file, its record, \<open>COMMIT\<close>; on an error \<open>ROLLBACK\<close> and the error again. Whether or not the
  \<open>ROLLBACK\<close> arrives, the server gives the transaction up.
\<close>

definition apply_file :: "(string \<Rightarrow> string list \<Rightarrow> string option) \<Rightarrow> string \<Rightarrow> unit mig" where
  "apply_file sql file = mbind ok_query (\<lambda>_ F s.
     (case mbind (execute_file sql file) (\<lambda>_. mbind (record_applied file) (\<lambda>_. ok_query)) F s of
        (Inr _, s') \<Rightarrow> (Inr (), s')
      | (Inl err, s') \<Rightarrow>
          (case ok_query F (s'\<lparr>ms_db := ms_db s\<rparr>) of
             (Inl e, s'') \<Rightarrow> (Inl e, s'')
           | (Inr _, s'') \<Rightarrow> (Inl err, s''))))"

fun apply_files :: "(string \<Rightarrow> string list \<Rightarrow> string option) \<Rightarrow> string list \<Rightarrow> unit mig" where
  "apply_files sql [] = mreturn ()"
| "apply_files sql (file # rest) = mbind (apply_file sql file) (\<lambda>_. apply_files sql rest)"

text \<open>\<open>readdirSync(...).filter(f => f.endsWith('.sql')).sort()\<close>.\<close>

definition ends_sql :: "string \<Rightarrow> bool" where
  "ends_sql f \<longleftrightarrow> 4 \<le> length f \<and> drop (length f - 4) f = ''.sql''"

definition sql_files :: "string list \<Rightarrow> string list" where
  "sql_files names = sort (filter ends_sql names)"

definition migrate_main ::
  "(string \<Rightarrow> string list \<Rightarrow> string option) \<Rightarrow> (string \<Rightarrow> bool) \<Rightarrow> string option \<Rightarrow> string list
    \<Rightarrow> (string list \<times> string list) mig" where
  "migrate_main sql creates adminUrl names =
     (if \<not> truthy adminUrl then (\<lambda>F s. (Inl (JsError ''DATABASE_ADMIN_URL is not set''), s))
      else let filesOnDisk = sql_files names
        in mbind ok_query (\<lambda>_. mbind create_tracking (\<lambda>_. mbind select_tracked (\<lambda>alreadyApplied.
             mbind (tableExists creates) (\<lambda>markerTableExists.
               let (backfill, toApply) = planMigrations filesOnDisk alreadyApplied markerTableExists
               in mbind (backfill_files backfill) (\<lambda>_. mbind (apply_files sql toApply)
                    (\<lambda>_. mreturn (backfill, toApply))))))))"

section \<open>Control flow\<close>

text \<open>\<open>mleads P I m\<close>: from a database of \<open>P\<close>, \<open>m\<close> leaves one of \<open>I\<close>, whatever fails.\<close>

definition mleads :: "(migration_db \<Rightarrow> bool) \<Rightarrow> (migration_db \<Rightarrow> bool) \<Rightarrow> 'a mig \<Rightarrow> bool" where
  "mleads P I m \<longleftrightarrow> (\<forall>F s. P (ms_db s) \<longrightarrow> I (ms_db (snd (m F s))))"

lemma mleadsD: "mleads P I m \<Longrightarrow> P (ms_db s) \<Longrightarrow> m F s = (r, s') \<Longrightarrow> I (ms_db s')"
  unfolding mleads_def by (metis snd_conv)

lemma mbind_return: "mbind (mreturn a) k = k a"
  by (simp add: mbind_def mreturn_def fun_eq_iff)

lemma mleads_return: "(\<And>d. P d \<Longrightarrow> I d) \<Longrightarrow> mleads P I (mreturn a)"
  by (simp add: mleads_def mreturn_def)

lemma mleads_bind:
  assumes "mleads P I m" and "\<And>a F s s'. m F s = (Inr a, s') \<Longrightarrow> P (ms_db s) \<Longrightarrow> Q a (ms_db s')"
    and "\<And>a. mleads (Q a) I (k a)"
  shows "mleads P I (mbind m k)"
  unfolding mleads_def
proof (intro allI impI)
  fix F and s :: migration_state
  assume P: "P (ms_db s)"
  obtain r s' where m: "m F s = (r, s')" by force
  have "I (ms_db s')" using assms(1) m P unfolding mleads_def by (metis snd_conv)
  then show "I (ms_db (snd (mbind m k F s)))"
    using m assms(2) [of F s _ s'] assms(3) P by (cases r) (auto simp: mbind_def mleads_def)
qed

lemma mleads_seq: "mleads I I m \<Longrightarrow> (\<And>a. mleads I I (k a)) \<Longrightarrow> mleads I I (mbind m k)"
  by (rule mleads_bind [where Q = "\<lambda>_. I"]) (auto dest: mleadsD)

lemma query_db:
  "query f F s = (r, s') \<Longrightarrow> ms_db s' = ms_db s \<and> (\<forall>a. r \<noteq> Inr a) \<or> (\<exists>a. r = Inr a \<and> f (ms_db s) = Inr (a, ms_db s'))"
  by (auto simp: query_def Let_def split: option.splits sum.splits)

lemma mleads_query:
  assumes "\<And>d. P d \<Longrightarrow> I d" "\<And>d a d'. P d \<Longrightarrow> f d = Inr (a, d') \<Longrightarrow> I d'"
  shows "mleads P I (query f)"
  unfolding mleads_def
proof (intro allI impI)
  fix F and s :: migration_state
  assume "P (ms_db s)"
  then show "I (ms_db (snd (query f F s)))" using query_db [of f F s] assms by (cases "query f F s") auto
qed

lemma ok_query_db [simp]: "ms_db (snd (ok_query F s)) = ms_db s"
  by (simp add: ok_query_def query_def Let_def split: option.split)

text \<open>A file is executed and recorded, or nothing happened.\<close>

lemma apply_file_effect:
  "ms_db (snd (apply_file sql f F s)) = ms_db s
   \<or> f \<notin> fst ` set (tracked_rows (ms_db s))
     \<and> ms_db (snd (apply_file sql f F s)) =
        \<lparr>md_tracked = Some (tracked_rows (ms_db s) @ [(f, False)]), md_executed = md_executed (ms_db s) @ [f]\<rparr>"
  by (auto simp: apply_file_def mbind_def execute_file_def record_applied_def ok_query_def query_def Let_def tracked_rows_def
      split: option.splits sum.splits prod.splits if_splits)

section \<open>What runs of the script keep\<close>

text \<open>
  \<open>e0\<close> are the files that were executed before the script kept its table. A database is up to date when
  everything executed is recorded, each file once, and the records without the mark \<open>backfilled\<close> are what was
  executed since, in order; it is untracked when nothing is recorded although the marker table is there.
\<close>

definition applied_rows :: "migration_db \<Rightarrow> string list" where
  "applied_rows d = map fst (filter (\<lambda>r. \<not> snd r) (tracked_rows d))"

definition up_to_date :: "string list \<Rightarrow> migration_db \<Rightarrow> bool" where
  "up_to_date e0 d \<longleftrightarrow> distinct (md_executed d) \<and> distinct (map fst (tracked_rows d))
     \<and> md_executed d = e0 @ applied_rows d \<and> set (md_executed d) \<subseteq> fst ` set (tracked_rows d)
     \<and> (e0 = [] \<longrightarrow> list_all (\<lambda>r. \<not> snd r) (tracked_rows d))"

definition untracked :: "(string \<Rightarrow> bool) \<Rightarrow> string list \<Rightarrow> migration_db \<Rightarrow> bool" where
  "untracked creates e0 d \<longleftrightarrow> tracked_rows d = [] \<and> md_executed d = e0 \<and> distinct e0 \<and> list_ex creates e0"

definition backfilling :: "string list \<Rightarrow> migration_db \<Rightarrow> bool" where
  "backfilling e0 d \<longleftrightarrow> md_executed d = e0 \<and> distinct (map fst (tracked_rows d)) \<and> list_all snd (tracked_rows d)"

lemma tracked_rows_make [simp]: "tracked_rows \<lparr>md_tracked = Some rows, md_executed = e\<rparr> = rows"
  by (simp add: tracked_rows_def)

lemma tracked_rows_put [simp]:
  "tracked_rows (d\<lparr>md_tracked := Some rows\<rparr>) = rows" "tracked_rows (d\<lparr>md_tracked := Some rows, md_executed := e\<rparr>) = rows"
  by (simp_all add: tracked_rows_def)

lemma apply_file_up_to_date: "mleads (up_to_date e0) (up_to_date e0) (apply_file sql f)"
  unfolding mleads_def
proof (intro allI impI)
  fix F and s :: migration_state
  assume r: "up_to_date e0 (ms_db s)"
  show "up_to_date e0 (ms_db (snd (apply_file sql f F s)))"
    using apply_file_effect [of sql f F s] r
    by (auto simp: up_to_date_def applied_rows_def)
qed

lemma apply_files_up_to_date: "mleads (up_to_date e0) (up_to_date e0) (apply_files sql files)"
proof (induction files)
  case (Cons f files)
  then show ?case by (simp add: mleads_seq apply_file_up_to_date)
qed (simp add: mleads_return)

lemma backfill_files_keep: "mleads (backfilling e0) (backfilling e0) (backfill_files files)"
proof (induction files)
  case (Cons f files)
  have "mleads (backfilling e0) (backfilling e0) (record_backfilled f)"
    unfolding record_backfilled_def by (rule mleads_query) (auto simp: backfilling_def split: if_splits)
  then show ?case using Cons by (simp add: mleads_seq)
qed (simp add: mleads_return)

lemma create_tracking_keeps:
  assumes "\<And>d d'. P d \<Longrightarrow> tracked_rows d' = tracked_rows d \<Longrightarrow> md_executed d' = md_executed d \<Longrightarrow> P d'"
  shows "mleads P P create_tracking"
  unfolding create_tracking_def
proof (rule mleads_query)
  fix d a d' assume "P d" "Inr ((), if md_tracked d = None then d\<lparr>md_tracked := Some []\<rparr> else d) = (Inr (a, d') :: string + (unit \<times> migration_db))"
  then show "P d'" using assms [of d d'] by (auto simp: tracked_rows_def split: if_splits)
qed

text \<open>The plan, on the one kind of database and on the other.\<close>

lemma plan_up_to_date:
  "up_to_date e0 d \<Longrightarrow> fst (planMigrations files (map fst (tracked_rows d)) (list_ex creates (md_executed d))) = []"
  by (auto simp: planMigrations_def up_to_date_def)

lemma plan_untracked:
  "untracked creates e0 d \<Longrightarrow> planMigrations files (map fst (tracked_rows d)) (list_ex creates (md_executed d)) = (files, [])"
  by (auto simp: planMigrations_def untracked_def Let_def filter_empty_conv)

text \<open>A run keeps what its part behind the plan keeps.\<close>

lemma migrate_leads:
  assumes same: "\<And>d d'. P d \<Longrightarrow> tracked_rows d' = tracked_rows d \<Longrightarrow> md_executed d' = md_executed d \<Longrightarrow> P d'"
    and PI: "\<And>d. P d \<Longrightarrow> I d"
    and run: "\<And>d. P d \<Longrightarrow> (let (backfill, toApply) = planMigrations (sql_files names) (map fst (tracked_rows d)) (list_ex creates (md_executed d))
      in \<forall>F s. ms_db s = d \<longrightarrow> I (ms_db (snd (mbind (backfill_files backfill) (\<lambda>_. mbind (apply_files sql toApply)
           (\<lambda>_. mreturn (backfill, toApply))) F s))))"
  shows "mleads P I (migrate_main sql creates adminUrl names)"
proof (cases "truthy adminUrl")
  case True
  let ?run = "\<lambda>applied marker. case planMigrations (sql_files names) applied marker of (backfill, toApply) \<Rightarrow>
    mbind (backfill_files backfill) (\<lambda>_. mbind (apply_files sql toApply) (\<lambda>_. mreturn (backfill, toApply)))"
  let ?K = "\<lambda>applied d. P d \<and> applied = map fst (tracked_rows d)"
  have last: "mleads (\<lambda>d. ?K applied d \<and> marker = list_ex creates (md_executed d)) I (?run applied marker)" for applied marker
    unfolding mleads_def
  proof (intro allI impI)
    fix F and s :: migration_state
    assume "?K applied (ms_db s) \<and> marker = list_ex creates (md_executed (ms_db s))"
    then show "I (ms_db (snd (?run applied marker F s)))"
      using run [of "ms_db s"] by (simp add: Let_def split: prod.splits)
  qed
  have tab: "mleads (?K applied) I (mbind (tableExists creates) (?run applied))" for applied
    by (rule mleads_bind [OF _ _ last]) (auto simp: tableExists_def intro!: mleads_query PI dest: query_db)
  have sel: "mleads P I (mbind select_tracked (\<lambda>applied. mbind (tableExists creates) (?run applied)))"
    by (rule mleads_bind [OF _ _ tab])
      (auto simp: select_tracked_def tracked_rows_def intro!: mleads_query PI dest!: query_db split: option.splits)
  have ok: "mleads P P ok_query" unfolding ok_query_def by (rule mleads_query) auto
  have into: "mleads P I (mbind m (\<lambda>_. k))" if "mleads P P m" "mleads P I k" for m :: "unit mig" and k :: "'z mig"
    by (rule mleads_bind [OF _ _ that(2)]) (use that(1) PI in \<open>auto simp: mleads_def intro: mleadsD [OF that(1)]\<close>)
  show ?thesis
    using True into [OF ok into [OF create_tracking_keeps [OF same] sel]] by (simp add: migrate_main_def Let_def)
qed (use PI in \<open>simp add: migrate_main_def mleads_def\<close>)

lemma migrate_up_to_date: "mleads (up_to_date e0) (up_to_date e0) (migrate_main sql creates adminUrl names)"
proof (rule migrate_leads)
  show "up_to_date e0 d'" if "up_to_date e0 d" "tracked_rows d' = tracked_rows d" "md_executed d' = md_executed d" for d d'
    using that(1) unfolding up_to_date_def applied_rows_def that(2,3) .
  fix d assume d: "up_to_date e0 d"
  have "mleads (up_to_date e0) (up_to_date e0) (mbind (apply_files sql toApply) (\<lambda>_. mreturn ([], toApply)))" for toApply
    by (intro mleads_seq apply_files_up_to_date mleads_return)
  then show "let (backfill, toApply) = planMigrations (sql_files names) (map fst (tracked_rows d)) (list_ex creates (md_executed d))
      in \<forall>F s. ms_db s = d \<longrightarrow> up_to_date e0 (ms_db (snd (mbind (backfill_files backfill) (\<lambda>_. mbind (apply_files sql toApply)
           (\<lambda>_. mreturn (backfill, toApply))) F s)))"
    using plan_up_to_date [OF d, of "sql_files names" creates] d
    by (cases "planMigrations (sql_files names) (map fst (tracked_rows d)) (list_ex creates (md_executed d))")
      (auto simp: mbind_return mleads_def)
qed

lemma migrate_untracked: "mleads (untracked creates e0) (backfilling e0) (migrate_main sql creates adminUrl names)"
proof (rule migrate_leads)
  show "untracked creates e0 d'" if "untracked creates e0 d" "tracked_rows d' = tracked_rows d" "md_executed d' = md_executed d" for d d'
    using that by (simp add: untracked_def)
  show PI: "backfilling e0 d" if "untracked creates e0 d" for d
    using that by (simp add: untracked_def backfilling_def)
  fix d assume d: "untracked creates e0 d"
  have "mleads (backfilling e0) (backfilling e0) (mbind (backfill_files files) (\<lambda>_. mbind (apply_files sql []) (\<lambda>_. mreturn (files, [] :: string list))))"
    for files
    by (simp add: mbind_return) (intro mleads_seq backfill_files_keep mleads_return)
  then show "let (backfill, toApply) = planMigrations (sql_files names) (map fst (tracked_rows d)) (list_ex creates (md_executed d))
      in \<forall>F s. ms_db s = d \<longrightarrow> backfilling e0 (ms_db (snd (mbind (backfill_files backfill) (\<lambda>_. mbind (apply_files sql toApply)
           (\<lambda>_. mreturn (backfill, toApply))) F s)))"
    using PI [OF d] by (simp add: plan_untracked [OF d] mleads_def)
qed

section \<open>Runs in which nothing fails\<close>

definition no_faults :: faults where
  "no_faults = (\<lambda>_. None)"

lemma query_quiet:
  "query f no_faults s = (case f (ms_db s) of Inl c \<Rightarrow> (Inl (DbError c), s\<lparr>ms_tick := Suc (ms_tick s)\<rparr>)
     | Inr (a, d) \<Rightarrow> (Inr a, s\<lparr>ms_tick := Suc (ms_tick s), ms_db := d\<rparr>))"
  by (simp add: query_def no_faults_def Let_def)

lemmas quiet_mig_simps = query_quiet mbind_def mreturn_def ok_query_def

lemma apply_file_quiet:
  assumes "f \<notin> fst ` set (tracked_rows (ms_db s))" "sql f (md_executed (ms_db s)) = None"
  shows "apply_file sql f no_faults s = (Inr (), \<lparr>ms_db = \<lparr>md_tracked = Some (tracked_rows (ms_db s) @ [(f, False)]),
    md_executed = md_executed (ms_db s) @ [f]\<rparr>, ms_tick = ms_tick s + 4\<rparr>)"
  using assms by (simp add: apply_file_def execute_file_def record_applied_def quiet_mig_simps tracked_rows_def)

lemma apply_files_quiet:
  assumes "md_tracked (ms_db s) = Some rows" "distinct files" "set files \<inter> fst ` set rows = {}"
    and "\<And>f e. f \<in> set files \<Longrightarrow> sql f e = None"
  shows "apply_files sql files no_faults s = (Inr (), \<lparr>ms_db = \<lparr>md_tracked = Some (rows @ map (\<lambda>f. (f, False)) files),
    md_executed = md_executed (ms_db s) @ files\<rparr>, ms_tick = ms_tick s + 4 * length files\<rparr>)"
  using assms
proof (induction files arbitrary: s rows)
  case Nil
  then show ?case by (cases s; cases "ms_db s") (simp add: mreturn_def)
next
  case (Cons f files)
  have t: "tracked_rows (ms_db s) = rows" using Cons.prems(1) by (simp add: tracked_rows_def)
  have a: "apply_file sql f no_faults s = (Inr (), \<lparr>ms_db = \<lparr>md_tracked = Some (rows @ [(f, False)]),
      md_executed = md_executed (ms_db s) @ [f]\<rparr>, ms_tick = ms_tick s + 4\<rparr>)" (is "_ = (_, ?s)")
    using apply_file_quiet [of f s sql] t Cons.prems(3,4) by simp
  have "apply_files sql files no_faults ?s = (Inr (), \<lparr>ms_db = \<lparr>md_tracked = Some ((rows @ [(f, False)]) @ map (\<lambda>f. (f, False)) files),
      md_executed = md_executed (ms_db ?s) @ files\<rparr>, ms_tick = ms_tick ?s + 4 * length files\<rparr>)"
    using Cons.prems by (intro Cons.IH) auto
  then show ?case using a by (simp add: mbind_def)
qed

lemma migrate_quiet:
  assumes "truthy adminUrl" "md_tracked d = Some rows \<or> md_tracked d = None \<and> rows = []"
    and "planMigrations (sql_files names) (map fst rows) (list_ex creates (md_executed d)) = ([], toApply)"
    and "distinct names" and "\<And>f e. f \<in> set toApply \<Longrightarrow> sql f e = None"
  shows "migrate_main sql creates adminUrl names no_faults \<lparr>ms_db = d, ms_tick = 0\<rparr> = (Inr ([], toApply),
    \<lparr>ms_db = \<lparr>md_tracked = Some (rows @ map (\<lambda>f. (f, False)) toApply), md_executed = md_executed d @ toApply\<rparr>,
     ms_tick = 4 + 4 * length toApply\<rparr>)"
proof -
  let ?d = "\<lparr>md_tracked = Some rows, md_executed = md_executed d\<rparr>"
  have "set toApply \<inter> set (map fst rows) = {}" and t1: "distinct toApply"
    using assms(3,4) unfolding planMigrations_def Let_def sql_files_def by (auto simp del: set_map)
  then have t: "distinct toApply" "set toApply \<inter> fst ` set rows = {}" by simp_all
  have c: "create_tracking no_faults \<lparr>ms_db = d, ms_tick = Suc 0\<rparr> = (Inr (), \<lparr>ms_db = ?d, ms_tick = Suc (Suc 0)\<rparr>)"
    using assms(2) by (cases d) (auto simp: create_tracking_def query_quiet)
  have "apply_files sql toApply no_faults \<lparr>ms_db = ?d, ms_tick = 4\<rparr> = (Inr (),
      \<lparr>ms_db = \<lparr>md_tracked = Some (rows @ map (\<lambda>f. (f, False)) toApply), md_executed = md_executed d @ toApply\<rparr>,
       ms_tick = 4 + 4 * length toApply\<rparr>)"
    using apply_files_quiet [where s = "\<lparr>ms_db = ?d, ms_tick = 4\<rparr>" and sql = sql, OF _ t] assms(5) by simp
  then show ?thesis
    using assms(1,3) c by (simp add: migrate_main_def select_tracked_def tableExists_def quiet_mig_simps
        numeral_eq_Suc Let_def)
qed

section \<open>Properties\<close>

text \<open>
  The databases that runs of the script lead to, from one on which the files \<open>e0\<close> were executed before the
  script kept its table: none, or files among which is the one that creates the marker table. Every run may
  have other files on disk and may fail or be killed anywhere; only of a run that backfills it is asked that
  the files \<open>e0\<close> are on disk, and that it is not cut off between its first record and its last
  (\<open>interrupted_backfill_is_stuck\<close> is what happens otherwise).
\<close>

definition backfill_whole :: "string list \<Rightarrow> string list \<Rightarrow> migration_db \<Rightarrow> migration_db \<Rightarrow> bool" where
  "backfill_whole e0 names d d' \<longleftrightarrow> e0 = [] \<or> tracked_rows d \<noteq> [] \<or> tracked_rows d' = []
     \<or> (set e0 \<subseteq> set (sql_files names) \<and> set (sql_files names) \<subseteq> fst ` set (tracked_rows d'))"

inductive migrations_reachable ::
  "(string \<Rightarrow> string list \<Rightarrow> string option) \<Rightarrow> (string \<Rightarrow> bool) \<Rightarrow> string list \<Rightarrow> migration_db \<Rightarrow> bool"
  for sql creates e0 where
  start: "distinct e0 \<Longrightarrow> e0 = [] \<or> list_ex creates e0 \<Longrightarrow> migrations_reachable sql creates e0 \<lparr>md_tracked = None, md_executed = e0\<rparr>"
| run: "migrations_reachable sql creates e0 d \<Longrightarrow>
    d' = ms_db (snd (migrate_main sql creates adminUrl names F \<lparr>ms_db = d, ms_tick = 0\<rparr>)) \<Longrightarrow>
    backfill_whole e0 names d d' \<Longrightarrow> migrations_reachable sql creates e0 d'"

lemma reachable_kinds: "migrations_reachable sql creates e0 d \<Longrightarrow> up_to_date e0 d \<or> untracked creates e0 d"
proof (induction rule: migrations_reachable.induct)
  case start
  then show ?case by (auto simp: up_to_date_def untracked_def applied_rows_def tracked_rows_def)
next
  case (run d d' adminUrl names F)
  let ?s = "\<lparr>ms_db = d, ms_tick = 0\<rparr>"
  show ?case
  proof (cases "up_to_date e0 d")
    case True
    then show ?thesis using migrate_up_to_date [of e0 sql creates adminUrl names] run(2) by (auto simp: mleads_def)
  next
    case False
    then have u: "untracked creates e0 d" using run.IH by blast
    then have b: "backfilling e0 d'"
      using migrate_untracked [of creates e0 sql adminUrl names] run(2) by (auto simp: mleads_def)
    have no: "applied_rows d' = []"
      using b by (auto simp: backfilling_def applied_rows_def list_all_iff filter_empty_conv)
    show ?thesis
      using run(3) u b no by (auto simp: backfill_whole_def untracked_def backfilling_def up_to_date_def)
  qed
qed

lemma reachable_fresh: "migrations_reachable sql creates [] d \<Longrightarrow> up_to_date [] d"
  using reachable_kinds [of sql creates "[]" d] by (auto simp: untracked_def)

lemma fresh_rows:
  assumes "up_to_date [] d"
  shows "tracked_rows d = map (\<lambda>f. (f, False)) (md_executed d)"
proof -
  have "list_all (\<lambda>r. \<not> snd r) rows \<Longrightarrow> map (\<lambda>f. (f, False)) (map fst (filter (\<lambda>r. \<not> snd r) rows)) = rows" for rows :: "(string \<times> bool) list"
    by (induction rows) auto
  from this [of "tracked_rows d"] show ?thesis using assms unfolding up_to_date_def applied_rows_def by simp
qed


text \<open>A run that dies after its first file: the eighth query and all later ones fail.\<close>

definition killed_at :: "nat \<Rightarrow> faults" where
  "killed_at n = (\<lambda>k. if n \<le> k then Some ''08006'' else None)"

definition sample_files :: "string list" where
  "sample_files = [''002_schema.sql'', ''README.md'', ''001_roles.sql'']"

definition killed_run :: migration_db where
  "killed_run = ms_db (snd (migrate_main (\<lambda>_ _. None) (\<lambda>f. f = ''002_schema.sql'') (Some ''postgres://admin'') sample_files
     (killed_at 10) \<lparr>ms_db = \<lparr>md_tracked = None, md_executed = []\<rparr>, ms_tick = 0\<rparr>))"

lemma killed_run: "killed_run = \<lparr>md_tracked = Some [(''001_roles.sql'', False)], md_executed = [''001_roles.sql'']\<rparr>"
  by code_simp

lemma killed_reachable: "migrations_reachable (\<lambda>_ _. None) (\<lambda>f. f = ''002_schema.sql'') [] killed_run"
  by (rule migrations_reachable.run [OF migrations_reachable.start killed_run_def]) (simp_all add: backfill_whole_def)

text \<open>A database migrated before there was a table, and a run of the script that finishes on it.\<close>

definition legacy :: "string list \<Rightarrow> migration_db" where
  "legacy files = \<lparr>md_tracked = None, md_executed = files\<rparr>"

definition backfilled_run :: migration_db where
  "backfilled_run = ms_db (snd (migrate_main (\<lambda>_ _. None) (\<lambda>f. f = ''002_schema.sql'') (Some ''postgres://admin'') sample_files
     no_faults \<lparr>ms_db = legacy [''001_roles.sql'', ''002_schema.sql''], ms_tick = 0\<rparr>))"

lemma backfilled_run: "backfilled_run = \<lparr>md_tracked = Some [(''001_roles.sql'', True), (''002_schema.sql'', True)],
    md_executed = [''001_roles.sql'', ''002_schema.sql'']\<rparr>"
  by code_simp


text \<open>
  A run that nothing disturbs brings the database up to date: on any database the script itself
  migrated so far, it executes the files on disk that are not recorded, in the order of their names, and the
  next run finds nothing to do.
\<close>

lemma migrations_catch_up:
  assumes "migrations_reachable sql creates [] d" and "truthy adminUrl" and "distinct names"
    and "\<And>f e. f \<in> set (sql_files names) \<Longrightarrow> sql f e = None"
  shows "\<exists>s. migrate_main sql creates adminUrl names no_faults \<lparr>ms_db = d, ms_tick = 0\<rparr>
      = (Inr ([], filter (\<lambda>f. f \<notin> set (md_executed d)) (sql_files names)), s)
    \<and> md_executed (ms_db s) = md_executed d @ filter (\<lambda>f. f \<notin> set (md_executed d)) (sql_files names)
    \<and> set (sql_files names) \<subseteq> fst ` set (tracked_rows (ms_db s))
    \<and> (\<exists>s'. migrate_main sql creates adminUrl names no_faults \<lparr>ms_db = ms_db s, ms_tick = 0\<rparr> = (Inr ([], []), s')
        \<and> ms_db s' = ms_db s)"
proof -
  let ?new = "filter (\<lambda>f. f \<notin> set (md_executed d)) (sql_files names)"
  have r: "tracked_rows d = map (\<lambda>f. (f, False)) (md_executed d)" by (rule fresh_rows [OF reachable_fresh [OF assms(1)]])
  define rows where "rows = tracked_rows d"
  have rows: "md_tracked d = Some rows \<or> md_tracked d = None \<and> rows = []" "map fst rows = md_executed d"
    using r by (auto simp: rows_def tracked_rows_def comp_def split: option.splits)
  have "planMigrations (sql_files names) (map fst rows) (list_ex creates (md_executed d)) = ([], ?new)"
    using rows(2) by (cases "md_executed d") (simp_all add: planMigrations_def Let_def)
  note one = migrate_quiet [where sql = sql and creates = creates, OF assms(2) rows(1) this assms(3)]
  let ?rows = "rows @ map (\<lambda>f. (f, False)) ?new"
  let ?d = "\<lparr>md_tracked = Some ?rows, md_executed = md_executed d @ ?new\<rparr>"
  have m: "map fst ?rows = md_executed d @ ?new" using rows(2) by (simp add: comp_def)
  have "planMigrations (sql_files names) (map fst ?rows) (list_ex creates (md_executed ?d)) = ([], [])"
    unfolding m by (auto simp: planMigrations_def Let_def filter_empty_conv)
  note two = migrate_quiet [where sql = sql and creates = creates and d = ?d, OF assms(2) _ this assms(3)]
  have "set (sql_files names) \<subseteq> set (map fst ?rows)" unfolding m by auto
  then have sub: "set (sql_files names) \<subseteq> fst ` set ?rows" by (simp only: set_map)
  show ?thesis
  proof (intro exI conjI)
    show "migrate_main sql creates adminUrl names no_faults \<lparr>ms_db = d, ms_tick = 0\<rparr>
        = (Inr ([], ?new), \<lparr>ms_db = ?d, ms_tick = 4 + 4 * length ?new\<rparr>)"
      using assms(4) by (intro one) simp
    show "set (sql_files names) \<subseteq> fst ` set (tracked_rows (ms_db \<lparr>ms_db = ?d, ms_tick = 4 + 4 * length ?new\<rparr>))"
      using sub by (simp only: migration_state.select_convs tracked_rows_make)
    show "migrate_main sql creates adminUrl names no_faults
        \<lparr>ms_db = ms_db \<lparr>ms_db = ?d, ms_tick = 4 + 4 * length ?new\<rparr>, ms_tick = 0\<rparr> = (Inr ([], []), \<lparr>ms_db = ?d, ms_tick = 4\<rparr>)"
      using two by simp
  qed simp_all
qed

text \<open>SQL like that of most migrations: what it creates cannot be created again.\<close>

definition once_only :: "string \<Rightarrow> string list \<Rightarrow> string option" where
  "once_only f executed = (if f \<in> set executed then Some ''42P07'' else None)"

text \<open>
  C37. An interrupted backfill ends the script for good: on a database that was migrated before the table of
  migrations existed, a run that loses its connection after recording the first file leaves a table that is
  no longer empty, so every later run, on the same files and with nothing failing, executes the second file
  again, ends in the error of its SQL and changes nothing.
\<close>

theorem interrupted_backfill_is_stuck:
  assumes "truthy adminUrl" and "sql_files names = f # g # rest" and "f \<noteq> g" and "creates f \<or> creates g"
    and "migrate_main once_only creates adminUrl names (killed_at 5) \<lparr>ms_db = legacy (sql_files names), ms_tick = 0\<rparr> = (r, s)"
    and "migrate_main once_only creates adminUrl names no_faults \<lparr>ms_db = ms_db s, ms_tick = 0\<rparr> = (r', s')"
  shows "r = Inl (DbError ''08006'') \<and> tracked_rows (ms_db s) = [(f, True)]
    \<and> r' = Inl (DbError ''42P07'') \<and> ms_db s' = ms_db s"
proof -
  have p: "planMigrations (f # g # rest) [] True = (f # g # rest, [])"
    by (auto simp: planMigrations_def filter_empty_conv)
  have s: "r = Inl (DbError ''08006'')" "ms_db s = \<lparr>md_tracked = Some [(f, True)], md_executed = f # g # rest\<rparr>"
    using assms(1,2,4,5) p
    by (auto simp: migrate_main_def legacy_def create_tracking_def select_tracked_def tableExists_def record_backfilled_def
        query_def killed_at_def mbind_def ok_query_def tracked_rows_def Let_def)
  have q: "planMigrations (f # g # rest) [f] True = ([], g # filter (\<lambda>x. x \<noteq> f) rest)"
    using assms(3) by (auto simp: planMigrations_def)
  have "list_ex creates (f # g # rest)" using assms(4) by auto
  then have "r' = Inl (DbError ''42P07'') \<and> ms_db s' = ms_db s"
    using assms(1,2,6) q unfolding s(2)
    by (auto simp: migrate_main_def create_tracking_def select_tracked_def tableExists_def apply_file_def execute_file_def
        once_only_def quiet_mig_simps Let_def)
  then show ?thesis using s by simp
qed

theorem interrupted_backfill_is_stuck_witness:
  "fst (migrate_main once_only (\<lambda>f. f = ''002_schema.sql'') (Some ''postgres://admin'') sample_files no_faults
     \<lparr>ms_db = ms_db (snd (migrate_main once_only (\<lambda>f. f = ''002_schema.sql'') (Some ''postgres://admin'') sample_files
        (killed_at 5) \<lparr>ms_db = legacy (sql_files sample_files), ms_tick = 0\<rparr>)), ms_tick = 0\<rparr>) = Inl (DbError ''42P07'')"
proof -
  have "sql_files sample_files = [''001_roles.sql'', ''002_schema.sql'']" by code_simp
  then show ?thesis
    using interrupted_backfill_is_stuck [of "Some ''postgres://admin''" sample_files "''001_roles.sql''" "''002_schema.sql''" "[]"
      "\<lambda>f. f = ''002_schema.sql''", OF _ _ _ _ surjective_pairing surjective_pairing]
    by simp
qed

lemma migrations_catch_up_witness:
  "\<exists>s. migrate_main (\<lambda>_ _. None) (\<lambda>f. f = ''002_schema.sql'') (Some ''postgres://admin'') sample_files no_faults
      \<lparr>ms_db = killed_run, ms_tick = 0\<rparr> = (Inr ([], [''002_schema.sql'']), s)
    \<and> md_executed (ms_db s) = [''001_roles.sql'', ''002_schema.sql'']"
proof -
  have "filter (\<lambda>f. f \<notin> set (md_executed killed_run)) (sql_files sample_files) = [''002_schema.sql'']"
    "distinct sample_files" "md_executed killed_run = [''001_roles.sql'']"
    by code_simp+
  then show ?thesis
    using killed_reachable migrations_catch_up [of "\<lambda>_ _. None" "\<lambda>f. f = ''002_schema.sql''" killed_run "Some ''postgres://admin''" sample_files]
    by auto
qed

end
