(* ===== verification/Seed.thy ===== *)
theory Seed
  imports Complex_Main Imports Dashboard
begin

text \<open>
  The seeding of the load tests, \<open>tools/seed\<close>: the configuration (\<open>config.ts\<close>), the connection (\<open>db.ts\<close>) and
  the generator (\<open>generate.ts\<close>), on the same transactions and tables as the services. What the generator draws,
  \<open>Math.random()\<close>, \<open>randomUUID()\<close> and the names of faker, comes from a source \<open>draws\<close> read in the order of
  the calls; a random number is a rational from 0 up to and without 1, and sums of probabilities are exact.
  Progress lines are left out, and what \<open>randomUUID()\<close>
  draws is taken for a UUID.
\<close>

section \<open>config.ts\<close>

record seed_tenant =
  sd_id :: uuid
  sd_name :: string
  sd_slug :: string
  sd_employeeCount :: int

definition TENANTS :: "seed_tenant list" where
  "TENANTS =
    [\<lparr>sd_id = ''aaaaaaaa-aaaa-aaaa-aaaa-000000000001'', sd_name = ''Alpha Corp'', sd_slug = ''seed-alpha-corp'', sd_employeeCount = 50000\<rparr>,
     \<lparr>sd_id = ''bbbbbbbb-bbbb-bbbb-bbbb-000000000002'', sd_name = ''Beta LLC'', sd_slug = ''seed-beta-llc'', sd_employeeCount = 25000\<rparr>,
     \<lparr>sd_id = ''cccccccc-cccc-cccc-cccc-000000000003'', sd_name = ''Gamma Inc'', sd_slug = ''seed-gamma-inc'', sd_employeeCount = 15000\<rparr>,
     \<lparr>sd_id = ''dddddddd-dddd-dddd-dddd-000000000004'', sd_name = ''Delta Co'', sd_slug = ''seed-delta-co'', sd_employeeCount = 7000\<rparr>,
     \<lparr>sd_id = ''eeeeeeee-eeee-eeee-eeee-000000000005'', sd_name = ''Epsilon Ltd'', sd_slug = ''seed-epsilon-ltd'', sd_employeeCount = 3000\<rparr>]"

datatype seed_doc = PASSPORT | RESIDENCE_PERMIT | ACCESS_BADGE

fun DOCUMENT_DISTRIBUTION :: "seed_doc \<Rightarrow> rat" where
  "DOCUMENT_DISTRIBUTION PASSPORT = 90 / 100"
| "DOCUMENT_DISTRIBUTION RESIDENCE_PERMIT = 85 / 100"
| "DOCUMENT_DISTRIBUTION ACCESS_BADGE = 70 / 100"

fun DOC_TYPE_DB :: "seed_doc \<Rightarrow> document_type" where
  "DOC_TYPE_DB PASSPORT = Passport"
| "DOC_TYPE_DB RESIDENCE_PERMIT = Residence"
| "DOC_TYPE_DB ACCESS_BADGE = Badge"

datatype expiry_bucket = Bucket_expired | Bucket_critical | Bucket_expiring_soon | Bucket_valid

fun EXPIRY_DISTRIBUTION :: "expiry_bucket \<Rightarrow> rat" where
  "EXPIRY_DISTRIBUTION Bucket_expired = 5 / 100"
| "EXPIRY_DISTRIBUTION Bucket_critical = 10 / 100"
| "EXPIRY_DISTRIBUTION Bucket_expiring_soon = 15 / 100"
| "EXPIRY_DISTRIBUTION Bucket_valid = 70 / 100"

definition BATCH_SIZE :: nat where
  "BATCH_SIZE = 500"

definition SEED_EMAIL_DOMAIN :: string where
  "SEED_EMAIL_DOMAIN = ''@test.invalid''"

section \<open>db.ts\<close>

definition appPool :: "(string \<Rightarrow> string option) \<Rightarrow> exn + string" where
  "appPool process_env =
     (case process_env ''DATABASE_URL'' of
        None \<Rightarrow> Inl (JsError ''DATABASE_URL is not set (expected in .env.local)'')
      | Some connectionString \<Rightarrow>
          if connectionString = [] then Inl (JsError ''DATABASE_URL is not set (expected in .env.local)'')
          else if sublist ''migration_user'' connectionString
          then Inl (JsError ''DATABASE_URL points at migration_user -- seeding must use app_user'')
          else Inr connectionString)"

definition withTenant :: "uuid \<Rightarrow> 'a tx \<Rightarrow> 'a io" where
  "withTenant tenantId fn = transaction (tthen (setTenantContext tenantId) fn)"

text \<open>\<open>/^--count=(\d+)$/\<close>.\<close>

fun parseCountArg :: "string list \<Rightarrow> nat option" where
  "parseCountArg [] = None"
| "parseCountArg (arg # rest) =
     (let n = drop 8 arg
      in if take 8 arg = ''--count='' \<and> n \<noteq> [] \<and> list_all is_digit n then Some (undec n) else parseCountArg rest)"

section \<open>generate.ts: what is drawn\<close>

record draws =
  dr_random :: "nat \<Rightarrow> rat"
  dr_uuid :: "nat \<Rightarrow> uuid"
  dr_firstName :: "nat \<Rightarrow> string"
  dr_lastName :: "nat \<Rightarrow> string"
  dr_department :: "nat \<Rightarrow> string"
  dr_jobType :: "nat \<Rightarrow> string"

definition DOC_KEYS :: "seed_doc list" where
  "DOC_KEYS = [PASSPORT, RESIDENCE_PERMIT, ACCESS_BADGE]"

definition EXPIRY_BUCKETS :: "expiry_bucket list" where
  "EXPIRY_BUCKETS = [Bucket_expired, Bucket_critical, Bucket_expiring_soon, Bucket_valid]"

definition randInt :: "rat \<Rightarrow> int \<Rightarrow> int" where
  "randInt random maxExclusive = \<lfloor>random * of_int maxExclusive\<rfloor>"

fun pick_from :: "rat \<Rightarrow> rat \<Rightarrow> expiry_bucket list \<Rightarrow> expiry_bucket" where
  "pick_from r acc [] = Bucket_valid"
| "pick_from r acc (bucket # rest) =
     (let acc' = acc + EXPIRY_DISTRIBUTION bucket in if r < acc' then bucket else pick_from r acc' rest)"

definition pickExpiryBucket :: "rat \<Rightarrow> expiry_bucket" where
  "pickExpiryBucket random = pick_from random 0 EXPIRY_BUCKETS"

definition TODAY_UTC :: "instant \<Rightarrow> instant" where
  "TODAY_UTC now = date_UTC (getUTCFullYear now) (getUTCMonth now) (getUTCDate now)"

definition expiryBucketToDates :: "instant \<Rightarrow> expiry_bucket \<Rightarrow> rat \<Rightarrow> string \<times> expiry_status" where
  "expiryBucketToDates now bucket random =
     (let (offsetDays, expiryStatus) = (case bucket of
            Bucket_expired \<Rightarrow> (- (1 + randInt random 400), EXPIRED)
          | Bucket_critical \<Rightarrow> (1 + randInt random 30, EXPIRING_SOON)
          | Bucket_expiring_soon \<Rightarrow> (31 + randInt random 60, EXPIRING_SOON)
          | Bucket_valid \<Rightarrow> (91 + randInt random 820, VALID))
      in (slice 0 10 (toISOString (TODAY_UTC now + offsetDays * 86400000)), expiryStatus))"

text \<open>Rows as the tuples of values they are inserted from.\<close>

record seed_employee =
  se_id :: uuid
  se_tenantId :: uuid
  se_code :: string
  se_fullName :: string
  se_firstName :: string
  se_lastName :: string
  se_email :: string
  se_department :: string
  se_jobTitle :: string

record seed_document =
  sq_id :: uuid
  sq_tenantId :: uuid
  sq_employeeId :: uuid
  sq_docType :: document_type
  sq_docNumber :: string
  sq_expiryDate :: string
  sq_expiryStatus :: expiry_status

fun upper_type :: "document_type \<Rightarrow> string" where
  "upper_type Passport = ''PASSPORT''"
| "upper_type Residence = ''RESIDENCE''"
| "upper_type Badge = ''BADGE''"

text \<open>The documents of one employee; \<open>k\<close> counts the draws.\<close>

fun seed_documents ::
  "draws \<Rightarrow> instant \<Rightarrow> nat \<Rightarrow> uuid \<Rightarrow> uuid \<Rightarrow> seed_doc list \<Rightarrow> nat \<Rightarrow> nat \<Rightarrow> seed_document list \<times> nat \<times> nat" where
  "seed_documents D now ti tenantId employeeId [] docSeq k = ([], docSeq, k)"
| "seed_documents D now ti tenantId employeeId (key # keys) docSeq k =
     (if DOCUMENT_DISTRIBUTION key \<le> dr_random D k then seed_documents D now ti tenantId employeeId keys docSeq (Suc k)
      else let docSeq' = Suc docSeq; dbType = DOC_TYPE_DB key;
               (expiryDate, expiryStatus) = expiryBucketToDates now (pickExpiryBucket (dr_random D (k + 1))) (dr_random D (k + 2));
               row = \<lparr>sq_id = dr_uuid D (k + 3), sq_tenantId = tenantId, sq_employeeId = employeeId, sq_docType = dbType,
                 sq_docNumber = ''SEED-'' @ upper_type dbType @ ''-'' @ dec (ti + 1) @ ''-'' @ dec docSeq',
                 sq_expiryDate = expiryDate, sq_expiryStatus = expiryStatus\<rparr>;
               (rows, docSeq'', k') = seed_documents D now ti tenantId employeeId keys docSeq' (k + 4)
        in (row # rows, docSeq'', k'))"

definition seed_employee_row :: "draws \<Rightarrow> nat \<Rightarrow> uuid \<Rightarrow> nat \<Rightarrow> nat \<Rightarrow> seed_employee" where
  "seed_employee_row D ti tenantId empSeq k =
     (let i = dr_uuid D k; firstName = dr_firstName D (k + 1); lastName = dr_lastName D (k + 2)
      in \<lparr>se_id = i, se_tenantId = tenantId, se_code = ''SEED-'' @ dec (ti + 1) @ ''-'' @ dec empSeq,
          se_fullName = firstName @ '' '' @ lastName, se_firstName = firstName, se_lastName = lastName,
          se_email = ''seed-'' @ i @ SEED_EMAIL_DOMAIN, se_department = dr_department D (k + 3),
          se_jobTitle = dr_jobType D (k + 4)\<rparr>)"

text \<open>The rows of \<open>n\<close> employees.\<close>

fun seed_batch ::
  "draws \<Rightarrow> instant \<Rightarrow> nat \<Rightarrow> uuid \<Rightarrow> nat \<Rightarrow> nat \<Rightarrow> nat \<Rightarrow> nat \<Rightarrow> seed_employee list \<times> seed_document list \<times> nat \<times> nat \<times> nat" where
  "seed_batch D now ti tenantId 0 empSeq docSeq k = ([], [], empSeq, docSeq, k)"
| "seed_batch D now ti tenantId (Suc n) empSeq docSeq k =
     (let empSeq' = Suc empSeq; emp = seed_employee_row D ti tenantId empSeq' k;
          (docs, docSeq', k') = seed_documents D now ti tenantId (se_id emp) DOC_KEYS docSeq (k + 5);
          (emps, docs', empSeq'', docSeq'', k'') = seed_batch D now ti tenantId n empSeq' docSeq' k'
      in (emp # emps, docs @ docs', empSeq'', docSeq'', k''))"

section \<open>generate.ts: the statements\<close>

text \<open>The text of a multi-row \<open>INSERT\<close>: a numbered placeholder for every value that is pushed.\<close>

fun row_sql :: "'v list \<Rightarrow> 'v list \<Rightarrow> string list \<times> 'v list" where
  "row_sql [] params = ([], params)"
| "row_sql (v # vs) params =
     (let params' = params @ [v]; (marks, params'') = row_sql vs params'
      in ((''$'' @ dec (length params')) # marks, params''))"

fun rows_sql :: "'v list list \<Rightarrow> 'v list \<Rightarrow> string list \<times> 'v list" where
  "rows_sql [] params = ([], params)"
| "rows_sql (row # rows) params =
     (let (marks, params') = row_sql row params; (texts, params'') = rows_sql rows params'
      in ((''('' @ join '','' marks @ '')'') # texts, params''))"

definition insert_sql :: "string \<Rightarrow> 'v list list \<Rightarrow> string \<times> 'v list" where
  "insert_sql heading chunk =
     (let (texts, params) = rows_sql chunk [] in (heading @ '' VALUES '' @ join '','' texts, params))"

text \<open>\<open>for (let i = 0; i < rows.length; i += BATCH_SIZE)\<close>.\<close>

function chunks :: "'v list \<Rightarrow> 'v list list" where
  "chunks rows = (if rows = [] then [] else take BATCH_SIZE rows # chunks (drop BATCH_SIZE rows))"
  by auto
termination by (relation "measure length") (auto simp: BATCH_SIZE_def)

declare chunks.simps [simp del]

text \<open>
  What the server does with such a statement: it reads every value, inserts row by row under the policy
  and the unique constraints, and checks the foreign keys at the end; all of the rows go in, or none.
\<close>

fun put_rows ::
  "'r table \<Rightarrow> ('r \<Rightarrow> 'r \<Rightarrow> bool) \<Rightarrow> string option \<Rightarrow> 'r list \<Rightarrow> db \<Rightarrow> string + db" where
  "put_rows T clash g [] d = Inr d"
| "put_rows T clash g (r # rs) d =
     (if \<not> rls_visible g (tb_tenant T r) then Inl ''42501''
      else if list_ex (clash r) (tb_rows T d) then Inl ''23505''
      else put_rows T clash g rs (tb_put T (tb_rows T d @ [r]) d))"

definition insert_many ::
  "'r table \<Rightarrow> (env \<Rightarrow> 'r \<Rightarrow> bool) \<Rightarrow> ('r \<Rightarrow> 'r \<Rightarrow> bool) \<Rightarrow> (db \<Rightarrow> 'r \<Rightarrow> bool) \<Rightarrow> (instant \<Rightarrow> 'v \<Rightarrow> 'r) \<Rightarrow> 'v list \<Rightarrow> unit tx" where
  "insert_many T typ clash fk mk values = statement (\<lambda>E n now g d.
     let rs = map (mk now) values
     in if \<not> list_all (typ E) rs then Inl ''22P02''
        else case put_rows T clash g rs d of
               Inl c \<Rightarrow> Inl c
             | Inr d' \<Rightarrow> if list_all (fk d') rs then Inr ((), d') else Inl ''23503'')"

definition batchInsert ::
  "'r table \<Rightarrow> (env \<Rightarrow> 'r \<Rightarrow> bool) \<Rightarrow> ('r \<Rightarrow> 'r \<Rightarrow> bool) \<Rightarrow> (db \<Rightarrow> 'r \<Rightarrow> bool) \<Rightarrow> (instant \<Rightarrow> 'v \<Rightarrow> 'r) \<Rightarrow> 'v list \<Rightarrow> unit tx" where
  "batchInsert T typ clash fk mk rows = tforeach (insert_many T typ clash fk mk) (chunks rows)"

text \<open>The rows with the defaults of their columns.\<close>

definition seeded_employee :: "instant \<Rightarrow> seed_employee \<Rightarrow> employee_row" where
  "seeded_employee now r =
     \<lparr>em_id = se_id r, em_tenantId = se_tenantId r, em_employeeCode = se_code r, em_fullName = se_fullName r,
      em_firstName = Some (se_firstName r), em_lastName = Some (se_lastName r), em_email = Some (se_email r),
      em_department = Some (se_department r), em_jobTitle = Some (se_jobTitle r), em_branch = None,
      em_responsibleOfficerId = None, em_status = Active, em_createdAt = now, em_version = 1, em_deletedAt = None\<rparr>"

definition seeded_document :: "instant \<Rightarrow> seed_document \<Rightarrow> document_row" where
  "seeded_document now r =
     \<lparr>dc_id = sq_id r, dc_tenantId = sq_tenantId r, dc_employeeId = Some (sq_employeeId r), dc_docType = sq_docType r,
      dc_docNumber = sq_docNumber r, dc_issueDate = None, dc_expiryDate = Some (sq_expiryDate r), dc_status = ''valid'',
      dc_expiryStatus = sq_expiryStatus r, dc_version = 1, dc_renewalStartedAt = None, dc_exceptionReason = None,
      dc_createdAt = now, dc_deletedAt = None\<rparr>"

section \<open>generate.ts: the run\<close>

text \<open>Employee counts by tenant: rounded shares, the drift absorbed by the first tenant.\<close>

definition weightSum :: int where
  "weightSum = sum_list (map sd_employeeCount TENANTS)"

definition share :: "int \<Rightarrow> seed_tenant \<Rightarrow> int" where
  "share wanted t = js_round_div (wanted * sd_employeeCount t) weightSum"

definition distribute :: "int \<Rightarrow> (uuid \<times> int) list" where
  "distribute wanted =
     (let assigned = sum_list (map (share wanted) TENANTS)
      in case TENANTS of
           [] \<Rightarrow> []
         | first # tl_tenants \<Rightarrow>
             (sd_id first, share wanted first + (wanted - assigned)) # map (\<lambda>t. (sd_id t, share wanted t)) tl_tenants)"

definition countFor :: "nat option \<Rightarrow> seed_tenant \<Rightarrow> int" where
  "countFor override t = (case override of
     None \<Rightarrow> sd_employeeCount t
   | Some n \<Rightarrow> (case map_of (distribute (int n)) (sd_id t) of None \<Rightarrow> 0 | Some c \<Rightarrow> c))"

definition ends_with :: "string \<Rightarrow> string \<Rightarrow> bool" where
  "ends_with ending s \<longleftrightarrow> length ending \<le> length s \<and> drop (length s - length ending) s = ending"

definition alreadySeeded :: "bool tx" where
  "alreadySeeded = tbind
     (select_where employees_t (\<lambda>r. case em_email r of None \<Rightarrow> False | Some e \<Rightarrow> ends_with SEED_EMAIL_DOMAIN e))
     (\<lambda>rows. treturn (rows \<noteq> []))"

function seed_loop ::
  "draws \<Rightarrow> instant \<Rightarrow> nat \<Rightarrow> uuid \<Rightarrow> int \<Rightarrow> int \<Rightarrow> nat \<Rightarrow> nat \<Rightarrow> nat \<Rightarrow> (int \<times> nat) tx" where
  "seed_loop D now ti tenantId target don empSeq docSeq k =
     (if don < target
      then let n = min (int BATCH_SIZE) (target - don);
               (empRows, docRows, empSeq', docSeq', k') = seed_batch D now ti tenantId (nat n) empSeq docSeq k
        in tthen (batchInsert employees_t employee_typed employee_clash employee_fk seeded_employee empRows)
             (tthen (batchInsert documents_t document_typed document_clash document_fk seeded_document docRows)
               (seed_loop D now ti tenantId target (don + n) empSeq' docSeq' k'))
      else treturn (don, k))"
  by auto
termination
  by (relation "measure (\<lambda>(D, now, ti, tenantId, target, don, empSeq, docSeq, k). nat (target - don))")
    (auto simp: BATCH_SIZE_def)

declare seed_loop.simps [simp del]

text \<open>\<open>INSERT INTO tenants ... ON CONFLICT (id) DO NOTHING\<close>, outside any transaction.\<close>

definition ensure_tenant :: "seed_tenant \<Rightarrow> unit io" where
  "ensure_tenant t E w =
     (let w' = w\<lparr>w_ext := tick (w_ext w)\<rparr>
      in case e_fault E (x_tick (w_ext w)) of
           Some c \<Rightarrow> (Inl (DbError c), w')
         | None \<Rightarrow>
             if sd_id t \<in> tn_id ` set (tenants (w_db w)) then (Inr (), w')
             else if sd_slug t \<in> tn_slug ` set (tenants (w_db w)) then (Inl (DbError ''23505''), w')
             else (Inr (), w'\<lparr>w_db := (w_db w)\<lparr>tenants := tenants (w_db w) @
               [\<lparr>tn_id = sd_id t, tn_name = sd_name t, tn_slug = sd_slug t, tn_status = TenantActive,
                 tn_createdAt = e_clock E (x_tick (w_ext w))\<rparr>]\<rparr>\<rparr>))"

definition seed_tenant_rows :: "draws \<Rightarrow> instant \<Rightarrow> nat \<Rightarrow> seed_tenant \<Rightarrow> int \<Rightarrow> nat \<Rightarrow> (int \<times> nat) io" where
  "seed_tenant_rows D now ti t target k = withTenant (sd_id t)
     (tbind alreadySeeded (\<lambda>seeded. if seeded then treturn (0, k) else seed_loop D now ti (sd_id t) target 0 0 0 k))"

fun seed_tenants :: "draws \<Rightarrow> instant \<Rightarrow> nat option \<Rightarrow> (nat \<times> seed_tenant) list \<Rightarrow> nat \<Rightarrow> int \<Rightarrow> int io" where
  "seed_tenants D now override [] k totalEmployees = ioreturn totalEmployees"
| "seed_tenants D now override ((ti, t) # rest) k totalEmployees =
     iobind (ensure_tenant t) (\<lambda>_. iobind (seed_tenant_rows D now ti t (countFor override t) k)
       (\<lambda>(don, k'). seed_tenants D now override rest k' (totalEmployees + don)))"

definition generate_main :: "draws \<Rightarrow> instant \<Rightarrow> (string \<Rightarrow> string option) \<Rightarrow> string list \<Rightarrow> int io" where
  "generate_main D now process_env argv =
     iobind (ioresult (appPool process_env))
       (\<lambda>_. seed_tenants D now (parseCountArg argv) (enumerate 0 TENANTS) 0 0)"

section \<open>What is drawn fits the service\<close>

lemma randInt_bounds: "0 \<le> r \<Longrightarrow> r < 1 \<Longrightarrow> 0 < m \<Longrightarrow> 0 \<le> randInt r m \<and> randInt r m < m"
  unfolding randInt_def by (simp add: floor_less_iff)

lemma TODAY_UTC_day:
  assumes "100 \<le> getUTCFullYear now"
  shows "TODAY_UTC now = day_of now * ms_per_day"
  using assms utc_fields(5) [of now] by (simp add: TODAY_UTC_def date_UTC_def)

text \<open>
  C38. The generator writes the status the expiry engine computes: for every bucket and every draw, on a
  day whose calendar reaches from 400 days before to 910 days after it in the years 100 to 9999, the status
  stored with a seeded document is what \<open>calculateStatus\<close> gives, at any time of that day, for the stored date
  under the default policy, as the comment on \<open>expiryBucketToDates\<close> says.
\<close>

theorem seeded_status_is_computed:
  assumes "0 \<le> random" and "random < 1" and "day_of now' = day_of now"
    and "in_calendar (addDays now (- 400))" and "in_calendar (addDays now 910)"
    and "expiryBucketToDates now bucket random = (expiryDate, expiryStatus)"
  shows "calculateStatus (Some (DStr expiryDate)) DEFAULT_POLICY VALID now' = expiryStatus"
proof -
  note R = randInt_bounds [OF assms(1,2)]
  have near: "in_calendar (addDays now n)" if "- 400 \<le> n" "n \<le> 910" for n
    using assms(4,5) that by (simp add: in_calendar_days day_of_addDays)
  have now: "100 \<le> getUTCFullYear now" "100 \<le> getUTCFullYear now'"
    using near [of 0] getUTC_day_only(1) [OF assms(3)] by (simp_all add: in_calendar_def addDays_def)
  have days: "calendarDaysUntil (DStr (slice 0 10 (toISOString (TODAY_UTC now + n * 86400000)))) now' = Some n"
    "slice 0 10 (toISOString (TODAY_UTC now + n * 86400000)) \<noteq> []" if "- 400 \<le> n" "n \<le> 910" for n
  proof -
    let ?t = "TODAY_UTC now + n * 86400000"
    have d: "day_of ?t = day_of now + n"
      unfolding TODAY_UTC_day [OF now(1)] by (simp add: day_of_def ms_per_day_def)
    then have c: "in_calendar ?t" using near [OF that] by (simp add: in_calendar_days day_of_addDays)
    then show "calendarDaysUntil (DStr (slice 0 10 (toISOString ?t))) now' = Some n"
      using calendarDaysUntil_instant [of ?t now'] d now assms(3) by (simp add: in_calendar_def toUtcDateString_def)
    show "slice 0 10 (toISOString ?t) \<noteq> []"
      using today_date(1) [OF c] by (auto simp: toUtcDateString_def pg_date_def)
  qed
  have status: "calculateStatus (Some (DStr (slice 0 10 (toISOString (TODAY_UTC now + n * 86400000))))) DEFAULT_POLICY VALID now'
      = (if n < 0 then EXPIRED else if n \<le> 90 then EXPIRING_SOON else VALID)" if "- 400 \<le> n" "n \<le> 910" for n
    using days [OF that]
    by (simp add: calculateStatus_def status_of_days_def num_defs widestWarningWindow_def DEFAULT_POLICY_def)
  have hit: ?thesis if "- 400 \<le> n" "n \<le> 910" "expiryDate = slice 0 10 (toISOString (TODAY_UTC now + n * 86400000))"
    "expiryStatus = (if n < 0 then EXPIRED else if n \<le> 90 then EXPIRING_SOON else VALID)" for n
    using status that by simp
  show ?thesis
  proof (cases bucket)
    case Bucket_expired
    then show ?thesis
      using assms(6) R [of 400] by (intro hit [of "- (1 + randInt random 400)"]) (simp_all add: expiryBucketToDates_def)
  next
    case Bucket_critical
    then show ?thesis
      using assms(6) R [of 30] by (intro hit [of "1 + randInt random 30"]) (simp_all add: expiryBucketToDates_def)
  next
    case Bucket_expiring_soon
    then show ?thesis
      using assms(6) R [of 60] by (intro hit [of "31 + randInt random 60"]) (simp_all add: expiryBucketToDates_def)
  next
    case Bucket_valid
    then show ?thesis
      using assms(6) R [of 820] by (intro hit [of "91 + randInt random 820"]) (simp_all add: expiryBucketToDates_def)
  qed
qed

theorem seeded_status_is_computed_witness:
  "calculateStatus (Some (DStr (fst (expiryBucketToDates 1767225600000 Bucket_critical (1 / 2))))) DEFAULT_POLICY VALID 1767225600001
     = EXPIRING_SOON"
proof -
  have c: "day_of 1767225600001 = day_of 1767225600000" "in_calendar (addDays 1767225600000 (- 400))"
    "in_calendar (addDays 1767225600000 910)"
    by code_simp+
  have "snd (expiryBucketToDates 1767225600000 Bucket_critical (1 / 2)) = EXPIRING_SOON"
    by (simp add: expiryBucketToDates_def)
  then show ?thesis
    using seeded_status_is_computed [of "1 / 2" 1767225600001 1767225600000 Bucket_critical, OF _ _ c surjective_pairing] by simp
qed

section \<open>The statements of the generator\<close>

lemma row_sql_run: "row_sql row params = (map (\<lambda>i. ''$'' @ dec i) [Suc (length params)..<Suc (length params + length row)], params @ row)"
proof (induction row arbitrary: params)
  case (Cons v vs)
  show ?case by (simp add: Cons.IH upt_conv_Cons del: upt_Suc)
qed simp

text \<open>The text of the rows whose first value is number \<open>Suc k\<close>.\<close>

fun numbered_rows :: "nat \<Rightarrow> 'v list list \<Rightarrow> string list" where
  "numbered_rows k [] = []"
| "numbered_rows k (row # rows) =
     (''('' @ join '','' (map (\<lambda>i. ''$'' @ dec i) [Suc k..<Suc (k + length row)]) @ '')'') # numbered_rows (k + length row) rows"

lemma rows_sql_run: "rows_sql rows params = (numbered_rows (length params) rows, params @ concat rows)"
  by (induction rows arbitrary: params) (simp_all add: row_sql_run del: upt_Suc)

lemma chunks_concat: "concat (chunks rows) = rows"
  by (induction rows rule: chunks.induct) (subst chunks.simps, simp)

lemma chunks_sizes: "c \<in> set (chunks rows) \<Longrightarrow> c \<noteq> [] \<and> length c \<le> BATCH_SIZE"
proof (induction rows rule: chunks.induct)
  case (1 rows)
  then show ?case
    by (subst (asm) (2) chunks.simps) (auto simp: BATCH_SIZE_def split: if_splits)
qed

lemma length_concat_rows: "(\<And>r. r \<in> set rows \<Longrightarrow> length r \<le> w) \<Longrightarrow> length (concat rows) \<le> length rows * w"
  by (induction rows) (auto simp: add_mono)

text \<open>
  The batched inserts carry every row once and stay within the protocol. For rows of at most nine
  values, as both tables have, the chunks in order are the rows, none is empty and none has more than
  \<open>BATCH_SIZE\<close> rows, and in the statement of a chunk the placeholders count from one through the values of
  its rows in order, of which there are at most 4500, below the 65535 that PostgreSQL takes.
\<close>

theorem batch_statements:
  assumes "\<And>row. row \<in> set rows \<Longrightarrow> length row \<le> 9"
  shows "concat (chunks rows) = rows
    \<and> (\<forall>chunk\<in>set (chunks rows). chunk \<noteq> [] \<and> length chunk \<le> 500
        \<and> insert_sql heading chunk = (heading @ '' VALUES '' @ join '','' (numbered_rows 0 chunk), concat chunk)
        \<and> length (concat chunk) \<le> 4500)"
proof (intro conjI ballI)
  show c: "concat (chunks rows) = rows" by (rule chunks_concat)
  fix chunk assume m: "chunk \<in> set (chunks rows)"
  show "chunk \<noteq> []" and l: "length chunk \<le> 500" using chunks_sizes [OF m] by (simp_all add: BATCH_SIZE_def)
  show "insert_sql heading chunk = (heading @ '' VALUES '' @ join '','' (numbered_rows 0 chunk), concat chunk)"
    by (simp add: insert_sql_def rows_sql_run)
  have "set chunk \<subseteq> set rows" using m c by (metis set_concat Sup_upper image_eqI)
  then show "length (concat chunk) \<le> 4500"
    using length_concat_rows [of chunk 9] assms l by force
qed

theorem batch_statements_witness:
  "concat (chunks [[''a'', ''b''], [''c'', ''d'']]) = [[''a'', ''b''], [''c'', ''d'']]
    \<and> insert_sql ''I'' [[''a'', ''b''], [''c'', ''d'']] = (''I VALUES ($1,$2),($3,$4)'', [''a'', ''b'', ''c'', ''d''])"
proof -
  let ?rows = "[[''a'', ''b''], [''c'', ''d'']]"
  have short: "length row \<le> 9" if "row \<in> set ?rows" for row using that by auto
  have "chunks ?rows = [?rows]" by (simp add: chunks.simps BATCH_SIZE_def)
  then have "concat (chunks ?rows) = ?rows \<and> insert_sql ''I'' ?rows = (''I'' @ '' VALUES '' @ join '','' (numbered_rows 0 ?rows), concat ?rows)"
    using batch_statements [where heading = "''I''", OF short] by (metis list.set_intros(1))
  moreover have "''I'' @ '' VALUES '' @ join '','' (numbered_rows 0 ?rows) = ''I VALUES ($1,$2),($3,$4)''"
    and "concat ?rows = [''a'', ''b'', ''c'', ''d'']"
    by code_simp+
  ultimately show ?thesis by (simp only: simp_thms)
qed

text \<open>The counts of a run with \<open>--count\<close> add up to what was asked for.\<close>

lemma distribute_adds_up: "sum_list (map snd (distribute n)) = n"
  by (simp add: distribute_def TENANTS_def)

lemma distribute_tenants: "map fst (distribute n) = map sd_id TENANTS"
  by (simp add: distribute_def TENANTS_def)

end
