(* ===== verification/SeedRuns.thy ===== *)
theory SeedRuns
  imports Seed Integrity
begin

text \<open>
  What runs of the generator (\<open>tools/seed/generate.ts\<close>) leave in the database: the rows of the batched
  inserts, a tenant's rows in one transaction or none, nothing on a second run, and a consistent database.
  The locale \<open>batch_table\<close> is what a table owes the batched inserts.
\<close>

section \<open>What the inserts leave\<close>

locale batch_table = isolated_table T for T :: "'r table" +
  assumes put_same: "tb_put T (tb_rows T d) d = d"
    and put_again: "tb_put T rs (tb_put T rs' d) = tb_put T rs d"
begin

lemma put_rows_result:
  assumes "put_rows T clash g rs d = Inr d'"
  shows "d' = tb_put T (tb_rows T d @ rs) d
    \<and> ((\<forall>r r'. clash r r' = clash r' r) \<longrightarrow> apart clash (tb_rows T d) \<longrightarrow> apart clash (tb_rows T d @ rs))"
  using assms
proof (induction rs arbitrary: d)
  case (Cons r rs)
  let ?d = "tb_put T (tb_rows T d @ [r]) d"
  have r: "\<not> list_ex (clash r) (tb_rows T d)" "put_rows T clash g rs ?d = Inr d'"
    using Cons.prems by (auto split: if_splits)
  show ?case
    using Cons.IH [OF r(2)] r(1) by (auto simp: rows_put put_again apart_insert list_ex_iff)
qed (simp add: put_same)

lemma insert_many_result:
  assumes "insert_many T typ clash fk mk vs E s = (Inr a, s')" and "\<And>r r'. clash r r' = clash r' r"
  shows "t_db s' = tb_put T (tb_rows T (t_db s) @ map (mk (t_now s)) vs) (t_db s)
    \<and> t_now s' = t_now s \<and> t_tenant s' = t_tenant s \<and> t_aborted s' = t_aborted s
    \<and> (apart clash (tb_rows T (t_db s)) \<longrightarrow> apart clash (tb_rows T (t_db s) @ map (mk (t_now s)) vs))"
  using assms(1) put_rows_result [of clash "t_tenant s" "map (mk (t_now s)) vs" "t_db s"] assms(2)
  by (auto simp: insert_many_def statement_def Let_def split: if_splits option.splits sum.splits)

lemma insert_all_result:
  assumes "tforeach (insert_many T typ clash fk mk) cs E s = (Inr a, s')" and sym: "\<And>r r'. clash r r' = clash r' r"
  shows "t_db s' = tb_put T (tb_rows T (t_db s) @ map (mk (t_now s)) (concat cs)) (t_db s)
    \<and> t_now s' = t_now s \<and> t_tenant s' = t_tenant s \<and> t_aborted s' = t_aborted s
    \<and> (apart clash (tb_rows T (t_db s)) \<longrightarrow> apart clash (tb_rows T (t_db s) @ map (mk (t_now s)) (concat cs)))"
  using assms(1)
proof (induction cs arbitrary: s)
  case Nil
  then show ?case by (simp add: treturn_def put_same)
next
  case (Cons c cs)
  then obtain b s1 where 1: "insert_many T typ clash fk mk c E s = (Inr b, s1)"
    and 2: "tforeach (insert_many T typ clash fk mk) cs E s1 = (Inr a, s')"
    by (auto simp: tbind_def split: prod.splits sum.splits)
  show ?case
    using insert_many_result [OF 1 sym] Cons.IH [OF 2] by (simp add: rows_put put_again)
qed

lemmas batchInsert_result = insert_all_result [where cs = "chunks rows" for rows, folded batchInsert_def, unfolded chunks_concat]

end

interpretation employees_batch: batch_table employees_t
  by unfold_locales simp_all

interpretation documents_batch: batch_table documents_t
  by unfold_locales simp_all

section \<open>What a run leaves\<close>

lemma expiryBucketToDates_status:
  "snd (expiryBucketToDates now b r) \<noteq> EXCEPTION" "snd (expiryBucketToDates now b r) \<noteq> RENEWAL_IN_PROGRESS"
  by (cases b; simp add: expiryBucketToDates_def)+

definition seeded_for :: "uuid \<Rightarrow> uuid set \<Rightarrow> seed_document \<Rightarrow> bool" where
  "seeded_for t ids q \<longleftrightarrow> sq_tenantId q = t \<and> sq_employeeId q \<in> ids
     \<and> sq_expiryStatus q \<noteq> EXCEPTION \<and> sq_expiryStatus q \<noteq> RENEWAL_IN_PROGRESS"

lemma seeded_for_mono: "seeded_for t A q \<Longrightarrow> A \<subseteq> B \<Longrightarrow> seeded_for t B q"
  by (auto simp: seeded_for_def)

lemma seed_documents_result:
  "q \<in> set (fst (seed_documents D now ti t e keys ds k)) \<Longrightarrow> seeded_for t {e} q"
proof (induction keys arbitrary: ds k)
  case (Cons key keys)
  let ?x = "expiryBucketToDates now (pickExpiryBucket (dr_random D (k + 1))) (dr_random D (k + 2))"
  obtain date st where x: "?x = (date, st)" by force
  obtain rows ds' k' where r: "seed_documents D now ti t e keys (Suc ds) (k + 4) = (rows, ds', k')"
    by (rule prod_cases3)
  have st: "st \<noteq> EXCEPTION" "st \<noteq> RENEWAL_IN_PROGRESS"
    using expiryBucketToDates_status [of now "pickExpiryBucket (dr_random D (k + 1))" "dr_random D (k + 2)"] x by simp_all
  show ?case
  proof (cases "DOCUMENT_DISTRIBUTION key \<le> dr_random D k")
    case True
    then show ?thesis using Cons by simp
  next
    case False
    then show ?thesis
      using Cons.prems Cons.IH [of "Suc ds" "k + 4"] r x st by (auto simp: Let_def seeded_for_def)
  qed
qed simp

definition seed_code :: "nat \<Rightarrow> nat \<Rightarrow> string" where
  "seed_code ti i = ''SEED-'' @ dec (ti + 1) @ ''-'' @ dec i"

lemma ends_with_append: "ends_with y (x @ y)"
  by (simp add: ends_with_def)

lemma seed_email: "ends_with SEED_EMAIL_DOMAIN (''seed-'' @ i @ SEED_EMAIL_DOMAIN)"
  using ends_with_append [of SEED_EMAIL_DOMAIN "''seed-'' @ i"] by simp

lemma seed_employee_row_result:
  "se_tenantId (seed_employee_row D ti t i k) = t" "se_code (seed_employee_row D ti t i k) = seed_code ti i"
  "ends_with SEED_EMAIL_DOMAIN (se_email (seed_employee_row D ti t i k))"
  using seed_email by (simp_all add: seed_employee_row_def Let_def seed_code_def)

lemma seed_batch_result:
  assumes "seed_batch D now ti t n es ds k = (emps, docs, es', ds', k')"
  shows "es' = es + n \<and> map se_code emps = map (seed_code ti) [Suc es..<Suc (es + n)]
    \<and> (\<forall>e\<in>set emps. se_tenantId e = t \<and> ends_with SEED_EMAIL_DOMAIN (se_email e))
    \<and> (\<forall>q\<in>set docs. seeded_for t (se_id ` set emps) q)"
  using assms
proof (induction n arbitrary: es ds k emps docs)
  case (Suc n)
  let ?emp = "seed_employee_row D ti t (Suc es) k"
  obtain qs ds1 k1 where q: "seed_documents D now ti t (se_id ?emp) DOC_KEYS ds (k + 5) = (qs, ds1, k1)"
    by (rule prod_cases3)
  obtain emps1 docs1 es2 ds2 k2 where b1: "seed_batch D now ti t n (Suc es) ds1 k1 = (emps1, docs1, es2, ds2, k2)"
    by (rule prod_cases5)
  have b: "seed_batch D now ti t n (Suc es) ds1 k1 = (emps1, docs1, es', ds', k')" "emps = ?emp # emps1" "docs = qs @ docs1"
    using Suc.prems by (simp_all add: Let_def q b1)
  have own: "seeded_for t {se_id ?emp} x" if "x \<in> set qs" for x
    using seed_documents_result [of x D now ti t "se_id ?emp" DOC_KEYS ds "k + 5"] q that by simp
  note IH = Suc.IH [OF b(1)]
  have "es' = es + Suc n" using IH by simp
  moreover have "map se_code emps = map (seed_code ti) [Suc es..<Suc (es + Suc n)]"
    using IH by (simp add: b(2) seed_employee_row_result upt_conv_Cons del: upt_Suc)
  moreover have "se_tenantId e = t \<and> ends_with SEED_EMAIL_DOMAIN (se_email e)" if "e \<in> set emps" for e
    using IH that by (auto simp: b(2) seed_employee_row_result)
  moreover have "seeded_for t (se_id ` set emps) x" if "x \<in> set docs" for x
  proof (cases "x \<in> set qs")
    case True
    show ?thesis by (rule seeded_for_mono [OF own [OF True]]) (simp add: b(2))
  next
    case False
    then have "seeded_for t (se_id ` set emps1) x" using IH that b(3) by simp
    then show ?thesis by (rule seeded_for_mono) (auto simp: b(2))
  qed
  ultimately show ?case by blast
qed simp

text \<open>\<open>inserted t emps docs s s'\<close>: a transaction of tenant \<open>t\<close> went from \<open>s\<close> to \<open>s'\<close> by adding these rows.\<close>

definition add_rows :: "instant \<Rightarrow> seed_employee list \<Rightarrow> seed_document list \<Rightarrow> db \<Rightarrow> db" where
  "add_rows now emps docs d = d\<lparr>employees := employees d @ map (seeded_employee now) emps,
     documents := documents d @ map (seeded_document now) docs\<rparr>"

definition same_tx :: "txs \<Rightarrow> txs \<Rightarrow> bool" where
  "same_tx s s' \<longleftrightarrow> t_now s' = t_now s \<and> t_tenant s' = t_tenant s \<and> t_aborted s' = t_aborted s"

definition stays_apart :: "db \<Rightarrow> db \<Rightarrow> bool" where
  "stays_apart d d' \<longleftrightarrow> (apart employee_clash (employees d) \<longrightarrow> apart employee_clash (employees d'))
     \<and> (apart document_clash (documents d) \<longrightarrow> apart document_clash (documents d'))"

definition tenant_rows :: "uuid \<Rightarrow> seed_employee list \<Rightarrow> seed_document list \<Rightarrow> bool" where
  "tenant_rows t emps docs \<longleftrightarrow> (\<forall>e\<in>set emps. se_tenantId e = t \<and> ends_with SEED_EMAIL_DOMAIN (se_email e))
     \<and> (\<forall>q\<in>set docs. seeded_for t (se_id ` set emps) q)"

definition inserted :: "uuid \<Rightarrow> seed_employee list \<Rightarrow> seed_document list \<Rightarrow> txs \<Rightarrow> txs \<Rightarrow> bool" where
  "inserted t emps docs s s' \<longleftrightarrow> t_db s' = add_rows (t_now s) emps docs (t_db s) \<and> same_tx s s'
     \<and> stays_apart (t_db s) (t_db s') \<and> tenant_rows t emps docs"

lemmas inserted_parts = inserted_def add_rows_def same_tx_def stays_apart_def tenant_rows_def

lemma inserted_none: "inserted t [] [] s s"
  by (simp add: inserted_parts)

lemma tenant_rows_append: "tenant_rows t emps docs \<Longrightarrow> tenant_rows t emps' docs' \<Longrightarrow> tenant_rows t (emps @ emps') (docs @ docs')"
  by (auto simp: tenant_rows_def intro: seeded_for_mono)

lemma add_rows_append: "add_rows now (es @ es') (ds @ ds') d = add_rows now es' ds' (add_rows now es ds d)"
  by (simp add: add_rows_def)

lemma same_tx_trans: "same_tx s s1 \<Longrightarrow> same_tx s1 s' \<Longrightarrow> same_tx s s'"
  by (simp add: same_tx_def)

lemma stays_apart_trans: "stays_apart d d1 \<Longrightarrow> stays_apart d1 d' \<Longrightarrow> stays_apart d d'"
  by (simp add: stays_apart_def)

lemma inserted_append:
  assumes "inserted t emps docs s s1" "inserted t emps' docs' s1 s'"
  shows "inserted t (emps @ emps') (docs @ docs') s s'"
proof -
  have "t_now s1 = t_now s" using assms(1) by (simp add: inserted_def same_tx_def)
  then have "t_db s' = add_rows (t_now s) (emps @ emps') (docs @ docs') (t_db s)"
    using assms by (simp only: inserted_def add_rows_append)
  then show ?thesis
    using assms tenant_rows_append same_tx_trans stays_apart_trans unfolding inserted_def by blast
qed

lemma clash_syms: "employee_clash a b = employee_clash b a" "document_clash c d = document_clash d c"
  by (auto simp: clash_defs same_uuid_sym)

lemma tbind_ok:
  assumes "tbind m k E s = (Inr b, s')"
  obtains a s1 where "m E s = (Inr a, s1)" "k a E s1 = (Inr b, s')"
  using assms by (auto simp: tbind_def split: prod.splits sum.splits)

lemma seed_loop_result:
  assumes "seed_loop D now ti t target don es ds k E s = (Inr (n, k'), s')"
  shows "n = max don target \<and> (\<exists>emps docs. inserted t emps docs s s'
    \<and> map se_code emps = map (seed_code ti) [Suc es..<Suc (es + nat (target - don))])"
  using assms
proof (induction D now ti t target don es ds k arbitrary: s rule: seed_loop.induct)
  case (1 D now ti t target don es ds k)
  show ?case
  proof (cases "don < target")
    case False
    then show ?thesis
      using "1.prems" inserted_none by (subst (asm) seed_loop.simps) (auto simp: treturn_def intro!: exI)
  next
    case True
    define m where "m = min (int BATCH_SIZE) (target - don)"
    obtain emps docs es1 ds1 k1 where b: "seed_batch D now ti t (nat m) es ds k = (emps, docs, es1, ds1, k1)"
      by (rule prod_cases5)
    from "1.prems" True b
    have "tthen (batchInsert employees_t employee_typed employee_clash employee_fk seeded_employee emps)
             (tthen (batchInsert documents_t document_typed document_clash document_fk seeded_document docs)
               (seed_loop D now ti t target (don + m) es1 ds1 k1)) E s = (Inr (n, k'), s')"
      by (subst (asm) seed_loop.simps) (simp add: m_def Let_def)
    then obtain a1 s1 a2 s2 where
      e: "batchInsert employees_t employee_typed employee_clash employee_fk seeded_employee emps E s = (Inr a1, s1)"
      and d: "batchInsert documents_t document_typed document_clash document_fk seeded_document docs E s1 = (Inr a2, s2)"
      and r: "seed_loop D now ti t target (don + m) es1 ds1 k1 E s2 = (Inr (n, k'), s')"
      by (elim tbind_ok)
    note B = seed_batch_result [OF b]
    have 1: "inserted t emps docs s s2"
      using employees_batch.batchInsert_result [OF e clash_syms(1)] documents_batch.batchInsert_result [OF d clash_syms(2)] B
      by (auto simp: inserted_parts)
    have m: "0 < m" "don + m \<le> target" using True by (simp_all add: m_def BATCH_SIZE_def)
    then have "max (don + m) target = max don target" "nat (target - don) = nat m + nat (target - (don + m))" by simp_all
    note m = this
    then have parts: "[Suc es..<Suc (es + nat (target - don))]
        = [Suc es..<Suc (es + nat m)] @ [Suc (es + nat m)..<Suc (es + nat m + nat (target - (don + m)))]"
      using upt_add_eq_append [of "Suc es" "Suc (es + nat m)" "nat (target - (don + m))"] by (simp add: add.assoc del: upt_Suc)
    have "n = max (don + m) target \<and> (\<exists>emps docs. inserted t emps docs s2 s'
      \<and> map se_code emps = map (seed_code ti) [Suc es1..<Suc (es1 + nat (target - (don + m)))])"
      by (rule "1.IH" [OF True m_def b [symmetric] refl refl refl refl r])
    then obtain emps' docs' where n: "n = max (don + m) target" and i: "inserted t emps' docs' s2 s'"
      and c: "map se_code emps' = map (seed_code ti) [Suc es1..<Suc (es1 + nat (target - (don + m)))]"
      by blast
    have "map se_code (emps @ emps') = map (seed_code ti) [Suc es..<Suc (es + nat (target - don))]"
      using c B by (simp add: parts del: upt_Suc)
    then show ?thesis using inserted_append [OF 1 i] n m(1) by auto
  qed
qed

lemma withTenant_result:
  assumes "withTenant t fn E w = (Inr a, w')"
  obtains s s' where "t_db s = w_db w" "t_tenant s = Some t" "\<not> t_aborted s" "fn E s = (Inr a, s')"
    "w_db w' = (if t_aborted s' then w_db w else t_db s')"
proof -
  obtain s' where b: "tthen (setTenantContext t) fn E (start E w) = (Inr a, s')"
    and w: "w_db w' = (if t_aborted s' then w_db w else t_db s')"
    using assms by (auto simp: withTenant_def transaction_def Let_def start_def split: option.splits prod.splits sum.splits)
  obtain u s where 1: "setTenantContext t E (start E w) = (Inr u, s)" and 2: "fn E s = (Inr a, s')"
    using b by (elim tbind_ok)
  have "t_db s = w_db w" "t_tenant s = Some t" "\<not> t_aborted s"
    using 1 by (auto simp: setTenantContext_def statement_def Let_def split: option.splits if_splits)
  then show thesis using 2 w that by blast
qed

lemma withTenant_error: "withTenant t fn E w = (Inl e, w') \<Longrightarrow> w_db w' = w_db w"
  by (auto simp: withTenant_def transaction_def Let_def split: option.splits prod.splits sum.splits)

text \<open>A tenant that has been seeded: it has an employee with an address of the reserved domain.\<close>

definition has_seed :: "db \<Rightarrow> uuid \<Rightarrow> bool" where
  "has_seed d t \<longleftrightarrow> (\<exists>r\<in>set (employees d). em_tenantId r = t
     \<and> (case em_email r of None \<Rightarrow> False | Some e \<Rightarrow> ends_with SEED_EMAIL_DOMAIN e))"

lemma alreadySeeded_result:
  assumes "alreadySeeded E s = (Inr b, s')" "t_tenant s = Some t" "t \<noteq> []"
  shows "b = has_seed (t_db s) t \<and> t_db s' = t_db s \<and> t_now s' = t_now s \<and> t_tenant s' = Some t \<and> t_aborted s' = t_aborted s"
proof -
  obtain rows s1 where 1: "select_where employees_t (\<lambda>r. case em_email r of None \<Rightarrow> False | Some e \<Rightarrow> ends_with SEED_EMAIL_DOMAIN e) E s = (Inr rows, s1)"
    and 2: "b = (rows \<noteq> [])" "s' = s1"
    using assms(1) unfolding alreadySeeded_def by (auto simp: treturn_def elim: tbind_ok)
  have "t_now s1 = t_now s" "t_tenant s1 = t_tenant s" "t_aborted s1 = t_aborted s"
    using 1 by (auto simp: select_where_def statement_def Let_def split: if_splits option.splits)
  then show ?thesis
    using select_where_result [OF 1] 2 assms(2,3)
    by (auto simp: has_seed_def visible_rows_def rls_visible_def filter_empty_conv)
qed

lemma seed_tenant_rows_result:
  assumes "seed_tenant_rows D now ti t target k E w = (Inr (n, k'), w')" "sd_id t \<noteq> []"
  shows "if has_seed (w_db w) (sd_id t) then n = 0 \<and> w_db w' = w_db w
    else n = max 0 target \<and> (\<exists>emps docs s s'. inserted (sd_id t) emps docs s s' \<and> t_db s = w_db w \<and> t_db s' = w_db w'
      \<and> map se_code emps = map (seed_code ti) [1..<Suc (nat target)])"
proof -
  obtain s s' where s: "t_db s = w_db w" "t_tenant s = Some (sd_id t)" "\<not> t_aborted s"
    and w: "w_db w' = (if t_aborted s' then w_db w else t_db s')"
    and b: "tbind alreadySeeded (\<lambda>seeded. if seeded then treturn (0, k) else seed_loop D now ti (sd_id t) target 0 0 0 k) E s = (Inr (n, k'), s')"
    using assms(1) unfolding seed_tenant_rows_def by (elim withTenant_result)
  obtain b s1 where 1: "alreadySeeded E s = (Inr b, s1)"
    and 2: "(if b then treturn (0, k) else seed_loop D now ti (sd_id t) target 0 0 0 k) E s1 = (Inr (n, k'), s')"
    using b by (elim tbind_ok)
  note A = alreadySeeded_result [OF 1 s(2) assms(2)]
  show ?thesis
  proof (cases b)
    case True
    then show ?thesis using A 2 s w by (auto simp: treturn_def)
  next
    case False
    then obtain emps docs where I: "n = max 0 target" "inserted (sd_id t) emps docs s1 s'"
      "map se_code emps = map (seed_code ti) [1..<Suc (nat target)]"
      using 2 seed_loop_result [of D now ti "sd_id t" target 0 0 0 k E s1 n k' s'] by auto
    moreover have "t_db s1 = w_db w" "t_db s' = w_db w'" "\<not> has_seed (w_db w) (sd_id t)"
      using A s w False I(2) by (simp_all add: inserted_parts)
    ultimately show ?thesis by (simp only: if_False) blast
  qed
qed

section \<open>Seeding again\<close>

text \<open>What a run may do to the database at most: add tenants, employees and documents.\<close>

definition adds_rows :: "db \<Rightarrow> db \<Rightarrow> bool" where
  "adds_rows d d' \<longleftrightarrow> (\<exists>ts es ds. d' = d\<lparr>tenants := tenants d @ ts, employees := employees d @ es, documents := documents d @ ds\<rparr>)"

interpretation adds: db_relation adds_rows
proof
  show "adds_rows d d" for d
    unfolding adds_rows_def by (rule exI [of _ "[]"], rule exI [of _ "[]"], rule exI [of _ "[]"]) simp
  show "adds_rows a c" if "adds_rows a b" "adds_rows b c" for a b c
    using that unfolding adds_rows_def by fastforce
qed

lemma adds_rows_keeps:
  assumes "adds_rows d d'"
  shows "has_seed d t \<Longrightarrow> has_seed d' t" "i \<in> tn_id ` set (tenants d) \<Longrightarrow> i \<in> tn_id ` set (tenants d')"
  using assms by (auto simp: adds_rows_def has_seed_def)

lemma inserted_adds: "inserted t emps docs s s' \<Longrightarrow> adds_rows (t_db s) (t_db s')"
  unfolding inserted_parts adds_rows_def
  by (rule exI [of _ "[]"], rule exI [of _ "map (seeded_employee (t_now s)) emps"],
      rule exI [of _ "map (seeded_document (t_now s)) docs"]) simp

lemma inserted_has_seed: "inserted t emps docs s s' \<Longrightarrow> emps \<noteq> [] \<Longrightarrow> has_seed (t_db s') t"
  by (cases emps) (auto simp: inserted_parts has_seed_def seeded_employee_def)

lemma inserted_nothing: "inserted t [] docs s s' \<Longrightarrow> t_db s' = t_db s"
  by (cases docs) (auto simp: inserted_parts seeded_for_def)

lemma ensure_tenant_result:
  "ensure_tenant t E w = (Inr a, w') \<Longrightarrow> adds_rows (w_db w) (w_db w') \<and> sd_id t \<in> tn_id ` set (tenants (w_db w'))"
  "sd_id t \<in> tn_id ` set (tenants (w_db w)) \<Longrightarrow> w_db (snd (ensure_tenant t E w)) = w_db w"
  "ensure_tenant t E w = (Inl e, w') \<Longrightarrow> w_db w' = w_db w"
proof -
  assume "ensure_tenant t E w = (Inr a, w')"
  then have "w_db w' = w_db w \<and> sd_id t \<in> tn_id ` set (tenants (w_db w))
      \<or> (\<exists>r. w_db w' = (w_db w)\<lparr>tenants := tenants (w_db w) @ [r]\<rparr> \<and> tn_id r = sd_id t)"
    by (auto simp: ensure_tenant_def Let_def split: option.splits if_splits)
  moreover have "adds_rows (w_db w) ((w_db w)\<lparr>tenants := tenants (w_db w) @ [r]\<rparr>)" for r
    unfolding adds_rows_def by (rule exI [of _ "[r]"], rule exI [of _ "[]"], rule exI [of _ "[]"]) simp
  ultimately show "adds_rows (w_db w) (w_db w') \<and> sd_id t \<in> tn_id ` set (tenants (w_db w'))"
    using adds.R_refl by auto
qed (auto simp: ensure_tenant_def Let_def split: option.splits if_splits)

text \<open>A tenant for which a run has nothing left to do.\<close>

definition ready :: "nat option \<Rightarrow> db \<Rightarrow> seed_tenant \<Rightarrow> bool" where
  "ready ov d t \<longleftrightarrow> (countFor ov t \<le> 0 \<or> has_seed d (sd_id t)) \<and> sd_id t \<in> tn_id ` set (tenants d)"

lemma seed_tenant_rows_ready:
  assumes "seed_tenant_rows D now ti t target k E w = (Inr (n, k'), w')" "sd_id t \<noteq> []"
  shows "adds_rows (w_db w) (w_db w') \<and> (target \<le> 0 \<or> has_seed (w_db w') (sd_id t))"
proof (cases "has_seed (w_db w) (sd_id t)")
  case True
  then show ?thesis using seed_tenant_rows_result [OF assms] adds.R_refl by simp
next
  case False
  then obtain emps docs s s' where i: "inserted (sd_id t) emps docs s s'" "t_db s = w_db w" "t_db s' = w_db w'"
    and c: "map se_code emps = map (seed_code ti) [1..<Suc (nat target)]"
    using seed_tenant_rows_result [OF assms] by auto
  have "length emps = nat target" using arg_cong [OF c, of length] by (simp del: upt_Suc)
  then have "target \<le> 0 \<or> emps \<noteq> []" by auto
  then show ?thesis using inserted_adds [OF i(1)] inserted_has_seed [OF i(1)] i(2,3) by auto
qed

lemma seed_tenant_rows_idle:
  assumes "target \<le> 0 \<or> has_seed (w_db w) (sd_id t)" "sd_id t \<noteq> []"
  shows "w_db (snd (seed_tenant_rows D now ti t target k E w)) = w_db w"
proof -
  obtain r w' where m: "seed_tenant_rows D now ti t target k E w = (r, w')" by force
  show ?thesis
  proof (cases r)
    case (Inl e)
    then show ?thesis using m withTenant_error unfolding seed_tenant_rows_def by fastforce
  next
    case (Inr x)
    obtain n k' where x: "x = (n, k')" by force
    note R = seed_tenant_rows_result [OF m [unfolded Inr x] assms(2)]
    show ?thesis
    proof (cases "has_seed (w_db w) (sd_id t)")
      case False
      then obtain emps docs s s' where i: "inserted (sd_id t) emps docs s s'" "t_db s = w_db w" "t_db s' = w_db w'"
        and c: "map se_code emps = map (seed_code ti) [1..<Suc (nat target)]"
        using R by auto
      have "length emps = nat target" using arg_cong [OF c, of length] by (simp del: upt_Suc)
      then have "emps = []" using assms(1) False by simp
      then show ?thesis using inserted_nothing i m by fastforce
    qed (use R m in simp)
  qed
qed

lemma ready_later: "ready ov d t \<Longrightarrow> adds_rows d d' \<Longrightarrow> ready ov d' t"
  using adds_rows_keeps unfolding ready_def by blast

lemma seed_tenants_ready:
  assumes "seed_tenants D now ov ts k n E w = (Inr m, w')" "\<And>t. t \<in> snd ` set ts \<Longrightarrow> sd_id t \<noteq> []"
  shows "adds_rows (w_db w) (w_db w') \<and> (\<forall>t\<in>snd ` set ts. ready ov (w_db w') t)"
  using assms
proof (induction D now ov ts k n arbitrary: w rule: seed_tenants.induct)
  case (1 D now ov k n)
  then show ?case by (simp add: ioreturn_def adds.R_refl)
next
  case (2 D now ov ti t rest k n)
  obtain a w1 k1 don w2 where e: "ensure_tenant t E w = (Inr a, w1)"
    and s: "seed_tenant_rows D now ti t (countFor ov t) k E w1 = (Inr (don, k1), w2)"
    and r: "seed_tenants D now ov rest k1 (n + don) E w2 = (Inr m, w')"
    using 2(2) by (auto simp: iobind_def split: prod.splits sum.splits)
  have t: "sd_id t \<noteq> []" using 2(3) by simp
  note A = ensure_tenant_result(1) [OF e] and B = seed_tenant_rows_ready [OF s t]
  have C: "adds_rows (w_db w2) (w_db w') \<and> (\<forall>t\<in>snd ` set rest. ready ov (w_db w') t)"
    using 2(1) [OF r] 2(3) by simp
  have "ready ov (w_db w2) t" using A B adds_rows_keeps(2) unfolding ready_def by blast
  then have "ready ov (w_db w') t" using C ready_later by blast
  moreover have "adds_rows (w_db w) (w_db w')"
    using adds.R_trans [OF adds.R_trans] A B C by (meson conjunct1)
  ultimately show ?case using C by simp
qed

lemma seed_tenants_idle:
  assumes "\<And>t. t \<in> snd ` set ts \<Longrightarrow> sd_id t \<noteq> [] \<and> ready ov (w_db w) t"
  shows "w_db (snd (seed_tenants D now ov ts k n E w)) = w_db w"
  using assms
proof (induction D now ov ts k n arbitrary: w rule: seed_tenants.induct)
  case (1 D now ov k n)
  then show ?case by (simp add: ioreturn_def)
next
  case (2 D now ov ti t rest k n)
  obtain x w1 where e: "ensure_tenant t E w = (x, w1)" by force
  obtain y w2 where s: "seed_tenant_rows D now ti t (countFor ov t) k E w1 = (y, w2)" by force
  have t: "sd_id t \<noteq> []" "ready ov (w_db w) t" using 2(2) by simp_all
  have 1: "w_db w1 = w_db w" using ensure_tenant_result(2) [of t w E] t(2) e by (simp add: ready_def)
  have 2: "w_db w2 = w_db w"
    using seed_tenant_rows_idle [of "countFor ov t" w1 t D now ti k E] t 1 s by (simp add: ready_def)
  have 3: "w_db (snd (seed_tenants D now ov rest k1 m E w2)) = w_db w2" if "y = Inr (don, k1)" "m = n + don" for k1 don m
    using "2.IH" [of w2 k1 don] "2.prems" 2 that by simp
  show ?case
    using e s 1 2 3 by (cases x; cases y) (auto simp: iobind_def)
qed

lemma seed_tenant_rows_quiet: "quiet E \<Longrightarrow> target \<le> 0 \<Longrightarrow> \<exists>w'. seed_tenant_rows D now ti t target k E w = (Inr (0, k), w')"
  by (simp add: seed_tenant_rows_def withTenant_def alreadySeeded_def tx_simps quiet_simps seed_loop.simps)

lemma seed_tenant_rows_again:
  assumes "quiet E" "has_seed (w_db w) (sd_id t)" "sd_id t \<noteq> []"
  shows "\<exists>w'. seed_tenant_rows D now ti t target k E w = (Inr (0, k), w')"
proof -
  have "visible_rows employees_t (Some (sd_id t)) (\<lambda>r. case em_email r of None \<Rightarrow> False | Some e \<Rightarrow> ends_with SEED_EMAIL_DOMAIN e) (w_db w) \<noteq> []"
    using assms(2,3) by (auto simp: has_seed_def visible_rows_def rls_visible_def filter_empty_conv)
  then show ?thesis
    using assms(1) by (simp add: seed_tenant_rows_def withTenant_def alreadySeeded_def tx_simps quiet_simps)
qed

lemma seed_tenants_again:
  assumes "quiet E" "\<And>t. t \<in> snd ` set ts \<Longrightarrow> sd_id t \<noteq> [] \<and> ready ov (w_db w) t"
  shows "\<exists>w'. seed_tenants D now ov ts k n E w = (Inr n, w')"
  using assms(2)
proof (induction ts arbitrary: w)
  case (Cons p ts)
  obtain ti t where p: "p = (ti, t)" by force
  have t: "sd_id t \<noteq> []" "countFor ov t \<le> 0 \<or> has_seed (w_db w) (sd_id t)" "sd_id t \<in> tn_id ` set (tenants (w_db w))"
    using Cons.prems [of t] p by (simp_all add: ready_def)
  obtain w1 where e: "ensure_tenant t E w = (Inr (), w1)"
    using assms(1) t(3) by (simp add: ensure_tenant_def quiet_def Let_def)
  have w1: "w_db w1 = w_db w" using ensure_tenant_result(2) [OF t(3), of E] e by simp
  obtain w2 where s: "seed_tenant_rows D now ti t (countFor ov t) k E w1 = (Inr (0, k), w2)"
    using seed_tenant_rows_quiet [OF assms(1)] seed_tenant_rows_again [OF assms(1) _ t(1)] t(2) w1 by metis
  have "w_db w2 = w_db w1"
    using seed_tenant_rows_idle [of "countFor ov t" w1 t D now ti k E] t(1,2) w1 s by simp
  then have "\<exists>w'. seed_tenants D now ov ts k n E w2 = (Inr n, w')"
    using Cons.IH [of w2] Cons.prems w1 by simp
  then show ?case using e s p by (simp add: iobind_def)
qed (simp add: ioreturn_def)

lemma TENANTS_ids: "t \<in> set TENANTS \<Longrightarrow> sd_id t \<noteq> []"
  by (auto simp: TENANTS_def)

lemma generate_main_run:
  "generate_main D now process_env argv E w =
     (case appPool process_env of
        Inl e \<Rightarrow> (Inl e, w)
      | Inr _ \<Rightarrow> seed_tenants D now (parseCountArg argv) (enumerate 0 TENANTS) 0 0 E w)"
  by (simp add: generate_main_def iobind_def iothrow_def ioreturn_def split: sum.split)

lemma snd_enumerate: "snd ` set (enumerate n xs) = set xs"
  by (metis list.set_map map_snd_enumerate)

text \<open>
  C39. Seeding is idempotent: after a run of the generator that returned, a second run with the same
  arguments, whenever it runs, whatever it draws and wherever it fails or succeeds, leaves every table
  as it is, and when nothing outside fails it returns, having made no employee.
\<close>

theorem seeding_runs_once:
  assumes "generate_main D now process_env argv E w = (Inr n, w')"
  shows "w_db (snd (generate_main D' now' process_env argv E' w')) = w_db w'
    \<and> (quiet E' \<longrightarrow> fst (generate_main D' now' process_env argv E' w') = Inr 0)"
proof -
  obtain url where url: "appPool process_env = Inr url"
    and run: "seed_tenants D now (parseCountArg argv) (enumerate 0 TENANTS) 0 0 E w = (Inr n, w')"
    using assms by (auto simp: generate_main_run split: sum.splits)
  have ready: "sd_id t \<noteq> [] \<and> ready (parseCountArg argv) (w_db w') t" if "t \<in> snd ` set (enumerate 0 TENANTS)" for t
    using seed_tenants_ready [OF run] TENANTS_ids that by (metis snd_enumerate)
  show ?thesis
    using seed_tenants_idle [OF ready] seed_tenants_again [OF _ ready, where E = E' and n = 0]
    by (simp add: generate_main_run url) (metis fst_conv)
qed

text \<open>A run for one employee, on the sample database.\<close>

lemma ensure_tenant_quiet:
  assumes "quiet E" "sd_slug t \<notin> tn_slug ` set (tenants (w_db w))"
  shows "\<exists>w'. ensure_tenant t E w = (Inr (), w') \<and> tn_slug ` set (tenants (w_db w')) \<subseteq> insert (sd_slug t) (tn_slug ` set (tenants (w_db w)))"
  using assms by (auto simp: ensure_tenant_def quiet_def Let_def)

lemma seed_tenants_quiet:
  assumes "quiet E" and "\<And>t. t \<in> snd ` set ts \<Longrightarrow> countFor ov t \<le> 0 \<and> sd_id t \<noteq> [] \<and> sd_slug t \<notin> tn_slug ` set (tenants (w_db w))"
    and "distinct (map (sd_slug \<circ> snd) ts)"
  shows "\<exists>w'. seed_tenants D now ov ts k n E w = (Inr n, w')"
  using assms(2,3)
proof (induction ts arbitrary: w)
  case (Cons p ts)
  obtain ti t where p: "p = (ti, t)" by force
  have t: "countFor ov t \<le> 0" "sd_id t \<noteq> []" "sd_slug t \<notin> tn_slug ` set (tenants (w_db w))"
    using Cons.prems(1) [of t] p by simp_all
  obtain w1 where e: "ensure_tenant t E w = (Inr (), w1)"
    and n: "tn_slug ` set (tenants (w_db w1)) \<subseteq> insert (sd_slug t) (tn_slug ` set (tenants (w_db w)))"
    using ensure_tenant_quiet [OF assms(1) t(3)] by blast
  obtain w2 where s: "seed_tenant_rows D now ti t (countFor ov t) k E w1 = (Inr (0, k), w2)"
    using seed_tenant_rows_quiet [OF assms(1) t(1)] by blast
  have w2: "w_db w2 = w_db w1"
    using seed_tenant_rows_idle [of "countFor ov t" w1 t D now ti k E] t s by simp
  have "\<exists>w'. seed_tenants D now ov ts k n E w2 = (Inr n, w')"
  proof (rule Cons.IH)
    fix u assume u: "u \<in> snd ` set ts"
    then have "sd_slug u \<in> set (map (sd_slug \<circ> snd) ts)" by force
    moreover have "sd_slug t \<notin> set (map (sd_slug \<circ> snd) ts)" using Cons.prems(2) p by simp
    ultimately have "sd_slug u \<noteq> sd_slug t" by metis
    then show "countFor ov u \<le> 0 \<and> sd_id u \<noteq> [] \<and> sd_slug u \<notin> tn_slug ` set (tenants (w_db w2))"
      using Cons.prems(1) [of u] u n w2 by auto
  qed (use Cons.prems(2) in simp)
  then show ?case using e s p by (simp add: iobind_def)
qed (simp add: ioreturn_def)

definition sample_draws :: draws where
  "sample_draws = \<lparr>dr_random = (\<lambda>n. 19 / 20), dr_uuid = (\<lambda>n. sample_uuid (500 + n)), dr_firstName = (\<lambda>_. ''Ada''),
     dr_lastName = (\<lambda>_. ''Byron''), dr_department = (\<lambda>_. ''Games''), dr_jobType = (\<lambda>_. ''Agent'')\<rparr>"

definition seeding_env :: "string \<Rightarrow> string option" where
  "seeding_env = [''DATABASE_URL'' \<mapsto> ''postgres://app_user@localhost/e0db'']"

definition seeded_world :: world where
  "seeded_world = snd (generate_main sample_draws 1767225600000 seeding_env [''--count=1''] sample_env sample_world)"

lemma seeded_world_run:
  "generate_main sample_draws 1767225600000 seeding_env [''--count=1''] sample_env sample_world = (Inr 1, seeded_world)"
proof -
  let ?t = "hd TENANTS" and ?D = sample_draws and ?now = "1767225600000 :: int"
  have counts: "map (countFor (Some 1)) TENANTS = [1, 0, 0, 0, 0]" and arg: "parseCountArg [''--count=1''] = Some 1"
    and url: "appPool seeding_env = Inr ''postgres://app_user@localhost/e0db''"
    by code_simp+
  have "sd_slug ?t \<notin> tn_slug ` set (tenants (w_db sample_world))" by code_simp
  then obtain w1 where e: "ensure_tenant ?t sample_env sample_world = (Inr (), w1)"
    using ensure_tenant_quiet [OF quiet_sample] by blast
  have "(case seed_tenant_rows ?D ?now 0 ?t 1 0 sample_env (snd (ensure_tenant ?t sample_env sample_world)) of
      (r, w) \<Rightarrow> (r, tn_slug ` set (tenants (w_db w)))) = (Inr (1, 8), {''acme'', ''globex'', ''seed-alpha-corp''})"
    by code_simp
  then obtain w2 where s: "seed_tenant_rows ?D ?now 0 ?t 1 0 sample_env w1 = (Inr (1, 8), w2)"
    and w2: "tn_slug ` set (tenants (w_db w2)) = {''acme'', ''globex'', ''seed-alpha-corp''}"
    using e by (auto split: prod.splits)
  have "\<exists>w'. seed_tenants ?D ?now (Some 1) (enumerate 1 (tl TENANTS)) 8 1 sample_env w2 = (Inr 1, w')"
  proof (rule seed_tenants_quiet [OF quiet_sample])
    show "countFor (Some 1) t \<le> 0 \<and> sd_id t \<noteq> [] \<and> sd_slug t \<notin> tn_slug ` set (tenants (w_db w2))"
      if "t \<in> snd ` set (enumerate 1 (tl TENANTS))" for t
      using that counts unfolding snd_enumerate w2 by (auto simp: TENANTS_def)
  qed (simp add: TENANTS_def enumerate_eq_zip)
  moreover have "enumerate 0 TENANTS = (0, ?t) # enumerate 1 (tl TENANTS)" by (simp add: TENANTS_def)
  moreover have "countFor (Some 1) ?t = 1" using counts by (simp add: TENANTS_def)
  ultimately have "\<exists>w'. generate_main ?D ?now seeding_env [''--count=1''] sample_env sample_world = (Inr 1, w')"
    using e s by (simp add: generate_main_run url arg iobind_def del: parseCountArg.simps One_nat_def)
  then show ?thesis unfolding seeded_world_def by (metis snd_conv)
qed

theorem seeding_runs_once_witness:
  "w_db (snd (generate_main sample_draws 1767225700000 seeding_env [''--count=1''] sample_env seeded_world)) = w_db seeded_world
    \<and> fst (generate_main sample_draws 1767225700000 seeding_env [''--count=1''] sample_env seeded_world) = Inr 0"
  using seeding_runs_once [OF seeded_world_run, of sample_draws 1767225700000 sample_env] quiet_sample by blast

section \<open>A seeded database is consistent\<close>

lemma seeded_fields [simp]:
  "em_id (seeded_employee n e) = se_id e" "em_tenantId (seeded_employee n e) = se_tenantId e"
  "dc_employeeId (seeded_document n q) = Some (sq_employeeId q)" "dc_tenantId (seeded_document n q) = sq_tenantId q"
  "dc_expiryStatus (seeded_document n q) = sq_expiryStatus q"
  by (simp_all add: seeded_employee_def seeded_document_def)

lemma inserted_consistent:
  assumes i: "inserted t emps docs s s'" and c: "consistent (t_db s)"
  shows "consistent (t_db s')"
proof -
  let ?d = "(t_db s)\<lparr>employees := employees (t_db s')\<rparr>"
  have rows: "employees (t_db s') = employees (t_db s) @ map (seeded_employee (t_now s)) emps"
    "documents (t_db s') = documents (t_db s) @ map (seeded_document (t_now s)) docs"
    "t_db s' = ?d\<lparr>documents := documents (t_db s')\<rparr>"
    using i by (simp_all add: inserted_parts)
  have apart: "apart employee_clash (employees (t_db s'))" "apart document_clash (documents (t_db s'))"
    using i employees_ok.rows_apart [OF c] documents_ok.rows_apart [OF c] unfolding inserted_parts table_simps by blast+
  have e: "consistent ?d"
    using employees_ok.put_consistent [OF c, of "employees (t_db s')"] apart(1) by (simp add: rows(1) grows_append)
  have new: "belongs ?d (seeded_document (t_now s) q) \<and> status_documented (seeded_document (t_now s) q)"
    if "q \<in> set docs" for q
  proof -
    have q: "seeded_for t (se_id ` set emps) q" and t: "\<forall>e\<in>set emps. se_tenantId e = t"
      using i that unfolding inserted_parts by blast+
    then obtain x where "x \<in> set emps" "se_id x = sq_employeeId q" "se_tenantId x = sq_tenantId q"
      by (auto simp: seeded_for_def)
    with q show ?thesis
      by (auto simp: belongs_def status_documented_def rows(1) seeded_for_def same_uuid_def
          intro!: bexI [of _ "seeded_employee (t_now s) x"])
  qed
  have "belongs ?d r \<and> status_documented r" if "r \<in> set (documents (t_db s'))" for r
    using that new documents_ok.rows_ok [OF e, of r] by (auto simp: rows(2))
  then have "consistent (?d\<lparr>documents := documents (t_db s')\<rparr>)"
    using documents_ok.put_consistent [OF e, of "documents (t_db s')"] apart(2) by (simp add: rows(2) grows_append)
  then show ?thesis by (simp only: rows(3) [symmetric])
qed

lemma seed_tenant_rows_stays: "sd_id t \<noteq> [] \<Longrightarrow> io_rel stays (seed_tenant_rows D now ti t target k)"
  unfolding io_rel_def stays_def
proof (intro allI impI)
  fix E and w :: world assume t: "sd_id t \<noteq> []" and c: "consistent (w_db w)"
  obtain r w' where m: "seed_tenant_rows D now ti t target k E w = (r, w')" by force
  have "consistent (w_db w')"
  proof (cases r)
    case (Inl e)
    then show ?thesis using m c withTenant_error unfolding seed_tenant_rows_def by metis
  next
    case (Inr x)
    then obtain n k' where "seed_tenant_rows D now ti t target k E w = (Inr (n, k'), w')" using m by (cases x) auto
    from seed_tenant_rows_result [OF this t] show ?thesis
      using inserted_consistent c by (metis (no_types, lifting))
  qed
  then show "consistent (w_db (snd (seed_tenant_rows D now ti t target k E w)))" using m by simp
qed

lemma ensure_tenant_stays: "io_rel stays (ensure_tenant t)"
  by (auto simp: io_rel_def stays_def ensure_tenant_def Let_def consistent_def belongs_def split: option.splits)

text \<open>
  The generator keeps the database consistent, whatever it draws and wherever it stops: the rows stay
  apart in their keys, and every document's employee is one of the document's own tenant.
\<close>

theorem seeding_stays_consistent:
  assumes "consistent (w_db w)"
  shows "consistent (w_db (snd (generate_main D now process_env argv E w)))"
proof -
  have run: "io_rel stays (seed_tenants D now ov ts k n)" if "\<And>t. t \<in> snd ` set ts \<Longrightarrow> sd_id t \<noteq> []" for ov ts k n
    using that
    by (induction D now ov ts k n rule: seed_tenants.induct)
      (auto intro!: io_intros ensure_tenant_stays seed_tenant_rows_stays split: prod.split)
  have "io_rel stays (seed_tenants D now (parseCountArg argv) (enumerate 0 TENANTS) 0 0)"
    by (rule run) (simp add: snd_enumerate TENANTS_ids)
  then show ?thesis
    using assms by (auto simp: generate_main_run io_rel_def stays_def split: sum.split)
qed

theorem seeding_stays_consistent_witness: "consistent (w_db seeded_world)"
proof -
  have "consistent (w_db sample_world)" by code_simp
  then show ?thesis unfolding seeded_world_def by (rule seeding_stays_consistent)
qed

end
