(* ===== verification/Cleanup.thy ===== *)
theory Cleanup
  imports Seed
begin

text \<open>
  The teardown of the seed data, \<open>tools/seed/cleanup.ts\<close>: one connection as the owner of the tables, which no
  policy filters, statement by statement. As the superuser it turns the foreign key checks of its session off.
\<close>

section \<open>The connection\<close>

text \<open>
  One connection: the database as the session sees it, the database as committed, whether a transaction is
  open, and the session's \<open>session_replication_role = replica\<close>. An error ends the program, and the end of the
  connection rolls an open transaction back.
\<close>

record session =
  ss_db :: db
  ss_committed :: db
  ss_open :: bool
  ss_replica :: bool
  ss_tick :: nat

type_synonym 'a session_op = "env \<Rightarrow> session \<Rightarrow> (exn + 'a) \<times> session"

definition sreturn :: "'a \<Rightarrow> 'a session_op" where
  "sreturn a E s = (Inr a, s)"

definition sbind :: "'a session_op \<Rightarrow> ('a \<Rightarrow> 'b session_op) \<Rightarrow> 'b session_op" where
  "sbind m k E s = (case m E s of (Inl e, s') \<Rightarrow> (Inl e, s') | (Inr a, s') \<Rightarrow> k a E s')"

text \<open>\<open>client.query\<close>: outside a transaction a statement commits by itself.\<close>

definition client_query :: "(session \<Rightarrow> string + ('a \<times> session)) \<Rightarrow> 'a session_op" where
  "client_query f E s =
     (let s' = s\<lparr>ss_tick := Suc (ss_tick s)\<rparr>
      in case e_fault E (ss_tick s) of
           Some c \<Rightarrow> (Inl (DbError c), s')
         | None \<Rightarrow> (case f s' of
             Inl c \<Rightarrow> (Inl (DbError c), s')
           | Inr (a, s'') \<Rightarrow> (Inr a, if ss_open s'' then s'' else s''\<lparr>ss_committed := ss_db s''\<rparr>)))"

definition client_begin :: "unit session_op" where
  "client_begin = client_query (\<lambda>s. Inr ((), s\<lparr>ss_open := True\<rparr>))"

definition client_commit :: "unit session_op" where
  "client_commit = client_query (\<lambda>s. Inr ((), s\<lparr>ss_open := False\<rparr>))"

definition set_replica :: "unit session_op" where
  "set_replica = client_query (\<lambda>s. Inr ((), s\<lparr>ss_replica := True\<rparr>))"

text \<open>
  The foreign keys that point at a row of \<open>documents\<close>, of \<open>employees\<close> and of \<open>tenants\<close>
  (\<open>packages/database/migrations\<close>); no other table is pointed at, and \<open>idempotency_keys\<close> points at none.
\<close>

definition refers_document :: "db \<Rightarrow> document_row \<Rightarrow> bool" where
  "refers_document d r \<longleftrightarrow> list_ex (\<lambda>l. case nl_documentId l of None \<Rightarrow> False | Some i \<Rightarrow> same_uuid i (dc_id r)) (notificationLog d)"

definition refers_employee :: "db \<Rightarrow> employee_row \<Rightarrow> bool" where
  "refers_employee d r \<longleftrightarrow> list_ex (\<lambda>q. case dc_employeeId q of None \<Rightarrow> False | Some i \<Rightarrow> same_uuid i (em_id r)) (documents d)"

definition refers_tenant :: "db \<Rightarrow> uuid \<Rightarrow> bool" where
  "refers_tenant d i \<longleftrightarrow> i \<in> em_tenantId ` set (employees d) \<or> i \<in> dc_tenantId ` set (documents d)
     \<or> i \<in> ep_tenantId ` set (expiryPolicies d) \<or> i \<in> au_tenantId ` set (auditEvents d)
     \<or> i \<in> np_tenantId ` set (tenantNotificationPolicies d) \<or> i \<in> nl_tenantId ` set (notificationLog d)
     \<or> i \<in> ib_tenantId ` set (importBatches d)"

text \<open>\<open>DELETE FROM T WHERE p\<close>: the rows that were there, unless one still has a referring row and keys are checked.\<close>

definition delete_rows ::
  "(db \<Rightarrow> 'r list) \<Rightarrow> ('r list \<Rightarrow> db \<Rightarrow> db) \<Rightarrow> (db \<Rightarrow> 'r \<Rightarrow> bool) \<Rightarrow> ('r \<Rightarrow> bool) \<Rightarrow> nat session_op" where
  "delete_rows get put refers p = client_query (\<lambda>s.
     let gone = filter p (get (ss_db s)); d' = put (filter (\<lambda>r. \<not> p r) (get (ss_db s))) (ss_db s)
     in if \<not> ss_replica s \<and> list_ex (refers d') gone then Inl ''23503''
        else Inr (length gone, s\<lparr>ss_db := d'\<rparr>))"

definition delete_of :: "'r table \<Rightarrow> (db \<Rightarrow> 'r \<Rightarrow> bool) \<Rightarrow> uuid \<Rightarrow> nat session_op" where
  "delete_of T refers t = delete_rows (tb_rows T) (tb_put T) refers (\<lambda>r. tb_tenant T r = t)"

section \<open>main\<close>

definition none_refers :: "db \<Rightarrow> 'r \<Rightarrow> bool" where
  "none_refers d r = False"

text \<open>\<open>PER_TENANT_DELETES\<close>, with the name of the table that the log prints.\<close>

definition PER_TENANT_DELETES :: "(string \<times> (uuid \<Rightarrow> nat session_op)) list" where
  "PER_TENANT_DELETES =
    [(''notification_log'', delete_of notification_log_t none_refers),
     (''documents'', delete_of documents_t refers_document),
     (''employees'', delete_of employees_t refers_employee),
     (''tenant_notification_policies'', delete_of notification_policies_t none_refers),
     (''import_batches'', delete_of import_batches_t none_refers),
     (''expiry_policies'', delete_of expiry_policies_t none_refers)]"

fun delete_each :: "(string \<times> (uuid \<Rightarrow> nat session_op)) list \<Rightarrow> uuid \<Rightarrow> (nat \<times> string) list session_op" where
  "delete_each [] t = sreturn []"
| "delete_each ((table, stmt) # stmts) t = sbind (stmt t) (\<lambda>rowCount. sbind (delete_each stmts t)
     (\<lambda>deleted. sreturn (if 0 < rowCount then (rowCount, table) # deleted else deleted)))"

definition cleanup_tenant :: "seed_tenant \<Rightarrow> (nat \<times> string) list session_op" where
  "cleanup_tenant t = sbind client_begin (\<lambda>_. sbind (delete_each PER_TENANT_DELETES (sd_id t))
     (\<lambda>deleted. sbind client_commit (\<lambda>_. sreturn deleted)))"

fun cleanup_tenants :: "seed_tenant list \<Rightarrow> (nat \<times> string) list list session_op" where
  "cleanup_tenants [] = sreturn []"
| "cleanup_tenants (t # ts) = sbind (cleanup_tenant t) (\<lambda>deleted. sbind (cleanup_tenants ts) (\<lambda>log. sreturn (deleted # log)))"

definition seedIds :: "uuid list" where
  "seedIds = map sd_id TENANTS"

definition delete_tenants :: "nat session_op" where
  "delete_tenants = delete_rows tenants (\<lambda>rs d. d\<lparr>tenants := rs\<rparr>) (\<lambda>d r. refers_tenant d (tn_id r)) (\<lambda>r. tn_id r \<in> set seedIds)"

definition count_rows :: "(db \<Rightarrow> 'r list) \<Rightarrow> ('r \<Rightarrow> bool) \<Rightarrow> nat session_op" where
  "count_rows get p = client_query (\<lambda>s. Inr (length (filter p (get (ss_db s))), s))"

text \<open>The verification at the end, and the exit code it gives.\<close>

definition cleanup_verify :: "bool \<Rightarrow> nat session_op" where
  "cleanup_verify keepTenants =
     sbind (count_rows employees (\<lambda>r. case em_email r of None \<Rightarrow> False | Some e \<Rightarrow> ends_with SEED_EMAIL_DOMAIN e)) (\<lambda>orphanEmpCount.
     sbind (count_rows tenants (\<lambda>r. tn_id r \<in> set seedIds)) (\<lambda>tenantRowCount.
     sreturn (if orphanEmpCount = 0 \<and> (keepTenants \<or> tenantRowCount = 0) then 0 else 1)))"

text \<open>
  The body of the \<open>try\<close>, from the answer \<open>super\<close> to \<open>SELECT rolsuper\<close>: the exit code, 0 when the
  verification finds nothing.
\<close>

definition cleanup_body :: "bool \<Rightarrow> bool \<Rightarrow> nat session_op" where
  "cleanup_body super keepTenants =
     sbind (client_query (\<lambda>s. Inr (super, s))) (\<lambda>s0.
     sbind (if s0 then set_replica else sreturn ()) (\<lambda>_.
     sbind (cleanup_tenants TENANTS) (\<lambda>log.
     sbind (if keepTenants then sreturn 0 else delete_tenants) (\<lambda>deleted.
     cleanup_verify keepTenants))))"

text \<open>\<open>superuser url\<close>: whether the role of that connection is one.\<close>

definition cleanup_url :: "(string \<Rightarrow> string option) \<Rightarrow> exn + string" where
  "cleanup_url process_env =
     (let url = nullish_opt (process_env ''DATABASE_ADMIN_URL'') (process_env ''DATABASE_MIGRATION_URL'')
      in case url of
           None \<Rightarrow> Inl (JsError ''neither DATABASE_ADMIN_URL nor DATABASE_MIGRATION_URL is set (expected in .env.local)'')
         | Some u \<Rightarrow> if u = [] then Inl (JsError ''neither DATABASE_ADMIN_URL nor DATABASE_MIGRATION_URL is set (expected in .env.local)'')
             else Inr u)"

definition cleanup_main ::
  "(string \<Rightarrow> bool) \<Rightarrow> (string \<Rightarrow> string option) \<Rightarrow> string list \<Rightarrow> env \<Rightarrow> db \<Rightarrow> (exn + nat) \<times> db" where
  "cleanup_main superuser process_env argv E d =
     (case cleanup_url process_env of
        Inl e \<Rightarrow> (Inl e, d)
      | Inr url \<Rightarrow>
          (case cleanup_body (superuser url) (''--keep-tenants'' \<in> set argv) E
               \<lparr>ss_db = d, ss_committed = d, ss_open = False, ss_replica = False, ss_tick = 0\<rparr> of
             (r, s) \<Rightarrow> (r, ss_committed s)))"

section \<open>What a statement leaves\<close>

lemma client_query_cases:
  assumes "client_query f E s = (r, s')"
  obtains c where "r = Inl (DbError c)" "s' = s\<lparr>ss_tick := Suc (ss_tick s)\<rparr>"
  | a s'' where "r = Inr a" "f (s\<lparr>ss_tick := Suc (ss_tick s)\<rparr>) = Inr (a, s'')"
      "s' = (if ss_open s'' then s'' else s''\<lparr>ss_committed := ss_db s''\<rparr>)"
  using assms by (auto simp: client_query_def Let_def split: option.splits sum.splits prod.splits)

lemma sbind_ok:
  assumes "sbind m k E s = (Inr b, s')"
  obtains a s1 where "m E s = (Inr a, s1)" "k a E s1 = (Inr b, s')"
  using assms by (auto simp: sbind_def split: prod.splits sum.splits)

lemma sbind_any:
  assumes "sbind m k E s = (r, s')"
  obtains e where "m E s = (Inl e, s')" "r = Inl e" | a s1 where "m E s = (Inr a, s1)" "k a E s1 = (r, s')"
  using assms by (auto simp: sbind_def split: prod.splits sum.splits)

text \<open>\<open>inside m f\<close>: in an open transaction \<open>m\<close> commits nothing, and when it succeeds it changes the database by \<open>f\<close>.\<close>

definition inside :: "'a session_op \<Rightarrow> (db \<Rightarrow> db) \<Rightarrow> bool" where
  "inside m f \<longleftrightarrow> (\<forall>E s r s'. ss_open s \<longrightarrow> m E s = (r, s') \<longrightarrow>
     ss_open s' \<and> ss_committed s' = ss_committed s \<and> ss_replica s' = ss_replica s
     \<and> ((\<exists>a. r = Inr a) \<longrightarrow> ss_db s' = f (ss_db s)))"

lemma insideD:
  assumes "inside m f" "ss_open s" "m E s = (r, s')"
  shows "ss_open s'" "ss_committed s' = ss_committed s" "ss_replica s' = ss_replica s" "r = Inr a \<Longrightarrow> ss_db s' = f (ss_db s)"
  using assms unfolding inside_def by blast+

lemma inside_return: "inside (sreturn a) (\<lambda>d. d)"
  by (simp add: inside_def sreturn_def)

lemma inside_bind:
  assumes m: "inside m f" and k: "\<And>a. inside (k a) g"
  shows "inside (sbind m k) (\<lambda>d. g (f d))"
  unfolding inside_def
proof (intro allI impI)
  fix E s r s' assume o: "ss_open s" and b: "sbind m k E s = (r, s')"
  from b show "ss_open s' \<and> ss_committed s' = ss_committed s \<and> ss_replica s' = ss_replica s
     \<and> ((\<exists>a. r = Inr a) \<longrightarrow> ss_db s' = g (f (ss_db s)))"
  proof (cases rule: sbind_any)
    case (1 e)
    then show ?thesis using insideD [OF m o] by simp
  next
    case (2 a s1)
    note M = insideD [OF m o 2(1)]
    show ?thesis using insideD [OF k M(1) 2(2)] M by auto
  qed
qed

lemma inside_delete: "inside (delete_of T refers t) (\<lambda>d. tb_put T (filter (\<lambda>r. tb_tenant T r \<noteq> t) (tb_rows T d)) d)"
  unfolding inside_def delete_of_def delete_rows_def
  by (auto simp: Let_def elim!: client_query_cases split: if_splits)

text \<open>The rows of some tenants taken out of the tables that the teardown empties.\<close>

definition wiped :: "uuid set \<Rightarrow> db \<Rightarrow> db" where
  "wiped ts d = d\<lparr>notificationLog := filter (\<lambda>r. nl_tenantId r \<notin> ts) (notificationLog d),
     documents := filter (\<lambda>r. dc_tenantId r \<notin> ts) (documents d),
     employees := filter (\<lambda>r. em_tenantId r \<notin> ts) (employees d),
     tenantNotificationPolicies := filter (\<lambda>r. np_tenantId r \<notin> ts) (tenantNotificationPolicies d),
     importBatches := filter (\<lambda>r. ib_tenantId r \<notin> ts) (importBatches d),
     expiryPolicies := filter (\<lambda>r. ep_tenantId r \<notin> ts) (expiryPolicies d)\<rparr>"

lemma wiped_none [simp]: "wiped {} d = d"
  by (simp add: wiped_def)

lemma wiped_more: "wiped ts (wiped {t} d) = wiped (insert t ts) d"
  by (simp add: wiped_def filter_filter conj_commute)

lemma inside_each:
  "list_all2 (\<lambda>p f. inside (snd p t) f) stmts fs \<Longrightarrow> inside (delete_each stmts t) (\<lambda>d. fold (\<lambda>f. f) fs d)"
proof (induction rule: list_all2_induct)
  case (Cons p ps f fs)
  obtain table stmt where p: "p = (table, stmt)" by force
  have "inside (stmt t) f" using Cons.hyps p by simp
  moreover have "inside (sbind (delete_each ps t) (\<lambda>l. sreturn (if 0 < n then (n, table) # l else l))) (fold (\<lambda>f. f) fs)" for n
    using inside_bind [OF Cons.IH inside_return] .
  ultimately have "inside (sbind (stmt t) (\<lambda>n. sbind (delete_each ps t) (\<lambda>l. sreturn (if 0 < n then (n, table) # l else l))))
      (\<lambda>d. fold (\<lambda>f. f) fs (f d))"
    by (rule inside_bind)
  then show ?case by (simp add: p)
qed (simp add: inside_return)

lemma inside_deletes: "inside (delete_each PER_TENANT_DELETES t) (wiped {t})"
proof -
  let ?del = "\<lambda>T d. tb_put T (filter (\<lambda>r. tb_tenant T r \<noteq> t) (tb_rows T d)) d"
  have "inside (delete_each PER_TENANT_DELETES t) (\<lambda>d. fold (\<lambda>f. f)
      [?del notification_log_t, ?del documents_t, ?del employees_t, ?del notification_policies_t, ?del import_batches_t,
       ?del expiry_policies_t] d)"
    unfolding PER_TENANT_DELETES_def by (rule inside_each) (simp add: inside_delete del: table_simps)
  also have "(\<lambda>d. fold (\<lambda>f. f) [?del notification_log_t, ?del documents_t, ?del employees_t, ?del notification_policies_t,
      ?del import_batches_t, ?del expiry_policies_t] d) = wiped {t}"
    by (simp add: fun_eq_iff wiped_def)
  finally show ?thesis .
qed

text \<open>Between the transactions of the tenants nothing is open and everything is committed.\<close>

definition settled :: "session \<Rightarrow> bool" where
  "settled s \<longleftrightarrow> \<not> ss_open s \<and> ss_committed s = ss_db s"

lemma client_begin_result:
  "client_begin E s = (Inr a, s1) \<Longrightarrow> ss_open s1 \<and> ss_db s1 = ss_db s \<and> ss_committed s1 = ss_committed s \<and> ss_replica s1 = ss_replica s"
  "client_begin E s = (Inl e, s1) \<Longrightarrow> ss_committed s1 = ss_committed s"
  unfolding client_begin_def by (auto elim!: client_query_cases split: if_splits)

lemma client_commit_result:
  "client_commit E s = (Inr a, s1) \<Longrightarrow> settled s1 \<and> ss_db s1 = ss_db s \<and> ss_replica s1 = ss_replica s"
  "client_commit E s = (Inl e, s1) \<Longrightarrow> ss_committed s1 = ss_committed s"
  unfolding client_commit_def settled_def by (auto elim!: client_query_cases split: if_splits)

lemma cleanup_tenant_result:
  assumes "cleanup_tenant t E s = (r, s')"
  shows "(\<exists>e. r = Inl e \<and> ss_committed s' = ss_committed s)
    \<or> (\<exists>l. r = Inr l \<and> settled s' \<and> ss_db s' = wiped {sd_id t} (ss_db s) \<and> ss_replica s' = ss_replica s)"
  using assms unfolding cleanup_tenant_def
proof (cases rule: sbind_any)
  case (1 e)
  then show ?thesis using client_begin_result(2) by blast
next
  case (2 u s1)
  note B = client_begin_result(1) [OF 2(1)]
  from 2(2) show ?thesis
  proof (cases rule: sbind_any)
    case (1 e)
    then show ?thesis using insideD [OF inside_deletes _ 1(1)] B by auto
  next
    case (2 l s2)
    note D = insideD [OF inside_deletes _ 2(1)]
    from 2(2) show ?thesis
    proof (cases rule: sbind_any)
      case (1 e)
      then show ?thesis using client_commit_result(2) [OF 1(1)] D B by auto
    next
      case (2 v s3)
      then show ?thesis using client_commit_result(1) [OF 2(1)] D B by (auto simp: sreturn_def)
    qed
  qed
qed

lemma cleanup_tenants_result:
  assumes "cleanup_tenants ts E s = (r, s')" "settled s"
  shows "(\<exists>e m. r = Inl e \<and> m < length ts \<and> ss_committed s' = wiped (sd_id ` set (take m ts)) (ss_db s))
    \<or> (\<exists>l. r = Inr l \<and> settled s' \<and> ss_db s' = wiped (sd_id ` set ts) (ss_db s) \<and> ss_replica s' = ss_replica s)"
  using assms
proof (induction ts arbitrary: s r)
  case Nil
  then show ?case by (auto simp: sreturn_def)
next
  case (Cons t ts)
  from Cons.prems(1)[unfolded cleanup_tenants.simps] show ?case
  proof (cases rule: sbind_any)
    case (1 e)
    then show ?thesis using cleanup_tenant_result [OF 1(1)] Cons.prems(2) by (fastforce simp: settled_def intro: exI [of _ 0])
  next
    case (2 l s1)
    have s1: "settled s1" "ss_db s1 = wiped {sd_id t} (ss_db s)" "ss_replica s1 = ss_replica s"
      using cleanup_tenant_result [OF 2(1)] by auto
    from 2(2) show ?thesis
    proof (cases rule: sbind_any)
      case (1 e)
      then obtain m where "m < length ts" "ss_committed s' = wiped (sd_id ` set (take m ts)) (ss_db s1)"
        using Cons.IH [OF 1(1) s1(1)] by blast
      then have "Suc m < length (t # ts) \<and> ss_committed s' = wiped (sd_id ` set (take (Suc m) (t # ts))) (ss_db s)"
        using s1(2) by (simp add: wiped_more)
      then show ?thesis using 1 by blast
    next
      case (2 l' s2)
      then have "s2 = s'" "r = Inr (l # l')" by (simp_all add: sreturn_def)
      then show ?thesis using Cons.IH [of s1 "Inr l'"] 2(1) s1 by (auto simp: wiped_more)
    qed
  qed
qed

text \<open>Without the rows of the seed tenants, and without the tenants unless they are kept.\<close>

definition torn_down :: "bool \<Rightarrow> db \<Rightarrow> db" where
  "torn_down keep d =
     (let d' = wiped (set seedIds) d
      in if keep then d' else d'\<lparr>tenants := filter (\<lambda>r. tn_id r \<notin> set seedIds) (tenants d)\<rparr>)"

definition seed_addresses :: "db \<Rightarrow> employee_row list" where
  "seed_addresses d = filter (\<lambda>r. case em_email r of None \<Rightarrow> False | Some e \<Rightarrow> ends_with SEED_EMAIL_DOMAIN e) (employees d)"

lemma reads_result:
  "client_query (\<lambda>s. Inr (x, s)) E s = (r, s') \<Longrightarrow> settled s \<Longrightarrow> settled s' \<and> ss_db s' = ss_db s \<and> ss_replica s' = ss_replica s \<and> (\<forall>a. r = Inr a \<longrightarrow> a = x)"
  "count_rows get p E s = (q, s') \<Longrightarrow> settled s \<Longrightarrow> settled s' \<and> ss_db s' = ss_db s \<and> ss_replica s' = ss_replica s
     \<and> (\<forall>n. q = Inr n \<longrightarrow> n = length (filter p (get (ss_db s))))"
  "set_replica E s = (u, s') \<Longrightarrow> settled s \<Longrightarrow> settled s' \<and> ss_db s' = ss_db s \<and> (\<forall>a. u = Inr a \<longrightarrow> ss_replica s')"
  unfolding count_rows_def set_replica_def settled_def by (auto elim!: client_query_cases)

lemma delete_tenants_result:
  assumes "delete_tenants E s = (r, s')" "settled s"
  shows "(\<exists>e. r = Inl e \<and> ss_committed s' = ss_db s)
    \<or> (\<exists>n. r = Inr n \<and> settled s' \<and> ss_db s' = (ss_db s)\<lparr>tenants := filter (\<lambda>t. tn_id t \<notin> set seedIds) (tenants (ss_db s))\<rparr>
       \<and> (ss_replica s \<or> (\<forall>t\<in>set (tenants (ss_db s)). tn_id t \<in> set seedIds \<longrightarrow> \<not> refers_tenant (ss_db s') (tn_id t))))"
  using assms unfolding delete_tenants_def delete_rows_def settled_def
  by (auto simp: Let_def list_ex_iff elim!: client_query_cases split: if_splits)

lemma refers_tenant_frame [simp]: "refers_tenant (d\<lparr>tenants := x\<rparr>) i = refers_tenant d i"
  by (simp add: refers_tenant_def)

lemma wiped_tenants [simp]: "tenants (wiped ts d) = tenants d" "auditEvents (wiped ts d) = auditEvents d"
  by (simp_all add: wiped_def)

lemma cleanup_verify_result:
  assumes "cleanup_verify keep E s = (r, s')" "settled s"
  shows "settled s' \<and> ss_db s' = ss_db s
    \<and> (\<forall>n. r = Inr n \<longrightarrow> n = (if seed_addresses (ss_db s) = [] \<and> (keep \<or> tn_id ` set (tenants (ss_db s)) \<inter> set seedIds = {}) then 0 else 1))"
  using assms(1) unfolding cleanup_verify_def
proof (cases rule: sbind_any)
  case (1 e)
  then show ?thesis using reads_result(2) [OF 1(1) assms(2)] by simp
next
  case (2 n s1)
  note A = reads_result(2) [OF 2(1) assms(2)]
  from 2(2) show ?thesis
  proof (cases rule: sbind_any)
    case (1 e)
    then show ?thesis using reads_result(2) [OF 1(1)] A by simp
  next
    case (2 m s2)
    note B = reads_result(2) [OF 2(1)]
    have "n = 0 \<longleftrightarrow> seed_addresses (ss_db s) = []" using A by (simp add: seed_addresses_def)
    moreover have "m = 0 \<longleftrightarrow> tn_id ` set (tenants (ss_db s)) \<inter> set seedIds = {}"
      using A B by (auto simp: filter_empty_conv)
    moreover have "r = Inr (if n = 0 \<and> (keep \<or> m = 0) then 0 else 1)" "s2 = s'"
      using 2(2) by (auto simp: sreturn_def)
    ultimately show ?thesis using A B by simp
  qed
qed

lemma superuser_result:
  assumes "(if b then set_replica else sreturn ()) E s = (r, s')" "settled s" "\<not> ss_replica s"
  shows "settled s' \<and> ss_db s' = ss_db s \<and> (\<forall>a. r = Inr a \<longrightarrow> ss_replica s' = b)"
proof (cases b)
  case True
  then show ?thesis using reads_result(3) [of E s r s'] assms by simp
qed (use assms in \<open>auto simp: sreturn_def\<close>)

lemma torn_down_ids: "\<not> keep \<Longrightarrow> tn_id ` set (tenants (torn_down keep d)) \<inter> set seedIds = {}"
  by (auto simp: torn_down_def)

definition unreferred :: "db \<Rightarrow> bool" where
  "unreferred d \<longleftrightarrow> (\<forall>t\<in>set (tenants d). tn_id t \<in> set seedIds \<longrightarrow> \<not> refers_tenant (wiped (set seedIds) d) (tn_id t))"

lemma tenants_step_result:
  assumes "(if keep then sreturn 0 else delete_tenants) E s = (r, s')" "settled s" "ss_db s = wiped (set seedIds) d"
  shows "(\<exists>e. r = Inl e \<and> ss_committed s' = ss_db s)
    \<or> (\<exists>n. r = Inr n \<and> settled s' \<and> ss_db s' = torn_down keep d \<and> (keep \<or> ss_replica s \<or> unreferred d))"
proof (cases keep)
  case False
  then show ?thesis
    using delete_tenants_result [of E s r s'] assms by (auto simp: torn_down_def unreferred_def)
qed (use assms in \<open>auto simp: sreturn_def torn_down_def\<close>)

lemma cleanup_body_result:
  assumes "cleanup_body super keep E s = (r, s')" "settled s" "\<not> ss_replica s"
  shows "(\<exists>e m. r = Inl e \<and> ss_committed s' \<in> {wiped (set (take m seedIds)) (ss_db s), torn_down keep (ss_db s)})
    \<or> (r = Inr (if seed_addresses (torn_down keep (ss_db s)) = [] then 0 else 1) \<and> ss_committed s' = torn_down keep (ss_db s)
      \<and> (keep \<or> super \<or> unreferred (ss_db s)))"
    (is "?fails \<or> ?ok")
proof -
  have ids: "sd_id ` set (take m TENANTS) = set (take m seedIds)" "sd_id ` set TENANTS = set seedIds" for m
    by (simp_all add: seedIds_def take_map)
  have early: "?fails" if "r = Inl e" "ss_committed s' = wiped (set (take m seedIds)) (ss_db s)" for e m
    using that by blast
  from assms(1) show ?thesis unfolding cleanup_body_def
  proof (cases rule: sbind_any)
    case (1 e)
    then show ?thesis using reads_result(1) [OF 1(1) assms(2)] early [of e 0] by (simp add: settled_def)
  next
    case (2 s0 s1)
    have s1: "settled s1" "ss_db s1 = ss_db s" "\<not> ss_replica s1" "s0 = super"
      using reads_result(1) [OF 2(1) assms(2)] assms(3) by simp_all
    from 2(2) show ?thesis
    proof (cases rule: sbind_any)
      case (1 e)
      then show ?thesis using superuser_result [OF 1(1) s1(1,3)] s1(2) early [of e 0] by (simp add: settled_def)
    next
      case (2 u s2)
      have s2: "settled s2" "ss_db s2 = ss_db s" "ss_replica s2 = super"
        using superuser_result [OF 2(1) s1(1,3)] s1(2,4) by simp_all
      from 2(2) show ?thesis
      proof (cases rule: sbind_any)
        case (1 e)
        then show ?thesis using cleanup_tenants_result [OF 1(1) s2(1)] s2(2) early ids by auto
      next
        case (2 l s3)
        have s3: "settled s3" "ss_db s3 = wiped (set seedIds) (ss_db s)" "ss_replica s3 = super"
          using cleanup_tenants_result [OF 2(1) s2(1)] s2(2,3) ids(2) by auto
        from 2(2) show ?thesis
        proof (cases rule: sbind_any)
          case (1 e)
          then show ?thesis
            using tenants_step_result [OF 1(1) s3(1,2)] s3(2) early [of e "length seedIds"] by simp
        next
          case (2 n s4)
          have s4: "settled s4" "ss_db s4 = torn_down keep (ss_db s)" "keep \<or> super \<or> unreferred (ss_db s)"
            using tenants_step_result [OF 2(1) s3(1,2)] s3(3) by auto
          note V = cleanup_verify_result [OF 2(2) s4(1)]
          have d: "ss_committed s' = torn_down keep (ss_db s)" using V s4(2) by (simp add: settled_def)
          show ?thesis
          proof (cases r)
            case (Inl e)
            then show ?thesis using d by blast
          next
            case (Inr c)
            have "keep \<or> tn_id ` set (tenants (ss_db s4)) \<inter> set seedIds = {}"
              using torn_down_ids [of keep "ss_db s"] s4(2) by (cases keep) simp_all
            then have "c = (if seed_addresses (torn_down keep (ss_db s)) = [] then 0 else 1)"
              using V Inr s4(2) by simp
            then show ?thesis using Inr d s4(3) by blast
          qed
        qed
      qed
    qed
  qed
qed

lemma cleanup_main_result:
  assumes "cleanup_main superuser process_env argv E d = (r, d')"
  shows "(\<exists>e m. r = Inl e \<and> d' \<in> {wiped (set (take m seedIds)) d, torn_down (''--keep-tenants'' \<in> set argv) d})
    \<or> (\<exists>url. cleanup_url process_env = Inr url \<and> d' = torn_down (''--keep-tenants'' \<in> set argv) d
      \<and> r = Inr (if seed_addresses d' = [] then 0 else 1)
      \<and> (''--keep-tenants'' \<in> set argv \<or> superuser url \<or> unreferred d))"
proof (cases "cleanup_url process_env")
  case (Inl e)
  then have "r = Inl e" "d' = wiped (set (take 0 seedIds)) d" using assms by (simp_all add: cleanup_main_def)
  then show ?thesis by blast
next
  case (Inr url)
  let ?s = "\<lparr>ss_db = d, ss_committed = d, ss_open = False, ss_replica = False, ss_tick = 0\<rparr>"
  obtain s' where "cleanup_body (superuser url) (''--keep-tenants'' \<in> set argv) E ?s = (r, s')" "d' = ss_committed s'"
    using assms Inr by (auto simp: cleanup_main_def split: prod.splits)
  then show ?thesis
    using cleanup_body_result [of "superuser url" "''--keep-tenants'' \<in> set argv" E ?s r s'] Inr by (auto simp: settled_def)
qed

section \<open>What a teardown leaves\<close>

text \<open>
  C40. The teardown is atomic for each tenant and exact when it ends, whatever fails. A run that throws leaves
  the tables without the rows of the first few seed tenants, in the order of \<open>TENANTS\<close>, and everything else as
  it was, or it threw in the verification and all is done; a run that returns has removed all rows of the
  seed tenants from the six tables, and the tenants unless they were to be kept, and nothing else, and it
  confirms (exit code 0) just when no address of the reserved domain is left.
\<close>

theorem cleanup_is_atomic:
  "case cleanup_main superuser process_env argv E d of
     (Inl e, d') \<Rightarrow> (\<exists>m. d' = wiped (set (take m seedIds)) d) \<or> d' = torn_down (''--keep-tenants'' \<in> set argv) d
   | (Inr n, d') \<Rightarrow> d' = torn_down (''--keep-tenants'' \<in> set argv) d \<and> (n = 0 \<longleftrightarrow> seed_addresses d' = [])"
proof -
  obtain r d' where m: "cleanup_main superuser process_env argv E d = (r, d')" by force
  show ?thesis using cleanup_main_result [OF m] m by (cases r) (auto split: if_splits)
qed

text \<open>
  The teardown orphans the audit trail. When a seed tenant has an audit event, as it has after any
  audited request for it, a run without \<open>--keep-tenants\<close> returns only as the superuser, and then the event is
  still there and its tenant is gone, a row that breaks the foreign key of \<open>audit_events\<close>, although the
  header says that \<open>no orphan is ever created\<close>; as any other role the run throws.
\<close>

lemma cleanup_orphans_audit:
  assumes "a \<in> set (auditEvents d)" and "au_tenantId a \<in> set seedIds" and "au_tenantId a \<in> tn_id ` set (tenants d)"
    and "''--keep-tenants'' \<notin> set argv" and "cleanup_main superuser process_env argv E d = (Inr n, d')"
  shows "(\<exists>url. cleanup_url process_env = Inr url \<and> superuser url)
    \<and> a \<in> set (auditEvents d') \<and> au_tenantId a \<notin> tn_id ` set (tenants d')"
proof -
  have "refers_tenant (wiped (set seedIds) d) (au_tenantId a)"
    using assms(1) by (simp add: refers_tenant_def)
  then have "\<not> unreferred d" using assms(2,3) unfolding unreferred_def by auto
  moreover have "a \<in> set (auditEvents (torn_down False d))" "au_tenantId a \<notin> tn_id ` set (tenants (torn_down False d))"
    using assms(1,2) by (auto simp: torn_down_def)
  ultimately show ?thesis using cleanup_main_result [OF assms(5)] assms(4) by auto
qed

text \<open>With the checks off and no statement failing, every step succeeds.\<close>

definition goes :: "'a session_op \<Rightarrow> bool" where
  "goes m \<longleftrightarrow> (\<forall>E s. quiet E \<longrightarrow> ss_replica s \<longrightarrow> (\<exists>a s'. m E s = (Inr a, s') \<and> ss_replica s'))"

lemma goes_return: "goes (sreturn a)"
  by (simp add: goes_def sreturn_def)

lemma goes_bind: "goes m \<Longrightarrow> (\<And>a. goes (k a)) \<Longrightarrow> goes (sbind m k)"
  unfolding goes_def sbind_def by fastforce

lemma goes_statements:
  "goes client_begin" "goes client_commit" "goes (delete_rows get put refers p)" "goes (count_rows get q)"
  unfolding goes_def client_begin_def client_commit_def delete_rows_def count_rows_def
  by (simp_all add: client_query_def quiet_def Let_def)

lemma goes_each: "list_all (\<lambda>p. goes (snd p t)) stmts \<Longrightarrow> goes (delete_each stmts t)"
  by (induction stmts t rule: delete_each.induct) (auto intro!: goes_bind goes_return)

lemma goes_tenants: "goes (cleanup_tenants ts)"
proof (induction ts)
  case (Cons t ts)
  have "goes (delete_each PER_TENANT_DELETES (sd_id t))"
    by (rule goes_each) (simp add: PER_TENANT_DELETES_def delete_of_def goes_statements)
  then show ?case using Cons by (auto simp: cleanup_tenant_def intro!: goes_bind goes_return goes_statements)
qed (simp add: goes_return)

lemma cleanup_completes:
  assumes "quiet E" and "cleanup_url process_env = Inr url" and "superuser url"
  shows "\<exists>n d'. cleanup_main superuser process_env argv E d = (Inr n, d')"
proof -
  let ?keep = "''--keep-tenants'' \<in> set argv"
  let ?rest = "sbind (cleanup_tenants TENANTS) (\<lambda>log. sbind (if ?keep then sreturn 0 else delete_tenants) (\<lambda>deleted. cleanup_verify ?keep))"
  have rest: "goes ?rest"
    unfolding cleanup_verify_def delete_tenants_def by (auto intro!: goes_bind goes_return goes_statements goes_tenants)
  have "\<exists>a s'. cleanup_body True ?keep E s = (Inr a, s')" for s
  proof -
    obtain s1 where 1: "client_query (\<lambda>s. Inr (True, s)) E s = (Inr True, s1)"
      using assms(1) by (simp add: client_query_def quiet_def Let_def)
    obtain s2 where 2: "set_replica E s1 = (Inr (), s2)" "ss_replica s2"
      using assms(1) by (auto simp: set_replica_def client_query_def quiet_def Let_def)
    obtain a s' where "?rest E s2 = (Inr a, s')" using rest assms(1) 2(2) unfolding goes_def by blast
    then show ?thesis using 1 2(1) by (simp add: cleanup_body_def sbind_def)
  qed
  then show ?thesis using assms(2,3) by (auto simp: cleanup_main_def split: prod.split) (metis prod.inject)
qed

definition audited_db :: db where
  "audited_db = sample_db\<lparr>
     tenants := tenants sample_db @ [\<lparr>tn_id = sd_id (hd TENANTS), tn_name = ''Alpha Corp'', tn_slug = ''seed-alpha-corp'',
       tn_status = TenantActive, tn_createdAt = 0\<rparr>],
     auditEvents := [\<lparr>au_id = sample_uuid 31, au_tenantId = sd_id (hd TENANTS), au_correlationId = sample_uuid 7,
       au_requestId = None, au_actorUserId = Some ''user-1'', au_actorIp = None, au_actorUserAgent = None,
       au_action = IMPORT_BATCH_COMPLETED, au_entityType = ''import'', au_entityId = None, au_beforeState = None,
       au_afterState = None, au_outcome = SUCCESS, au_reason = None, au_createdAt = 3\<rparr>]\<rparr>"

definition cleanup_env :: "string \<Rightarrow> string option" where
  "cleanup_env = [''DATABASE_ADMIN_URL'' \<mapsto> ''postgres://postgres@localhost/e0db'']"

lemma cleanup_orphans_audit_witness:
  "hd (auditEvents audited_db) \<in> set (auditEvents (snd (cleanup_main (\<lambda>_. True) cleanup_env [] sample_env audited_db)))
    \<and> au_tenantId (hd (auditEvents audited_db)) \<notin> tn_id ` set (tenants (snd (cleanup_main (\<lambda>_. True) cleanup_env [] sample_env audited_db)))"
proof -
  let ?run = "cleanup_main (\<lambda>_. True) cleanup_env [] sample_env audited_db"
  have url: "cleanup_url cleanup_env = Inr ''postgres://postgres@localhost/e0db''" by code_simp
  obtain n d' where m: "?run = (Inr n, d')"
    using cleanup_completes [OF quiet_sample url TrueI] by blast
  have h: "hd (auditEvents audited_db) \<in> set (auditEvents audited_db)" "au_tenantId (hd (auditEvents audited_db)) \<in> set seedIds"
    "au_tenantId (hd (auditEvents audited_db)) \<in> tn_id ` set (tenants audited_db)" "''--keep-tenants'' \<notin> set []"
    by (simp_all add: audited_db_def seedIds_def TENANTS_def)
  show ?thesis using cleanup_orphans_audit [OF h m] m by simp
qed

end
