(* ===== verification/SeedUsers.thy ===== *)
theory SeedUsers
  imports Seed
begin

text \<open>
  The tools that talk to the identity provider: \<open>tools/seed/keycloak-users.ts\<close>, which provisions and removes
  one user for each seed tenant, and \<open>tools/load-tests/lib/fetch-tokens.ts\<close>, which logs each of them in. The
  service behind \<open>fetch\<close> is a parameter: any function from a call and its own state to a reply, or to the
  message with which \<open>fetch\<close> rejects. What is sent is recorded, and the lines that are logged are left out.
\<close>

section \<open>fetch\<close>

datatype http_method = GET | POST | PUT | DELETE

datatype http_payload = NoBody | Form "(string \<times> string) list" | Json json

record http_call =
  hc_method :: http_method
  hc_url :: string
  hc_headers :: "(string \<times> string) list"
  hc_body :: http_payload

text \<open>\<open>res.json()\<close> rejects when the body is no JSON (\<open>None\<close>).\<close>

record http_reply =
  hr_status :: nat
  hr_text :: string
  hr_json :: "json option"

type_synonym 'k http_service = "http_call \<Rightarrow> 'k \<Rightarrow> (string + http_reply) \<times> 'k"

record 'k web =
  wb_state :: 'k
  wb_sent :: "http_call list"

type_synonym ('k, 'a) web_op = "'k http_service \<Rightarrow> 'k web \<Rightarrow> (exn + 'a) \<times> 'k web"

definition wresult :: "exn + 'a \<Rightarrow> ('k, 'a) web_op" where
  "wresult r S w = (r, w)"

abbreviation wreturn :: "'a \<Rightarrow> ('k, 'a) web_op" where
  "wreturn a \<equiv> wresult (Inr a)"

abbreviation wthrow :: "string \<Rightarrow> ('k, 'a) web_op" where
  "wthrow message \<equiv> wresult (Inl (JsError message))"

definition wbind :: "('k, 'a) web_op \<Rightarrow> ('a \<Rightarrow> ('k, 'b) web_op) \<Rightarrow> ('k, 'b) web_op" where
  "wbind m k S w = (case m S w of (Inl e, w') \<Rightarrow> (Inl e, w') | (Inr a, w') \<Rightarrow> k a S w')"

definition fetch :: "http_call \<Rightarrow> ('k, http_reply) web_op" where
  "fetch c S w =
     (case S c (wb_state w) of
        (r, k) \<Rightarrow> (case r of Inl m \<Rightarrow> Inl (JsError m) | Inr x \<Rightarrow> Inr x, \<lparr>wb_state = k, wb_sent = wb_sent w @ [c]\<rparr>))"

definition res_ok :: "http_reply \<Rightarrow> bool" where
  "res_ok res \<longleftrightarrow> 200 \<le> hr_status res \<and> hr_status res \<le> 299"

definition res_json :: "http_reply \<Rightarrow> exn + json" where
  "res_json res = (case hr_json res of None \<Rightarrow> Inl (JsError ''Unexpected token in JSON'') | Some j \<Rightarrow> Inr j)"

section \<open>JSON values in expressions\<close>

text \<open>\<open>j.k\<close>: a \<open>TypeError\<close> on \<open>null\<close>, \<open>undefined\<close> where there is no such property.\<close>

fun field :: "string \<Rightarrow> json \<Rightarrow> exn + json option" where
  "field k JNull = Inl (JsError ''Cannot read properties of null'')"
| "field k (JObj fs) = Inr (map_of fs k)"
| "field k j = Inr None"

text \<open>\<open>j.k = v\<close>: an array keeps the property out of its JSON text, a primitive value has none (strict mode).\<close>

fun set_field :: "string \<Rightarrow> json \<Rightarrow> json \<Rightarrow> exn + json" where
  "set_field k v (JObj fs) = Inr (JObj (if k \<in> fst ` set fs then map (\<lambda>(n, x). if n = k then (n, v) else (n, x)) fs else fs @ [(k, v)]))"
| "set_field k v (JList xs) = Inr (JList xs)"
| "set_field k v j = Inl (JsError ''Cannot create property on primitive value'')"

fun json_truthy :: "json option \<Rightarrow> bool" where
  "json_truthy None = False"
| "json_truthy (Some JNull) = False"
| "json_truthy (Some (JBool b)) = b"
| "json_truthy (Some (JNum n)) = (n \<noteq> 0)"
| "json_truthy (Some (JStr s)) = (s \<noteq> [])"
| "json_truthy (Some j) = True"

text \<open>A value inside a template literal.\<close>

fun json_text :: "json \<Rightarrow> string" where
  "json_text JNull = ''null''"
| "json_text (JBool b) = (if b then ''true'' else ''false'')"
| "json_text (JNum n) = dec_int n"
| "json_text (JStr s) = s"
| "json_text (JList xs) = join '','' (map (\<lambda>x. if x = JNull then [] else json_text x) xs)"
| "json_text (JObj fs) = ''[object Object]''"

definition template :: "json option \<Rightarrow> string" where
  "template j = (case j of None \<Rightarrow> ''undefined'' | Some x \<Rightarrow> json_text x)"

text \<open>\<open>encodeURIComponent\<close> on text of 8-bit characters.\<close>

definition hex_digit :: "nat \<Rightarrow> char" where
  "hex_digit n = (if n < 10 then digit_char n else char_of (55 + n))"

definition percent :: "nat \<Rightarrow> string" where
  "percent n = [CHR ''%'', hex_digit (n div 16), hex_digit (n mod 16)]"

definition encode_char :: "char \<Rightarrow> string" where
  "encode_char c =
     (let n = (of_char c :: nat)
      in if is_digit c \<or> (65 \<le> n \<and> n \<le> 90) \<or> (97 \<le> n \<and> n \<le> 122) \<or> c \<in> set ''-_.!~*()'' \<or> n = 39 then [c]
         else if n < 128 then percent n
         else percent (192 + n div 64) @ percent (128 + n mod 64))"

definition encodeURIComponent :: "string \<Rightarrow> string" where
  "encodeURIComponent s = concat (map encode_char s)"

section \<open>config.ts: the users\<close>

record seed_kc_user =
  ku_username :: string
  ku_tenantSlug :: string
  ku_firstName :: string
  ku_lastName :: string

definition SEED_KC_PASSWORD :: string where "SEED_KC_PASSWORD = ''SeedPass123!''"
definition SEED_KC_ROLE :: string where "SEED_KC_ROLE = ''hr-manager''"

definition SEED_KC_USERS :: "seed_kc_user list" where
  "SEED_KC_USERS = map (\<lambda>(i, t). \<lparr>ku_username = ''seed-e6-'' @ sd_slug t @ ''@e6.local'', ku_tenantSlug = sd_slug t,
     ku_firstName = ''SeedE6'', ku_lastName = ''T'' @ dec (i + 1)\<rparr>) (enumerate 0 TENANTS)"

section \<open>keycloak-users.ts\<close>

definition REALM :: string where "REALM = ''e0-test''"

definition adminBase :: "(string \<Rightarrow> string option) \<Rightarrow> exn + string" where
  "adminBase process_env =
     (if truthy (process_env ''KEYCLOAK_ADMIN_URL'') then Inr (the (process_env ''KEYCLOAK_ADMIN_URL''))
      else Inl (JsError ''KEYCLOAK_ADMIN_URL is not set''))"

definition getAdminToken :: "(string \<Rightarrow> string option) \<Rightarrow> ('k, json option) web_op" where
  "getAdminToken process_env =
     (let body = [(''grant_type'', ''password''), (''client_id'', ''admin-cli''),
                  (''username'', nullish (process_env ''KEYCLOAK_ADMIN_USER'') ''admin''),
                  (''password'', nullish (process_env ''KEYCLOAK_ADMIN_PASS'') ''admin'')]
      in wbind (wresult (adminBase process_env)) (\<lambda>base.
         wbind (fetch \<lparr>hc_method = POST, hc_url = base @ ''/realms/master/protocol/openid-connect/token'',
           hc_headers = [(''Content-Type'', ''application/x-www-form-urlencoded'')], hc_body = Form body\<rparr>) (\<lambda>res.
         if \<not> res_ok res then wthrow (''admin token request failed: '' @ dec (hr_status res))
         else wbind (wresult (res_json res)) (\<lambda>j. wresult (field ''access_token'' j)))))"

text \<open>\<open>api(token)\<close>: a call under the realm's admin path, with its headers.\<close>

record kc_api =
  ka_base :: string
  ka_headers :: "(string \<times> string) list"

definition api :: "(string \<Rightarrow> string option) \<Rightarrow> json option \<Rightarrow> exn + kc_api" where
  "api process_env token =
     (case adminBase process_env of
        Inl e \<Rightarrow> Inl e
      | Inr base \<Rightarrow> Inr \<lparr>ka_base = base @ ''/admin/realms/'' @ REALM,
          ka_headers = [(''Content-Type'', ''application/json''), (''Authorization'', ''Bearer '' @ template token)]\<rparr>)"

definition kc_call :: "kc_api \<Rightarrow> http_method \<Rightarrow> string \<Rightarrow> http_payload \<Rightarrow> http_call" where
  "kc_call a method p b = \<lparr>hc_method = method, hc_url = ka_base a @ p, hc_headers = ka_headers a, hc_body = b\<rparr>"

definition api_get :: "kc_api \<Rightarrow> string \<Rightarrow> ('k, http_reply) web_op" where
  "api_get a p = fetch (kc_call a GET p NoBody)"
definition api_post :: "kc_api \<Rightarrow> string \<Rightarrow> json \<Rightarrow> ('k, http_reply) web_op" where
  "api_post a p b = fetch (kc_call a POST p (Json b))"
definition api_put :: "kc_api \<Rightarrow> string \<Rightarrow> json \<Rightarrow> ('k, http_reply) web_op" where
  "api_put a p b = fetch (kc_call a PUT p (Json b))"
definition api_del :: "kc_api \<Rightarrow> string \<Rightarrow> ('k, http_reply) web_op" where
  "api_del a p = fetch (kc_call a DELETE p NoBody)"

text \<open>\<open>attrs.some(...)\<close> and \<open>attrs.filter(...)\<close> on the name \<open>org_slug\<close>.\<close>

fun some_named :: "json list \<Rightarrow> exn + bool" where
  "some_named [] = Inr False"
| "some_named (x # xs) =
     (case field ''name'' x of Inl e \<Rightarrow> Inl e
      | Inr n \<Rightarrow> if n = Some (JStr ''org_slug'') then Inr True else some_named xs)"

fun drop_named :: "json list \<Rightarrow> exn + json list" where
  "drop_named [] = Inr []"
| "drop_named (x # xs) =
     (case field ''name'' x of Inl e \<Rightarrow> Inl e
      | Inr n \<Rightarrow> (case drop_named xs of Inl e \<Rightarrow> Inl e
          | Inr ys \<Rightarrow> Inr (if n = Some (JStr ''org_slug'') then ys else x # ys)))"

definition ORG_SLUG_ATTRIBUTE :: json where
  "ORG_SLUG_ATTRIBUTE = JObj
     [(''name'', JStr ''org_slug''), (''displayName'', JStr ''Organization slug''),
      (''validations'', JObj [(''length'', JObj [(''max'', JNum 255)])]),
      (''permissions'', JObj [(''view'', JList [JStr ''admin'', JStr ''user'']), (''edit'', JList [JStr ''admin''])]),
      (''multivalued'', JBool False), (''group'', JStr ''user-metadata'')]"

text \<open>The new list of attributes, or \<open>None\<close> when there is nothing to do.\<close>

definition org_slug_attributes :: "bool \<Rightarrow> json \<Rightarrow> exn + json list option" where
  "org_slug_attributes remove cfg =
     (case field ''attributes'' cfg of Inl e \<Rightarrow> Inl e
      | Inr x \<Rightarrow>
          (case (case x of None \<Rightarrow> Inr [] | Some JNull \<Rightarrow> Inr [] | Some (JList xs) \<Rightarrow> Inr xs
                 | Some _ \<Rightarrow> Inl (JsError ''attrs.some is not a function'')) of
             Inl e \<Rightarrow> Inl e
           | Inr attrs \<Rightarrow>
               (case some_named attrs of Inl e \<Rightarrow> Inl e
                | Inr has \<Rightarrow>
                    if remove then (if \<not> has then Inr None
                      else case drop_named attrs of Inl e \<Rightarrow> Inl e | Inr ys \<Rightarrow> Inr (Some ys))
                    else if has then Inr None else Inr (Some (attrs @ [ORG_SLUG_ATTRIBUTE])))))"

definition ensureOrgSlugAttribute :: "kc_api \<Rightarrow> bool \<Rightarrow> ('k, unit) web_op" where
  "ensureOrgSlugAttribute a remove =
     wbind (api_get a ''/users/profile'') (\<lambda>res.
     if \<not> res_ok res then wthrow (''get users/profile failed: '' @ dec (hr_status res))
     else wbind (wresult (res_json res)) (\<lambda>cfg.
     wbind (wresult (org_slug_attributes remove cfg)) (\<lambda>next.
     case next of None \<Rightarrow> wreturn ()
     | Some attrs \<Rightarrow>
         wbind (wresult (set_field ''attributes'' (JList attrs) cfg)) (\<lambda>cfg'.
         wbind (api_put a ''/users/profile'' cfg') (\<lambda>put.
         if \<not> res_ok put then wthrow (''put users/profile failed: '' @ dec (hr_status put) @ '' '' @ hr_text put)
         else wreturn ())))))"

text \<open>\<open>rows[0]?.id ?? null\<close>, \<open>None\<close> for \<open>null\<close>.\<close>

fun first_id :: "json \<Rightarrow> exn + json option" where
  "first_id JNull = Inl (JsError ''Cannot read properties of null'')"
| "first_id (JList (x # xs)) = (if x = JNull then Inr None
     else case field ''id'' x of Inl e \<Rightarrow> Inl e | Inr i \<Rightarrow> Inr (if i = Some JNull then None else i))"
| "first_id (JObj fs) = (case map_of fs ''0'' of None \<Rightarrow> Inr None
     | Some x \<Rightarrow> if x = JNull then Inr None
         else case field ''id'' x of Inl e \<Rightarrow> Inl e | Inr i \<Rightarrow> Inr (if i = Some JNull then None else i))"
| "first_id j = Inr None"

definition findUserId :: "kc_api \<Rightarrow> string \<Rightarrow> ('k, json option) web_op" where
  "findUserId a username =
     wbind (api_get a (''/users?username='' @ encodeURIComponent username @ ''&exact=true'')) (\<lambda>res.
     if \<not> res_ok res then wthrow (''user lookup failed for '' @ username @ '': '' @ dec (hr_status res))
     else wbind (wresult (res_json res)) (\<lambda>rows. wresult (first_id rows)))"

definition user_rep :: "seed_kc_user \<Rightarrow> json" where
  "user_rep u = JObj
     [(''username'', JStr (ku_username u)), (''email'', JStr (ku_username u)), (''firstName'', JStr (ku_firstName u)),
      (''lastName'', JStr (ku_lastName u)), (''enabled'', JBool True), (''emailVerified'', JBool True),
      (''requiredActions'', JList []), (''attributes'', JObj [(''org_slug'', JList [JStr (ku_tenantSlug u)])]),
      (''credentials'', JList [JObj [(''type'', JStr ''password''), (''value'', JStr SEED_KC_PASSWORD), (''temporary'', JBool False)]])]"

text \<open>The two branches of the loop over the users.\<close>

definition remove_user :: "kc_api \<Rightarrow> seed_kc_user \<Rightarrow> ('k, unit) web_op" where
  "remove_user a u =
     wbind (findUserId a (ku_username u)) (\<lambda>existingId.
     if json_truthy existingId then wbind (api_del a (''/users/'' @ template existingId)) (\<lambda>r. wreturn ())
     else wreturn ())"

definition provision_user :: "kc_api \<Rightarrow> json \<Rightarrow> seed_kc_user \<Rightarrow> ('k, unit) web_op" where
  "provision_user a roleRep u =
     wbind (findUserId a (ku_username u)) (\<lambda>existingId.
     wbind (if json_truthy existingId
       then wbind (api_put a (''/users/'' @ template existingId) (user_rep u)) (\<lambda>r.
         if \<not> res_ok r then wthrow (''update '' @ ku_username u @ '' failed: '' @ dec (hr_status r)) else wreturn existingId)
       else wbind (api_post a ''/users'' (user_rep u)) (\<lambda>r.
         if \<not> res_ok r \<and> hr_status r \<noteq> 409
         then wthrow (''create '' @ ku_username u @ '' failed: '' @ dec (hr_status r) @ '' '' @ hr_text r)
         else findUserId a (ku_username u))) (\<lambda>userId.
     if \<not> json_truthy userId then wthrow (''could not resolve id for '' @ ku_username u)
     else wbind (api_post a (''/users/'' @ template userId @ ''/role-mappings/realm'') (JList [roleRep])) (\<lambda>rm.
       if \<not> res_ok rm \<and> hr_status rm \<noteq> 409 then wthrow (''role assign '' @ ku_username u @ '' failed: '' @ dec (hr_status rm))
       else wreturn ())))"

fun wforeach :: "('u \<Rightarrow> ('k, unit) web_op) \<Rightarrow> 'u list \<Rightarrow> ('k, unit) web_op" where
  "wforeach body [] = wreturn ()"
| "wforeach body (u # us) = wbind (body u) (\<lambda>_. wforeach body us)"

definition seed_users_main :: "(string \<Rightarrow> string option) \<Rightarrow> string list \<Rightarrow> ('k, unit) web_op" where
  "seed_users_main process_env argv =
     (let del = ''--delete'' \<in> set argv
      in wbind (getAdminToken process_env) (\<lambda>token.
         wbind (wresult (api process_env token)) (\<lambda>a.
         wbind (if \<not> del then ensureOrgSlugAttribute a False else wreturn ()) (\<lambda>_.
         wbind (api_get a (''/roles/'' @ SEED_KC_ROLE)) (\<lambda>roleRes.
         if \<not> res_ok roleRes then wthrow (''realm role '' @ [char_of (39 :: nat)] @ SEED_KC_ROLE @ [char_of (39 :: nat)] @ '' not found: '' @ dec (hr_status roleRes))
         else wbind (wresult (res_json roleRes)) (\<lambda>roleRep.
         wbind (wforeach (\<lambda>u. if del then remove_user a u else provision_user a roleRep u) SEED_KC_USERS) (\<lambda>_.
         if del then ensureOrgSlugAttribute a True else wreturn ())))))))"

section \<open>fetch-tokens.ts\<close>

text \<open>\<open>JSON.stringify\<close> without an indent.\<close>

definition escape_char :: "char \<Rightarrow> string" where
  "escape_char c =
     (let n = (of_char c :: nat); bs = char_of (92 :: nat)
      in if n = 34 \<or> n = 92 then [bs, c]
         else if n = 8 then [bs, CHR ''b''] else if n = 9 then [bs, CHR ''t''] else if n = 10 then [bs, CHR ''n'']
         else if n = 12 then [bs, CHR ''f''] else if n = 13 then [bs, CHR ''r'']
         else if n < 32 then [bs, CHR ''u'', CHR ''0'', CHR ''0'', digit_char (n div 16),
           (if n mod 16 < 10 then digit_char (n mod 16) else char_of (87 + n mod 16))]
         else [c])"

definition quoted :: "string \<Rightarrow> string" where
  "quoted s = char_of (34 :: nat) # concat (map escape_char s) @ [char_of (34 :: nat)]"

fun stringify :: "json \<Rightarrow> string" where
  "stringify JNull = ''null''"
| "stringify (JBool b) = (if b then ''true'' else ''false'')"
| "stringify (JNum n) = dec_int n"
| "stringify (JStr s) = quoted s"
| "stringify (JList xs) = ''['' @ join '','' (map stringify xs) @ '']''"
| "stringify (JObj fs) = ''{'' @ join '','' (map (\<lambda>(k, x). quoted k @ '':'' @ stringify x) fs) @ ''}''"

record token_entry =
  te_tenantId :: string
  te_tenantName :: string
  te_tenantSlug :: string
  te_username :: string
  te_accessToken :: string

definition tokenFor :: "(string \<Rightarrow> string option) \<Rightarrow> string \<Rightarrow> ('k, string) web_op" where
  "tokenFor process_env username =
     (let issuer = process_env ''KEYCLOAK_ISSUER''; clientId = nullish (process_env ''KEYCLOAK_CLIENT_ID'') ''e0-api''
      in if \<not> truthy issuer then wthrow ''KEYCLOAK_ISSUER is not set (expected in .env.local)''
         else wbind (fetch \<lparr>hc_method = POST, hc_url = the issuer @ ''/protocol/openid-connect/token'',
             hc_headers = [(''Content-Type'', ''application/x-www-form-urlencoded'')],
             hc_body = Form [(''grant_type'', ''password''), (''client_id'', clientId), (''username'', username), (''password'', SEED_KC_PASSWORD)]\<rparr>) (\<lambda>res.
           let j = (case hr_json res of None \<Rightarrow> JObj [] | Some x \<Rightarrow> x);
               failed = wthrow (''token request failed for '' @ username @ '': '' @ dec (hr_status res) @ '' '' @ stringify j)
           in if hr_status res \<noteq> 200 then failed
              else wbind (wresult (field ''access_token'' j)) (\<lambda>t. case t of Some (JStr token) \<Rightarrow> wreturn token | _ \<Rightarrow> failed)))"

fun fetch_entries :: "(string \<Rightarrow> string option) \<Rightarrow> seed_tenant list \<Rightarrow> ('k, token_entry list) web_op" where
  "fetch_entries process_env [] = wreturn []"
| "fetch_entries process_env (tenant # rest) =
     (case filter (\<lambda>u. ku_tenantSlug u = sd_slug tenant) SEED_KC_USERS of
        [] \<Rightarrow> wthrow (''no seed KC user configured for '' @ sd_slug tenant)
      | user # _ \<Rightarrow>
          wbind (tokenFor process_env (ku_username user)) (\<lambda>accessToken.
          wbind (fetch_entries process_env rest) (\<lambda>entries.
          wreturn (\<lparr>te_tenantId = sd_id tenant, te_tenantName = sd_name tenant, te_tenantSlug = sd_slug tenant,
            te_username = ku_username user, te_accessToken = accessToken\<rparr> # entries))))"

definition entry_json :: "token_entry \<Rightarrow> json" where
  "entry_json e = JObj [(''tenantId'', JStr (te_tenantId e)), (''tenantName'', JStr (te_tenantName e)),
     (''tenantSlug'', JStr (te_tenantSlug e)), (''username'', JStr (te_username e)), (''accessToken'', JStr (te_accessToken e))]"

text \<open>What is written to \<open>.tokens.json\<close>, as a value.\<close>

definition fetch_tokens_main :: "(string \<Rightarrow> string option) \<Rightarrow> instant \<Rightarrow> ('k, json) web_op" where
  "fetch_tokens_main process_env now = wbind (fetch_entries process_env TENANTS) (\<lambda>entries.
     wreturn (JObj [(''issuedAt'', JStr (toISOString now)), (''tenants'', JList (map entry_json entries))]))"

section \<open>What a run sends\<close>

lemma wbind_ok:
  assumes "wbind m k S w = (Inr b, w')"
  obtains a w1 where "m S w = (Inr a, w1)" "k a S w1 = (Inr b, w')"
  using assms by (auto simp: wbind_def split: prod.splits sum.splits)

lemma wresult_ok [simp]: "wresult r S w = (r', w') \<longleftrightarrow> r' = r \<and> w' = w"
  by (auto simp: wresult_def)

lemma own_user: "t \<in> set TENANTS \<Longrightarrow> \<exists>u. filter (\<lambda>u. ku_tenantSlug u = sd_slug t) SEED_KC_USERS = [u]
    \<and> ku_username u = ''seed-e6-'' @ sd_slug t @ ''@e6.local''"
  by (auto simp: TENANTS_def SEED_KC_USERS_def enumerate_eq_zip)

text \<open>One token for each tenant in the order of \<open>TENANTS\<close>, asked for with the user of that tenant.\<close>

lemma fetch_entries_result:
  assumes "fetch_entries process_env ts S w = (Inr entries, w')" "set ts \<subseteq> set TENANTS"
  shows "map te_tenantId entries = map sd_id ts \<and> map te_tenantSlug entries = map sd_slug ts
    \<and> map te_username entries = map (\<lambda>t. ''seed-e6-'' @ sd_slug t @ ''@e6.local'') ts"
  using assms
proof (induction ts arbitrary: w entries)
  case (Cons t ts)
  then obtain u where u: "filter (\<lambda>u. ku_tenantSlug u = sd_slug t) SEED_KC_USERS = [u]"
    "ku_username u = ''seed-e6-'' @ sd_slug t @ ''@e6.local''"
    using own_user [of t] by auto
  from Cons.prems(1) u(1) obtain token w1 entries' where
    "fetch_entries process_env ts S w1 = (Inr entries', w')"
    "entries = \<lparr>te_tenantId = sd_id t, te_tenantName = sd_name t, te_tenantSlug = sd_slug t,
       te_username = ku_username u, te_accessToken = token\<rparr> # entries'"
    by (auto elim!: wbind_ok)
  then show ?case using Cons.IH [of w1 entries'] Cons.prems(2) u(2) by auto
qed simp

section \<open>A deletion that fails\<close>

text \<open>A service that only answers.\<close>

definition answering :: "(http_call \<Rightarrow> http_reply) \<Rightarrow> unit http_service" where
  "answering answer c k = (Inr (answer c), k)"

definition sent :: "unit web \<Rightarrow> http_call list \<Rightarrow> unit web" where
  "sent w cs = w\<lparr>wb_sent := wb_sent w @ cs\<rparr>"

lemma sent_sent [simp]: "sent (sent w cs) cs' = sent w (cs @ cs')"
  by (simp add: sent_def)

lemma fetch_answering: "fetch c (answering answer) w = (Inr (answer c), sent w [c])"
  by (simp add: fetch_def answering_def sent_def)

definition admin_api :: "string \<Rightarrow> string \<Rightarrow> kc_api" where
  "admin_api base tok = \<lparr>ka_base = base @ ''/admin/realms/'' @ REALM,
     ka_headers = [(''Content-Type'', ''application/json''), (''Authorization'', ''Bearer '' @ tok)]\<rparr>"

definition token_call :: "(string \<Rightarrow> string option) \<Rightarrow> string \<Rightarrow> http_call" where
  "token_call process_env base = \<lparr>hc_method = POST, hc_url = base @ ''/realms/master/protocol/openid-connect/token'',
     hc_headers = [(''Content-Type'', ''application/x-www-form-urlencoded'')],
     hc_body = Form [(''grant_type'', ''password''), (''client_id'', ''admin-cli''),
       (''username'', nullish (process_env ''KEYCLOAK_ADMIN_USER'') ''admin''),
       (''password'', nullish (process_env ''KEYCLOAK_ADMIN_PASS'') ''admin'')]\<rparr>"

definition lookup_call :: "kc_api \<Rightarrow> seed_kc_user \<Rightarrow> http_call" where
  "lookup_call a u = kc_call a GET (''/users?username='' @ encodeURIComponent (ku_username u) @ ''&exact=true'') NoBody"

definition delete_call :: "kc_api \<Rightarrow> string \<Rightarrow> http_call" where
  "delete_call a i = kc_call a DELETE (''/users/'' @ i) NoBody"

text \<open>\<open>gives answer c j\<close>: the call \<open>c\<close> is answered with a success and the JSON value \<open>j\<close>.\<close>

definition gives :: "(http_call \<Rightarrow> http_reply) \<Rightarrow> http_call \<Rightarrow> json \<Rightarrow> bool" where
  "gives answer c j \<longleftrightarrow> res_ok (answer c) \<and> hr_json (answer c) = Some j"

lemma getAdminToken_answering:
  assumes "adminBase process_env = Inr base" "gives answer (token_call process_env base) (JObj [(''access_token'', JStr tok)])"
  shows "getAdminToken process_env (answering answer) w = (Inr (Some (JStr tok)), sent w [token_call process_env base])"
  using assms by (simp add: getAdminToken_def token_call_def gives_def wbind_def wresult_def fetch_answering res_json_def Let_def)

lemma remove_user_answering:
  assumes "gives answer (lookup_call a u) (JList [JObj [(''id'', JStr i)]])" "i \<noteq> []"
  shows "remove_user a u (answering answer) w = (Inr (), sent w [lookup_call a u, delete_call a i])"
  using assms
  by (simp add: remove_user_def findUserId_def api_get_def api_del_def lookup_call_def delete_call_def gives_def wbind_def
      wresult_def fetch_answering res_json_def template_def)

lemma remove_users_answering:
  assumes "\<And>u. u \<in> set us \<Longrightarrow> uid u \<noteq> [] \<and> gives answer (lookup_call a u) (JList [JObj [(''id'', JStr (uid u))]])"
  shows "wforeach (remove_user a) us (answering answer) w
    = (Inr (), sent w (concat (map (\<lambda>u. [lookup_call a u, delete_call a (uid u)]) us)))"
  using assms
proof (induction us arbitrary: w)
  case Nil
  then show ?case by (simp add: wresult_def sent_def)
next
  case (Cons u us)
  have "remove_user a u (answering answer) w = (Inr (), sent w [lookup_call a u, delete_call a (uid u)])"
    by (rule remove_user_answering) (use Cons.prems in simp_all)
  then show ?case using Cons by (simp add: wbind_def)
qed

text \<open>
  \<open>--delete\<close> does not depend on the deletions. When the service answers the reads, a run asks for the
  deletion of every user, reads none of the answers, and then removes the \<open>org_slug\<close> attribute from the
  user profile of the realm and returns: when the service refused them, as a service may, the users are
  still there and lose the claim that every request needs, although the comments say that this runs after
  the users are gone.
\<close>

lemma failed_delete_still_removes_profile:
  assumes "adminBase process_env = Inr base"
    and "gives answer (token_call process_env base) (JObj [(''access_token'', JStr tok)])"
    and "gives answer (kc_call (admin_api base tok) GET (''/roles/'' @ SEED_KC_ROLE) NoBody) roleRep"
    and "\<And>u. u \<in> set SEED_KC_USERS \<Longrightarrow> uid u \<noteq> []
      \<and> gives answer (lookup_call (admin_api base tok) u) (JList [JObj [(''id'', JStr (uid u))]])"
    and "gives answer (kc_call (admin_api base tok) GET ''/users/profile'' NoBody) (JObj [(''attributes'', JList attrs)])"
    and "some_named attrs = Inr True" and "drop_named attrs = Inr left"
    and "res_ok (answer (kc_call (admin_api base tok) PUT ''/users/profile'' (Json (JObj [(''attributes'', JList left)]))))"
  shows "seed_users_main process_env [''--delete''] (answering answer) w = (Inr (), sent w
     ([token_call process_env base, kc_call (admin_api base tok) GET (''/roles/'' @ SEED_KC_ROLE) NoBody]
      @ concat (map (\<lambda>u. [lookup_call (admin_api base tok) u, delete_call (admin_api base tok) (uid u)]) SEED_KC_USERS)
      @ [kc_call (admin_api base tok) GET ''/users/profile'' NoBody,
         kc_call (admin_api base tok) PUT ''/users/profile'' (Json (JObj [(''attributes'', JList left)]))]))"
proof -
  let ?a = "admin_api base tok"
  have api: "api process_env (Some (JStr tok)) = Inr ?a"
    using assms(1) by (simp add: api_def admin_api_def template_def)
  have users: "wforeach (remove_user ?a) SEED_KC_USERS (answering answer) v
    = (Inr (), sent v (concat (map (\<lambda>u. [lookup_call ?a u, delete_call ?a (uid u)]) SEED_KC_USERS)))" for v
    by (rule remove_users_answering) (rule assms(4))
  have profile: "ensureOrgSlugAttribute ?a True (answering answer) v
    = (Inr (), sent v [kc_call ?a GET ''/users/profile'' NoBody,
        kc_call ?a PUT ''/users/profile'' (Json (JObj [(''attributes'', JList left)]))])" for v
    using assms(5-8)
    by (simp add: ensureOrgSlugAttribute_def org_slug_attributes_def api_get_def api_put_def gives_def wbind_def wresult_def
        fetch_answering res_json_def)
  have read: "api_get ?a p (answering answer) v = (Inr (answer (kc_call ?a GET p NoBody)), sent v [kc_call ?a GET p NoBody])" for p v
    by (simp add: api_get_def fetch_answering)
  show ?thesis
    using getAdminToken_answering [OF assms(1,2), of w] assms(3)
    by (simp add: seed_users_main_def Let_def wbind_def wresult_def api read users profile gives_def res_json_def del: wforeach.simps)
qed

text \<open>A service with the five users that refuses to delete any of them.\<close>

definition refusing_service :: "http_call \<Rightarrow> http_reply" where
  "refusing_service c =
     (if hc_method c = DELETE then \<lparr>hr_status = 403, hr_text = [], hr_json = None\<rparr>
      else \<lparr>hr_status = 200, hr_text = [], hr_json = Some
        (if hc_method c = POST then JObj [(''access_token'', JStr ''t'')]
         else if hc_url c = ''http://kc/admin/realms/e0-test/users/profile'' then JObj [(''attributes'', JList [ORG_SLUG_ATTRIBUTE])]
         else if hc_url c = ''http://kc/admin/realms/e0-test/roles/hr-manager'' then JObj [(''name'', JStr ''hr-manager'')]
         else JList [JObj [(''id'', JStr ''u'')]])\<rparr>)"

lemma failed_delete_still_removes_profile_witness:
  "map hc_method (wb_sent (snd (seed_users_main [''KEYCLOAK_ADMIN_URL'' \<mapsto> ''http://kc''] [''--delete'']
     (answering refusing_service) \<lparr>wb_state = (), wb_sent = []\<rparr>)))
   = [POST, GET, GET, DELETE, GET, DELETE, GET, DELETE, GET, DELETE, GET, DELETE, GET, PUT]"
proof -
  let ?env = "[''KEYCLOAK_ADMIN_URL'' \<mapsto> ''http://kc'']" and ?a = "admin_api ''http://kc'' ''t''"
  have base: "adminBase ?env = Inr ''http://kc''" by code_simp
  have answers: "gives refusing_service (token_call ?env ''http://kc'') (JObj [(''access_token'', JStr ''t'')])"
    "gives refusing_service (kc_call ?a GET (''/roles/'' @ SEED_KC_ROLE) NoBody) (JObj [(''name'', JStr ''hr-manager'')])"
    "gives refusing_service (kc_call ?a GET ''/users/profile'' NoBody) (JObj [(''attributes'', JList [ORG_SLUG_ATTRIBUTE])])"
    "some_named [ORG_SLUG_ATTRIBUTE] = Inr True" "drop_named [ORG_SLUG_ATTRIBUTE] = Inr []"
    "res_ok (refusing_service (kc_call ?a PUT ''/users/profile'' (Json (JObj [(''attributes'', JList [])]))))"
    by code_simp+
  have users: "''u'' \<noteq> [] \<and> gives refusing_service (lookup_call ?a u) (JList [JObj [(''id'', JStr ''u'')]])"
    if "u \<in> set SEED_KC_USERS" for u
    by (simp add: gives_def refusing_service_def lookup_call_def kc_call_def admin_api_def REALM_def res_ok_def)
  have "map hc_method (concat (map (\<lambda>u. [lookup_call ?a u, delete_call ?a ''u'']) SEED_KC_USERS)) = concat (map (\<lambda>u. [GET, DELETE]) SEED_KC_USERS)"
    by (simp add: map_concat comp_def lookup_call_def delete_call_def kc_call_def)
  also have "\<dots> = [GET, DELETE, GET, DELETE, GET, DELETE, GET, DELETE, GET, DELETE]" by code_simp
  finally show ?thesis
    using failed_delete_still_removes_profile [OF base answers(1,2) users answers(3-6), of "\<lparr>wb_state = (), wb_sent = []\<rparr>"]
    by (simp add: sent_def token_call_def kc_call_def)
qed

end
