(* ===== verification/Workload.thy ===== *)
theory Workload
  imports SeedUsers
begin

text \<open>
  The workload of the load tests, \<open>tools/load-tests/lib/workload.js\<close>: the context of a run, the weighted pick
  of a tenant and one iteration of the read mix. The calls of k6 answer even when nothing came back, with
  status 0. A random number is a rational from 0 up to and without 1; the latency trends are left out.
\<close>

section \<open>Configuration\<close>

text \<open>\<open>__ENV.NAME || fallback\<close>.\<close>

definition env_or :: "(string \<Rightarrow> string option) \<Rightarrow> string \<Rightarrow> string \<Rightarrow> string" where
  "env_or env name fallback = (if truthy (env name) then the (env name) else fallback)"

definition BASE_URL :: "(string \<Rightarrow> string option) \<Rightarrow> string" where
  "BASE_URL env = env_or env ''BASE_URL'' ''http://localhost:3000''"
definition KC_ISSUER :: "(string \<Rightarrow> string option) \<Rightarrow> string" where
  "KC_ISSUER env = env_or env ''KEYCLOAK_ISSUER'' ''http://localhost:8080/realms/e0-test''"
definition KC_CLIENT_ID :: "(string \<Rightarrow> string option) \<Rightarrow> string" where
  "KC_CLIENT_ID env = env_or env ''KEYCLOAK_CLIENT_ID'' ''e0-api''"
definition KC_PASSWORD :: "(string \<Rightarrow> string option) \<Rightarrow> string" where
  "KC_PASSWORD env = env_or env ''SEED_KC_PASSWORD'' ''SeedPass123!''"

record weighted_tenant =
  wt_slug :: string
  wt_name :: string
  wt_weight :: rat

definition SEED_TENANTS :: "weighted_tenant list" where
  "SEED_TENANTS =
    [\<lparr>wt_slug = ''seed-alpha-corp'', wt_name = ''Alpha Corp'', wt_weight = 50\<rparr>,
     \<lparr>wt_slug = ''seed-beta-llc'', wt_name = ''Beta LLC'', wt_weight = 25\<rparr>,
     \<lparr>wt_slug = ''seed-gamma-inc'', wt_name = ''Gamma Inc'', wt_weight = 15\<rparr>,
     \<lparr>wt_slug = ''seed-delta-co'', wt_name = ''Delta Co'', wt_weight = 7\<rparr>,
     \<lparr>wt_slug = ''seed-epsilon-ltd'', wt_name = ''Epsilon Ltd'', wt_weight = 3\<rparr>]"

definition SEARCH_TERMS :: "string list" where
  "SEARCH_TERMS =
    [''Books'', ''Movies'', ''Electronics'', ''Home'', ''Garden'', ''Tools'', ''Grocery'',
     ''Health'', ''Beauty'', ''Toys'', ''Kids'', ''Clothing'', ''Shoes'', ''Computers'',
     ''Games'', ''Automotive'', ''Industrial'', ''Outdoors'', ''Sports'', ''Music'',
     ''Coordinator'', ''Manager'', ''Analyst'', ''Officer'', ''Administrator'', ''Agent'',
     ''Designer'', ''Developer'', ''Engineer'', ''Specialist'', ''Consultant'', ''Director'']"

section \<open>Calls\<close>

definition k6_call :: "http_call \<Rightarrow> ('k, http_reply) web_op" where
  "k6_call c S w =
     (case S c (wb_state w) of
        (r, k) \<Rightarrow> (Inr (case r of Inl m \<Rightarrow> \<lparr>hr_status = 0, hr_text = [], hr_json = None\<rparr> | Inr x \<Rightarrow> x),
                   \<lparr>wb_state = k, wb_sent = wb_sent w @ [c]\<rparr>))"

definition bearer :: "json option \<Rightarrow> (string \<times> string) list" where
  "bearer token = [(''Authorization'', ''Bearer '' @ template token)]"

definition authGet :: "(string \<Rightarrow> string option) \<Rightarrow> string \<Rightarrow> json option \<Rightarrow> http_call" where
  "authGet env path token = \<lparr>hc_method = GET, hc_url = BASE_URL env @ path, hc_headers = bearer token, hc_body = NoBody\<rparr>"

text \<open>\<open>out[t.slug] = ...\<close>: an entry that is \<open>undefined\<close> reads like one that is not there.\<close>

fun fetchTokens_from :: "(string \<Rightarrow> string option) \<Rightarrow> weighted_tenant list \<Rightarrow> (string \<Rightarrow> json option) \<Rightarrow> ('k, string \<Rightarrow> json option) web_op" where
  "fetchTokens_from env [] out = wreturn out"
| "fetchTokens_from env (t # ts) out =
     wbind (k6_call \<lparr>hc_method = POST, hc_url = KC_ISSUER env @ ''/protocol/openid-connect/token'',
         hc_headers = [(''Content-Type'', ''application/x-www-form-urlencoded'')],
         hc_body = Form [(''grant_type'', ''password''), (''client_id'', KC_CLIENT_ID env),
           (''username'', ''seed-e6-'' @ wt_slug t @ ''@e6.local''), (''password'', KC_PASSWORD env)]\<rparr>) (\<lambda>res.
     if hr_status res \<noteq> 200 then wthrow (''token grant failed for '' @ wt_slug t @ '': '' @ dec (hr_status res) @ '' '' @ hr_text res)
     else wbind (wresult (res_json res)) (\<lambda>j. wbind (wresult (field ''access_token'' j)) (\<lambda>token.
       fetchTokens_from env ts (out(wt_slug t := token)))))"

definition fetchTokens :: "(string \<Rightarrow> string option) \<Rightarrow> ('k, string \<Rightarrow> json option) web_op" where
  "fetchTokens env = fetchTokens_from env SEED_TENANTS (\<lambda>_. None)"

text \<open>\<open>JSON.parse(res.body).data?.[0]\<close>, then \<open>if (row?.id)\<close>.\<close>

definition first_row_id :: "json \<Rightarrow> exn + json option" where
  "first_row_id j =
     (case field ''data'' j of Inl e \<Rightarrow> Inl e
      | Inr None \<Rightarrow> Inr None | Inr (Some JNull) \<Rightarrow> Inr None
      | Inr (Some rows) \<Rightarrow> (case first_id rows of Inl e \<Rightarrow> Inl e | Inr i \<Rightarrow> Inr (if json_truthy i then i else None)))"

fun sample_employees :: "(string \<Rightarrow> string option) \<Rightarrow> (string \<Rightarrow> json option) \<Rightarrow> weighted_tenant list \<Rightarrow> (string \<Rightarrow> json option)
    \<Rightarrow> ('k, string \<Rightarrow> json option) web_op" where
  "sample_employees env tokens [] sampleEmp = wreturn sampleEmp"
| "sample_employees env tokens (t # ts) sampleEmp =
     wbind (k6_call (authGet env ''/api/v1/employees?page=1&limit=1'' (tokens (wt_slug t)))) (\<lambda>res.
     if hr_status res = 200
     then wbind (wresult (res_json res)) (\<lambda>j. wbind (wresult (first_row_id j)) (\<lambda>i.
       sample_employees env tokens ts (case i of None \<Rightarrow> sampleEmp | Some x \<Rightarrow> sampleEmp(wt_slug t \<mapsto> x))))
     else sample_employees env tokens ts sampleEmp)"

record mix_context =
  mc_tokens :: "string \<Rightarrow> json option"
  mc_sampleEmp :: "string \<Rightarrow> json option"

definition fetchContext :: "(string \<Rightarrow> string option) \<Rightarrow> ('k, mix_context) web_op" where
  "fetchContext env =
     wbind (fetchTokens env) (\<lambda>tokens. wbind (sample_employees env tokens SEED_TENANTS (\<lambda>_. None)) (\<lambda>sampleEmp.
       wreturn \<lparr>mc_tokens = tokens, mc_sampleEmp = sampleEmp\<rparr>))"

section \<open>The read mix\<close>

fun pick_tenant_from :: "rat \<Rightarrow> weighted_tenant list \<Rightarrow> weighted_tenant" where
  "pick_tenant_from r [] = hd SEED_TENANTS"
| "pick_tenant_from r (t # ts) = (let r' = r - wt_weight t in if r' \<le> 0 then t else pick_tenant_from r' ts)"

definition pickTenant :: "rat \<Rightarrow> weighted_tenant" where
  "pickTenant random = pick_tenant_from (random * sum_list (map wt_weight SEED_TENANTS)) SEED_TENANTS"

text \<open>One iteration, from its three random numbers: the name of the metric and the call.\<close>

definition mix_request :: "(string \<Rightarrow> string option) \<Rightarrow> mix_context \<Rightarrow> rat \<Rightarrow> rat \<Rightarrow> rat \<Rightarrow> string \<times> http_call" where
  "mix_request env ctx r0 roll r2 =
     (let tenant = pickTenant r0; token = mc_tokens ctx (wt_slug tenant); emp = mc_sampleEmp ctx (wt_slug tenant)
      in if roll < 26 / 100 then (''dash_summary'', authGet env ''/api/v1/dashboard/summary'' token)
         else if roll < 46 / 100 then (''dash_doc_stats'', authGet env ''/api/v1/dashboard/document-stats'' token)
         else if roll < 64 / 100 then
           (''dash_expiring'', authGet env (''/api/v1/dashboard/expiring?withinDays='' @ dec_int ([7, 30, 60, 90] ! nat (randInt r2 4)) @ ''&limit=20'') token)
         else if roll < 78 / 100 then
           (''emp_search'', authGet env (''/api/v1/employees?q='' @ encodeURIComponent (SEARCH_TERMS ! nat (randInt r2 (int (length SEARCH_TERMS)))) @ ''&limit=20'') token)
         else if roll < 90 / 100 then
           (''emp_list'', authGet env (''/api/v1/employees?page='' @ dec_int (1 + randInt r2 25) @ ''&limit=20'') token)
         else if roll < 97 / 100 \<and> json_truthy emp then
           (''emp_documents'', authGet env (''/api/v1/employees/'' @ template emp @ ''/documents'') token)
         else (''health'', \<lparr>hc_method = GET, hc_url = BASE_URL env @ ''/health/ready'', hc_headers = [], hc_body = NoBody\<rparr>))"

definition readMixIteration :: "(string \<Rightarrow> string option) \<Rightarrow> mix_context \<Rightarrow> rat \<Rightarrow> rat \<Rightarrow> rat \<Rightarrow> ('k, string \<times> bool \<times> bool) web_op" where
  "readMixIteration env ctx r0 roll r2 =
     (let (key, call) = mix_request env ctx r0 roll r2
      in wbind (k6_call call) (\<lambda>res. wreturn (key, hr_status res = 200, hr_text res \<noteq> [])))"

section \<open>The mix is the one described\<close>

text \<open>The weights are the shares of the employees that the generator makes.\<close>

lemma weights_are_shares:
  "map wt_slug SEED_TENANTS = map sd_slug TENANTS
    \<and> map (\<lambda>t. wt_weight t * of_int weightSum) SEED_TENANTS
      = map (\<lambda>t. of_int (sd_employeeCount t) * sum_list (map wt_weight SEED_TENANTS)) TENANTS"
  by (simp add: SEED_TENANTS_def TENANTS_def weightSum_def)

text \<open>The fallback at the end of the pick is never taken, and each tenant has the interval of its weight.\<close>

lemma pickTenant_intervals:
  assumes "random < 1"
  shows "wt_slug (pickTenant random) =
    (if random \<le> 50 / 100 then ''seed-alpha-corp'' else if random \<le> 75 / 100 then ''seed-beta-llc''
     else if random \<le> 90 / 100 then ''seed-gamma-inc'' else if random \<le> 97 / 100 then ''seed-delta-co''
     else ''seed-epsilon-ltd'')"
  using assms by (simp add: pickTenant_def SEED_TENANTS_def field_simps)

end
