(* ===== verification/Scenarios.thy ===== *)
theory Scenarios
  imports Workload
begin

text \<open>
  The k6 scenarios of the load tests, \<open>tools/load-tests/scenarios\<close>: the options of the read mix and of the
  smoke check with the environment variables they read, the iterations they run and the text of the
  summary. Numbers are exact rationals below 10^21, where \<open>toFixed\<close> writes digits; what k6 does with the
  options is not modelled, and its data object is the metrics of the summary and its JSON text.
\<close>

section \<open>Numbers and their text\<close>

datatype js_num = JsNum rat | JsInfinity bool | JsNaN

definition js_power10 :: "int \<Rightarrow> rat" where
  "js_power10 e = (if 0 \<le> e then 10 ^ nat e else 1 / 10 ^ nat (- e))"

text \<open>An exponent part, \<open>e\<close>, a sign and digits; nothing at all is the exponent 0.\<close>

definition all_digits :: "string \<Rightarrow> bool" where
  "all_digits s \<longleftrightarrow> s \<noteq> [] \<and> list_all is_digit s"

fun exponent_part :: "string \<Rightarrow> int option" where
  "exponent_part [] = Some 0"
| "exponent_part (c # s) =
     (if c \<noteq> CHR ''e'' \<and> c \<noteq> CHR ''E'' then None
      else if take 1 s = ''-'' then (if all_digits (tl s) then Some (- int (undec (tl s))) else None)
      else (let ds = (if take 1 s = ''+'' then tl s else s) in if all_digits ds then Some (int (undec ds)) else None))"

definition unsigned_decimal :: "string \<Rightarrow> js_num" where
  "unsigned_decimal s =
     (let whole = takeWhile is_digit s; r = dropWhile is_digit s;
          frac = (if take 1 r = ''.'' then takeWhile is_digit (tl r) else []);
          r' = (if take 1 r = ''.'' then dropWhile is_digit (tl r) else r)
      in if s = ''Infinity'' then JsInfinity True
         else if whole @ frac = [] then JsNaN
         else case exponent_part r' of
             None \<Rightarrow> JsNaN
           | Some e \<Rightarrow> JsNum (of_nat (undec (whole @ frac)) * js_power10 (e - int (length frac))))"

fun js_negate :: "js_num \<Rightarrow> js_num" where
  "js_negate (JsNum r) = JsNum (- r)"
| "js_negate (JsInfinity b) = JsInfinity (\<not> b)"
| "js_negate JsNaN = JsNaN"

definition radix_digit :: "char \<Rightarrow> nat" where
  "radix_digit c = (let n = (of_char c :: nat) in if 97 \<le> n then n - 87 else if 65 \<le> n then n - 55 else n - 48)"

definition radix_literal :: "nat \<Rightarrow> string \<Rightarrow> js_num" where
  "radix_literal b s =
     (if s \<noteq> [] \<and> list_all (\<lambda>c. is_hex c \<and> radix_digit c < b) s
      then JsNum (of_nat (foldl (\<lambda>a c. b * a + radix_digit c) 0 s)) else JsNaN)"

text \<open>\<open>Number(s)\<close> of a string.\<close>

definition js_Number_of :: "string \<Rightarrow> js_num" where
  "js_Number_of s =
     (let u = js_trim s; p = take 2 u
      in if u = [] then JsNum 0
         else if p = ''0x'' \<or> p = ''0X'' then radix_literal 16 (drop 2 u)
         else if p = ''0o'' \<or> p = ''0O'' then radix_literal 8 (drop 2 u)
         else if p = ''0b'' \<or> p = ''0B'' then radix_literal 2 (drop 2 u)
         else if hd u = CHR ''-'' then js_negate (unsigned_decimal (tl u))
         else if hd u = CHR ''+'' then unsigned_decimal (tl u)
         else unsigned_decimal u)"

text \<open>\<open>Math.min(a, b)\<close>.\<close>

fun js_min :: "js_num \<Rightarrow> js_num \<Rightarrow> js_num" where
  "js_min JsNaN y = JsNaN"
| "js_min x JsNaN = JsNaN"
| "js_min (JsInfinity b) y = (if b then y else JsInfinity False)"
| "js_min x (JsInfinity b) = (if b then x else JsInfinity False)"
| "js_min (JsNum x) (JsNum y) = JsNum (min x y)"

text \<open>\<open>x.toFixed(f)\<close>: the nearest multiple of \<open>10^-f\<close>, the larger one of two.\<close>

definition fixed_scaled :: "nat \<Rightarrow> rat \<Rightarrow> nat" where
  "fixed_scaled f x = nat \<lfloor>\<bar>x\<bar> * 10 ^ f + 1 / 2\<rfloor>"

definition toFixed :: "nat \<Rightarrow> rat \<Rightarrow> string" where
  "toFixed f x =
     (let m = padStart (f + 1) (CHR ''0'') (dec (fixed_scaled f x)); k = length m - f
      in (if x < 0 then ''-'' else []) @ (if f = 0 then m else take k m @ ''.'' @ drop k m))"

definition padEnd :: "nat \<Rightarrow> string \<Rightarrow> string" where
  "padEnd n s = s @ replicate (n - length s) (CHR '' '')"

definition join_with :: "string \<Rightarrow> string list \<Rightarrow> string" where
  "join_with sep xs = (case xs of [] \<Rightarrow> [] | y # ys \<Rightarrow> y @ concat (map (\<lambda>z. sep @ z) ys))"

section \<open>Options\<close>

record stage =
  st_target :: js_num
  st_duration :: string

record arrival_rate =
  ar_executor :: string
  ar_startRate :: int
  ar_timeUnit :: string
  ar_preAllocatedVUs :: js_num
  ar_maxVUs :: js_num
  ar_stages :: "stage list"

record mix_options =
  mo_read_mix :: arrival_rate
  mo_summaryTrendStats :: "string list"
  mo_thresholds :: "(string \<times> string list) list"

record smoke_options =
  so_vus :: int
  so_iterations :: int
  so_thresholds :: "(string \<times> string list) list"

text \<open>\<open>Number(__ENV.NAME || fallback)\<close>.\<close>

definition env_number :: "(string \<Rightarrow> string option) \<Rightarrow> string \<Rightarrow> rat \<Rightarrow> js_num" where
  "env_number env nm fallback = (if truthy (env nm) then js_Number_of (the (env nm)) else JsNum fallback)"

definition REQ_RATE :: "(string \<Rightarrow> string option) \<Rightarrow> js_num" where "REQ_RATE env = env_number env ''REQ_RATE'' 80"
definition RAMP :: "(string \<Rightarrow> string option) \<Rightarrow> string" where "RAMP env = env_or env ''RAMP'' ''30s''"
definition HOLD :: "(string \<Rightarrow> string option) \<Rightarrow> string" where "HOLD env = env_or env ''HOLD'' ''3m''"
definition MAX_VUS :: "(string \<Rightarrow> string option) \<Rightarrow> js_num" where "MAX_VUS env = env_number env ''MAX_VUS'' 200"

definition read_mix_options :: "(string \<Rightarrow> string option) \<Rightarrow> mix_options" where
  "read_mix_options env = \<lparr>
     mo_read_mix = \<lparr>ar_executor = ''ramping-arrival-rate'', ar_startRate = 5, ar_timeUnit = ''1s'',
       ar_preAllocatedVUs = js_min (JsNum 50) (MAX_VUS env), ar_maxVUs = MAX_VUS env,
       ar_stages = [\<lparr>st_target = REQ_RATE env, st_duration = RAMP env\<rparr>,
         \<lparr>st_target = REQ_RATE env, st_duration = HOLD env\<rparr>, \<lparr>st_target = JsNum 0, st_duration = ''20s''\<rparr>]\<rparr>,
     mo_summaryTrendStats = [''avg'', ''min'', ''med'', ''p(90)'', ''p(95)'', ''p(99)'', ''max''],
     mo_thresholds =
       [(''http_req_failed'', [''rate<0.01'']),
        (''http_req_duration{expected_response:true}'', [''p(95)<800'', ''p(99)<2000'']),
        (''lat_dash_summary'', [''p(95)<500'']), (''lat_dash_doc_stats'', [''p(95)<800'']),
        (''lat_dash_expiring'', [''p(95)<500'']), (''lat_emp_search'', [''p(95)<600'']),
        (''lat_emp_list'', [''p(95)<800'']), (''lat_emp_documents'', [''p(95)<500'']),
        (''checks'', [''rate>0.99''])]\<rparr>"

definition smoke_run_options :: smoke_options where
  "smoke_run_options = \<lparr>so_vus = 1, so_iterations = 30,
     so_thresholds = [(''checks'', [''rate==1.0'']), (''http_req_failed'', [''rate==0.0''])]\<rparr>"

text \<open>The trends of the workload: the key of a call and the name of its metric.\<close>

definition trends :: "(string \<times> string) list" where
  "trends = [(''health'', ''lat_health''), (''emp_list'', ''lat_emp_list''), (''emp_search'', ''lat_emp_search''),
     (''dash_summary'', ''lat_dash_summary''), (''dash_doc_stats'', ''lat_dash_doc_stats''),
     (''dash_expiring'', ''lat_dash_expiring''), (''emp_documents'', ''lat_emp_documents'')]"

section \<open>Runs\<close>

text \<open>\<open>setup()\<close> of both scenarios, and an iteration of each; the pause of the smoke check is left out.\<close>

definition scenario_setup :: "(string \<Rightarrow> string option) \<Rightarrow> ('k, mix_context) web_op" where
  "scenario_setup env = fetchContext env"

definition read_mix_run ::
  "(string \<Rightarrow> string option) \<Rightarrow> mix_context \<Rightarrow> rat \<Rightarrow> rat \<Rightarrow> rat \<Rightarrow> ('k, string \<times> bool \<times> bool) web_op" where
  "read_mix_run env ctx r0 roll r2 = readMixIteration env ctx r0 roll r2"

section \<open>The summary\<close>

text \<open>A metric's values: the counters are integers, the others any numbers.\<close>

record k6_metric =
  km_count :: "int option"
  km_values :: "string \<Rightarrow> rat option"

record summary_data =
  su_metrics :: "string \<Rightarrow> k6_metric option"
  su_json :: string

definition metric_value :: "k6_metric option \<Rightarrow> string \<Rightarrow> rat" where
  "metric_value m key = (case m of None \<Rightarrow> 0 | Some x \<Rightarrow> nullish (km_values x key) 0)"

definition metric_count :: "k6_metric option \<Rightarrow> int" where
  "metric_count m = (case m of None \<Rightarrow> 0 | Some x \<Rightarrow> nullish (km_count x) 0)"

definition summary_line :: "string \<Rightarrow> k6_metric option \<Rightarrow> string list \<Rightarrow> string" where
  "summary_line label metric keys =
     (case metric of
        None \<Rightarrow> label @ '': n/a''
      | Some v \<Rightarrow>
          (let parts = map (\<lambda>k. k @ ''='' @ toFixed 1 (nullish (km_values v k) 0)) keys
           in padEnd 22 label @ '' '' @ join_with ''  '' parts))"

definition summary_stats :: "string list" where
  "summary_stats = [''avg'', ''p(90)'', ''p(95)'', ''p(99)'', ''max'']"

definition summary_rows :: "(string \<times> string) list" where
  "summary_rows =
     [(''http_req_duration'', ''http_req_duration''), (''  dashboard/summary'', ''lat_dash_summary''),
      (''  dashboard/doc-stats'', ''lat_dash_doc_stats''), (''  dashboard/expiring'', ''lat_dash_expiring''),
      (''  employees?q='', ''lat_emp_search''), (''  employees?page='', ''lat_emp_list''),
      (''  emp/:id/documents'', ''lat_emp_documents''), (''  health/ready'', ''lat_health'')]"

definition textSummary :: "summary_data \<Rightarrow> string" where
  "textSummary data =
     (let m = su_metrics data
      in join_with [CHR 0x0A]
        ([[], ''iterations: '' @ dec_int (metric_count (m ''iterations'')) @ ''  ('' @
            toFixed 1 (metric_value (m ''iterations'') ''rate'') @ ''/s)'',
          ''http_reqs:  '' @ dec_int (metric_count (m ''http_reqs'')),
          ''http_req_failed: '' @ toFixed 2 (metric_value (m ''http_req_failed'') ''rate'' * 100) @ ''%'',
          ''checks: '' @ toFixed 2 (metric_value (m ''checks'') ''rate'' * 100) @ ''%'', []]
         @ map (\<lambda>(label, nm). summary_line label (m nm) summary_stats) summary_rows @ [[]]))"

text \<open>\<open>handleSummary\<close>: the outputs, by file name; a file named \<open>stdout\<close> takes the place of the text.\<close>

definition handleSummary :: "(string \<Rightarrow> string option) \<Rightarrow> summary_data \<Rightarrow> string \<Rightarrow> string option" where
  "handleSummary env data =
     (let out = [''stdout'' \<mapsto> textSummary data]
      in if truthy (env ''SUMMARY_JSON'') then out(the (env ''SUMMARY_JSON'') \<mapsto> su_json data) else out)"

section \<open>The parts fit together\<close>

lemma fixed_scaled_close: "\<bar>of_nat (fixed_scaled f x) / 10 ^ f - \<bar>x\<bar>\<bar> \<le> 1 / (2 * 10 ^ f)"
proof -
  let ?y = "\<bar>x\<bar> * 10 ^ f" and ?n = "of_nat (fixed_scaled f x) :: rat"
  have "0 \<le> \<lfloor>?y + 1 / 2\<rfloor>" by simp
  then have "?n = of_int \<lfloor>?y + 1 / 2\<rfloor>" by (simp add: fixed_scaled_def of_nat_nat)
  then have "?n \<le> ?y + 1 / 2" "?y + 1 / 2 < ?n + 1" by linarith+
  then have "\<bar>?n - ?y\<bar> \<le> 1 / 2" by linarith
  moreover have "?n / 10 ^ f - \<bar>x\<bar> = (?n - ?y) / 10 ^ f" by (simp add: field_simps)
  ultimately show ?thesis by (simp add: abs_divide field_simps)
qed

text \<open>The digits \<open>toFixed\<close> writes are those of the scaled number, and the number has at least one before the point.\<close>

lemma toFixed_digits: "undec (filter is_digit (toFixed f x)) = fixed_scaled f x"
proof -
  have d: "filter is_digit (padStart (f + 1) (CHR ''0'') (dec n)) = padStart (f + 1) (CHR ''0'') (dec n)" for n
    using pad_digits [of "f + 1" n] by (simp add: filter_id_conv)
  have s: "(if x < 0 then filter is_digit ''-'' else filter is_digit []) = []" by (simp add: is_digit_def)
  have p: "filter is_digit ''.'' = []" by (simp add: is_digit_def)
  show ?thesis
    by (simp only: toFixed_def Let_def filter_append s p append_Nil append_Nil2 if_distrib [of "filter is_digit"]
        filter_append [symmetric] append_take_drop_id d undec_pad undec_dec if_cancel s)
qed

text \<open>Every call of the mix is measured by a trend, and every threshold and line of the summary names a metric there is.\<close>

lemma mix_is_measured: "fst (mix_request env ctx r0 roll r2) \<in> fst ` set trends"
  by (simp add: mix_request_def trends_def Let_def)

lemma scenario_metrics_exist:
  "fst ` set (mo_thresholds (read_mix_options env)) \<union> snd ` set summary_rows
    \<subseteq> {''http_req_failed'', ''http_req_duration'', ''http_req_duration{expected_response:true}'', ''checks''} \<union> snd ` set trends"
  by (simp add: read_mix_options_def summary_rows_def trends_def)

lemma preallocated_within_max: "js_min (JsNum 50) (MAX_VUS env) = JsNum a \<Longrightarrow> MAX_VUS env = JsNum b \<Longrightarrow> a \<le> b"
  by auto

end
