(* ===== verification/Spec2Isabelle.thy ===== *)
theory Spec2Isabelle
  imports Integrity Races Reruns Pipeline Health Processes Migrations SeedRuns Cleanup Scenarios
begin

text \<open>
  \<^bold>\<open>The program.\<close> A multi-tenant service that keeps the employees of organisations and their documents
  (passports, residence permits, badges) with their expiry. Two processes share a PostgreSQL database
  and a Redis server: the API (\<open>apps/api\<close>, NestJS) answers requests, and the worker (\<open>apps/worker\<close>, BullMQ)
  scans for documents that run out, mails reminders, completes imports and watches the failure rate of the
  mails. Every table but \<open>tenants\<close> is under row-level security: a transaction sees and writes the rows of the
  tenant it set with \<open>setTenantContext\<close>. A request passes \<open>AuthGuard\<close> (a bearer token), \<open>TenantMiddleware\<close>
  (the active tenant of its \<open>org_slug\<close>) and \<open>RbacGuard\<close> (its roles) before its handler, which checks the
  request with zod and calls a service; a service is one transaction, or several for an import, and writes
  an audit event with what it did. The scans of the worker put jobs into queues, the workers take them out.

  \<^bold>\<open>How it is modelled.\<close> A \<open>world\<close> is the database, a record of lists of rows, and what lies outside of it:
  a counter of the statements executed, the mails sent, the jobs queued, the alerts raised. An environment
  \<open>env\<close> says for each point of that counter whether the statement, the mail or the queue fails there, which
  UUID is drawn, what each reading of the clock shows, and in which order a statement with ORDER BY meets the
  rows, so that rows of equal keys come in any order (\<open>e_rank\<close>); every theorem that does not name a \<open>quiet\<close> environment holds
  whatever fails. Code inside a transaction is a function of the environment and a transaction state with the
  aborted flag and the savepoints of PostgreSQL (type \<open>'a tx\<close>), code around it one of the environment and
  the world (\<open>'a io\<close>); both return an exception or a value. SQL statements are \<open>select_where\<close>,
  \<open>insert_returning\<close>, \<open>update_returning\<close> and the like, over tables with their policy, keys and foreign keys,
  with the SQLSTATE of each refusal, a LIMIT or OFFSET that is no \<open>bigint\<close> included. Exceptions are values of \<open>exn\<close>. JavaScript's \<open>??\<close>, truthiness, \<open>NaN\<close>,
  \<open>Date\<close> and \<open>trim\<close> are written out.

  \<^bold>\<open>Theories.\<close>
  \<^item> \<open>Prelude\<close>: lemmas on lists, digits and options, JSON values, the JavaScript operators.
  \<^item> \<open>Calendar\<close> (\<open>common/calendar-days.ts\<close> and the worker's copy): the date algorithms of ECMAScript and the
    calendar days between a date text and an instant.
  \<^item> \<open>Schema\<close> (\<open>packages/database/src/schema.ts\<close>, \<open>packages/shared/src/types\<close>): rows, vocabularies, requests.
  \<^item> \<open>Expiry\<close> (\<open>expiry/expiry.service.ts\<close>): the status engine and the four checks it replaces.
  \<^item> \<open>Tx\<close>, \<open>TxRules\<close>, \<open>Keyed\<close>, \<open>Sample\<close> (\<open>database/tenant-context.ts\<close>, \<open>packages/database/migrations\<close>): worlds,
    transactions and tables; the rules for what they keep; reading and writing a row by its id; a small world
    for the witnesses.
  \<^item> \<open>AuditTrail\<close> (\<open>audit/audit.service.ts\<close>), \<open>Employees\<close> (\<open>employees.service.ts\<close>), \<open>Documents\<close>
    (\<open>documents.service.ts\<close>): the services, one definition per method, the transaction bodies in parts.
  \<^item> \<open>Access\<close> (\<open>auth\<close>, \<open>tenant\<close>, \<open>rbac\<close>, \<open>audit-context.ts\<close>, \<open>request-id.middleware.ts\<close>): the guards.
  \<^item> \<open>HttpErrors\<close> (\<open>filters/http-exception.filter.ts\<close>): what an exception becomes on the wire.
  \<^item> \<open>Requests\<close>: the zod schemas of all routes as data, what it is to conform to one, and the readers of the
    parsed values.
  \<^item> \<open>Reminders\<close> (\<open>workers/reminder-*.ts\<close>, \<open>notifications/email-dispatcher.ts\<close>), \<open>Notifications\<close>
    (\<open>notifications/*.service.ts\<close>, \<open>workers/failure-alert-*.ts\<close>), \<open>Dashboard\<close> (\<open>dashboard.service.ts\<close>),
    \<open>Health\<close> (\<open>health\<close>, \<open>secret-loader.ts\<close>; a check under the timer that \<open>withTimeout\<close> sets), \<open>Imports\<close> (\<open>import-export\<close>, \<open>workers/import.worker.ts\<close>).
  \<^item> \<open>Controllers\<close>: every handler, its roles, and \<open>serve\<close>, the guards before the handler; \<open>Pipeline\<close>
    (\<open>app.module.ts\<close>): \<open>answer\<close>, the request-id middleware before and the exception filter behind it.
  \<^item> \<open>Concurrency\<close>, \<open>Races\<close>: updates and archives of the two services as transactions in two parts, interleaved
    with each other and with everything else at READ COMMITTED, as a step relation with its reachable states;
    \<open>Reruns\<close>: two overlapping runs of a reminder job, each in two parts.
  \<^item> \<open>Processes\<close> (\<open>apps/api/src/main.ts\<close>, \<open>apps/worker/src/main.ts\<close>): settings, the connection
    pool of \<open>packages/database/src/index.ts\<close>, and shutdown as step relations.
  \<^item> \<open>Integrity\<close>: consistent databases, and that every operation keeps them.
  \<^item> \<open>Migrations\<close> (\<open>infra/postgres/migrate.js\<close>): the runner that applies the SQL files, over any set of files, and
    the databases it can leave, from an empty one or one older than the table of records, as an inductive
    predicate.
  \<^item> \<open>Seed\<close>, \<open>SeedRuns\<close> (\<open>tools/seed/config.ts\<close>, \<open>db.ts\<close>, \<open>generate.ts\<close>): the generator of synthetic data on the
    transactions of \<open>Tx\<close>, and what its runs leave; \<open>Cleanup\<close> (\<open>tools/seed/cleanup.ts\<close>): the teardown on one
    connection with the foreign keys of the schema.
  \<^item> \<open>SeedUsers\<close> (\<open>tools/seed/keycloak-users.ts\<close>, \<open>tools/load-tests/lib/fetch-tokens.ts\<close>) and \<open>Workload\<close>
    (\<open>tools/load-tests/lib/workload.js\<close>): the clients of the identity provider and of the API, over any HTTP
    service; \<open>Scenarios\<close> (\<open>tools/load-tests/scenarios\<close>): the options and the summary of the load tests.
  \<^item> this theory: the system as a step relation over requests, scans and jobs.

  \<^bold>\<open>What the lemmas show.\<close> Per operation: its result and effect on every branch in an environment where
  nothing fails (\<open>..._spec\<close>), and the errors that change nothing. Across operations, by the locales of
  \<open>TxRules\<close> and \<open>Integrity\<close>: a relation between databases that is reflexive and transitive and kept by each
  statement is kept by each transaction and each composition of them (\<open>db_relation\<close>); tables owe it to three
  such relations, that the rows of other tenants stay (\<open>isolated_table\<close>), that nothing is taken back
  (\<open>historic_table\<close>) and that the database stays consistent (\<open>consistent_table\<close>), and every table is an
  instance of each; \<open>batch_table\<close> adds what the batched inserts of the generator rely on. \<open>keyed_table\<close> gives the services that read a row by its id and write it again their
  frame, and \<open>versioned_service\<close> builds on it the lock of the version check: in reachable traffic a write
  that succeeds meets the row its request read. \<open>error_class\<close> follows what an operation may throw, and gives
  that a refused request changes nothing. \<open>dispatcher\<close> is what the reminder worker relies on of a mail transport. Here they meet: runs of the
  whole system keep the database consistent, take nothing back, and touch the tenants they act for only.
  The tools around the program: a migration runs once, seeding is idempotent and stores the statuses the
  engine computes, and the teardown is atomic for each tenant. The theorems of kind error show behaviour that
  the code has and likely does not mean.

  \<^bold>\<open>Assumptions.\<close> The host runs in UTC and dates are those of the proleptic Gregorian calendar. Transactions
  run one after the other, except in \<open>Concurrency\<close>, where the transactions of the two services that read before
  they write meet between the two, and in \<open>Reruns\<close>; a request there names a version that an answer showed, and
  \<open>stale_read_overwrites\<close> of \<open>Employees\<close> is what happens when it does not. Statements of one transaction share its time. A SELECT without
  ORDER BY returns the rows in the order of the table. Libraries
  are parameters: verification of JSON web tokens, zod (\<open>zod_sound\<close>: it returns only data that conform),
  multer, which reads the file of an import under the limit the controller gives it and may refuse it (so the 413
  of a file that is too large), the workbook reader and writer and the hash of an import, full-text search, URL and UUID tests, the text of
  a database error, the identity provider, the random numbers and names of the seed data. Numbers are mathematical integers where the code's are integers below \<open>2 ^ 53\<close>; columns
  of type \<open>integer\<close> are checked for their range (\<open>int4\<close>). There is no fuel: all definitions are total by
  structural recursion or a measure, and loops run over finite lists.

  \<^bold>\<open>Not modelled.\<close> Log lines; the lists of modules and the container of NestJS (library calls); the
  wire protocol and the parser of JSON bodies, whose refusals never reach a route; the schedules and back-off of BullMQ, of which the system
  relation keeps that a job runs any number of times; \<open>audit_events.metadata\<close> and the columns no code reads;
  the SQL of the migrations beyond the tables, keys and policies that the model takes from them; tests, and what
  k6 does with the options of the load tests. \<open>PROJECT.json\<close> lists every component with its status.
\<close>

section \<open>The system\<close>

text \<open>
  The components together: a world is what the processes share, and a step is one request answered by the
  API, one run of a scan, or one queued job taken by its worker, in an environment of its own. A job is taken
  from its queue any number of times, as BullMQ promises to deliver it at least once.
\<close>

record worker_libs =
  wl_uuid :: "string \<Rightarrow> bool"
  wl_message :: "string \<Rightarrow> string"
  wl_from :: string

datatype 'file system_event =
    Request "'file api_call" request
  | ReminderScan
  | FailureAlertScan
  | ReminderJob reminder_job
  | ImportJob import_job

fun perform :: "'file libs \<Rightarrow> worker_libs \<Rightarrow> 'file system_event \<Rightarrow> unit io" where
  "perform L W (Request call req) = serve L call req"
| "perform L W ReminderScan = reminder_scan"
| "perform L W FailureAlertScan = failure_alert_scan"
| "perform L W (ReminderJob job) = process_reminder (wl_uuid W) (wl_message W) (SmtpEmailDispatcher_send (wl_from W)) job"
| "perform L W (ImportJob job) = process_import (wl_uuid W) job"

fun enabled :: "'file system_event \<Rightarrow> world \<Rightarrow> bool" where
  "enabled (ReminderJob job) w = (job \<in> set (x_reminders (w_ext w)))"
| "enabled (ImportJob job) w = (job \<in> set (x_imports (w_ext w)))"
| "enabled _ w = True"

text \<open>The tenant a step acts for: that of the verified token, that of the job, none for a scan.\<close>

fun acting_tenant :: "'file libs \<Rightarrow> 'file system_event \<Rightarrow> env \<Rightarrow> world \<Rightarrow> uuid option" where
  "acting_tenant L (Request call req) E w =
     (case fst (guards (lb_jwtVerify L) (lb_is_url L) (lb_settings L) (lb_jwks L) (Some (required_roles call)) req E w) of
        Inl _ \<Rightarrow> None | Inr req2 \<Rightarrow> Some (tenant_of req2))"
| "acting_tenant L (ReminderJob job) E w = Some (rj_tenantId job)"
| "acting_tenant L (ImportJob job) E w = Some (ij_tenantId job)"
| "acting_tenant L ReminderScan E w = None"
| "acting_tenant L FailureAlertScan E w = None"

inductive system_step ::
  "'file libs \<Rightarrow> worker_libs \<Rightarrow> world \<Rightarrow> 'file system_event \<times> uuid option \<Rightarrow> world \<Rightarrow> bool" for L W where
  step: "enabled ev w \<Longrightarrow> system_step L W w (ev, acting_tenant L ev E w) (snd (perform L W ev E w))"

inductive_cases system_stepE: "system_step L W w lab w'"

inductive system_run ::
  "'file libs \<Rightarrow> worker_libs \<Rightarrow> world \<Rightarrow> ('file system_event \<times> uuid option) list \<Rightarrow> world \<Rightarrow> bool" for L W w where
  here: "system_run L W w [] w"
| more: "system_run L W w tr w' \<Longrightarrow> system_step L W w' lab w'' \<Longrightarrow> system_run L W w (tr @ [lab]) w''"

section \<open>What every step keeps\<close>

lemma guards_tenant:
  assumes "guards (lb_jwtVerify L) (lb_is_url L) (lb_settings L) (lb_jwks L) (Some (required_roles call)) req E w = (Inr req2, w1)"
  shows "same_for_others (tenant_of req2) (w_db w) (w_db (snd (serve L call req E w)))"
proof -
  have "w_db w1 = w_db w" using guards_read_only [of "lb_jwtVerify L" "lb_is_url L"] assms by (metis snd_conv)
  moreover have "same_for_others (tenant_of req2) (w_db w1) (w_db (snd (handle L call req2 E w1)))"
    using handle_iso [of req2 L call] by (simp add: io_rel_def)
  ultimately show ?thesis using assms by (simp add: serve_parts)
qed

lemma refused_unchanged:
  assumes "fst (guards (lb_jwtVerify L) (lb_is_url L) (lb_settings L) (lb_jwks L) (Some (required_roles call)) req E w) = Inl e"
  shows "w_db (snd (serve L call req E w)) = w_db w"
  using guards_read_only [of "lb_jwtVerify L" "lb_is_url L" "lb_settings L" "lb_jwks L" "Some (required_roles call)" req E w] assms
  by (auto simp: serve_parts split: prod.split)

lemma perform_touches:
  "case acting_tenant L ev E w of
     None \<Rightarrow> w_db (snd (perform L W ev E w)) = w_db w
   | Some t \<Rightarrow> same_for_others t (w_db w) (w_db (snd (perform L W ev E w)))"
proof (cases ev)
  case (Request call req)
  show ?thesis
  proof (cases "guards (lb_jwtVerify L) (lb_is_url L) (lb_settings L) (lb_jwks L) (Some (required_roles call)) req E w")
    case (Pair r w1)
    then show ?thesis using Request refused_unchanged [of L call req E w] guards_tenant [of L call req E w]
      by (cases r) auto
  qed
next
  case (ReminderJob job)
  then show ?thesis using smtp_dispatcher.process_iso by (simp add: io_rel_def)
next
  case (ImportJob job)
  then show ?thesis using process_import_iso by (simp add: io_rel_def)
qed (use scan_reads_only policy_reads_only(3) in \<open>simp_all add: io_rel_def\<close>)

lemma perform_keeps:
  "stays (w_db w) (w_db (snd (perform L W ev E w)))" "history (w_db w) (w_db (snd (perform L W ev E w)))"
proof -
  have scans: "w_db (snd (reminder_scan E w)) = w_db w" "w_db (snd (failure_alert_scan E w)) = w_db w"
    using scan_reads_only policy_reads_only(3) by (simp_all add: io_rel_def)
  show "stays (w_db w) (w_db (snd (perform L W ev E w)))"
    by (cases ev) (use serve_stays smtp_dispatcher.process_stays process_import_stays scans in
        \<open>simp_all add: io_rel_def stay.R_refl\<close>)
  show "history (w_db w) (w_db (snd (perform L W ev E w)))"
    by (cases ev) (use serve_hist smtp_dispatcher.process_hist process_import_hist scans in
        \<open>simp_all add: io_rel_def hist.R_refl\<close>)
qed

section \<open>Properties\<close>

text \<open>
  C1. The system keeps its data consistent: from a consistent database, every run of requests, scans and
  queued jobs, in any order and whatever fails on the way, ends in a consistent one, in which the keys of
  every table are unique, every document belongs to an employee of its own tenant, and every exception has
  a reason and every renewal a start; and nothing that the system keeps for good was taken back.
\<close>

theorem system_stays_consistent:
  assumes "system_run L W w0 tr w" and "consistent (w_db w0)"
  shows "consistent (w_db w) \<and> history (w_db w0) (w_db w)"
  using assms(1)
proof induction
  case here
  show ?case using assms(2) hist.R_refl by blast
next
  case (more tr w' lab w'')
  from more.hyps(2) obtain ev E where "w'' = snd (perform L W ev E w')" by (rule system_stepE)
  then have "stays (w_db w') (w_db w'')" "history (w_db w') (w_db w'')" using perform_keeps by simp_all
  then show ?case using more.IH hist.R_trans unfolding stays_def by blast
qed

text \<open>The rows of one tenant.\<close>

definition rows_of :: "uuid \<Rightarrow> db \<Rightarrow> db" where
  "rows_of t d = \<lparr>tenants = filter (\<lambda>r. tn_id r = t) (tenants d),
     employees = filter (\<lambda>r. em_tenantId r = t) (employees d),
     documents = filter (\<lambda>r. dc_tenantId r = t) (documents d),
     expiryPolicies = filter (\<lambda>r. ep_tenantId r = t) (expiryPolicies d),
     auditEvents = filter (\<lambda>r. au_tenantId r = t) (auditEvents d),
     idempotencyKeys = filter (\<lambda>r. ik_tenantId r = t) (idempotencyKeys d),
     tenantNotificationPolicies = filter (\<lambda>r. np_tenantId r = t) (tenantNotificationPolicies d),
     notificationLog = filter (\<lambda>r. nl_tenantId r = t) (notificationLog d),
     importBatches = filter (\<lambda>r. ib_tenantId r = t) (importBatches d)\<rparr>"

lemma filter_of_others:
  assumes "u \<noteq> t" "others tid u xs = others tid u ys"
  shows "filter (\<lambda>r. tid r = t) xs = filter (\<lambda>r. tid r = t) ys"
proof -
  have "filter (\<lambda>r. tid r = t) zs = filter (\<lambda>r. tid r = t) (others tid u zs)" for zs
    using assms(1) by (auto simp: others_def intro: filter_cong)
  then show ?thesis using assms(2) by metis
qed

lemma rows_of_others:
  assumes "u \<noteq> t" "same_for_others u d d'"
  shows "rows_of t d' = rows_of t d"
proof -
  note same = assms(2) [unfolded same_for_others_def] and f = filter_of_others [OF assms(1)]
  have "filter (\<lambda>r. em_tenantId r = t) (employees d') = filter (\<lambda>r. em_tenantId r = t) (employees d)"
    "filter (\<lambda>r. dc_tenantId r = t) (documents d') = filter (\<lambda>r. dc_tenantId r = t) (documents d)"
    "filter (\<lambda>r. ep_tenantId r = t) (expiryPolicies d') = filter (\<lambda>r. ep_tenantId r = t) (expiryPolicies d)"
    "filter (\<lambda>r. au_tenantId r = t) (auditEvents d') = filter (\<lambda>r. au_tenantId r = t) (auditEvents d)"
    "filter (\<lambda>r. ik_tenantId r = t) (idempotencyKeys d') = filter (\<lambda>r. ik_tenantId r = t) (idempotencyKeys d)"
    "filter (\<lambda>r. np_tenantId r = t) (tenantNotificationPolicies d') = filter (\<lambda>r. np_tenantId r = t) (tenantNotificationPolicies d)"
    "filter (\<lambda>r. nl_tenantId r = t) (notificationLog d') = filter (\<lambda>r. nl_tenantId r = t) (notificationLog d)"
    "filter (\<lambda>r. ib_tenantId r = t) (importBatches d') = filter (\<lambda>r. ib_tenantId r = t) (importBatches d)"
    using same by (blast intro: f)+
  then show ?thesis using same by (simp only: rows_of_def)
qed

text \<open>
  C2. Tenants never meet: over any run in which no step acted for a tenant, no request behind a token of
  its and no job of its, every row of that tenant, in every table, is as it was at the start, whatever all
  other tenants asked for.
\<close>

theorem tenants_never_meet:
  assumes "system_run L W w0 tr w" and "Some t \<notin> snd ` set tr"
  shows "rows_of t (w_db w) = rows_of t (w_db w0)"
  using assms
proof induction
  case (more tr w' lab w'')
  from more.hyps(2) obtain ev E where l: "lab = (ev, acting_tenant L ev E w')" "w'' = snd (perform L W ev E w')"
    by (rule system_stepE)
  have "acting_tenant L ev E w' \<noteq> Some t" using more.prems l(1) by force
  then have "rows_of t (w_db w'') = rows_of t (w_db w')"
    using perform_touches [where L = L and ev = ev and E = E and w = w' and W = W] l(2) rows_of_others by (cases "acting_tenant L ev E w'") auto
  then show ?case using more.IH more.prems by auto
qed simp

text \<open>A run of one step: the worker takes a queued reminder of one tenant, beside an employee of the other.\<close>

definition sample_libs :: "string libs" where
  "sample_libs = \<lparr>lb_jwtVerify = (\<lambda>_ _ _ _. Inl (JsError ''signature verification failed'')), lb_is_url = (\<lambda>_. True),
     lb_settings = sample_settings, lb_jwks = None, lb_fts = (\<lambda>_ _. True),
     lb_zod = strict_zod sample_tests, lb_multer = (\<lambda>_ _. None), lb_digest = (\<lambda>s. s), lb_load = (\<lambda>_. None), lb_write = (\<lambda>_. []), lb_message = (\<lambda>s. s)\<rparr>"

definition sample_worker :: worker_libs where
  "sample_worker = \<lparr>wl_uuid = (\<lambda>_. True), wl_message = (\<lambda>s. s), wl_from = ''noreply@ecs.test''\<rparr>"

definition queued_job :: reminder_job where
  "queued_job = reminder_job_for acme (sample_uuid 21) 14"

definition queued_world :: world where
  "queued_world = \<lparr>w_db = expiring_db\<lparr>employees := [sample_employee,
       sample_employee\<lparr>em_id := sample_uuid 12, em_tenantId := globex\<rparr>]\<rparr>,
     w_ext = sample_ext\<lparr>x_reminders := [queued_job]\<rparr>\<rparr>"

definition delivered_world :: world where
  "delivered_world = snd (perform sample_libs sample_worker (ReminderJob queued_job) sample_env queued_world)"

lemma delivered_run: "system_run sample_libs sample_worker queued_world [(ReminderJob queued_job, Some acme)] delivered_world"
proof -
  have "system_step sample_libs sample_worker queued_world
      (ReminderJob queued_job, acting_tenant sample_libs (ReminderJob queued_job) sample_env queued_world) delivered_world"
    unfolding delivered_world_def by (rule system_step.step) (simp add: queued_world_def)
  then show ?thesis
    using system_run.more [OF system_run.here] by (fastforce simp: queued_job_def reminder_job_for_def)
qed

theorem system_stays_consistent_witness:
  "consistent (w_db delivered_world) \<and> length (notificationLog (w_db delivered_world)) = 1"
proof -
  have "consistent (w_db queued_world)" by code_simp
  moreover have "length (notificationLog (w_db delivered_world)) = 1" by code_simp
  ultimately show ?thesis using system_stays_consistent [OF delivered_run] by blast
qed

theorem tenants_never_meet_witness:
  "rows_of globex (w_db delivered_world) = rows_of globex (w_db queued_world) \<and> employees (rows_of globex (w_db queued_world)) \<noteq> []"
proof -
  have "employees (rows_of globex (w_db queued_world)) \<noteq> []"
    by (simp add: rows_of_def queued_world_def sample_employee_def)
  then show ?thesis using tenants_never_meet [OF delivered_run] by simp
qed

end
